(* ===== verification/Prelude.thy ===== *)
theory Prelude
  imports Main "HOL-Library.Char_ord" "HOL-Library.List_Lexorder"
begin

text \<open>
  Shared vocabulary of the development: Python exceptions as values, results, ordered
  dictionaries (association lists that keep insertion order, as a Python \<^verbatim>\<open>dict\<close> does), and
  the generic lemmas the component theories rest on.

  A Python call that can raise is a value of type \<open>'a res\<close>: \<open>Inl e\<close> for the exception,
  \<open>Inr x\<close> for the value. A call that also changes state is a \<open>prog\<close>; it returns the state
  in both cases, because an exception in Python does not undo what was done before it.
\<close>

section \<open>Exceptions and results\<close>

text \<open>
  The exceptions the program tells apart: \<^verbatim>\<open>ToolError\<close> (message and code),
  \<^verbatim>\<open>IdempotencyConflict\<close>, \<^verbatim>\<open>AuthError\<close> (message and code),
  \<^verbatim>\<open>HTTPException\<close> (status and detail), the database's integrity error, and any
  other class by its name and message.
\<close>

datatype py_exn =
    ToolError (exn_message: string) (exn_code: string)
  | IdempotencyConflict (exn_message: string)
  | AuthError (exn_message: string) (exn_code: string)
  | HTTPException (exn_status: nat) (exn_message: string)
  | IntegrityError (exn_message: string)
  | PyExn (exn_class: string) (exn_message: string)

type_synonym 'a res = "py_exn + 'a"
type_synonym ('s, 'a) prog = "'s \<Rightarrow> 'a res \<times> 's"

text \<open>Wall-clock instants are microseconds; durations likewise.\<close>

type_synonym instant = int

definition seconds :: "int \<Rightarrow> int" where
  "seconds n = n * 1000000"

definition bind_res :: "'a res \<Rightarrow> ('a \<Rightarrow> 'b res) \<Rightarrow> 'b res" where
  "bind_res r f = (case r of Inl e \<Rightarrow> Inl e | Inr x \<Rightarrow> f x)"

lemma bind_res_simps [simp]:
  "bind_res (Inl e) f = Inl e"
  "bind_res (Inr x) f = f x"
  by (simp_all add: bind_res_def)

lemma bind_res_eq_Inr [simp]:
  "bind_res r f = Inr y \<longleftrightarrow> (\<exists>x. r = Inr x \<and> f x = Inr y)"
  by (cases r) simp_all

section \<open>Collections the components fill\<close>

named_theorems tool_defs \<open>unfolding rules for the tool handlers and what they read\<close>
named_theorems prog_Inr \<open>when a composed program returns\<close>

section \<open>Ordered dictionaries\<close>

type_synonym 'v odict = "(string \<times> 'v) list"

text \<open>\<^verbatim>\<open>d[k] = v\<close>: replace in place, or append when the key is new.\<close>

fun odict_set :: "'k \<Rightarrow> 'v \<Rightarrow> ('k \<times> 'v) list \<Rightarrow> ('k \<times> 'v) list" where
  "odict_set k v [] = [(k, v)]"
| "odict_set k v ((k', v') # kvs) =
     (if k' = k then (k, v) # kvs else (k', v') # odict_set k v kvs)"

text \<open>\<^verbatim>\<open>{**a, **b}\<close>: the entries of the second, in order, set into the first.\<close>

definition odict_merge :: "('k \<times> 'v) list \<Rightarrow> ('k \<times> 'v) list \<Rightarrow> ('k \<times> 'v) list" where
  "odict_merge a b = fold (\<lambda>(k, v). odict_set k v) b a"

lemma map_of_odict_set [simp]:
  "map_of (odict_set k v kvs) = (map_of kvs)(k \<mapsto> v)"
  by (induction kvs) (auto simp: fun_eq_iff)

lemma keys_odict_set:
  "map fst (odict_set k v kvs) =
     (if k \<in> fst ` set kvs then map fst kvs else map fst kvs @ [k])"
proof (induction kvs)
  case Nil
  then show ?case by simp
next
  case (Cons kv kvs)
  obtain k' v' where "kv = (k', v')" by (cases kv)
  with Cons.IH show ?case by (cases "k' = k") (auto simp: image_iff)
qed

lemma distinct_odict_set:
  "distinct (map fst kvs) \<Longrightarrow> distinct (map fst (odict_set k v kvs))"
  by (auto simp: keys_odict_set)

lemma set_odict_set_subset:
  "set (odict_set k v kvs) \<subseteq> insert (k, v) (set kvs)"
  by (induction kvs) (auto split: if_splits)

lemma odict_set_new:
  "k \<notin> fst ` set kvs \<Longrightarrow> odict_set k v kvs = kvs @ [(k, v)]"
  by (induction kvs) auto

lemma odict_set_in [simp]: "(k, v) \<in> set (odict_set k v kvs)"
  by (induction kvs) auto

lemma map_of_odict_merge:
  "distinct (map fst b) \<Longrightarrow> map_of (odict_merge a b) = map_of a ++ map_of b"
  unfolding odict_merge_def
proof (induction b arbitrary: a)
  case Nil
  then show ?case by simp
next
  case (Cons kv b)
  obtain k v where kv: "kv = (k, v)" by (cases kv)
  from Cons kv have IH: "map_of (fold (\<lambda>(k, v). odict_set k v) b (odict_set k v a)) =
      map_of (odict_set k v a) ++ map_of b"
    by auto
  from Cons.prems kv have "k \<notin> dom (map_of b)" by (simp add: dom_map_of_conv_image_fst)
  then have "(map_of a)(k \<mapsto> v) ++ map_of b = map_of a ++ (map_of b)(k \<mapsto> v)"
    by (auto simp: map_add_def fun_eq_iff split: option.splits)
  with IH kv show ?case by (simp del: fun_upd_apply)
qed

section \<open>Lists\<close>

text \<open>Append without repetition, as in \<^verbatim>\<open>if m not in xs: xs.append(m)\<close>.\<close>

definition add_once :: "'a \<Rightarrow> 'a list \<Rightarrow> 'a list" where
  "add_once x xs = (if x \<in> set xs then xs else xs @ [x])"

lemma set_add_once [simp]: "set (add_once x xs) = insert x (set xs)"
  by (auto simp: add_once_def)

lemma distinct_add_once [simp]: "distinct (add_once x xs) = distinct xs"
  by (auto simp: add_once_def)

lemma add_once_not_Nil [simp]: "add_once x xs \<noteq> []"
  by (auto simp: add_once_def)

lemma set_fold_add_once [simp]: "set (fold add_once xs ys) = set xs \<union> set ys"
  by (induction xs arbitrary: ys) auto

lemma distinct_fold_add_once [simp]: "distinct (fold add_once xs ys) = distinct ys"
  by (induction xs arbitrary: ys) auto

lemma map_update_keys:
  "(\<And>x. x \<in> set xs \<Longrightarrow> key (f x) = key x) \<Longrightarrow> map key (map f xs) = map key xs"
  by simp

lemma map_of_distinct_pair:
  "distinct (map fst kvs) \<Longrightarrow> (k, v) \<in> set kvs \<Longrightarrow> map_of kvs k = Some v"
  by simp

end
