(* ===== verification/PyFloat.thy ===== *)
theory PyFloat
  imports Prelude
begin

text \<open>
  Python's \<^verbatim>\<open>float\<close>: IEEE 754 binary64. A finite non-zero value is kept exactly, as
  \<open>m * 2 ^ e\<close> with \<open>m\<close> odd; the arithmetic the program uses (true division of integers,
  multiplication, subtraction, \<^verbatim>\<open>round(x, 2)\<close>, \<^verbatim>\<open>int(x)\<close>, \<^verbatim>\<open>repr\<close>) rounds to nearest,
  ties to even, as CPython does.
\<close>

datatype pyfloat = FlFin int int | FlNegZero | FlInf bool | FlNaN

section \<open>Rounding a ratio to a double\<close>

text \<open>The number of binary digits of a positive integer (0 for the others).\<close>

function bit_len :: "int \<Rightarrow> nat" where
  "bit_len n = (if n \<le> 0 then 0 else Suc (bit_len (n div 2)))"
  by pat_completeness auto
termination
  by (relation "measure nat") auto

declare bit_len.simps [simp del]

function odd_part :: "int \<Rightarrow> int \<Rightarrow> int \<times> int" where
  "odd_part m e = (if m \<noteq> 0 \<and> even m then odd_part (m div 2) (e + 1) else (m, e))"
  by pat_completeness auto
termination
  by (relation "measure (\<lambda>(m, e). nat \<bar>m\<bar>)") auto

declare odd_part.simps [simp del]

text \<open>The canonical float \<open>m * 2 ^ e\<close>; zero is positive zero.\<close>

definition mk_float :: "int \<Rightarrow> int \<Rightarrow> pyfloat" where
  "mk_float m e = (if m = 0 then FlFin 0 0 else case odd_part m e of (m', e') \<Rightarrow> FlFin m' e')"

definition round_half_even :: "int \<Rightarrow> int \<Rightarrow> int" where
  "round_half_even n d =
     (let k = n div d; r = n mod d in
      if 2 * r < d then k else if d < 2 * r then k + 1 else if even k then k else k + 1)"

text \<open>\<open>n * 2 ^ e\<close> and \<open>n / 2 ^ e\<close> as a numerator and a denominator.\<close>

definition scale :: "int \<Rightarrow> int \<Rightarrow> int \<times> int" where
  "scale m e = (if 0 \<le> e then (m * 2 ^ nat e, 1) else (m, 2 ^ nat (- e)))"

text \<open>
  The double nearest to \<open>p / q\<close> (\<open>q > 0\<close>): 53 significant bits, exponent at least \<open>-1074\<close>,
  overflow to infinity at \<open>2 ^ 1024\<close>.
\<close>

definition fl_of_ratio :: "int \<Rightarrow> int \<Rightarrow> pyfloat" where
  "fl_of_ratio p q =
     (if p = 0 then FlFin 0 0 else
      let a = \<bar>p\<bar>;
          l = int (bit_len a) - int (bit_len q);
          e1 = l - 53;
          big = (case scale 1 (e1 + 53) of (sn, sd) \<Rightarrow> sn * q \<le> a * sd);
          e = max (if big then e1 + 1 else e1) (- 1074);
          n = (case scale q e of (sn, sd) \<Rightarrow> round_half_even (a * sd) sn)
      in if n = 0 then (if p < 0 then FlNegZero else FlFin 0 0)
         else if 1024 < int (bit_len n) + e then FlInf (0 < p)
         else mk_float (sgn p * n) e)"

section \<open>The operations the program uses\<close>

definition fl_of_int :: "int \<Rightarrow> pyfloat" where
  "fl_of_int n = fl_of_ratio n 1"

text \<open>\<^verbatim>\<open>a / b\<close> on integers.\<close>

definition int_truediv :: "int \<Rightarrow> int \<Rightarrow> pyfloat res" where
  "int_truediv a b =
     (if b = 0 then Inl (PyExn ''ZeroDivisionError'' ''division by zero'')
      else Inr (fl_of_ratio (sgn b * a) \<bar>b\<bar>))"

text \<open>The value of a finite float as a ratio with positive denominator.\<close>

fun fl_ratio :: "pyfloat \<Rightarrow> (int \<times> int) option" where
  "fl_ratio (FlFin m e) = Some (scale m e)"
| "fl_ratio FlNegZero = Some (0, 1)"
| "fl_ratio _ = None"

text \<open>\<^verbatim>\<open>x * n\<close> for a finite \<open>x\<close> and a positive integer \<open>n\<close> (the code multiplies by 100 and 1000).\<close>

fun fl_mul_int :: "pyfloat \<Rightarrow> int \<Rightarrow> pyfloat" where
  "fl_mul_int (FlFin m e) n = (case scale m e of (p, q) \<Rightarrow> fl_of_ratio (p * n) q)"
| "fl_mul_int x n = x"

text \<open>\<^verbatim>\<open>x + y\<close>, \<^verbatim>\<open>-x\<close> and \<^verbatim>\<open>x - y\<close>.\<close>

fun fl_plus :: "pyfloat \<Rightarrow> pyfloat \<Rightarrow> pyfloat" where
  "fl_plus FlNaN y = FlNaN"
| "fl_plus (FlInf s) y = (case y of FlNaN \<Rightarrow> FlNaN | FlInf t \<Rightarrow> if s = t then FlInf s else FlNaN | _ \<Rightarrow> FlInf s)"
| "fl_plus x y =
     (case (fl_ratio x, fl_ratio y) of
        (Some (p, q), Some (p', q')) \<Rightarrow>
          if x = FlNegZero \<and> y = FlNegZero then FlNegZero else fl_of_ratio (p * q' + p' * q) (q * q')
      | _ \<Rightarrow> y)"

fun fl_neg :: "pyfloat \<Rightarrow> pyfloat" where
  "fl_neg (FlFin m e) = (if m = 0 then FlNegZero else FlFin (- m) e)"
| "fl_neg FlNegZero = FlFin 0 0"
| "fl_neg (FlInf s) = FlInf (\<not> s)"
| "fl_neg FlNaN = FlNaN"

definition fl_minus :: "pyfloat \<Rightarrow> pyfloat \<Rightarrow> pyfloat" where
  "fl_minus x y = fl_plus x (fl_neg y)"

text \<open>\<^verbatim>\<open>round(x, 2)\<close>: the nearest multiple of 1/100 of the exact value, ties to even, as a double.\<close>

fun round2 :: "pyfloat \<Rightarrow> pyfloat" where
  "round2 (FlFin m e) =
     (case scale m e of (p, q) \<Rightarrow>
        (let n = round_half_even (100 * p) q in
         if n = 0 \<and> p < 0 then FlNegZero else fl_of_ratio n 100))"
| "round2 x = x"

text \<open>\<^verbatim>\<open>int(x)\<close>: towards zero; infinities and NaN raise.\<close>

fun int_of_float :: "pyfloat \<Rightarrow> int res" where
  "int_of_float (FlFin m e) = (case scale m e of (p, q) \<Rightarrow> Inr (sgn p * (\<bar>p\<bar> div q)))"
| "int_of_float FlNegZero = Inr 0"
| "int_of_float (FlInf _) =
     Inl (PyExn ''OverflowError'' ''cannot convert float infinity to integer'')"
| "int_of_float FlNaN = Inl (PyExn ''ValueError'' ''cannot convert float NaN to integer'')"

fun fl_pos :: "pyfloat \<Rightarrow> bool" where
  "fl_pos (FlFin m e) = (0 < m)"
| "fl_pos (FlInf s) = s"
| "fl_pos _ = False"

text \<open>\<^verbatim>\<open>==\<close> between floats: NaN differs from itself, the two zeros are equal.\<close>

fun fl_eq :: "pyfloat \<Rightarrow> pyfloat \<Rightarrow> bool" where
  "fl_eq (FlInf s) (FlInf t) = (s = t)"
| "fl_eq x y =
     (case (fl_ratio x, fl_ratio y) of
        (Some (p, q), Some (p', q')) \<Rightarrow> p * q' = p' * q
      | _ \<Rightarrow> False)"

section \<open>Decimal text\<close>

text \<open>The decimal digits of a non-negative integer.\<close>

function nat_digits :: "int \<Rightarrow> string" where
  "nat_digits n =
     (if n < 10 then [char_of (48 + nat n)]
      else nat_digits (n div 10) @ [char_of (48 + nat (n mod 10))])"
  by pat_completeness auto
termination
  by (relation "measure nat") auto

declare nat_digits.simps [simp del]

definition int_str :: "int \<Rightarrow> string" where
  "int_str n = (if n < 0 then ''-'' @ nat_digits (- n) else nat_digits n)"

text \<open>\<open>n * 10 ^ t\<close> as a ratio.\<close>

definition dec_scale :: "int \<Rightarrow> int \<Rightarrow> int \<times> int" where
  "dec_scale n t = (if 0 \<le> t then (n * 10 ^ nat t, 1) else (n, 10 ^ nat (- t)))"

text \<open>The decimal exponent of the leading digit of \<open>p / q\<close>.\<close>

definition dec_exp :: "int \<Rightarrow> int \<Rightarrow> int" where
  "dec_exp p q =
     (let k = int (length (nat_digits p)) - int (length (nat_digits q)) in
      case dec_scale q k of (n, d) \<Rightarrow> if n \<le> p * d then k else k - 1)"

text \<open>
  The shortest decimal that reads back as the same double, nearest to it among those of its
  length: \<open>n\<close> digits are tried for \<open>n = 1, 2, \<dots>, 17\<close> (17 always suffice for binary64, so
  the list of lengths is exhausted only in the last case).
\<close>

definition digits_at :: "pyfloat \<Rightarrow> int \<Rightarrow> int \<Rightarrow> int \<Rightarrow> int option" where
  "digits_at x p q t =
     (case dec_scale q t of (sn, sd) \<Rightarrow>
        (let lo = (p * sd) div sn;
             r = (p * sd) mod sn;
             back = (\<lambda>n. case dec_scale n t of (a, b) \<Rightarrow> fl_of_ratio a b = x);
             near = (if 2 * r \<le> sn then [lo, lo + 1] else [lo + 1, lo])
         in find back near))"

fun shortest :: "pyfloat \<Rightarrow> int \<Rightarrow> int \<Rightarrow> int \<Rightarrow> nat list \<Rightarrow> int \<times> int" where
  "shortest x p q k [] =
     (case dec_scale q (k - 16) of (sn, sd) \<Rightarrow> (round_half_even (p * sd) sn, k - 16))"
| "shortest x p q k (n # ns) =
     (let t = k - int n + 1 in
      case digits_at x p q t of Some d \<Rightarrow> (d, t) | None \<Rightarrow> shortest x p q k ns)"

definition zeros :: "nat \<Rightarrow> string" where
  "zeros n = replicate n (CHR ''0'')"

text \<open>\<^verbatim>\<open>repr\<close> of the positive finite value \<open>p / q\<close>: fixed notation for exponents \<open>-4 .. 15\<close>.\<close>

definition repr_pos :: "pyfloat \<Rightarrow> int \<Rightarrow> int \<Rightarrow> string" where
  "repr_pos x p q =
     (case shortest x p q (dec_exp p q) [1..<18] of (d, t) \<Rightarrow>
        (let full = nat_digits d;
             ds = (case rev (dropWhile (\<lambda>c. c = CHR ''0'') (rev full)) of [] \<Rightarrow> ''0'' | cs \<Rightarrow> cs);
             point = int (length full) + t
         in if - 4 < point \<and> point \<le> 16 then
              (if point \<le> 0 then ''0.'' @ zeros (nat (- point)) @ ds
               else if int (length ds) \<le> point
               then ds @ zeros (nat point - length ds) @ ''.0''
               else take (nat point) ds @ ''.'' @ drop (nat point) ds)
            else
              (let e = point - 1;
                   es = nat_digits \<bar>e\<bar>
               in (case ds of [] \<Rightarrow> '''' | c # cs \<Rightarrow> if cs = [] then [c] else c # CHR ''.'' # cs)
                  @ ''e'' @ (if e < 0 then ''-'' else ''+'')
                  @ (if length es < 2 then ''0'' @ es else es))))"

fun float_repr :: "pyfloat \<Rightarrow> string" where
  "float_repr (FlFin m e) =
     (if m = 0 then ''0.0''
      else case scale \<bar>m\<bar> e of (p, q) \<Rightarrow>
        (if m < 0 then ''-'' else '''') @ repr_pos (FlFin \<bar>m\<bar> e) p q)"
| "float_repr FlNegZero = ''-0.0''"
| "float_repr (FlInf s) = (if s then ''inf'' else ''-inf'')"
| "float_repr FlNaN = ''nan''"

section \<open>Facts\<close>

lemma odd_part_odd: "odd m \<Longrightarrow> odd_part m e = (m, e)"
  by (subst odd_part.simps) simp

lemma nat_digits_not_Nil [simp]: "nat_digits n \<noteq> []"
  by (subst nat_digits.simps) simp

lemma round_half_even_exact: "0 < d \<Longrightarrow> round_half_even (n * d) d = n"
  by (simp add: round_half_even_def Let_def)

text \<open>The rounded quotient is within half a unit of the exact one.\<close>

lemma round_half_even_near:
  assumes "0 < d"
  shows "\<bar>2 * (round_half_even n d * d - n)\<bar> \<le> d"
proof -
  have n: "n = d * (n div d) + n mod d" by simp
  have r: "0 \<le> n mod d" "n mod d < d" using assms by simp_all
  define k r' where "k = n div d" and "r' = n mod d"
  have "n = d * k + r'" "0 \<le> r'" "r' < d" using n r by (simp_all add: k_def r'_def)
  then show ?thesis
    unfolding round_half_even_def Let_def k_def [symmetric] r'_def [symmetric]
    by (auto simp: algebra_simps abs_if)
qed

end
