(* ===== verification/PyValues.thy ===== *)
theory PyValues
  imports PyFloat
begin

text \<open>
  The Python values that flow through the gateway: what \<^verbatim>\<open>json.loads\<close> can produce
  (\<^verbatim>\<open>dict[str, Any]\<close> and everything below it). A dictionary keeps insertion order; its keys
  are distinct (\<open>wf_val\<close>). Text is a string of code points below 256 (Latin-1), one \<open>char\<close>
  per code point.
\<close>

section \<open>Values\<close>

datatype pyval =
    PNone
  | PBool bool
  | PInt int
  | PFloat pyfloat
  | PStr string
  | PList "pyval list"
  | PDict "(string \<times> pyval) list"

type_synonym pydict = "(string \<times> pyval) list"

abbreviation sq :: string where "sq \<equiv> [CHR 0x27]"
abbreviation dquote :: string where "dquote \<equiv> [CHR 0x22]"
abbreviation bslash :: string where "bslash \<equiv> [CHR 0x5C]"

lemma size_dict_value [termination_simp]:
  "(k, v) \<in> set kvs \<Longrightarrow> size v < Suc (size_list (\<lambda>x. Suc (size (snd x))) kvs)"
  by (induction kvs) auto

lemma size_zip_value [termination_simp]:
  "(x, y) \<in> set (zip xs ys) \<Longrightarrow> size x < Suc (size_list size xs)"
proof -
  assume "(x, y) \<in> set (zip xs ys)"
  then have "x \<in> set xs" by (rule set_zip_leftD)
  then show ?thesis by (induction xs) auto
qed

fun wf_val :: "pyval \<Rightarrow> bool" where
  "wf_val (PList xs) = (\<forall>x \<in> set xs. wf_val x)"
| "wf_val (PDict kvs) =
     (distinct (map fst kvs) \<and> (\<forall>kv \<in> set kvs. wf_val (snd kv)))"
| "wf_val _ = True"

text \<open>Truth value, as in \<^verbatim>\<open>x or y\<close>.\<close>

fun truthy :: "pyval \<Rightarrow> bool" where
  "truthy PNone = False"
| "truthy (PBool b) = b"
| "truthy (PInt n) = (n \<noteq> 0)"
| "truthy (PFloat f) = (f \<noteq> FlFin 0 0 \<and> f \<noteq> FlNegZero)"
| "truthy (PStr s) = (s \<noteq> [])"
| "truthy (PList xs) = (xs \<noteq> [])"
| "truthy (PDict kvs) = (kvs \<noteq> [])"

section \<open>Dictionary access\<close>

text \<open>\<^verbatim>\<open>d[k]\<close>, \<^verbatim>\<open>d.get(k)\<close> and \<^verbatim>\<open>d.get(k, default)\<close>.\<close>

definition dict_index :: "pydict \<Rightarrow> string \<Rightarrow> pyval res" where
  "dict_index d k =
     (case map_of d k of None \<Rightarrow> Inl (PyExn ''KeyError'' (sq @ k @ sq)) | Some v \<Rightarrow> Inr v)"

definition dict_get :: "pydict \<Rightarrow> string \<Rightarrow> pyval" where
  "dict_get d k = (case map_of d k of None \<Rightarrow> PNone | Some v \<Rightarrow> v)"

definition dict_get_or :: "pydict \<Rightarrow> string \<Rightarrow> pyval \<Rightarrow> pyval" where
  "dict_get_or d k dflt = (case map_of d k of None \<Rightarrow> dflt | Some v \<Rightarrow> v)"

text \<open>
  Looking a value up in a dictionary with string keys: a string may be there, any other
  hashable value is not, a list or a dictionary raises.
\<close>

fun lookup_any :: "(string \<times> 'a) list \<Rightarrow> pyval \<Rightarrow> 'a option res" where
  "lookup_any d (PStr s) = Inr (map_of d s)"
| "lookup_any d (PList _) = Inl (PyExn ''TypeError'' (''unhashable type: '' @ sq @ ''list'' @ sq))"
| "lookup_any d (PDict _) = Inl (PyExn ''TypeError'' (''unhashable type: '' @ sq @ ''dict'' @ sq))"
| "lookup_any d _ = Inr None"

section \<open>Text of a value\<close>

definition hex_digit :: "nat \<Rightarrow> char" where
  "hex_digit n = (if n < 10 then char_of (48 + n) else char_of (87 + n))"

definition hex2 :: "nat \<Rightarrow> string" where
  "hex2 n = [hex_digit (n div 16 mod 16), hex_digit (n mod 16)]"

fun join :: "string \<Rightarrow> string list \<Rightarrow> string" where
  "join sep [] = []"
| "join sep [x] = x"
| "join sep (x # xs) = x @ sep @ join sep xs"

text \<open>
  \<^verbatim>\<open>repr\<close> of a string: single quotes unless the text has a single and no double quote;
  control characters and the Latin-1 characters Python does not print are escaped.
\<close>

definition py_printable :: "nat \<Rightarrow> bool" where
  "py_printable n \<longleftrightarrow> 32 \<le> n \<and> n < 127 \<or> 161 \<le> n \<and> n \<noteq> 173"

definition repr_char :: "char \<Rightarrow> char \<Rightarrow> string" where
  "repr_char q c =
     (let n = of_char c :: nat in
      if c = q \<or> c = CHR 0x5C then [CHR 0x5C, c]
      else if n = 10 then bslash @ ''n''
      else if n = 13 then bslash @ ''r''
      else if n = 9 then bslash @ ''t''
      else if py_printable n then [c]
      else bslash @ ''x'' @ hex2 n)"

definition str_repr :: "string \<Rightarrow> string" where
  "str_repr s =
     (let q = (if CHR 0x27 \<in> set s \<and> CHR 0x22 \<notin> set s then CHR 0x22 else CHR 0x27) in
      [q] @ concat (map (repr_char q) s) @ [q])"

fun py_repr :: "pyval \<Rightarrow> string" where
  "py_repr PNone = ''None''"
| "py_repr (PBool b) = (if b then ''True'' else ''False'')"
| "py_repr (PInt n) = int_str n"
| "py_repr (PFloat f) = float_repr f"
| "py_repr (PStr s) = str_repr s"
| "py_repr (PList xs) = ''['' @ join '', '' (map py_repr xs) @ '']''"
| "py_repr (PDict kvs) =
     ''{'' @ join '', '' (map (\<lambda>(k, v). str_repr k @ '': '' @ py_repr v) kvs) @ ''}''"

text \<open>\<^verbatim>\<open>str(x)\<close>, and what an f-string puts in: the text itself for a string.\<close>

fun py_str :: "pyval \<Rightarrow> string" where
  "py_str (PStr s) = s"
| "py_str v = py_repr v"

section \<open>Equality\<close>

text \<open>The numeric value of a Boolean or an integer (\<^verbatim>\<open>True == 1\<close>).\<close>

fun as_int :: "pyval \<Rightarrow> int option" where
  "as_int (PBool b) = Some (if b then 1 else 0)"
| "as_int (PInt n) = Some n"
| "as_int _ = None"

definition num_eq :: "pyval \<Rightarrow> pyval \<Rightarrow> bool" where
  "num_eq a b =
     (case (as_int a, as_int b, a, b) of
        (Some m, Some n, _, _) \<Rightarrow> m = n
      | (Some m, None, _, PFloat f) \<Rightarrow>
          (case fl_ratio f of Some (p, q) \<Rightarrow> m * q = p | None \<Rightarrow> False)
      | (None, Some n, PFloat f, _) \<Rightarrow>
          (case fl_ratio f of Some (p, q) \<Rightarrow> n * q = p | None \<Rightarrow> False)
      | (None, None, PFloat f, PFloat g) \<Rightarrow> fl_eq f g
      | _ \<Rightarrow> False)"

text \<open>
  \<^verbatim>\<open>==\<close>: numbers by value across types, lists elementwise, dictionaries as maps (same
  number of entries, and each entry of the first in the second with an equal value).
\<close>

fun py_eq :: "pyval \<Rightarrow> pyval \<Rightarrow> bool" where
  "py_eq PNone b = (b = PNone)"
| "py_eq (PStr s) b = (b = PStr s)"
| "py_eq (PList xs) b =
     (case b of
        PList ys \<Rightarrow> length xs = length ys \<and> (\<forall>(x, y) \<in> set (zip xs ys). py_eq x y)
      | _ \<Rightarrow> False)"
| "py_eq (PDict kvs) b =
     (case b of
        PDict kvs' \<Rightarrow> length kvs = length kvs' \<and>
          (\<forall>(k, v) \<in> set kvs. case map_of kvs' k of None \<Rightarrow> False | Some v' \<Rightarrow> py_eq v v')
      | _ \<Rightarrow> False)"
| "py_eq a b = num_eq a b"

section \<open>Arithmetic\<close>

text \<open>The float of a number; an integer too large for a double raises.\<close>

fun as_float :: "pyval \<Rightarrow> pyfloat option res" where
  "as_float (PFloat f) = Inr (Some f)"
| "as_float v =
     (case as_int v of
        None \<Rightarrow> Inr None
      | Some n \<Rightarrow> (case fl_of_int n of
          FlInf _ \<Rightarrow> Inl (PyExn ''OverflowError'' ''int too large to convert to float'')
        | f \<Rightarrow> Inr (Some f)))"

text \<open>\<^verbatim>\<open>a + b\<close> and \<^verbatim>\<open>a - b\<close> on numbers; anything else has no such operation here.\<close>

definition py_arith ::
  "(int \<Rightarrow> int \<Rightarrow> int) \<Rightarrow> (pyfloat \<Rightarrow> pyfloat \<Rightarrow> pyfloat) \<Rightarrow> pyval \<Rightarrow> pyval \<Rightarrow> pyval res" where
  "py_arith iop fop a b =
     (case (as_int a, as_int b) of
        (Some m, Some n) \<Rightarrow> Inr (PInt (iop m n))
      | _ \<Rightarrow>
          bind_res (as_float a) (\<lambda>fa. bind_res (as_float b) (\<lambda>fb.
            case (fa, fb) of
              (Some x, Some y) \<Rightarrow> Inr (PFloat (fop x y))
            | _ \<Rightarrow> Inl (PyExn ''TypeError'' ''unsupported operand type(s)''))))"

definition py_add :: "pyval \<Rightarrow> pyval \<Rightarrow> pyval res" where
  "py_add = py_arith (+) fl_plus"

definition py_sub :: "pyval \<Rightarrow> pyval \<Rightarrow> pyval res" where
  "py_sub = py_arith (-) fl_minus"

text \<open>\<^verbatim>\<open>int(x)\<close> for a number.\<close>

fun py_int :: "pyval \<Rightarrow> int res" where
  "py_int (PFloat f) = int_of_float f"
| "py_int v =
     (case as_int v of
        Some n \<Rightarrow> Inr n
      | None \<Rightarrow> Inl (PyExn ''TypeError'' ''int() argument must be a number''))"

text \<open>\<^verbatim>\<open>x or {}\<close> where a dictionary is needed (\<^verbatim>\<open>.items()\<close> is called on it).\<close>

fun dict_items :: "pyval \<Rightarrow> pydict res" where
  "dict_items (PDict d) = Inr d"
| "dict_items _ = Inl (PyExn ''AttributeError'' ''object has no attribute items'')"

definition dict_or_empty :: "pyval \<Rightarrow> pydict res" where
  "dict_or_empty v = (if truthy v then dict_items v else Inr [])"

lemma py_add_int [simp]: "py_add (PInt m) (PInt n) = Inr (PInt (m + n))"
  by (simp add: py_add_def py_arith_def)

lemma py_sub_int [simp]: "py_sub (PInt m) (PInt n) = Inr (PInt (m - n))"
  by (simp add: py_sub_def py_arith_def)

end
