(* ===== verification/Sha256.thy ===== *)
theory Sha256
  imports PyValues "HOL-Library.Word"
begin

unbundle bit_operations_syntax

text \<open>
  \<^verbatim>\<open>hashlib.sha256(data).hexdigest()\<close>: the FIPS 180-4 hash on 32-bit words, used by
  \<^verbatim>\<open>common.ids.sha256_hex\<close> and by the mock Databricks connector.
\<close>

type_synonym u32 = "32 word"

text \<open>The standard's constants, in decimal; the first section below says what they are.\<close>

definition round_constants :: "u32 list" where
  "round_constants =
     [1116352408, 1899447441, 3049323471, 3921009573, 961987163, 1508970993,
      2453635748, 2870763221, 3624381080, 310598401, 607225278, 1426881987,
      1925078388, 2162078206, 2614888103, 3248222580, 3835390401, 4022224774,
      264347078, 604807628, 770255983, 1249150122, 1555081692, 1996064986,
      2554220882, 2821834349, 2952996808, 3210313671, 3336571891, 3584528711,
      113926993, 338241895, 666307205, 773529912, 1294757372, 1396182291,
      1695183700, 1986661051, 2177026350, 2456956037, 2730485921, 2820302411,
      3259730800, 3345764771, 3516065817, 3600352804, 4094571909, 275423344,
      430227734, 506948616, 659060556, 883997877, 958139571, 1322822218,
      1537002063, 1747873779, 1955562222, 2024104815, 2227730452, 2361852424,
      2428436474, 2756734187, 3204031479, 3329325298]"

definition initial_hash :: "u32 list" where
  "initial_hash =
     [1779033703, 3144134277, 1013904242, 2773480762, 1359893119, 2600822924,
      528734635, 1541459225]"

section \<open>The constants are the ones of the standard\<close>

definition first_primes :: "int list" where
  "first_primes =
     [2, 3, 5, 7, 11, 13, 17, 19, 23, 29, 31, 37, 41, 43, 47, 53,
      59, 61, 67, 71, 73, 79, 83, 89, 97, 101, 103, 107, 109, 113, 127, 131,
      137, 139, 149, 151, 157, 163, 167, 173, 179, 181, 191, 193, 197, 199, 211, 223,
      227, 229, 233, 239, 241, 251, 257, 263, 269, 271, 277, 281, 283, 293, 307, 311]"

text \<open>
  The first 32 bits of the fractional parts of the cube roots of the first 64 primes, and of the
  square roots of the first eight.
\<close>

definition is_root_part :: "nat \<Rightarrow> int \<Rightarrow> int \<Rightarrow> bool" where
  "is_root_part e p k \<longleftrightarrow>
     (let n = p * 4294967296 ^ e in
      list_ex (\<lambda>i. (i * 4294967296 + k) ^ e \<le> n \<and> n < (i * 4294967296 + k + 1) ^ e)
        (map int [0..<20]))"

lemma round_constants_are_roots:
  "list_all2 (is_root_part 3) first_primes (map uint round_constants)"
  by code_simp

lemma initial_hash_are_roots:
  "list_all2 (is_root_part 2) (take 8 first_primes) (map uint initial_hash)"
  by code_simp

section \<open>Bit mixing\<close>

definition ch :: "u32 \<Rightarrow> u32 \<Rightarrow> u32 \<Rightarrow> u32" where
  "ch x y z = (x AND y) XOR (NOT x AND z)"

definition maj :: "u32 \<Rightarrow> u32 \<Rightarrow> u32 \<Rightarrow> u32" where
  "maj x y z = (x AND y) XOR (x AND z) XOR (y AND z)"

definition rot_right :: "nat \<Rightarrow> u32 \<Rightarrow> u32" where
  "rot_right n x = drop_bit n x OR push_bit (32 - n) x"

definition sum0 :: "u32 \<Rightarrow> u32" where
  "sum0 x = rot_right 2 x XOR rot_right 13 x XOR rot_right 22 x"

definition sum1 :: "u32 \<Rightarrow> u32" where
  "sum1 x = rot_right 6 x XOR rot_right 11 x XOR rot_right 25 x"

definition sig0 :: "u32 \<Rightarrow> u32" where
  "sig0 x = rot_right 7 x XOR rot_right 18 x XOR drop_bit 3 x"

definition sig1 :: "u32 \<Rightarrow> u32" where
  "sig1 x = rot_right 17 x XOR rot_right 19 x XOR drop_bit 10 x"

section \<open>Message layout\<close>

definition pad_message :: "int list \<Rightarrow> int list" where
  "pad_message bs =
     (let n = int (length bs);
          k = nat ((55 - n) mod 64)
      in bs @ [128] @ replicate k 0 @ map (\<lambda>i. 8 * n div 256 ^ i mod 256) [7, 6, 5, 4, 3, 2, 1, 0])"

fun words_of_bytes :: "int list \<Rightarrow> u32 list" where
  "words_of_bytes (a # b # c # d # bs) =
     of_int (((a * 256 + b) * 256 + c) * 256 + d) # words_of_bytes bs"
| "words_of_bytes _ = []"

fun blocks :: "nat \<Rightarrow> u32 list \<Rightarrow> u32 list list" where
  "blocks 0 ws = []"
| "blocks (Suc n) ws = take 16 ws # blocks n (drop 16 ws)"

text \<open>The message schedule, newest word first.\<close>

fun extend :: "nat \<Rightarrow> u32 list \<Rightarrow> u32 list" where
  "extend 0 ws = ws"
| "extend (Suc n) ws =
     extend n ((sig1 (ws ! 1) + ws ! 6 + sig0 (ws ! 14) + ws ! 15) # ws)"

section \<open>Compression\<close>

fun rounds :: "(u32 \<times> u32) list \<Rightarrow> u32 list \<Rightarrow> u32 list" where
  "rounds ((k, w) # kws) [a, b, c, d, e, f, g, h] =
     (let t1 = h + sum1 e + ch e f g + k + w;
          t2 = sum0 a + maj a b c
      in rounds kws [t1 + t2, a, b, c, d + t1, e, f, g])"
| "rounds _ vs = vs"

definition compress :: "u32 list \<Rightarrow> u32 list \<Rightarrow> u32 list" where
  "compress hs block =
     map2 (+) hs (rounds (zip round_constants (rev (extend 48 (rev block)))) hs)"

definition word_hex :: "u32 \<Rightarrow> string" where
  "word_hex w = concat (map (\<lambda>i. hex2 (nat (uint w div 256 ^ i mod 256))) [3, 2, 1, 0])"

definition sha256 :: "string \<Rightarrow> string" where
  "sha256 s =
     (let bs = pad_message (map of_char s) in
      concat (map word_hex
        (fold (\<lambda>b hs. compress hs b) (blocks (length bs div 64) (words_of_bytes bs)) initial_hash)))"

section \<open>Shape of the digest\<close>

lemma length_rounds: "length vs = 8 \<Longrightarrow> length (rounds kws vs) = 8"
  by (induction kws vs rule: rounds.induct) (auto simp: Let_def)

lemma length_compress: "length hs = 8 \<Longrightarrow> length (compress hs b) = 8"
  by (simp add: compress_def length_rounds)

lemma length_fold_compress: "length hs = 8 \<Longrightarrow> length (fold (\<lambda>b hs. compress hs b) bs hs) = 8"
  by (induction bs arbitrary: hs) (simp_all add: length_compress)

lemma length_word_hex [simp]: "length (word_hex w) = 8"
  by (simp add: word_hex_def hex2_def)

lemma sum_list_const_length: "(\<And>x. x \<in> set xs \<Longrightarrow> f x = n) \<Longrightarrow> sum_list (map f xs) = length xs * n"
  by (induction xs) simp_all

lemma length_sha256 [simp]: "length (sha256 s) = 64"
proof -
  have "length initial_hash = 8" by (simp add: initial_hash_def)
  from length_fold_compress [OF this] show ?thesis
    by (simp add: sha256_def Let_def length_concat comp_def sum_list_const_length)
qed

definition hex_chars :: "string" where
  "hex_chars = ''0123456789abcdef''"

lemma hex_digit_chars: "n < 16 \<Longrightarrow> hex_digit n \<in> set hex_chars"
proof -
  assume "n < 16"
  then have "n \<in> set [0..<16]" by simp
  moreover have "\<forall>n \<in> set [0..<16]. hex_digit n \<in> set hex_chars" by code_simp
  ultimately show ?thesis by blast
qed

lemma hex2_chars: "set (hex2 n) \<subseteq> set hex_chars"
  by (auto simp: hex2_def intro!: hex_digit_chars)

lemma sha256_chars: "set (sha256 s) \<subseteq> set hex_chars"
  using hex2_chars by (fastforce simp: sha256_def Let_def word_hex_def)

end
