(* ===== verification/Ids.thy ===== *)
theory Ids
  imports Sha256 "HOL-Library.Multiset"
begin

text \<open>
  \<^verbatim>\<open>packages/common/ids.py\<close>: identifiers and the stable hash of a JSON payload. A call of
  \<^verbatim>\<open>uuid.uuid4().hex\<close> is a parameter: 32 hexadecimal digits chosen by the environment.
\<close>

section \<open>Identifiers\<close>

type_synonym uuid_hex = string

definition uuid_hex_ok :: "uuid_hex \<Rightarrow> bool" where
  "uuid_hex_ok u \<longleftrightarrow> length u = 32 \<and> set u \<subseteq> set hex_chars"

definition gen_request_id :: "uuid_hex \<Rightarrow> string" where
  "gen_request_id u = u"

definition gen_trace_id :: "uuid_hex \<Rightarrow> string" where
  "gen_trace_id u = u"

definition gen_idempotency_key :: "uuid_hex \<Rightarrow> string" where
  "gen_idempotency_key u = ''idk_'' @ u"

section \<open>Canonical JSON\<close>

text \<open>
  \<^verbatim>\<open>json.dumps(payload, sort_keys=True, separators=(",", ":"))\<close> with its default
  \<^verbatim>\<open>ensure_ascii\<close>: the short escapes, and \<^verbatim>\<open>\uXXXX\<close> for every other character outside
  printable ASCII.
\<close>

definition json_char :: "char \<Rightarrow> string" where
  "json_char c =
     (let n = of_char c :: nat in
      if n = 34 \<or> n = 92 then [CHR 0x5C, c]
      else if n = 10 then bslash @ ''n''
      else if n = 13 then bslash @ ''r''
      else if n = 9 then bslash @ ''t''
      else if n = 12 then bslash @ ''f''
      else if n = 8 then bslash @ ''b''
      else if 32 \<le> n \<and> n < 127 then [c]
      else bslash @ ''u00'' @ hex2 n)"

definition json_str :: "string \<Rightarrow> string" where
  "json_str s = dquote @ concat (map json_char s) @ dquote"

fun json_float :: "pyfloat \<Rightarrow> string" where
  "json_float (FlInf s) = (if s then ''Infinity'' else ''-Infinity'')"
| "json_float FlNaN = ''NaN''"
| "json_float f = float_repr f"

fun json_dumps :: "pyval \<Rightarrow> string" where
  "json_dumps PNone = ''null''"
| "json_dumps (PBool b) = (if b then ''true'' else ''false'')"
| "json_dumps (PInt n) = int_str n"
| "json_dumps (PFloat f) = json_float f"
| "json_dumps (PStr s) = json_str s"
| "json_dumps (PList xs) = ''['' @ join '','' (map json_dumps xs) @ '']''"
| "json_dumps (PDict kvs) =
     ''{'' @ join '','' (map (\<lambda>(k, t). json_str k @ '':'' @ t)
       (sort_key fst (map (\<lambda>(k, v). (k, json_dumps v)) kvs))) @ ''}''"

definition sha256_hex :: "pyval \<Rightarrow> string" where
  "sha256_hex payload = sha256 (json_dumps payload)"

section \<open>Key order does not matter\<close>

text \<open>
  Two payloads are the same JSON value when they differ only in the order of the keys of the
  dictionaries inside them.
\<close>

inductive same_json :: "pyval \<Rightarrow> pyval \<Rightarrow> bool" where
  same_refl: "same_json v v"
| same_list: "list_all2 same_json xs ys \<Longrightarrow> same_json (PList xs) (PList ys)"
| same_dict: "distinct (map fst kvs) \<Longrightarrow> mset (map fst kvs) = mset (map fst kvs') \<Longrightarrow>
    (\<And>k v v'. map_of kvs k = Some v \<Longrightarrow> map_of kvs' k = Some v' \<Longrightarrow> same_json v v') \<Longrightarrow>
    same_json (PDict kvs) (PDict kvs')"

text \<open>Sorting two dictionaries with the same keys and the same rendered values gives the same list.\<close>

lemma distinct_map_sort_key:
  "distinct (map f xs) \<Longrightarrow> distinct (map f (sort_key g xs))"
  by (metis mset_eq_imp_distinct_iff mset_map mset_sort)

lemma sort_key_same_entries:
  fixes xs ys :: "(string \<times> 'a) list"
  assumes dx: "distinct (map fst xs)" and dy: "distinct (map fst ys)" and s: "set xs = set ys"
  shows "sort_key fst xs = sort_key fst ys"
proof (rule map_sorted_distinct_set_unique [where f = fst])
  show "inj_on fst (set (sort_key fst xs) \<union> set (sort_key fst ys))"
    using dx s by (simp add: distinct_map)
qed (use dx dy s in \<open>simp_all add: distinct_map_sort_key\<close>)

lemma json_dumps_dict_cong:
  assumes "distinct (map fst kvs)" and "distinct (map fst kvs')"
    and keys: "fst ` set kvs = fst ` set kvs'"
    and vals: "\<And>k v v'. map_of kvs k = Some v \<Longrightarrow> map_of kvs' k = Some v' \<Longrightarrow>
      json_dumps v = json_dumps v'"
  shows "json_dumps (PDict kvs) = json_dumps (PDict kvs')"
proof -
  let ?f = "\<lambda>(k, v). (k, json_dumps v)"
  have fst_f: "fst (?f kv) = fst kv" for kv by (cases kv) simp
  have sub: "set (map ?f as) \<subseteq> set (map ?f bs)"
    if d: "distinct (map fst as)" "distinct (map fst bs)" and k: "fst ` set as \<subseteq> fst ` set bs"
      and v: "\<And>k v v'. map_of as k = Some v \<Longrightarrow> map_of bs k = Some v' \<Longrightarrow> json_dumps v = json_dumps v'"
    for as bs
  proof
    fix kt assume "kt \<in> set (map ?f as)"
    then obtain k v where kv: "(k, v) \<in> set as" "kt = (k, json_dumps v)" by auto
    with k have "k \<in> fst ` set bs" by force
    then obtain v' where "(k, v') \<in> set bs" by auto
    with kv d v have "json_dumps v = json_dumps v'" by (meson map_of_is_SomeI)
    with \<open>(k, v') \<in> set bs\<close> kv show "kt \<in> set (map ?f bs)" by force
  qed
  have "set (map ?f kvs) = set (map ?f kvs')"
  proof
    show "set (map ?f kvs) \<subseteq> set (map ?f kvs')" using assms by (intro sub) auto
    show "set (map ?f kvs') \<subseteq> set (map ?f kvs)"
      by (rule sub) (use assms in \<open>auto dest: vals [THEN sym]\<close>)
  qed
  moreover have "distinct (map fst (map ?f kvs))" "distinct (map fst (map ?f kvs'))"
    using assms(1,2) by (simp_all add: comp_def fst_f)
  ultimately have "sort_key fst (map ?f kvs) = sort_key fst (map ?f kvs')"
    by (intro sort_key_same_entries) simp_all
  then show ?thesis by simp
qed

lemma same_json_dumps: "same_json a b \<Longrightarrow> json_dumps a = json_dumps b"
proof (induction rule: same_json.induct)
  case (same_refl v)
  show ?case ..
next
  case (same_list xs ys)
  then have "map json_dumps xs = map json_dumps ys"
    by (induction rule: list_all2_induct) simp_all
  then show ?case by (simp only: json_dumps.simps)
next
  case (same_dict kvs kvs')
  have "distinct (map fst kvs')"
    using same_dict.hyps(1,2) by (metis mset_eq_imp_distinct_iff)
  moreover have "fst ` set kvs = fst ` set kvs'"
    using mset_eq_setD [OF same_dict.hyps(2)] by simp
  ultimately show ?case
    using same_dict by (intro json_dumps_dict_cong) auto
qed

text \<open>
  Inputs that differ only in the order of dictionary keys, at any depth, have the same
  \<^verbatim>\<open>input_hash\<close>: the audit trail and the duplicate check see them as one request.\<close>

lemma sha256_hex_key_order:
  assumes "same_json a b"
  shows "sha256_hex a = sha256_hex b"
  using same_json_dumps [OF assms] by (simp add: sha256_hex_def)

end
