(* ===== verification/JsonText.thy ===== *)
theory JsonText
  imports Ids
begin

text \<open>
  The canonical JSON of \<^verbatim>\<open>common/ids.py\<close> says everything about the value: two values without
  floats have the same text only when they are the same JSON value. What \<^verbatim>\<open>sha256_hex\<close>
  hashes is the whole input of a call.
\<close>

section \<open>Characters and strings\<close>

text \<open>Reading an encoded character, for the proof that the encoding is injective.\<close>

definition hex_value :: "char \<Rightarrow> nat" where
  "hex_value c = (if of_char c < (58 :: nat) then of_char c - 48 else of_char c - 87)"

definition decode_char :: "string \<Rightarrow> char" where
  "decode_char s =
     (if hd s \<noteq> CHR 0x5C then hd s
      else if s ! 1 = CHR ''n'' then char_of (10 :: nat)
      else if s ! 1 = CHR ''r'' then char_of (13 :: nat)
      else if s ! 1 = CHR ''t'' then char_of (9 :: nat)
      else if s ! 1 = CHR ''f'' then char_of (12 :: nat)
      else if s ! 1 = CHR ''b'' then char_of (8 :: nat)
      else if s ! 1 = CHR ''u'' then char_of (16 * hex_value (s ! 4) + hex_value (s ! 5))
      else s ! 1)"

lemma hex_value_digit: "n < 16 \<Longrightarrow> hex_value (hex_digit n) = n"
  by (simp add: hex_value_def hex_digit_def of_char_of take_bit_eq_mod)

lemma char_of_code: "of_char c = (n :: nat) \<Longrightarrow> char_of n = c"
  by auto

lemma hex_byte: "16 * (n div 16 mod 16) + n mod 16 = n" if "n < 256" for n :: nat
  using that by simp

lemma decode_json_char: "decode_char (json_char c) = c"
proof -
  have plain: "c \<noteq> CHR 0x5C" if "of_char c \<noteq> (92 :: nat)" using that by auto
  have special: "c = CHR 0x22 \<or> c = CHR 0x5C" if "of_char c = (34 :: nat) \<or> of_char c = (92 :: nat)"
  proof -
    from that have "of_char c = (of_char (CHR 0x22) :: nat) \<or> of_char c = (of_char (CHR 0x5C) :: nat)" by simp
    then show ?thesis by (simp only: of_char_eq_iff)
  qed
  have code: "char_of (16 * hex_value (hex_digit (of_char c div 16 mod 16)) + hex_value (hex_digit (of_char c mod 16))) = c"
    using hex_byte [of "of_char c"] by (simp add: hex_value_digit)
  show ?thesis
    using special by (auto simp: json_char_def Let_def decode_char_def hex2_def code plain char_of_code)
qed

lemma json_char_inject: "json_char c = json_char d \<Longrightarrow> c = d"
  by (metis decode_json_char)

text \<open>The first two characters say how long an encoded character is; none starts with a quote.\<close>

definition code_length :: "string \<Rightarrow> nat" where
  "code_length s = (if hd s \<noteq> CHR 0x5C then 1 else if hd (tl s) = CHR ''u'' then 6 else 2)"

lemma json_char_shape:
  "json_char c \<noteq> []" "hd (json_char c) \<noteq> CHR 0x22" "length (json_char c) = code_length (json_char c @ s)"
  by (auto simp: json_char_def Let_def hex2_def code_length_def)

lemma json_char_decode:
  assumes "json_char c @ s = json_char d @ t"
  shows "c = d \<and> s = t"
proof -
  have "length (json_char c) = length (json_char d)"
    using json_char_shape(3) [of c s] json_char_shape(3) [of d t] assms by simp
  with assms show ?thesis using json_char_inject by auto
qed

lemma json_str_decode: "json_str k @ s = json_str l @ t \<Longrightarrow> k = l \<and> s = t"
proof -
  have "concat (map json_char k) @ CHR 0x22 # s = concat (map json_char l) @ CHR 0x22 # t \<Longrightarrow> k = l \<and> s = t"
  proof (induction k arbitrary: l)
    case Nil
    then show ?case
      using json_char_shape(1,2) [of "hd l"] by (cases l; cases "json_char (hd l)") auto
  next
    case (Cons c k)
    then obtain d l' where l: "l = d # l'"
      using json_char_shape(1,2) [of c] by (cases l; cases "json_char c") auto
    with Cons.prems have "json_char c @ concat (map json_char k) @ CHR 0x22 # s =
        json_char d @ concat (map json_char l') @ CHR 0x22 # t" by simp
    from json_char_decode [OF this] Cons.IH [of l'] l show ?case by simp
  qed
  then show "json_str k @ s = json_str l @ t \<Longrightarrow> k = l \<and> s = t" by (simp add: json_str_def)
qed

section \<open>Numbers\<close>

definition digit :: "char \<Rightarrow> bool" where
  "digit c \<longleftrightarrow> of_char c \<in> {48..57 :: nat}"

definition digits_value :: "string \<Rightarrow> int" where
  "digits_value = foldl (\<lambda>n c. 10 * n + (of_char c - 48)) 0"

lemma nat_digits_read: "0 \<le> n \<Longrightarrow> digits_value (nat_digits n) = n \<and> list_all digit (nat_digits n)"
proof (induction n rule: nat_digits.induct)
  case (1 n)
  have d: "digit (char_of (48 + nat k)) \<and> of_char (char_of (48 + nat k)) = 48 + k" if "0 \<le> k" "k < 10" for k
  proof -
    obtain m where "k = int m" "m < 10" using \<open>0 \<le> k\<close> \<open>k < 10\<close> by (metis nonneg_int_cases of_nat_less_numeral_iff)
    moreover from this have code: "of_char (char_of (48 + m) :: char) = 48 + m"
      by (simp add: of_char_of take_bit_eq_mod)
    moreover from code have "(of_char (char_of (48 + m) :: char) :: int) = int (48 + m)"
      by (metis of_nat_of_char)
    ultimately show ?thesis by (simp add: digit_def)
  qed
  show ?case
  proof (cases "n < 10")
    case True
    with 1 d [of n] show ?thesis by (simp add: nat_digits.simps [of n] digits_value_def)
  next
    case False
    with 1 d [of "n mod 10"] show ?thesis by (simp add: nat_digits.simps [of n] digits_value_def)
  qed
qed

lemma nat_digits_inject: "0 \<le> m \<Longrightarrow> 0 \<le> n \<Longrightarrow> nat_digits m = nat_digits n \<Longrightarrow> m = n"
  by (metis nat_digits_read)

text \<open>What can follow a value in a JSON text.\<close>

definition stops :: "string \<Rightarrow> bool" where
  "stops s \<longleftrightarrow> s = [] \<or> hd s \<in> {CHR '','', CHR '']'', CHR ''}''}"

lemma stops_simps [simp]: "stops []" "stops (c # s) \<longleftrightarrow> c \<in> {CHR '','', CHR '']'', CHR ''}''}"
  by (simp_all add: stops_def)

lemma digits_decode:
  assumes "list_all digit ds" "list_all digit es" "ds @ s = es @ t" "stops s" "stops t"
  shows "ds = es \<and> s = t"
proof -
  have cut: "takeWhile digit (xs @ u) = xs" if "list_all digit xs" "stops u" for xs u
  proof -
    have "takeWhile digit u = []" using that(2) by (cases u) (auto simp: digit_def)
    with that(1) show ?thesis by (simp add: takeWhile_append list_all_iff)
  qed
  from cut [OF assms(1,4)] cut [OF assms(2,5)] assms(3) have "ds = es" by simp
  with assms(3) show ?thesis by simp
qed

lemma int_str_decode:
  assumes "int_str m @ s = int_str n @ t" "stops s" "stops t"
  shows "m = n \<and> s = t"
proof -
  have digit: "digit (hd (nat_digits k))" if "0 \<le> k" for k
    using nat_digits_read [OF that] by (cases "nat_digits k") auto
  have same: "m = n \<and> s = t" if "0 \<le> m" "0 \<le> n" "nat_digits m @ s = nat_digits n @ t" for m n
    using digits_decode [OF _ _ that(3) assms(2,3)] nat_digits_read that nat_digits_inject by blast
  have sign: "nat_digits k @ u \<noteq> CHR ''-'' # v" if "0 \<le> k" for k u v
    using digit [OF that] by (cases "nat_digits k") (auto simp: digit_def)
  show ?thesis
    using assms(1) same [of m n] same [of "- m" "- n"] sign [of m] sign [of n]
    by (auto simp: int_str_def split: if_splits)
      (metis sign append_Cons le_cases less_le not_less)+
qed

section \<open>Sequences\<close>

text \<open>Items that can be read off the front of a text can be read off a comma-separated sequence.\<close>

lemma join_Cons: "join sep (x # xs) = x @ (if xs = [] then [] else sep @ join sep xs)"
  by (cases xs) simp_all

lemma join_decode:
  assumes item: "\<And>x y u v. x \<in> set xs \<Longrightarrow> y \<in> set ys \<Longrightarrow> stops u \<Longrightarrow> stops v \<Longrightarrow> pr x @ u = pr y @ v \<Longrightarrow> R x y \<and> u = v"
    and start: "\<forall>x \<in> set xs \<union> set ys. pr x \<noteq> [] \<and> hd (pr x) \<noteq> c" and c: "c = CHR '']'' \<or> c = CHR ''}''"
    and eq: "join '','' (map pr xs) @ c # s = join '','' (map pr ys) @ c # t"
  shows "list_all2 R xs ys \<and> s = t"
  using item start eq
proof (induction xs arbitrary: ys)
  case Nil
  show ?case
  proof (cases ys)
    case (Cons y ys')
    with Nil.prems(2,3) show ?thesis by (cases "pr y") (auto simp: join_Cons)
  qed (use Nil in simp)
next
  case (Cons x xs)
  have "ys \<noteq> []" using Cons.prems(2,3) by (cases "pr x") (auto simp: join_Cons)
  then obtain y ys' where ys: "ys = y # ys'" by (cases ys) auto
  let ?rest = "\<lambda>zs u. (if zs = [] then [] else '','' @ join '','' (map pr zs)) @ c # u"
  have stop: "stops (?rest zs u)" for zs u using c by (cases zs) auto
  have "pr x @ ?rest xs s = pr y @ ?rest ys' t" using Cons.prems(3) by (simp add: ys join_Cons split: if_splits)
  from Cons.prems(1) [OF _ _ stop stop this] have "R x y" "?rest xs s = ?rest ys' t" by (simp_all add: ys)
  moreover from this(2) c have "join '','' (map pr xs) @ c # s = join '','' (map pr ys') @ c # t"
    by (auto split: if_splits)
  then have "list_all2 R xs ys' \<and> s = t"
    using Cons.prems(1,2) by (intro Cons.IH) (auto simp: ys)
  ultimately show ?case by (simp add: ys)
qed

section \<open>Values\<close>

fun float_free :: "pyval \<Rightarrow> bool" where
  "float_free (PFloat f) = False"
| "float_free (PList xs) = (\<forall>x \<in> set xs. float_free x)"
| "float_free (PDict kvs) = (\<forall>kv \<in> set kvs. float_free (snd kv))"
| "float_free _ = True"

text \<open>The first character of a text says which kind of value it is.\<close>

fun first_chars :: "pyval \<Rightarrow> char set" where
  "first_chars PNone = {CHR ''n''}"
| "first_chars (PBool b) = {if b then CHR ''t'' else CHR ''f''}"
| "first_chars (PStr s) = {CHR 0x22}"
| "first_chars (PList xs) = {CHR ''[''}"
| "first_chars (PDict kvs) = {CHR ''{''}"
| "first_chars _ = insert (CHR ''-'') (Collect digit)"

lemma dumps_first: "float_free v \<Longrightarrow> json_dumps v \<noteq> [] \<and> hd (json_dumps v) \<in> first_chars v"
proof (cases v)
  case (PInt n)
  have "nat_digits k \<noteq> [] \<and> digit (hd (nat_digits k))" if "0 \<le> k" for k
    using nat_digits_read [OF that] by (cases "nat_digits k") auto
  with PInt show ?thesis by (auto simp: int_str_def)
qed (auto simp: json_str_def)

lemma dumps_stops: "float_free v \<Longrightarrow> json_dumps v \<noteq> [] \<and> hd (json_dumps v) \<notin> {CHR '']'', CHR ''}''}"
  using dumps_first [of v] by (cases v) (auto simp: digit_def)

lemma insort_key_map:
  "(\<And>x. f (h x) = g x) \<Longrightarrow> insort_key f (h x) (map h xs) = map h (insort_key g x xs)"
  by (induction xs) auto

lemma sort_key_map: "(\<And>x. f (h x) = g x) \<Longrightarrow> sort_key f (map h xs) = map h (sort_key g xs)"
  by (induction xs) (simp_all add: insort_key_map)

definition entry_text :: "string \<times> pyval \<Rightarrow> string" where
  "entry_text kv = json_str (fst kv) @ '':'' @ json_dumps (snd kv)"

lemma dumps_dict: "json_dumps (PDict kvs) = ''{'' @ join '','' (map entry_text (sort_key fst kvs)) @ ''}''"
proof -
  have "sort_key fst (map (\<lambda>(k, v). (k, json_dumps v)) kvs) = map (\<lambda>(k, v). (k, json_dumps v)) (sort_key fst kvs)"
    by (rule sort_key_map) auto
  then show ?thesis by (simp add: entry_text_def [abs_def] case_prod_beta comp_def)
qed

lemma same_first:
  assumes "float_free a" "float_free b" "json_dumps a @ s = json_dumps b @ t"
  shows "first_chars a \<inter> first_chars b \<noteq> {}"
proof -
  have "hd (json_dumps a) = hd (json_dumps b)"
    using dumps_first [OF assms(1)] dumps_first [OF assms(2)] assms(3) by (metis hd_append2)
  with dumps_first [OF assms(1)] dumps_first [OF assms(2)] show ?thesis by auto
qed

lemma entry_decode:
  assumes "stops s" "stops t" "entry_text x @ s = entry_text y @ t"
    and "\<And>u v. stops u \<Longrightarrow> stops v \<Longrightarrow> json_dumps (snd x) @ u = json_dumps (snd y) @ v \<Longrightarrow> same_json (snd x) (snd y) \<and> u = v"
  shows "(fst x = fst y \<and> same_json (snd x) (snd y)) \<and> s = t"
proof -
  from assms(3) have "json_str (fst x) @ '':'' @ json_dumps (snd x) @ s = json_str (fst y) @ '':'' @ json_dumps (snd y) @ t"
    by (simp add: entry_text_def)
  from json_str_decode [OF this] assms(4) [OF assms(1,2)] show ?thesis by auto
qed

lemma same_dict_sorted:
  assumes "distinct (map fst xs)" "distinct (map fst ys)"
    and "list_all2 (\<lambda>x y. fst x = fst y \<and> same_json (snd x) (snd y)) (sort_key fst xs) (sort_key fst ys)"
  shows "same_json (PDict xs) (PDict ys)"
proof (rule same_dict [OF assms(1)])
  let ?xs = "sort_key fst xs" and ?ys = "sort_key fst ys"
  have keys: "map fst ?xs = map fst ?ys"
    using assms(3) by (auto simp: list_all2_conv_all_nth intro: nth_equalityI)
  then have "mset (map fst ?xs) = mset (map fst ?ys)" by simp
  then show "mset (map fst xs) = mset (map fst ys)" by simp
  fix k v v' assume "map_of xs k = Some v" "map_of ys k = Some v'"
  then have "(k, v) \<in> set ?xs" and y: "(k, v') \<in> set ?ys" by (auto dest: map_of_SomeD)
  then obtain n where n: "n < length ?xs" "?xs ! n = (k, v)" by (metis in_set_conv_nth)
  with assms(3) have m: "n < length ?ys" "fst (?ys ! n) = k" "same_json v (snd (?ys ! n))"
    by (auto simp: list_all2_conv_all_nth)
  have "distinct (map fst ?ys)" using assms(2) by (rule distinct_map_sort_key)
  with y m(1,2) have "?ys ! n = (k, v')"
    by (metis eq_key_imp_eq_value nth_mem prod.collapse)
  with m(3) show "same_json v v'" by simp
qed

lemma dumps_decode:
  "float_free a \<Longrightarrow> wf_val a \<Longrightarrow> float_free b \<Longrightarrow> wf_val b \<Longrightarrow> stops s \<Longrightarrow> stops t \<Longrightarrow>
    json_dumps a @ s = json_dumps b @ t \<Longrightarrow> same_json a b \<and> s = t"
proof (induction a arbitrary: b s t)
  case PNone
  then show ?case using same_first [OF PNone(1,3,7)] by (cases b) (auto simp: digit_def intro: same_refl)
next
  case (PBool x)
  then show ?case using same_first [OF PBool(1,3,7)]
    by (cases b; cases x) (auto simp: digit_def intro: same_refl split: if_splits)
next
  case (PInt m)
  then show ?case using same_first [OF PInt(1,3,7)] int_str_decode [of m s _ t]
    by (cases b) (auto simp: digit_def intro: same_refl split: if_splits)
next
  case (PFloat f)
  then show ?case by simp
next
  case (PStr x)
  then show ?case using same_first [OF PStr(1,3,7)] json_str_decode [of x s _ t]
    by (cases b) (auto simp: digit_def intro: same_refl)
next
  case (PList xs)
  then obtain ys where b: "b = PList ys" using same_first [OF PList(2,4,8)] by (cases b) (auto simp: digit_def)
  have "list_all2 same_json xs ys \<and> s = t"
  proof (rule join_decode [where pr = json_dumps and c = "CHR '']''"])
    show "\<forall>x \<in> set xs \<union> set ys. json_dumps x \<noteq> [] \<and> hd (json_dumps x) \<noteq> CHR '']''"
      using dumps_stops PList.prems(1,3) by (auto simp: b)
  qed (use PList b in auto)
  then show ?case by (auto simp: b intro: same_list)
next
  case (PDict xs)
  then obtain ys where b: "b = PDict ys" using same_first [OF PDict(2,4,8)] by (cases b) (auto simp: digit_def)
  have "list_all2 (\<lambda>x y. fst x = fst y \<and> same_json (snd x) (snd y)) (sort_key fst xs) (sort_key fst ys) \<and> s = t"
  proof (rule join_decode [where pr = entry_text and c = "CHR ''}''"])
    fix x y u v
    assume xy: "x \<in> set (sort_key fst xs)" "y \<in> set (sort_key fst ys)" "stops u" "stops v" "entry_text x @ u = entry_text y @ v"
    obtain k w where x: "x = (k, w)" by (cases x)
    have "same_json (snd x) (snd y) \<and> u' = v'"
      if "stops u'" "stops v'" "json_dumps (snd x) @ u' = json_dumps (snd y) @ v'" for u' v'
    proof -
      have "float_free w" "wf_val w" "float_free (snd y)" "wf_val (snd y)" "(k, w) \<in> set xs"
        using PDict.prems(1-4) xy(1,2) by (force simp: b x)+
      with PDict.IH [of x w "snd y" u' v'] that show ?thesis by (simp add: x)
    qed
    then show "(fst x = fst y \<and> same_json (snd x) (snd y)) \<and> u = v" by (rule entry_decode [OF xy(3-5)])
  next
    show "join '','' (map entry_text (sort_key fst xs)) @ CHR ''}'' # s = join '','' (map entry_text (sort_key fst ys)) @ CHR ''}'' # t"
      using PDict.prems(7) by (simp add: b dumps_dict del: json_dumps.simps)
  qed (simp_all add: entry_text_def json_str_def)
  with PDict.prems show ?case by (auto simp: b intro: same_dict_sorted)
qed



end
