(* ===== verification/Settings.thy ===== *)
theory Settings
  imports Prelude
begin

text \<open>
  \<^verbatim>\<open>packages/common/settings.py\<close>: the typed settings with their defaults. Reading them from
  the environment is pydantic-settings' work and is not modelled; a \<open>settings\<close> record is the
  result of that reading.
\<close>

datatype app_env = Demo | Prod
datatype auth_mode = Dev | Entra
datatype queue_backend = Local | Azure
datatype databricks_mode = Mock | Real

record settings =
  st_app_env :: app_env
  st_database_url :: string
  st_auth_mode :: auth_mode
  st_dev_token_signing_secret :: string
  st_entra_tenant_id :: string
  st_entra_audience :: string
  st_entra_issuer :: string
  st_entra_jwks_url :: string
  st_queue_backend :: queue_backend
  st_servicebus_connection_string :: string
  st_servicebus_queue_name :: string
  st_queue_max_delivery_count :: nat
  st_databricks_mode :: databricks_mode
  st_databricks_host :: string
  st_databricks_token :: string
  st_databricks_warehouse_id :: string
  st_otel_enabled :: bool
  st_otel_service_name :: string
  st_otel_exporter_otlp_endpoint :: string
  st_otel_console_fallback :: bool
  st_admin_approval_token :: string

definition default_settings :: settings where
  "default_settings =
     \<lparr>st_app_env = Demo,
      st_database_url = ''sqlite+pysqlite:///./smg.sqlite3'',
      st_auth_mode = Dev,
      st_dev_token_signing_secret = ''dev-only-not-for-production-change-me'',
      st_entra_tenant_id = '''',
      st_entra_audience = ''api://secure-mcp-gateway'',
      st_entra_issuer = '''',
      st_entra_jwks_url = '''',
      st_queue_backend = Local,
      st_servicebus_connection_string = '''',
      st_servicebus_queue_name = ''tool-jobs'',
      st_queue_max_delivery_count = 5,
      st_databricks_mode = Mock,
      st_databricks_host = '''',
      st_databricks_token = '''',
      st_databricks_warehouse_id = '''',
      st_otel_enabled = True,
      st_otel_service_name = ''mcp-gateway'',
      st_otel_exporter_otlp_endpoint = '''',
      st_otel_console_fallback = True,
      st_admin_approval_token = ''''\<rparr>"

definition is_demo :: "settings \<Rightarrow> bool" where
  "is_demo s \<longleftrightarrow> st_app_env s = Demo"

end
