(* ===== verification/Databricks.thy ===== *)
theory Databricks
  imports Settings Ids
begin

text \<open>
  \<^verbatim>\<open>packages/databricks_connector\<close>: the connector interface, the deterministic mock and the
  prepared real connector. A connector is a record of its two operations.
\<close>

section \<open>Interface (\<^verbatim>\<open>interface.py\<close>)\<close>

record sql_result =
  sr_statement_id :: string
  sr_columns :: "string list"
  sr_rows :: "pyval list list"
  sr_row_count :: nat

text \<open>\<^verbatim>\<open>dict(zip(columns, row))\<close> for every row.\<close>

definition as_records :: "sql_result \<Rightarrow> pydict list" where
  "as_records r = map (\<lambda>row. fold (\<lambda>(k, v). odict_set k v) (zip (sr_columns r) row) []) (sr_rows r)"

record job_run_result =
  jr_run_id :: string
  jr_job_name :: pyval
  jr_state :: string
  jr_output :: pydict

record databricks =
  execute_sql :: "string \<Rightarrow> pydict \<Rightarrow> sql_result res"
  run_job :: "pyval \<Rightarrow> pydict \<Rightarrow> job_run_result res"

section \<open>Mock (\<^verbatim>\<open>mock.py\<close>)\<close>

definition BUDGET_FACTS :: "((string \<times> string) \<times> (string \<times> int \<times> int) list) list" where
  "BUDGET_FACTS =
     [((''FIN-100'', ''2024-Q2''),
        [(''Salaries'', 480000, 502300), (''Software'', 95000, 87200),
         (''Travel'', 40000, 51800), (''Contractors'', 120000, 98400)]),
      ((''SALES-200'', ''2024-Q2''),
        [(''Salaries'', 610000, 598000), (''Marketing'', 250000, 301500),
         (''Travel'', 80000, 76200)])]"

text \<open>\<^verbatim>\<open>f"{head}|{sorted(parameters.items())}"\<close>.\<close>

definition seed_text :: "string \<Rightarrow> pydict \<Rightarrow> string" where
  "seed_text head parameters =
     head @ ''|['' @ join '', '' (map (\<lambda>(k, v). ''('' @ str_repr k @ '', '' @ py_repr v @ '')'')
       (sort_key fst parameters)) @ '']''"

definition stmt_id :: "string \<Rightarrow> pydict \<Rightarrow> string" where
  "stmt_id statement parameters = ''stmt_'' @ take 16 (sha256 (seed_text statement parameters))"

text \<open>\<^verbatim>\<open>str(params.get(k, default))\<close>.\<close>

definition str_param :: "pydict \<Rightarrow> string \<Rightarrow> string \<Rightarrow> string" where
  "str_param params k dflt = py_str (case map_of params k of None \<Rightarrow> PStr dflt | Some v \<Rightarrow> v)"

definition variance_pct :: "int \<Rightarrow> int \<Rightarrow> pyfloat" where
  "variance_pct variance budget =
     (if budget = 0 then FlFin 0 0
      else round2 (fl_mul_int (fl_of_ratio (sgn budget * variance) \<bar>budget\<bar>) 100))"

definition fact_row :: "string \<times> int \<times> int \<Rightarrow> pyval list" where
  "fact_row f =
     (case f of (line_item, budget, actual) \<Rightarrow>
        [PStr line_item, PInt budget, PInt actual, PInt (actual - budget),
         PFloat (variance_pct (actual - budget) budget)])"

definition mock_execute_sql :: "string \<Rightarrow> pydict \<Rightarrow> sql_result res" where
  "mock_execute_sql statement params =
     (let dept = str_param params ''department_id'' ''FIN-100'';
          period = str_param params ''period'' ''2024-Q2'';
          facts = (case map_of BUDGET_FACTS (dept, period) of None \<Rightarrow> [] | Some fs \<Rightarrow> fs);
          rows = map fact_row facts
      in Inr \<lparr>sr_statement_id = stmt_id statement params,
              sr_columns = [''line_item'', ''budget'', ''actual'', ''variance'', ''variance_pct''],
              sr_rows = rows, sr_row_count = length rows\<rparr>)"

definition mock_run_job :: "pyval \<Rightarrow> pydict \<Rightarrow> job_run_result res" where
  "mock_run_job workflow_name parameters =
     Inr \<lparr>jr_run_id = ''run_'' @ take 12 (sha256 (seed_text (py_str workflow_name) parameters)),
          jr_job_name = workflow_name,
          jr_state = ''SUCCESS'',
          jr_output = [(''workflow'', workflow_name), (''parameters'', PDict parameters),
            (''note'', PStr ''mock Databricks job completed''), (''rows_processed'', PInt 1280)]\<rparr>"

definition MockDatabricksConnector :: databricks where
  "MockDatabricksConnector = \<lparr>execute_sql = mock_execute_sql, run_job = mock_run_job\<rparr>"

section \<open>Real (\<^verbatim>\<open>real.py\<close>)\<close>

definition RealDatabricksConnector :: "string \<Rightarrow> string \<Rightarrow> string \<Rightarrow> databricks res" where
  "RealDatabricksConnector host token warehouse_id =
     (if host = [] \<or> token = [] \<or> warehouse_id = [] then
        Inl (PyExn ''ValueError''
          (''RealDatabricksConnector requires host, token and warehouse_id ''
           @ ''(set DATABRICKS_HOST / DATABRICKS_TOKEN / DATABRICKS_WAREHOUSE_ID).''))
      else Inr \<lparr>
        execute_sql = (\<lambda>statement parameters. Inl (PyExn ''NotImplementedError''
          (''RealDatabricksConnector is a prepared interface. Implement the SQL ''
           @ ''Statement Execution call and result polling, or run with ''
           @ ''DATABRICKS_MODE=mock for the reference demo.''))),
        run_job = (\<lambda>workflow_name parameters. Inl (PyExn ''NotImplementedError''
          (''RealDatabricksConnector.run_job is a prepared interface. Wire the ''
           @ ''Jobs 2.1 run-now endpoint, or run with DATABRICKS_MODE=mock.'')))\<rparr>)"

section \<open>Selection (\<^verbatim>\<open>factory.py\<close>)\<close>

definition build_connector :: "settings \<Rightarrow> databricks res" where
  "build_connector s =
     (case st_databricks_mode s of
        Real \<Rightarrow> RealDatabricksConnector (st_databricks_host s) (st_databricks_token s)
                  (st_databricks_warehouse_id s)
      | Mock \<Rightarrow> Inr MockDatabricksConnector)"

section \<open>Facts\<close>

text \<open>The identifiers depend on the parameters as a map, not on their order.\<close>

lemma seed_text_order:
  assumes "distinct (map fst ps)" "distinct (map fst ps')" "set ps = set ps'"
  shows "seed_text h ps = seed_text h ps'"
proof -
  have "sort_key fst ps = sort_key fst ps'"
  proof (rule map_sorted_distinct_set_unique [where f = fst])
    show "inj_on fst (set (sort_key fst ps) \<union> set (sort_key fst ps'))"
      using assms by (simp add: distinct_map)
    show "distinct (map fst (sort_key fst ps))"
      using assms(1) by (metis mset_eq_imp_distinct_iff mset_map mset_sort)
    show "distinct (map fst (sort_key fst ps'))"
      using assms(2) by (metis mset_eq_imp_distinct_iff mset_map mset_sort)
  qed (use assms in simp_all)
  then show ?thesis by (simp add: seed_text_def)
qed

lemma mock_run_job_run_id_length:
  "mock_run_job w ps = Inr r \<Longrightarrow> length (jr_run_id r) = 16"
  by (auto simp: mock_run_job_def)

end
