(* ===== verification/ToolSpec.thy ===== *)
theory ToolSpec
  imports Databricks
begin

text \<open>
  \<^verbatim>\<open>packages/tool_registry/spec.py\<close> and \<^verbatim>\<open>registry.py\<close>: the declarative tool
  specification, argument validation and the in-memory registry.

  Argument models are pydantic classes. Their declarations (\<open>input_model\<close>) come from the
  source; the validator itself is third-party code and a parameter (\<open>validator\<close>), of which
  the code relies on \<open>pydantic_laws\<close>.
\<close>

section \<open>Tool specifications (\<^verbatim>\<open>spec.py\<close>)\<close>

datatype classification = READ | WRITE | DESTRUCTIVE
datatype execution_mode = SYNC | ASYNC
datatype pii_class = PII_NONE | PII_LOW | PII_SENSITIVE

fun classification_value :: "classification \<Rightarrow> string" where
  "classification_value READ = ''read''"
| "classification_value WRITE = ''write''"
| "classification_value DESTRUCTIVE = ''destructive''"

fun mode_value :: "execution_mode \<Rightarrow> string" where
  "mode_value SYNC = ''sync''"
| "mode_value ASYNC = ''async''"

fun pii_value :: "pii_class \<Rightarrow> string" where
  "pii_value PII_NONE = ''none''"
| "pii_value PII_LOW = ''low''"
| "pii_value PII_SENSITIVE = ''sensitive''"

text \<open>One field of an argument model: its type with its constraints, and its default.\<close>

datatype field_type =
    FStr nat "nat option"       \<comment> \<open>\<^verbatim>\<open>str\<close> with \<^verbatim>\<open>min_length\<close>, \<^verbatim>\<open>max_length\<close>\<close>
  | FFloatGt0                   \<comment> \<open>\<^verbatim>\<open>float\<close> with \<^verbatim>\<open>gt=0\<close>\<close>
  | FDict                       \<comment> \<open>\<^verbatim>\<open>dict[str, Any]\<close>\<close>

record field_decl =
  fd_name :: string
  fd_type :: field_type
  fd_default :: "pyval option"

type_synonym input_model = "field_decl list"
type_synonym validator = "input_model \<Rightarrow> pydict \<Rightarrow> string + pydict"

fun conforms :: "field_type \<Rightarrow> pyval \<Rightarrow> bool" where
  "conforms (FStr lo hi) v =
     (case v of
        PStr s \<Rightarrow> lo \<le> length s \<and> (case hi of None \<Rightarrow> True | Some n \<Rightarrow> length s \<le> n)
      | _ \<Rightarrow> False)"
| "conforms FFloatGt0 v = (case v of PFloat f \<Rightarrow> fl_pos f | _ \<Rightarrow> False)"
| "conforms FDict v = (case v of PDict _ \<Rightarrow> True | _ \<Rightarrow> False)"

text \<open>
  What pydantic documents and the code relies on: a dumped model has exactly the declared
  fields, in order, each of its declared type and within its constraints; values that already
  conform are kept, absent fields take their default, and an absent required field is an
  error.
\<close>

definition field_value :: "pydict \<Rightarrow> field_decl \<Rightarrow> pyval option" where
  "field_value args f = (case map_of args (fd_name f) of None \<Rightarrow> fd_default f | Some v \<Rightarrow> Some v)"

definition pydantic_laws :: "validator \<Rightarrow> bool" where
  "pydantic_laws V \<longleftrightarrow>
     (\<forall>m args out. V m args = Inr out \<longrightarrow>
        map fst out = map fd_name m \<and> list_all2 (\<lambda>f kv. conforms (fd_type f) (snd kv)) m out) \<and>
     (\<forall>m args. (\<forall>f \<in> set m. \<exists>v. field_value args f = Some v \<and> conforms (fd_type f) v) \<longrightarrow>
        V m args = Inr (map (\<lambda>f. (fd_name f, the (field_value args f))) m)) \<and>
     (\<forall>m args. (\<exists>f \<in> set m. field_value args f = None) \<longrightarrow> (\<exists>msg. V m args = Inl msg))"

text \<open>A validator without conversions, which shows that the laws can be met.\<close>

definition strict_validate :: validator where
  "strict_validate m args =
     (if (\<forall>f \<in> set m. case field_value args f of None \<Rightarrow> False | Some v \<Rightarrow> conforms (fd_type f) v)
      then Inr (map (\<lambda>f. (fd_name f, the (field_value args f))) m)
      else Inl ''validation error'')"

lemma strict_validate_laws: "pydantic_laws strict_validate"
  unfolding pydantic_laws_def strict_validate_def
  by (auto simp: list_all2_map2 list_all2_same split: if_splits option.splits)

record tool_context =
  cx_settings :: settings
  cx_databricks :: databricks

record tool_result =
  tr_output :: pydict
  tr_metadata :: pydict

record tool_spec =
  ts_name :: string
  ts_description :: string
  ts_required_roles :: "string list"
  ts_classification :: classification
  ts_execution_mode :: execution_mode
  ts_pii_classification :: pii_class
  ts_dry_run_required :: bool
  ts_input_model :: input_model
  ts_run :: "tool_context \<Rightarrow> pydict \<Rightarrow> tool_result res"
  ts_sensitive_fields :: "string list"
  ts_raw_pii_roles :: "string list"
  ts_enabled :: bool
  ts_requires_approval_token :: bool

definition validate_args :: "validator \<Rightarrow> tool_spec \<Rightarrow> pydict \<Rightarrow> string + pydict" where
  "validate_args V spec args = V (ts_input_model spec) args"

definition policy_dict :: "tool_spec \<Rightarrow> pydict" where
  "policy_dict spec =
     [(''name'', PStr (ts_name spec)),
      (''description'', PStr (ts_description spec)),
      (''required_roles'', PList (map PStr (ts_required_roles spec))),
      (''classification'', PStr (classification_value (ts_classification spec))),
      (''execution_mode'', PStr (mode_value (ts_execution_mode spec))),
      (''pii_classification'', PStr (pii_value (ts_pii_classification spec))),
      (''dry_run_required'', PBool (ts_dry_run_required spec)),
      (''enabled'', PBool (ts_enabled spec)),
      (''requires_approval_token'', PBool (ts_requires_approval_token spec))]"

section \<open>The registry (\<^verbatim>\<open>registry.py\<close>)\<close>

type_synonym tool_registry = "(string \<times> tool_spec) list"

definition register :: "tool_spec \<Rightarrow> tool_registry \<Rightarrow> tool_registry res" where
  "register spec reg =
     (if map_of reg (ts_name spec) \<noteq> None
      then Inl (PyExn ''ValueError'' (''duplicate tool registration: '' @ ts_name spec))
      else Inr (odict_set (ts_name spec) spec reg))"

definition registry_get :: "tool_registry \<Rightarrow> string \<Rightarrow> tool_spec option" where
  "registry_get reg name = map_of reg name"

definition registry_list :: "tool_registry \<Rightarrow> tool_spec list" where
  "registry_list reg = map snd reg"

definition registry_names :: "tool_registry \<Rightarrow> string list" where
  "registry_names reg = map fst reg"

text \<open>Consecutive registrations; the first one that raises ends the sequence.\<close>

fun register_all :: "tool_spec list \<Rightarrow> tool_registry \<Rightarrow> tool_registry res" where
  "register_all [] reg = Inr reg"
| "register_all (s # ss) reg = bind_res (register s reg) (register_all ss)"

text \<open>The registry invariant: each tool is filed once, under its own name.\<close>

definition registry_ok :: "tool_registry \<Rightarrow> bool" where
  "registry_ok reg \<longleftrightarrow> distinct (map fst reg) \<and> (\<forall>(n, s) \<in> set reg. ts_name s = n)"

lemma registry_ok_empty [simp]: "registry_ok []"
  by (simp add: registry_ok_def)

lemma register_Inr:
  "register s reg = Inr reg' \<longleftrightarrow> ts_name s \<notin> set (map fst reg) \<and> reg' = reg @ [(ts_name s, s)]"
  by (auto simp: register_def odict_set_new map_of_eq_None_iff split: if_splits)

lemma register_ok: "registry_ok reg \<Longrightarrow> register s reg = Inr reg' \<Longrightarrow> registry_ok reg'"
  by (auto simp: register_Inr registry_ok_def)

lemma register_all_ok: "registry_ok reg \<Longrightarrow> register_all ss reg = Inr reg' \<Longrightarrow> registry_ok reg'"
  by (induction ss arbitrary: reg) (auto dest: register_ok)

lemma register_all_distinct:
  "distinct (map ts_name ss) \<Longrightarrow> set (map ts_name ss) \<inter> set (map fst reg) = {} \<Longrightarrow>
    register_all ss reg = Inr (reg @ map (\<lambda>s. (ts_name s, s)) ss)"
proof (induction ss arbitrary: reg)
  case (Cons s ss)
  then have "register s reg = Inr (reg @ [(ts_name s, s)])"
    by (simp add: register_Inr)
  moreover have "register_all ss (reg @ [(ts_name s, s)]) =
      Inr ((reg @ [(ts_name s, s)]) @ map (\<lambda>s. (ts_name s, s)) ss)"
    by (rule Cons.IH) (use Cons.prems in auto)
  ultimately show ?case by simp
qed simp

lemma registry_get_name: "registry_ok reg \<Longrightarrow> registry_get reg n = Some s \<Longrightarrow> ts_name s = n"
  by (auto simp: registry_ok_def registry_get_def dest: map_of_SomeD)

end
