(* ===== verification/Tools.thy ===== *)
theory Tools
  imports ToolSpec
begin

text \<open>
  \<^verbatim>\<open>packages/tool_registry/tools.py\<close>: the synthetic data, the argument models, the handlers
  and the registry of the reference tools. Handlers are pure: none of them changes its data.
\<close>

section \<open>Synthetic data\<close>

definition EMPLOYEES :: "pydict odict" where
  "EMPLOYEES =
     [(''E-1001'',
        [(''employee_id'', PStr ''E-1001''), (''name'', PStr ''Anika Brandt''),
         (''title'', PStr ''Staff Engineer''), (''department_id'', PStr ''FIN-100''),
         (''email'', PStr ''anika.brandt@example.com''), (''phone'', PStr ''+49 151 23456789''),
         (''national_id'', PStr ''123-45-6789''), (''salary'', PInt 118000),
         (''address'', PStr ''Hauptstrasse 5, 10115 Berlin'')]),
      (''E-2002'',
        [(''employee_id'', PStr ''E-2002''), (''name'', PStr ''Tomas Vogel''),
         (''title'', PStr ''Account Director''), (''department_id'', PStr ''SALES-200''),
         (''email'', PStr ''tomas.vogel@example.com''), (''phone'', PStr ''+49 160 99887766''),
         (''national_id'', PStr ''987-65-4321''), (''salary'', PInt 96000),
         (''address'', PStr ''Ringstrasse 12, 80331 Munich'')])]"

definition LEAVE :: "pydict odict" where
  "LEAVE =
     [(''E-1001'', [(''annual_total'', PInt 30), (''annual_taken'', PInt 12),
                    (''annual_remaining'', PInt 18), (''sick_taken'', PInt 3)]),
      (''E-2002'', [(''annual_total'', PInt 28), (''annual_taken'', PInt 20),
                    (''annual_remaining'', PInt 8), (''sick_taken'', PInt 1)])]"

definition INVOICES :: "pydict odict" where
  "INVOICES =
     [(''INV-5001'',
        [(''invoice_id'', PStr ''INV-5001''), (''vendor'', PStr ''Cloudworks GmbH''),
         (''amount'', PInt 24500), (''currency'', PStr ''EUR''), (''status'', PStr ''paid''),
         (''due_date'', PStr ''2024-05-30'')]),
      (''INV-5002'',
        [(''invoice_id'', PStr ''INV-5002''), (''vendor'', PStr ''DataPipe AG''),
         (''amount'', PInt 88200), (''currency'', PStr ''EUR''), (''status'', PStr ''overdue''),
         (''due_date'', PStr ''2024-04-15'')])]"

definition CRM_ACCOUNTS :: "pydict odict" where
  "CRM_ACCOUNTS =
     [(''ACC-300'',
        [(''account_id'', PStr ''ACC-300''), (''name'', PStr ''Helvetia Logistics''),
         (''tier'', PStr ''silver''), (''owner'', PStr ''tomas.vogel''),
         (''annual_value'', PInt 120000)]),
      (''ACC-301'',
        [(''account_id'', PStr ''ACC-301''), (''name'', PStr ''Nordwind Retail''),
         (''tier'', PStr ''bronze''), (''owner'', PStr ''tomas.vogel''),
         (''annual_value'', PInt 45000)])]"

definition CUSTOMERS :: "pydict odict" where
  "CUSTOMERS =
     [(''CUST-700'',
        [(''customer_id'', PStr ''CUST-700''), (''name'', PStr ''Helvetia Logistics AG''),
         (''tier'', PStr ''silver''), (''email'', PStr ''ap@helvetia-logistics.example''),
         (''phone'', PStr ''+41 44 555 0100''), (''billing_currency'', PStr ''EUR'')]),
      (''CUST-701'',
        [(''customer_id'', PStr ''CUST-701''), (''name'', PStr ''Nordwind Retail GmbH''),
         (''tier'', PStr ''bronze''), (''email'', PStr ''finance@nordwind-retail.example''),
         (''phone'', PStr ''+49 30 555 0199''), (''billing_currency'', PStr ''EUR'')])]"

section \<open>Argument models\<close>

definition req_str :: "string \<Rightarrow> field_decl" where
  "req_str n = \<lparr>fd_name = n, fd_type = FStr 1 None, fd_default = None\<rparr>"

definition EmployeeArgs :: input_model where
  "EmployeeArgs = [req_str ''employee_id'']"

definition InvoiceArgs :: input_model where
  "InvoiceArgs = [req_str ''invoice_id'']"

definition BudgetArgs :: input_model where
  "BudgetArgs = [req_str ''department_id'', req_str ''period'']"

definition WorkflowArgs :: input_model where
  "WorkflowArgs =
     [req_str ''workflow_name'',
      \<lparr>fd_name = ''parameters'', fd_type = FDict, fd_default = Some (PDict [])\<rparr>]"

definition CrmDryRunArgs :: input_model where
  "CrmDryRunArgs =
     [req_str ''account_id'', \<lparr>fd_name = ''proposed_changes'', fd_type = FDict, fd_default = None\<rparr>]"

definition CrmExecuteArgs :: input_model where
  "CrmExecuteArgs = [req_str ''account_id'', req_str ''approved_change_id'']"

definition CustomerLookupArgs :: input_model where
  "CustomerLookupArgs = [req_str ''customer_id'']"

definition InvoiceDraftArgs :: input_model where
  "InvoiceDraftArgs =
     [req_str ''customer_id'',
      \<lparr>fd_name = ''amount'', fd_type = FFloatGt0, fd_default = None\<rparr>,
      \<lparr>fd_name = ''currency'', fd_type = FStr 3 (Some 3), fd_default = Some (PStr ''EUR'')\<rparr>,
      \<lparr>fd_name = ''description'', fd_type = FStr 0 (Some 200), fd_default = Some (PStr '''')\<rparr>]"

section \<open>Handlers\<close>

text \<open>
  \<^verbatim>\<open>table.get(args[k])\<close>, and \<^verbatim>\<open>ToolError(..., code="NOT_FOUND")\<close> with the text around
  the value when there is no such row.
\<close>

definition find_row ::
  "pydict odict \<Rightarrow> pydict \<Rightarrow> string \<Rightarrow> string \<Rightarrow> string \<Rightarrow> (pyval \<times> pydict) res" where
  "find_row table args k pre post =
     bind_res (dict_index args k) (\<lambda>key. bind_res (lookup_any table key) (\<lambda>row.
       case row of
         None \<Rightarrow> Inl (ToolError (pre @ py_str key @ post) ''NOT_FOUND'')
       | Some r \<Rightarrow> Inr (key, r)))"

definition plain_result :: "pydict \<Rightarrow> tool_result" where
  "plain_result out = \<lparr>tr_output = out, tr_metadata = []\<rparr>"

definition get_employee_profile :: "tool_context \<Rightarrow> pydict \<Rightarrow> tool_result res" where
  "get_employee_profile ctx args =
     bind_res (find_row EMPLOYEES args ''employee_id'' ''employee '' '' not found'')
       (\<lambda>(key, emp). Inr (plain_result emp))"

definition check_leave_balance :: "tool_context \<Rightarrow> pydict \<Rightarrow> tool_result res" where
  "check_leave_balance ctx args =
     bind_res (find_row LEAVE args ''employee_id'' ''no leave record for '' '''')
       (\<lambda>(key, bal). Inr (plain_result (odict_merge [(''employee_id'', key)] bal)))"

definition get_invoice_status :: "tool_context \<Rightarrow> pydict \<Rightarrow> tool_result res" where
  "get_invoice_status ctx args =
     bind_res (find_row INVOICES args ''invoice_id'' ''invoice '' '' not found'')
       (\<lambda>(key, inv). Inr (plain_result inv))"

text \<open>\<^verbatim>\<open>sum(r[k] for r in records)\<close>.\<close>

fun sum_column :: "string \<Rightarrow> pydict list \<Rightarrow> pyval \<Rightarrow> pyval res" where
  "sum_column k [] acc = Inr acc"
| "sum_column k (r # rs) acc =
     bind_res (dict_index r k) (\<lambda>v. bind_res (py_add acc v) (sum_column k rs))"

definition budget_statement :: string where
  "budget_statement =
     ''SELECT line_item, budget, actual FROM finance.budget_facts ''
     @ ''WHERE department_id = :department_id AND period = :period''"

definition run_budget_variance_report :: "tool_context \<Rightarrow> pydict \<Rightarrow> tool_result res" where
  "run_budget_variance_report ctx args =
     bind_res (dict_index args ''department_id'') (\<lambda>dept.
     bind_res (dict_index args ''period'') (\<lambda>period.
     bind_res (execute_sql (cx_databricks ctx) budget_statement
                 [(''department_id'', dept), (''period'', period)]) (\<lambda>r.
       let records = as_records r in
       bind_res (sum_column ''budget'' records (PInt 0)) (\<lambda>total_budget.
       bind_res (sum_column ''actual'' records (PInt 0)) (\<lambda>total_actual.
       bind_res (py_sub total_actual total_budget) (\<lambda>total_variance.
         Inr (plain_result
           [(''department_id'', dept), (''period'', period),
            (''statement_id'', PStr (sr_statement_id r)),
            (''line_items'', PList (map PDict records)),
            (''total_budget'', total_budget), (''total_actual'', total_actual),
            (''total_variance'', total_variance)])))))))"

definition trigger_databricks_workflow :: "tool_context \<Rightarrow> pydict \<Rightarrow> tool_result res" where
  "trigger_databricks_workflow ctx args =
     bind_res (dict_index args ''workflow_name'') (\<lambda>name.
     bind_res (dict_or_empty (dict_get args ''parameters'')) (\<lambda>params.
     bind_res (run_job (cx_databricks ctx) name params) (\<lambda>r.
       Inr (plain_result
         [(''workflow_name'', jr_job_name r), (''run_id'', PStr (jr_run_id r)),
          (''state'', PStr (jr_state r)), (''output'', PDict (jr_output r))]))))"

text \<open>The changed entries of the proposal, in its order.\<close>

definition crm_diff :: "pydict \<Rightarrow> pydict \<Rightarrow> pyval list" where
  "crm_diff account proposed =
     concat (map (\<lambda>(key, new_value).
       let old_value = dict_get account key in
       if py_eq old_value new_value then []
       else [PDict [(''field'', PStr key), (''from'', old_value), (''to'', new_value)]]) proposed)"

definition create_crm_update_dry_run :: "tool_context \<Rightarrow> pydict \<Rightarrow> tool_result res" where
  "create_crm_update_dry_run ctx args =
     bind_res (find_row CRM_ACCOUNTS args ''account_id'' ''account '' '' not found'') (\<lambda>(key, account).
     bind_res (dict_index args ''proposed_changes'') (\<lambda>proposed.
     bind_res (dict_items proposed) (\<lambda>items.
       Inr \<lparr>tr_output =
              [(''account_id'', key), (''diff'', PList (crm_diff account items)),
               (''human_approval_required'', PBool True), (''writes_applied'', PBool False),
               (''message'', PStr (''Dry run only. No changes were written. Human approval is required ''
                  @ ''to execute via execute_crm_update with an approval token.''))],
            tr_metadata = [(''proposed_change'', proposed), (''resource_id'', key)]\<rparr>)))"

definition run_execute_crm_update :: "tool_context \<Rightarrow> pydict \<Rightarrow> tool_result res" where
  "run_execute_crm_update ctx args =
     bind_res (find_row CRM_ACCOUNTS args ''account_id'' ''account '' '' not found'') (\<lambda>(key, account).
     bind_res (dict_index args ''approved_change_id'') (\<lambda>change.
       Inr (plain_result
         [(''account_id'', key), (''approved_change_id'', change),
          (''writes_applied'', PBool True), (''message'', PStr ''CRM update applied (mock).'')])))"

definition crm_lookup_customer :: "tool_context \<Rightarrow> pydict \<Rightarrow> tool_result res" where
  "crm_lookup_customer ctx args =
     bind_res (find_row CUSTOMERS args ''customer_id'' ''customer '' '' not found'')
       (\<lambda>(key, cust). Inr (plain_result cust))"

definition billing_create_invoice_draft :: "tool_context \<Rightarrow> pydict \<Rightarrow> tool_result res" where
  "billing_create_invoice_draft ctx args =
     bind_res (find_row CUSTOMERS args ''customer_id'' ''customer '' '' not found'') (\<lambda>(key, cust).
     bind_res (dict_index cust ''name'') (\<lambda>name.
     bind_res (dict_index args ''amount'') (\<lambda>amount.
     bind_res (dict_index args ''currency'') (\<lambda>currency.
     bind_res (dict_index args ''description'') (\<lambda>description.
     bind_res (py_int amount) (\<lambda>whole.
       let invoice = PDict [(''customer_id'', key), (''customer_name'', name), (''amount'', amount),
             (''currency'', currency), (''description'', description)];
           draft_id = PStr (''DRAFT-'' @ py_str key @ ''-'' @ int_str whole @ ''-'' @ py_str currency)
       in Inr \<lparr>tr_output =
                 [(''draft_id'', draft_id), (''status'', PStr ''draft''),
                  (''writes_applied'', PBool False), (''human_approval_required'', PBool True),
                  (''invoice'', invoice),
                  (''message'', PStr (''Invoice draft created. No invoice was issued. Human approval is ''
                     @ ''required to finalize this draft via the approvals endpoint.''))],
               tr_metadata = [(''proposed_change'', invoice), (''resource_id'', draft_id)]\<rparr>))))))"

lemmas handler_defs [tool_defs] = find_row_def dict_index_def plain_result_def get_employee_profile_def
  check_leave_balance_def get_invoice_status_def create_crm_update_dry_run_def run_execute_crm_update_def
  crm_lookup_customer_def

section \<open>The registry of the reference tools\<close>

definition HR_ROLES :: "string list" where "HR_ROLES = [''hr_agent'', ''admin_agent'']"
definition FINANCE_ROLES :: "string list" where "FINANCE_ROLES = [''finance_agent'', ''admin_agent'']"
definition SALES_ROLES :: "string list" where "SALES_ROLES = [''sales_agent'', ''admin_agent'']"
definition ADMIN_ONLY :: "string list" where "ADMIN_ONLY = [''admin_agent'']"

definition EMPLOYEE_SENSITIVE :: "string list" where
  "EMPLOYEE_SENSITIVE = [''email'', ''phone'', ''national_id'', ''salary'', ''address'']"

definition CUSTOMER_SENSITIVE :: "string list" where
  "CUSTOMER_SENSITIVE = [''email'', ''phone'']"

definition spec_employee_profile :: tool_spec where
  "spec_employee_profile =
     \<lparr>ts_name = ''get_employee_profile'',
      ts_description = ''Return an employee'' @ sq @ ''s HR profile. Sensitive PII fields are redacted by default.'',
      ts_required_roles = HR_ROLES, ts_classification = READ, ts_execution_mode = SYNC,
      ts_pii_classification = PII_SENSITIVE, ts_dry_run_required = False,
      ts_input_model = EmployeeArgs, ts_run = get_employee_profile,
      ts_sensitive_fields = EMPLOYEE_SENSITIVE, ts_raw_pii_roles = [],
      ts_enabled = True, ts_requires_approval_token = False\<rparr>"

definition spec_leave_balance :: tool_spec where
  "spec_leave_balance =
     \<lparr>ts_name = ''check_leave_balance'',
      ts_description = ''Return an employee'' @ sq @ ''s leave balance (no direct PII).'',
      ts_required_roles = HR_ROLES, ts_classification = READ, ts_execution_mode = SYNC,
      ts_pii_classification = PII_LOW, ts_dry_run_required = False,
      ts_input_model = EmployeeArgs, ts_run = check_leave_balance,
      ts_sensitive_fields = [], ts_raw_pii_roles = [],
      ts_enabled = True, ts_requires_approval_token = False\<rparr>"

definition spec_invoice_status :: tool_spec where
  "spec_invoice_status =
     \<lparr>ts_name = ''get_invoice_status'',
      ts_description = ''Return the status of a finance invoice.'',
      ts_required_roles = FINANCE_ROLES, ts_classification = READ, ts_execution_mode = SYNC,
      ts_pii_classification = PII_NONE, ts_dry_run_required = False,
      ts_input_model = InvoiceArgs, ts_run = get_invoice_status,
      ts_sensitive_fields = [], ts_raw_pii_roles = [],
      ts_enabled = True, ts_requires_approval_token = False\<rparr>"

definition spec_budget_report :: tool_spec where
  "spec_budget_report =
     \<lparr>ts_name = ''run_budget_variance_report'',
      ts_description = ''Compute budget vs actual variance for a department/period via Databricks SQL.'',
      ts_required_roles = FINANCE_ROLES, ts_classification = READ, ts_execution_mode = SYNC,
      ts_pii_classification = PII_NONE, ts_dry_run_required = False,
      ts_input_model = BudgetArgs, ts_run = run_budget_variance_report,
      ts_sensitive_fields = [], ts_raw_pii_roles = [],
      ts_enabled = True, ts_requires_approval_token = False\<rparr>"

definition spec_trigger_workflow :: tool_spec where
  "spec_trigger_workflow =
     \<lparr>ts_name = ''trigger_databricks_workflow'',
      ts_description = ''Trigger a Databricks workflow/job asynchronously via the job queue.'',
      ts_required_roles = FINANCE_ROLES, ts_classification = WRITE, ts_execution_mode = ASYNC,
      ts_pii_classification = PII_NONE, ts_dry_run_required = False,
      ts_input_model = WorkflowArgs, ts_run = trigger_databricks_workflow,
      ts_sensitive_fields = [], ts_raw_pii_roles = [],
      ts_enabled = True, ts_requires_approval_token = False\<rparr>"

definition spec_crm_dry_run :: tool_spec where
  "spec_crm_dry_run =
     \<lparr>ts_name = ''create_crm_update_dry_run'',
      ts_description = ''Compute a proposed CRM update diff. Never writes; returns ''
        @ sq @ ''human approval required'' @ sq @ ''.'',
      ts_required_roles = SALES_ROLES, ts_classification = WRITE, ts_execution_mode = SYNC,
      ts_pii_classification = PII_NONE, ts_dry_run_required = True,
      ts_input_model = CrmDryRunArgs, ts_run = create_crm_update_dry_run,
      ts_sensitive_fields = [], ts_raw_pii_roles = [],
      ts_enabled = True, ts_requires_approval_token = False\<rparr>"

text \<open>The em dash of this description (beyond Latin-1) is written as two hyphens.\<close>

definition spec_crm_execute :: "bool \<Rightarrow> tool_spec" where
  "spec_crm_execute demo_mode =
     \<lparr>ts_name = ''execute_crm_update'',
      ts_description = ''Apply an approved CRM update. DESTRUCTIVE -- disabled in demo mode; ''
        @ ''requires Admin Agent and a valid approval token.'',
      ts_required_roles = ADMIN_ONLY, ts_classification = DESTRUCTIVE, ts_execution_mode = SYNC,
      ts_pii_classification = PII_NONE, ts_dry_run_required = False,
      ts_input_model = CrmExecuteArgs, ts_run = run_execute_crm_update,
      ts_sensitive_fields = [], ts_raw_pii_roles = [],
      ts_enabled = (\<not> demo_mode), ts_requires_approval_token = True\<rparr>"

definition spec_lookup_customer :: tool_spec where
  "spec_lookup_customer =
     \<lparr>ts_name = ''crm.lookup_customer'',
      ts_description = ''Look up a CRM customer record. Contact PII (email, phone) is redacted by default.'',
      ts_required_roles = SALES_ROLES, ts_classification = READ, ts_execution_mode = SYNC,
      ts_pii_classification = PII_SENSITIVE, ts_dry_run_required = False,
      ts_input_model = CustomerLookupArgs, ts_run = crm_lookup_customer,
      ts_sensitive_fields = CUSTOMER_SENSITIVE, ts_raw_pii_roles = [],
      ts_enabled = True, ts_requires_approval_token = False\<rparr>"

definition spec_invoice_draft :: tool_spec where
  "spec_invoice_draft =
     \<lparr>ts_name = ''billing.create_invoice_draft'',
      ts_description = ''Draft an invoice for a customer. Writes nothing; requires human approval ''
        @ ''to finalize (returns a pending approval id).'',
      ts_required_roles = FINANCE_ROLES, ts_classification = WRITE, ts_execution_mode = SYNC,
      ts_pii_classification = PII_NONE, ts_dry_run_required = True,
      ts_input_model = InvoiceDraftArgs, ts_run = billing_create_invoice_draft,
      ts_sensitive_fields = [], ts_raw_pii_roles = [],
      ts_enabled = True, ts_requires_approval_token = False\<rparr>"

definition reference_tools :: "bool \<Rightarrow> tool_spec list" where
  "reference_tools demo_mode =
     [spec_employee_profile, spec_leave_balance, spec_invoice_status, spec_budget_report,
      spec_trigger_workflow, spec_crm_dry_run, spec_crm_execute demo_mode,
      spec_lookup_customer, spec_invoice_draft]"

definition build_registry :: "bool \<Rightarrow> tool_registry res" where
  "build_registry demo_mode = register_all (reference_tools demo_mode) []"

definition build_default_registry :: "bool \<Rightarrow> tool_registry res" where
  "build_default_registry demo_mode = build_registry demo_mode"

lemmas spec_defs =
  spec_employee_profile_def spec_leave_balance_def spec_invoice_status_def spec_budget_report_def
  spec_trigger_workflow_def spec_crm_dry_run_def spec_crm_execute_def spec_lookup_customer_def
  spec_invoice_draft_def

lemmas role_group_defs = HR_ROLES_def FINANCE_ROLES_def SALES_ROLES_def ADMIN_ONLY_def

lemmas model_defs = req_str_def EmployeeArgs_def InvoiceArgs_def BudgetArgs_def WorkflowArgs_def
  CrmDryRunArgs_def CrmExecuteArgs_def CustomerLookupArgs_def InvoiceDraftArgs_def

text \<open>Assembly never raises: the nine names are distinct.\<close>

definition default_registry :: "bool \<Rightarrow> tool_registry" where
  "default_registry demo_mode = map (\<lambda>s. (ts_name s, s)) (reference_tools demo_mode)"

lemma build_registry_eq: "build_registry demo_mode = Inr (default_registry demo_mode)"
proof -
  have "distinct (map ts_name (reference_tools demo_mode))"
    by (simp add: reference_tools_def spec_defs)
  then show ?thesis
    by (simp add: build_registry_def default_registry_def register_all_distinct)
qed

lemma default_registry_ok: "registry_ok (default_registry demo_mode)"
  by (rule register_all_ok [OF registry_ok_empty])
    (use build_registry_eq in \<open>simp add: build_registry_def\<close>)

end
