(* ===== verification/ToolTypes.thy ===== *)
theory ToolTypes
  imports Tools
begin

text \<open>
  What the tools promise of their results: on arguments that passed their model, a reference
  tool with the mock connector either answers with the fields its output has or raises the
  one error it declares. The only exception is an infinite invoice amount.
\<close>

section \<open>Output fields\<close>

text \<open>The keys of each tool's output, in order, read off the handlers' \<^verbatim>\<open>ToolResult(output=...)\<close>.\<close>

definition output_fields :: "(string \<times> string list) list" where
  "output_fields =
     [(''get_employee_profile'', [''employee_id'', ''name'', ''title'', ''department_id'', ''email'',
         ''phone'', ''national_id'', ''salary'', ''address'']),
      (''check_leave_balance'', [''employee_id'', ''annual_total'', ''annual_taken'',
         ''annual_remaining'', ''sick_taken'']),
      (''get_invoice_status'', [''invoice_id'', ''vendor'', ''amount'', ''currency'', ''status'', ''due_date'']),
      (''run_budget_variance_report'', [''department_id'', ''period'', ''statement_id'', ''line_items'',
         ''total_budget'', ''total_actual'', ''total_variance'']),
      (''trigger_databricks_workflow'', [''workflow_name'', ''run_id'', ''state'', ''output'']),
      (''create_crm_update_dry_run'', [''account_id'', ''diff'', ''human_approval_required'',
         ''writes_applied'', ''message'']),
      (''execute_crm_update'', [''account_id'', ''approved_change_id'', ''writes_applied'', ''message'']),
      (''crm.lookup_customer'', [''customer_id'', ''name'', ''tier'', ''email'', ''phone'', ''billing_currency'']),
      (''billing.create_invoice_draft'', [''draft_id'', ''status'', ''writes_applied'',
         ''human_approval_required'', ''invoice'', ''message''])]"

definition mock_context :: "settings \<Rightarrow> tool_context" where
  "mock_context s = \<lparr>cx_settings = s, cx_databricks = MockDatabricksConnector\<rparr>"

text \<open>A result a tool may give: the declared fields, or its declared error.\<close>

definition answers :: "string list \<Rightarrow> tool_result res \<Rightarrow> bool" where
  "answers fs r \<longleftrightarrow>
     (case r of Inr x \<Rightarrow> map fst (tr_output x) = fs
      | Inl e \<Rightarrow> (case e of ToolError m c \<Rightarrow> c = ''NOT_FOUND'' | _ \<Rightarrow> False))"

lemma answers_simps [simp]:
  "answers fs (Inr x) \<longleftrightarrow> map fst (tr_output x) = fs"
  "answers fs (Inl (ToolError m c)) \<longleftrightarrow> c = ''NOT_FOUND''"
  by (simp_all add: answers_def)

section \<open>Arguments that passed their model\<close>

lemma conforms_cases:
  "conforms (FStr lo hi) v \<longleftrightarrow> (\<exists>s. v = PStr s \<and> lo \<le> length s \<and> (case hi of None \<Rightarrow> True | Some n \<Rightarrow> length s \<le> n))"
  "conforms FFloatGt0 v \<longleftrightarrow> (\<exists>f. v = PFloat f \<and> fl_pos f)"
  "conforms FDict v \<longleftrightarrow> (\<exists>d. v = PDict d)"
  by (cases v; simp)+

text \<open>The arguments of a model, field by field.\<close>

definition valid_args :: "input_model \<Rightarrow> pydict \<Rightarrow> bool" where
  "valid_args m args \<longleftrightarrow>
     map fst args = map fd_name m \<and> list_all2 (\<lambda>f kv. conforms (fd_type f) (snd kv)) m args"

lemma valid_args_simps:
  "valid_args [] args \<longleftrightarrow> args = []"
  "valid_args (f # m) args \<longleftrightarrow>
    (\<exists>v rest. args = (fd_name f, v) # rest \<and> conforms (fd_type f) v \<and> valid_args m rest)"
  by (auto simp: valid_args_def)

lemma validated_valid:
  "pydantic_laws V \<Longrightarrow> validate_args V spec raw = Inr args \<Longrightarrow> valid_args (ts_input_model spec) args"
  unfolding pydantic_laws_def validate_args_def valid_args_def by blast

text \<open>The arguments each model lets through.\<close>

lemma model_args:
  "valid_args EmployeeArgs args \<Longrightarrow> \<exists>s. args = [(''employee_id'', PStr s)]"
  "valid_args InvoiceArgs args \<Longrightarrow> \<exists>s. args = [(''invoice_id'', PStr s)]"
  "valid_args BudgetArgs args \<Longrightarrow> \<exists>s t. args = [(''department_id'', PStr s), (''period'', PStr t)]"
  "valid_args WorkflowArgs args \<Longrightarrow> \<exists>s d. args = [(''workflow_name'', PStr s), (''parameters'', PDict d)]"
  "valid_args CrmDryRunArgs args \<Longrightarrow> \<exists>s d. args = [(''account_id'', PStr s), (''proposed_changes'', PDict d)]"
  "valid_args CrmExecuteArgs args \<Longrightarrow> \<exists>s t. args = [(''account_id'', PStr s), (''approved_change_id'', PStr t)]"
  "valid_args CustomerLookupArgs args \<Longrightarrow> \<exists>s. args = [(''customer_id'', PStr s)]"
  "valid_args InvoiceDraftArgs args \<Longrightarrow> \<exists>s f c t. fl_pos f \<and> args = [(''customer_id'', PStr s),
     (''amount'', PFloat f), (''currency'', PStr c), (''description'', PStr t)]"
  by (auto simp: model_defs valid_args_simps conforms_cases simp del: conforms.simps)

text \<open>A row that a text key finds, or the declared error.\<close>

lemma find_row_text:
  assumes "map_of args k = Some (PStr s)"
  shows "find_row table args k pre post =
    (case map_of table s of None \<Rightarrow> Inl (ToolError (pre @ s @ post) ''NOT_FOUND'') | Some r \<Rightarrow> Inr (PStr s, r))"
  using assms by (simp add: find_row_def dict_index_def split: option.split)

text \<open>Tools that answer from one row of their data.\<close>

lemma row_tool_answers:
  assumes "map_of args k = Some (PStr s)" "\<And>row. row \<in> snd ` set table \<Longrightarrow> answers fs (f (PStr s, row))"
  shows "answers fs (bind_res (find_row table args k pre post) f)"
proof (cases "map_of table s")
  case (Some row)
  then have "row \<in> snd ` set table" by (metis map_of_SomeD imageI snd_conv)
  with assms Some show ?thesis by (simp add: find_row_text)
qed (simp add: find_row_text [OF assms(1)])

section \<open>The tools\<close>

lemma profile_answers:
  assumes "map_of args ''employee_id'' = Some (PStr s)"
  shows "answers [''employee_id'', ''name'', ''title'', ''department_id'', ''email'', ''phone'',
    ''national_id'', ''salary'', ''address''] (get_employee_profile ctx args)"
  unfolding get_employee_profile_def by (rule row_tool_answers [OF assms]) (auto simp: EMPLOYEES_def plain_result_def)

lemma leave_answers:
  assumes "map_of args ''employee_id'' = Some (PStr s)"
  shows "answers [''employee_id'', ''annual_total'', ''annual_taken'', ''annual_remaining'', ''sick_taken'']
    (check_leave_balance ctx args)"
  unfolding check_leave_balance_def
  by (rule row_tool_answers [OF assms]) (auto simp: LEAVE_def plain_result_def odict_merge_def)

lemma invoice_answers:
  assumes "map_of args ''invoice_id'' = Some (PStr s)"
  shows "answers [''invoice_id'', ''vendor'', ''amount'', ''currency'', ''status'', ''due_date'']
    (get_invoice_status ctx args)"
  unfolding get_invoice_status_def by (rule row_tool_answers [OF assms]) (auto simp: INVOICES_def plain_result_def)

lemma customer_answers:
  assumes "map_of args ''customer_id'' = Some (PStr s)"
  shows "answers [''customer_id'', ''name'', ''tier'', ''email'', ''phone'', ''billing_currency'']
    (crm_lookup_customer ctx args)"
  unfolding crm_lookup_customer_def by (rule row_tool_answers [OF assms]) (auto simp: CUSTOMERS_def plain_result_def)

lemma crm_dry_answers:
  assumes "map_of args ''account_id'' = Some (PStr s)" "map_of args ''proposed_changes'' = Some (PDict d)"
  shows "answers [''account_id'', ''diff'', ''human_approval_required'', ''writes_applied'', ''message'']
    (create_crm_update_dry_run ctx args)"
  unfolding create_crm_update_dry_run_def
  by (rule row_tool_answers [OF assms(1)]) (simp add: dict_index_def assms(2))

lemma crm_execute_answers:
  assumes "map_of args ''account_id'' = Some (PStr s)" "map_of args ''approved_change_id'' = Some v"
  shows "answers [''account_id'', ''approved_change_id'', ''writes_applied'', ''message'']
    (run_execute_crm_update ctx args)"
  unfolding run_execute_crm_update_def
  by (rule row_tool_answers [OF assms(1)]) (simp add: dict_index_def assms(2) plain_result_def)

text \<open>
  What the handlers rely on of a connector: both operations return, and the rows of the budget
  statement have integer amounts. The real connector is only prepared and raises; the mock keeps
  the contract.
\<close>

definition amounts :: "pydict \<Rightarrow> bool" where
  "amounts r \<longleftrightarrow> (\<exists>b a. map_of r ''budget'' = Some (PInt b) \<and> map_of r ''actual'' = Some (PInt a))"

locale connector_contract =
  fixes dbx :: databricks
  assumes sql_answers:
      "\<exists>r. execute_sql dbx budget_statement [(''department_id'', PStr s), (''period'', PStr t)] = Inr r \<and>
        (\<forall>x \<in> set (as_records r). amounts x)"
    and job_answers: "\<exists>r. run_job dbx name ps = Inr r"

lemma sum_column_int:
  assumes "\<And>r. r \<in> set rs \<Longrightarrow> \<exists>n. map_of r k = Some (PInt n)"
  shows "\<exists>n. sum_column k rs (PInt acc) = Inr (PInt n)"
  using assms
proof (induction rs arbitrary: acc)
  case (Cons r rs)
  from Cons.prems [of r] obtain n where "map_of r k = Some (PInt n)" by auto
  moreover have "\<exists>m. sum_column k rs (PInt (acc + n)) = Inr (PInt m)"
    by (rule Cons.IH) (use Cons.prems in auto)
  ultimately show ?case by (simp add: dict_index_def)
qed simp

context connector_contract begin

lemma workflow_answers:
  assumes "map_of args ''workflow_name'' = Some v" "map_of args ''parameters'' = Some (PDict d)"
    and "cx_databricks ctx = dbx"
  shows "answers [''workflow_name'', ''run_id'', ''state'', ''output''] (trigger_databricks_workflow ctx args)"
proof -
  obtain r where "run_job dbx v d = Inr r" using job_answers by blast
  then show ?thesis
    by (cases d) (simp_all add: trigger_databricks_workflow_def dict_index_def dict_get_def dict_or_empty_def assms
      plain_result_def)
qed

lemma budget_answers:
  assumes "map_of args ''department_id'' = Some (PStr s)" "map_of args ''period'' = Some (PStr t)"
    and "cx_databricks ctx = dbx"
  shows "answers [''department_id'', ''period'', ''statement_id'', ''line_items'', ''total_budget'',
    ''total_actual'', ''total_variance''] (run_budget_variance_report ctx args)"
proof -
  obtain r where sql: "execute_sql dbx budget_statement [(''department_id'', PStr s), (''period'', PStr t)] = Inr r"
    and rec: "\<And>x. x \<in> set (as_records r) \<Longrightarrow> amounts x" using sql_answers by blast
  obtain b where b: "sum_column ''budget'' (as_records r) (PInt 0) = Inr (PInt b)"
    using sum_column_int [of "as_records r" "''budget''" 0] rec unfolding amounts_def by blast
  obtain a where a: "sum_column ''actual'' (as_records r) (PInt 0) = Inr (PInt a)"
    using sum_column_int [of "as_records r" "''actual''" 0] rec unfolding amounts_def by blast
  show ?thesis
    by (simp add: run_budget_variance_report_def dict_index_def assms sql a b plain_result_def)
qed

end

lemma fact_amounts:
  assumes "x \<in> set (as_records \<lparr>sr_statement_id = i,
      sr_columns = [''line_item'', ''budget'', ''actual'', ''variance'', ''variance_pct''],
      sr_rows = map fact_row facts, sr_row_count = n\<rparr>)"
  shows "amounts x"
  using assms by (auto simp: as_records_def fact_row_def amounts_def)

interpretation mock_connector: connector_contract MockDatabricksConnector
proof
  fix s t name ps
  show "\<exists>r. execute_sql MockDatabricksConnector budget_statement [(''department_id'', PStr s), (''period'', PStr t)] = Inr r
      \<and> (\<forall>x \<in> set (as_records r). amounts x)"
    by (auto simp: MockDatabricksConnector_def mock_execute_sql_def Let_def intro: fact_amounts)
  show "\<exists>r. run_job MockDatabricksConnector name ps = Inr r"
    by (simp add: MockDatabricksConnector_def mock_run_job_def)
qed

lemma draft_answers:
  assumes "map_of args ''customer_id'' = Some (PStr s)" "map_of args ''amount'' = Some (PFloat (FlFin m e))"
    "map_of args ''currency'' = Some (PStr c)" "map_of args ''description'' = Some (PStr t)"
  shows "answers [''draft_id'', ''status'', ''writes_applied'', ''human_approval_required'', ''invoice'', ''message'']
    (billing_create_invoice_draft ctx args)"
  unfolding billing_create_invoice_draft_def
proof (rule row_tool_answers [OF assms(1)], goal_cases)
  case (1 row)
  then obtain n where "map_of row ''name'' = Some (PStr n)" by (auto simp: CUSTOMERS_def)
  moreover obtain p q where "scale m e = (p, q)" by (cases "scale m e")
  ultimately show ?case by (simp add: dict_index_def assms Let_def)
qed

lemma draft_overflows:
  assumes "map_of args ''customer_id'' = Some (PStr s)" "map_of args ''amount'' = Some (PFloat (FlInf True))"
    "map_of args ''currency'' = Some c" "map_of args ''description'' = Some t"
  shows "answers fs (billing_create_invoice_draft ctx args) \<or>
    billing_create_invoice_draft ctx args =
      Inl (PyExn ''OverflowError'' ''cannot convert float infinity to integer'')"
proof (cases "map_of CUSTOMERS s")
  case (Some row)
  then have "map_of row ''name'' \<noteq> None" by (auto simp: CUSTOMERS_def split: if_splits)
  with Some show ?thesis
    by (auto simp: billing_create_invoice_draft_def find_row_text assms dict_index_def)
qed (simp add: billing_create_invoice_draft_def find_row_text [OF assms(1)])

text \<open>Both of the last two are needed: the model lets an infinite amount through.\<close>

lemma infinite_amount_raises:
  "\<exists>args. validate_args strict_validate spec_invoice_draft
      [(''customer_id'', PStr ''CUST-700''), (''amount'', PFloat (FlInf True))] = Inr args \<and>
    ts_run spec_invoice_draft ctx args =
      Inl (PyExn ''OverflowError'' ''cannot convert float infinity to integer'')"
  by (simp add: validate_args_def strict_validate_def spec_invoice_draft_def model_defs field_value_def
      billing_create_invoice_draft_def find_row_text dict_index_def CUSTOMERS_def)

section \<open>The type of a tool\<close>

lemma fl_pos_cases: "fl_pos f \<Longrightarrow> (\<exists>m e. f = FlFin m e) \<or> f = FlInf True"
  by (cases f) auto

text \<open>C18 (type).
  A reference tool, run on arguments that passed its model with the mock connector, keeps its
  type: it answers with exactly its declared output fields or raises \<^verbatim>\<open>ToolError\<close> with code
  \<^verbatim>\<open>NOT_FOUND\<close>; no key is missing and no operation is applied to a value of the wrong type. The
  one exception is an infinite amount of an invoice draft, which the model accepts (\<^verbatim>\<open>gt=0\<close>) and
  \<^verbatim>\<open>int()\<close> does not.\<close>

theorem tools_answer_as_declared:
  assumes "pydantic_laws V" "spec \<in> set (reference_tools demo_mode)" "validate_args V spec raw = Inr args"
  shows "\<exists>fs. map_of output_fields (ts_name spec) = Some fs \<and>
    (answers fs (ts_run spec (mock_context st) args) \<or>
     ts_name spec = ''billing.create_invoice_draft'' \<and> dict_get args ''amount'' = PFloat (FlInf True) \<and>
     ts_run spec (mock_context st) args =
       Inl (PyExn ''OverflowError'' ''cannot convert float infinity to integer''))"
proof -
  note valid = validated_valid [OF assms(1,3)]
  consider "spec = spec_employee_profile" | "spec = spec_leave_balance" | "spec = spec_invoice_status"
    | "spec = spec_budget_report" | "spec = spec_trigger_workflow" | "spec = spec_crm_dry_run"
    | "spec = spec_crm_execute demo_mode" | "spec = spec_lookup_customer" | "spec = spec_invoice_draft"
    using assms(2) by (auto simp: reference_tools_def)
  then show ?thesis
  proof cases
    case 1
    with valid model_args(1) [of args] show ?thesis
      by (auto simp: spec_employee_profile_def output_fields_def intro: profile_answers)
  next
    case 2
    with valid model_args(1) [of args] show ?thesis
      by (auto simp: spec_leave_balance_def output_fields_def intro: leave_answers)
  next
    case 3
    with valid model_args(2) [of args] show ?thesis
      by (auto simp: spec_invoice_status_def output_fields_def intro: invoice_answers)
  next
    case 4
    with valid model_args(3) [of args] show ?thesis
      by (auto simp: spec_budget_report_def output_fields_def mock_context_def intro: mock_connector.budget_answers)
  next
    case 5
    with valid model_args(4) [of args] show ?thesis
      by (auto simp: spec_trigger_workflow_def output_fields_def mock_context_def intro: mock_connector.workflow_answers)
  next
    case 6
    with valid model_args(5) [of args] show ?thesis
      by (auto simp: spec_crm_dry_run_def output_fields_def intro: crm_dry_answers)
  next
    case 7
    with valid model_args(6) [of args] show ?thesis
      by (auto simp: spec_crm_execute_def output_fields_def intro: crm_execute_answers)
  next
    case 8
    with valid model_args(7) [of args] show ?thesis
      by (auto simp: spec_lookup_customer_def output_fields_def intro: customer_answers)
  next
    case 9
    with valid model_args(8) [of args] obtain s f c t where "fl_pos f" "args = [(''customer_id'', PStr s),
        (''amount'', PFloat f), (''currency'', PStr c), (''description'', PStr t)]"
      by (auto simp: spec_invoice_draft_def)
    with 9 fl_pos_cases [of f] show ?thesis
      using draft_answers [of args s _ _ c t "mock_context st"] draft_overflows [of args s "PStr c" "PStr t" _ "mock_context st"]
      by (auto simp: spec_invoice_draft_def output_fields_def dict_get_def)
  qed
qed

theorem tools_answer_as_declared_witness:
  "\<exists>args fs. validate_args strict_validate spec_employee_profile [(''employee_id'', PStr ''E-2002'')] = Inr args \<and>
     map_of output_fields ''get_employee_profile'' = Some fs \<and>
     answers fs (ts_run spec_employee_profile (mock_context default_settings) args)"
proof -
  have val: "validate_args strict_validate spec_employee_profile [(''employee_id'', PStr ''E-2002'')] =
      Inr [(''employee_id'', PStr ''E-2002'')]"
    by (simp add: validate_args_def strict_validate_def spec_employee_profile_def model_defs field_value_def)
  have "spec_employee_profile \<in> set (reference_tools True)" by (simp add: reference_tools_def)
  from tools_answer_as_declared [OF strict_validate_laws this val, of default_settings] val
  show ?thesis by (auto simp: spec_employee_profile_def)
qed

end
