(* ===== verification/ServiceBus.thy ===== *)
theory ServiceBus
  imports PyValues
begin

text \<open>
  \<^verbatim>\<open>packages/servicebus\<close>: the message and queue interface (\<^verbatim>\<open>interface.py\<close>) and the
  database-backed local queue (\<^verbatim>\<open>local.py\<close>).

  A queue is a record of operations on a state of type \<open>'q\<close>, as an object of the abstract
  class is. The contract the clients rely on is the locale \<open>queue_contract\<close>; the local queue
  interprets it.
\<close>

section \<open>Interface (\<^verbatim>\<open>interface.py\<close>)\<close>

text \<open>The handle of the local queue is the row id.\<close>

record message =
  ms_body :: pydict
  ms_delivery_count :: nat
  ms_handle :: nat

text \<open>\<^verbatim>\<open>body.get(k)\<close> for an id: the text, or \<^verbatim>\<open>None\<close>.\<close>

fun as_text :: "pyval \<Rightarrow> string option" where
  "as_text (PStr s) = Some s"
| "as_text _ = None"

definition message_job_id :: "message \<Rightarrow> string option" where
  "message_job_id m = as_text (dict_get (ms_body m) ''job_id'')"

definition message_idempotency_key :: "message \<Rightarrow> string option" where
  "message_idempotency_key m = as_text (dict_get (ms_body m) ''idempotency_key'')"

record 'q message_queue =
  mq_publish :: "instant \<Rightarrow> pydict \<Rightarrow> ('q, unit) prog"
  mq_receive :: "instant \<Rightarrow> nat \<Rightarrow> int \<Rightarrow> ('q, message list) prog"
  mq_complete :: "instant \<Rightarrow> message \<Rightarrow> ('q, unit) prog"
  mq_abandon :: "instant \<Rightarrow> message \<Rightarrow> ('q, unit) prog"
  mq_dead_letter :: "instant \<Rightarrow> message \<Rightarrow> string \<Rightarrow> ('q, unit) prog"

section \<open>The local queue (\<^verbatim>\<open>local.py\<close>)\<close>

text \<open>
  The JSON text of the body column is kept as the value it decodes to. Rows are in the order
  of their ids, which are never reused (rows are never deleted).
\<close>

record queue_row =
  qr_id :: nat
  qr_queue_name :: string
  qr_body :: pydict
  qr_status :: string
  qr_delivery_count :: nat
  qr_visible_at :: instant
  qr_dead_letter_reason :: "string option"
  qr_created_at :: instant
  qr_updated_at :: instant

type_synonym queue_table = "queue_row list"

record local_queue =
  lq_queue :: string
  lq_max_delivery :: nat

definition lq_publish :: "local_queue \<Rightarrow> instant \<Rightarrow> pydict \<Rightarrow> (queue_table, unit) prog" where
  "lq_publish lq now body rows =
     (Inr (), rows @ [\<lparr>qr_id = Suc (length rows), qr_queue_name = lq_queue lq, qr_body = body,
        qr_status = ''available'', qr_delivery_count = 0, qr_visible_at = now,
        qr_dead_letter_reason = None, qr_created_at = now, qr_updated_at = now\<rparr>])"

definition eligible :: "local_queue \<Rightarrow> instant \<Rightarrow> queue_row \<Rightarrow> bool" where
  "eligible lq now r \<longleftrightarrow>
     qr_queue_name r = lq_queue lq \<and> qr_status r = ''available'' \<and> qr_visible_at r \<le> now"

definition claim_row :: "instant \<Rightarrow> int \<Rightarrow> queue_row \<Rightarrow> queue_row" where
  "claim_row now visibility_timeout r =
     r\<lparr>qr_status := ''locked'', qr_delivery_count := qr_delivery_count r + 1,
       qr_visible_at := now + seconds visibility_timeout, qr_updated_at := now\<rparr>"

definition row_message :: "queue_row \<Rightarrow> message" where
  "row_message r =
     \<lparr>ms_body = qr_body r, ms_delivery_count = qr_delivery_count r, ms_handle = qr_id r\<rparr>"

text \<open>Change the row with this id, if there is one.\<close>

definition update_row :: "nat \<Rightarrow> (queue_row \<Rightarrow> queue_row) \<Rightarrow> queue_table \<Rightarrow> queue_table" where
  "update_row h f rows = map (\<lambda>r. if qr_id r = h then f r else r) rows"

definition lq_receive ::
  "local_queue \<Rightarrow> instant \<Rightarrow> nat \<Rightarrow> int \<Rightarrow> (queue_table, message list) prog" where
  "lq_receive lq now max_messages visibility_timeout rows =
     (let picked = take max_messages (filter (eligible lq now) rows);
          ids = map qr_id picked
      in (Inr (map (row_message \<circ> claim_row now visibility_timeout) picked),
          map (\<lambda>r. if qr_id r \<in> set ids then claim_row now visibility_timeout r else r) rows))"

definition lq_complete :: "local_queue \<Rightarrow> instant \<Rightarrow> message \<Rightarrow> (queue_table, unit) prog" where
  "lq_complete lq now m rows =
     (Inr (), update_row (ms_handle m) (\<lambda>r. r\<lparr>qr_status := ''completed'', qr_updated_at := now\<rparr>) rows)"

definition lq_abandon :: "local_queue \<Rightarrow> instant \<Rightarrow> message \<Rightarrow> (queue_table, unit) prog" where
  "lq_abandon lq now m rows =
     (Inr (), update_row (ms_handle m)
        (\<lambda>r. if lq_max_delivery lq \<le> qr_delivery_count r
             then r\<lparr>qr_status := ''dead_letter'',
                    qr_dead_letter_reason := Some ''max delivery count exceeded'',
                    qr_updated_at := now\<rparr>
             else r\<lparr>qr_status := ''available'', qr_visible_at := now, qr_updated_at := now\<rparr>) rows)"

definition lq_dead_letter ::
  "local_queue \<Rightarrow> instant \<Rightarrow> message \<Rightarrow> string \<Rightarrow> (queue_table, unit) prog" where
  "lq_dead_letter lq now m reason rows =
     (Inr (), update_row (ms_handle m)
        (\<lambda>r. r\<lparr>qr_status := ''dead_letter'',
               qr_dead_letter_reason :=
                 Some (if reason = [] then ''explicit dead-letter'' else reason),
               qr_updated_at := now\<rparr>) rows)"

definition lq_stats :: "local_queue \<Rightarrow> queue_table \<Rightarrow> (string \<times> nat) list" where
  "lq_stats lq rows =
     fold (\<lambda>r out. odict_set (qr_status r)
             ((case map_of out (qr_status r) of None \<Rightarrow> 0 | Some n \<Rightarrow> n) + 1) out)
       (filter (\<lambda>r. qr_queue_name r = lq_queue lq) rows) []"

definition LocalQueue :: "local_queue \<Rightarrow> queue_table message_queue" where
  "LocalQueue lq =
     \<lparr>mq_publish = lq_publish lq, mq_receive = lq_receive lq, mq_complete = lq_complete lq,
      mq_abandon = lq_abandon lq, mq_dead_letter = lq_dead_letter lq\<rparr>"

section \<open>The contract\<close>

text \<open>
  What a queue promises about one message, whatever it is stored in: where the message is in
  its life cycle and how often it was delivered.
\<close>

datatype mstate = Available nat | Locked nat | Completed nat | Dead nat

fun deliveries :: "mstate \<Rightarrow> nat" where
  "deliveries (Available c) = c"
| "deliveries (Locked c) = c"
| "deliveries (Completed c) = c"
| "deliveries (Dead c) = c"

text \<open>
  The delivery bound: a message still to be delivered was delivered fewer than \<open>n\<close> times, and
  no message more often than that.
\<close>

fun within :: "nat \<Rightarrow> mstate \<Rightarrow> bool" where
  "within n (Available c) = (c < n)"
| "within n s = (deliveries s \<le> n)"

lemma within_deliveries: "within n s \<Longrightarrow> deliveries s \<le> n"
  by (cases s) simp_all

locale queue_contract =
  fixes mq :: "'q message_queue"
    and state :: "'q \<Rightarrow> nat \<Rightarrow> mstate option"
    and body_of :: "'q \<Rightarrow> nat \<Rightarrow> pydict option"
    and wf :: "'q \<Rightarrow> bool"
    and max_delivery :: nat
  assumes publish:
      "wf q \<Longrightarrow> mq_publish mq now b q = (Inr (), q') \<Longrightarrow>
        wf q' \<and> (\<exists>h. state q h = None \<and> state q' = (state q)(h \<mapsto> Available 0)
                    \<and> body_of q' = (body_of q)(h \<mapsto> b))"
    and receive_wf: "wf q \<Longrightarrow> mq_receive mq now n t q = (Inr ms, q') \<Longrightarrow> wf q'"
    and receive_distinct:
      "wf q \<Longrightarrow> mq_receive mq now n t q = (Inr ms, q') \<Longrightarrow>
        distinct (map ms_handle ms) \<and> length ms \<le> n"
    and receive_locks:
      "wf q \<Longrightarrow> mq_receive mq now n t q = (Inr ms, q') \<Longrightarrow> m \<in> set ms \<Longrightarrow>
        (\<exists>c. state q (ms_handle m) = Some (Available c)
           \<and> state q' (ms_handle m) = Some (Locked (Suc c)) \<and> ms_delivery_count m = Suc c)
        \<and> body_of q (ms_handle m) = Some (ms_body m)"
    and receive_others:
      "wf q \<Longrightarrow> mq_receive mq now n t q = (Inr ms, q') \<Longrightarrow> h \<notin> ms_handle ` set ms \<Longrightarrow>
        state q' h = state q h"
    and receive_bodies: "wf q \<Longrightarrow> mq_receive mq now n t q = (Inr ms, q') \<Longrightarrow> body_of q' = body_of q"
    and complete:
      "wf q \<Longrightarrow> mq_complete mq now m q = (Inr (), q') \<Longrightarrow>
        wf q' \<and> body_of q' = body_of q \<and>
        state q' = (state q)(ms_handle m :=
          map_option (\<lambda>s. Completed (deliveries s)) (state q (ms_handle m)))"
    and abandon:
      "wf q \<Longrightarrow> mq_abandon mq now m q = (Inr (), q') \<Longrightarrow>
        wf q' \<and> body_of q' = body_of q \<and>
        state q' = (state q)(ms_handle m := map_option
          (\<lambda>s. if max_delivery \<le> deliveries s then Dead (deliveries s) else Available (deliveries s))
          (state q (ms_handle m)))"
    and dead_letter:
      "wf q \<Longrightarrow> mq_dead_letter mq now m r q = (Inr (), q') \<Longrightarrow>
        wf q' \<and> body_of q' = body_of q \<and>
        state q' = (state q)(ms_handle m :=
          map_option (\<lambda>s. Dead (deliveries s)) (state q (ms_handle m)))"
begin

definition bounded :: "'q \<Rightarrow> bool" where
  "bounded q \<longleftrightarrow> (\<forall>h s. state q h = Some s \<longrightarrow> within max_delivery s)"

lemma bounded_update:
  assumes "bounded q" and "state q' = (state q)(h := map_option f (state q h))"
    and "\<And>s. within max_delivery s \<Longrightarrow> within max_delivery (f s)"
  shows "bounded q'"
  using assms by (auto simp: bounded_def)

lemma bounded_publish:
  assumes "wf q" "bounded q" "0 < max_delivery" "mq_publish mq now b q = (Inr (), q')"
  shows "bounded q'"
  using publish [OF assms(1,4)] assms(2,3) by (auto simp: bounded_def split: if_splits)

lemma bounded_receive:
  assumes "wf q" "bounded q" "mq_receive mq now n t q = (Inr ms, q')"
  shows "bounded q'"
  unfolding bounded_def
proof (intro allI impI)
  fix h s assume s: "state q' h = Some s"
  show "within max_delivery s"
  proof (cases "h \<in> ms_handle ` set ms")
    case True
    then obtain m where "m \<in> set ms" "h = ms_handle m" by auto
    with receive_locks [OF assms(1,3)] s obtain c where "state q h = Some (Available c)" "s = Locked (Suc c)"
      by fastforce
    moreover from this assms(2) have "within max_delivery (Available c)"
      unfolding bounded_def by blast
    ultimately show ?thesis by (simp add: Suc_le_eq)
  next
    case False
    with receive_others [OF assms(1,3)] s have "state q h = Some s" by simp
    with assms(2) show ?thesis by (simp add: bounded_def)
  qed
qed

lemma bounded_complete:
  assumes "wf q" "bounded q" "mq_complete mq now m q = (Inr (), q')"
  shows "bounded q'"
  using complete [OF assms(1,3)] by (auto intro: bounded_update [OF assms(2)] simp: within_deliveries)

lemma bounded_abandon:
  assumes "wf q" "bounded q" "mq_abandon mq now m q = (Inr (), q')"
  shows "bounded q'"
  using abandon [OF assms(1,3)] by (auto intro: bounded_update [OF assms(2)] simp: within_deliveries)

lemma bounded_dead_letter:
  assumes "wf q" "bounded q" "mq_dead_letter mq now m r q = (Inr (), q')"
  shows "bounded q'"
  using dead_letter [OF assms(1,3)] by (auto intro: bounded_update [OF assms(2)] simp: within_deliveries)

text \<open>Only a message that is available is ever handed out.\<close>

lemma not_available_not_received:
  assumes "wf q" "mq_receive mq now n t q = (Inr ms, q')"
    and "\<And>c. state q h \<noteq> Some (Available c)"
  shows "h \<notin> ms_handle ` set ms \<and> state q' h = state q h"
proof -
  have "h \<notin> ms_handle ` set ms"
  proof
    assume "h \<in> ms_handle ` set ms"
    then obtain m where "m \<in> set ms" "h = ms_handle m" by auto
    with receive_locks [OF assms(1,2)] assms(3) show False by blast
  qed
  with receive_others [OF assms(1,2)] show ?thesis by simp
qed

end

section \<open>The local queue keeps the contract\<close>

definition row_of :: "queue_table \<Rightarrow> nat \<Rightarrow> queue_row option" where
  "row_of rows h = find (\<lambda>r. qr_id r = h) rows"

definition row_state :: "queue_row \<Rightarrow> mstate" where
  "row_state r =
     (if qr_status r = ''available'' then Available (qr_delivery_count r)
      else if qr_status r = ''locked'' then Locked (qr_delivery_count r)
      else if qr_status r = ''completed'' then Completed (qr_delivery_count r)
      else Dead (qr_delivery_count r))"

definition lq_state :: "queue_table \<Rightarrow> nat \<Rightarrow> mstate option" where
  "lq_state rows h = map_option row_state (row_of rows h)"

definition lq_body :: "queue_table \<Rightarrow> nat \<Rightarrow> pydict option" where
  "lq_body rows h = map_option qr_body (row_of rows h)"

text \<open>Row ids are the positions, counted from 1.\<close>

definition table_ok :: "queue_table \<Rightarrow> bool" where
  "table_ok rows \<longleftrightarrow> map qr_id rows = [1..<Suc (length rows)]"

lemma table_ok_distinct: "table_ok rows \<Longrightarrow> distinct (map qr_id rows)"
  by (simp add: table_ok_def)

lemma row_of_in:
  assumes "distinct (map qr_id rows)" "r \<in> set rows"
  shows "row_of rows (qr_id r) = Some r"
  using assms by (induction rows) (auto simp: row_of_def)

lemma row_of_SomeD: "row_of rows h = Some r \<Longrightarrow> r \<in> set rows \<and> qr_id r = h"
  by (auto simp: row_of_def find_Some_iff)

lemma row_of_append:
  "row_of (rows @ [r]) h = (case row_of rows h of Some x \<Rightarrow> Some x
     | None \<Rightarrow> if qr_id r = h then Some r else None)"
  unfolding row_of_def by (induction rows) auto

lemma row_of_map:
  assumes "\<And>r. qr_id (f r) = qr_id r"
  shows "row_of (map f rows) h = map_option f (row_of rows h)"
  using assms by (induction rows) (auto simp: row_of_def)

lemma row_of_update_row:
  assumes "\<And>r. qr_id (f r) = qr_id r"
  shows "row_of (update_row h f rows) k =
    (if k = h then map_option f (row_of rows h) else row_of rows k)"
proof -
  have "row_of (update_row h f rows) k =
      map_option (\<lambda>r. if qr_id r = h then f r else r) (row_of rows k)"
    unfolding update_row_def by (rule row_of_map) (simp add: assms)
  then show ?thesis by (cases "row_of rows k") (auto dest: row_of_SomeD)
qed

lemma table_ok_map: "(\<And>r. qr_id (f r) = qr_id r) \<Longrightarrow> table_ok (map f rows) = table_ok rows"
  by (simp add: table_ok_def comp_def)

lemma table_ok_update_row:
  "(\<And>r. qr_id (f r) = qr_id r) \<Longrightarrow> table_ok (update_row h f rows) = table_ok rows"
  unfolding update_row_def by (rule table_ok_map) simp

lemma table_ok_publish: "table_ok rows \<Longrightarrow> table_ok (snd (lq_publish lq now b rows))"
  by (simp add: table_ok_def lq_publish_def)

lemma row_of_fresh: "table_ok rows \<Longrightarrow> row_of rows (Suc (length rows)) = None"
proof (cases "row_of rows (Suc (length rows))")
  case (Some r)
  assume "table_ok rows"
  from row_of_SomeD [OF Some] have "Suc (length rows) \<in> set (map qr_id rows)"
    by (metis image_eqI list.set_map)
  with \<open>table_ok rows\<close> show ?thesis by (simp add: table_ok_def)
qed simp

text \<open>The three settling operations change one row's status.\<close>

lemma lq_settle:
  assumes "\<And>r. qr_id (f r) = qr_id r" "\<And>r. qr_body (f r) = qr_body r"
    and "\<And>r. row_state (f r) = g (row_state r)"
  shows "lq_state (update_row h f rows) = (lq_state rows)(h := map_option g (lq_state rows h))"
    and "lq_body (update_row h f rows) = lq_body rows"
  using assms
  by (auto simp: fun_eq_iff lq_state_def lq_body_def row_of_update_row option.map_comp comp_def)

lemma lq_settle_contract:
  assumes "table_ok rows" "\<And>r. qr_id (f r) = qr_id r" "\<And>r. qr_body (f r) = qr_body r"
    and "\<And>r. row_state (f r) = g (row_state r)"
  shows "table_ok (update_row h f rows) \<and> lq_body (update_row h f rows) = lq_body rows \<and>
    lq_state (update_row h f rows) = (lq_state rows)(h := map_option g (lq_state rows h))"
  using lq_settle [OF assms(2,3), of g h rows] assms by (simp add: table_ok_update_row)

lemma row_state_deliveries [simp]: "deliveries (row_state r) = qr_delivery_count r"
  by (simp add: row_state_def)

text \<open>What one receive does, row by row.\<close>

lemma lq_receive_row:
  assumes "lq_receive lq now n t rows = (Inr ms, rows')" and d: "distinct (map qr_id rows)"
  shows "row_of rows' h = map_option (\<lambda>r. if h \<in> ms_handle ` set ms then claim_row now t r else r) (row_of rows h)"
    and "m \<in> set ms \<Longrightarrow> \<exists>r \<in> set rows. eligible lq now r \<and> m = row_message (claim_row now t r)"
    and "ms = map (row_message \<circ> claim_row now t) (take n (filter (eligible lq now) rows))"
proof -
  show ms: "ms = map (row_message \<circ> claim_row now t) (take n (filter (eligible lq now) rows))"
    using assms(1) by (simp add: lq_receive_def Let_def)
  show "m \<in> set ms \<Longrightarrow> \<exists>r \<in> set rows. eligible lq now r \<and> m = row_message (claim_row now t r)"
    unfolding ms using set_take_subset [of n "filter (eligible lq now) rows"] by fastforce
  have ids: "ms_handle ` set ms = set (map qr_id (take n (filter (eligible lq now) rows)))"
    unfolding ms by (force simp: row_message_def claim_row_def)
  have rows': "rows' = map (\<lambda>r. if qr_id r \<in> ms_handle ` set ms then claim_row now t r else r) rows"
    using assms(1) by (simp add: lq_receive_def Let_def ids)
  have "row_of rows' h = map_option (\<lambda>r. if qr_id r \<in> ms_handle ` set ms then claim_row now t r else r) (row_of rows h)"
    unfolding rows' by (rule row_of_map) (simp add: claim_row_def)
  then show "row_of rows' h = map_option (\<lambda>r. if h \<in> ms_handle ` set ms then claim_row now t r else r) (row_of rows h)"
    by (cases "row_of rows h") (auto dest: row_of_SomeD)
qed

lemma lq_publish_contract:
  assumes "table_ok q" and q'_def: "q' = snd (lq_publish lq now b q)"
  shows "table_ok q' \<and> (\<exists>h. lq_state q h = None \<and> lq_state q' = (lq_state q)(h \<mapsto> Available 0)
    \<and> lq_body q' = (lq_body q)(h \<mapsto> b))"
proof -
  let ?h = "Suc (length q)"
  have "lq_state q ?h = None" by (simp add: lq_state_def row_of_fresh [OF assms(1)])
  moreover have "lq_state q' = (lq_state q)(?h \<mapsto> Available 0)" "lq_body q' = (lq_body q)(?h \<mapsto> b)"
    using row_of_fresh [OF assms(1)] unfolding q'_def
    by (auto simp: fun_eq_iff lq_state_def lq_body_def lq_publish_def row_of_append row_state_def
        split: option.splits)
  ultimately show ?thesis using table_ok_publish [OF assms(1)] by (auto simp: q'_def)
qed

lemma lq_receive_distinct:
  assumes "table_ok q" and rec: "lq_receive lq now n t q = (Inr ms, q')"
  shows "distinct (map ms_handle ms) \<and> length ms \<le> n"
proof -
  note d = table_ok_distinct [OF assms(1)]
  have "distinct (map qr_id (take n (filter (eligible lq now) q)))"
    using d by (metis distinct_map_filter distinct_take take_map)
  then show ?thesis
    unfolding lq_receive_row(3) [OF rec d] by (simp add: comp_def row_message_def claim_row_def)
qed

lemma lq_receive_bodies:
  assumes "table_ok q" and rec: "lq_receive lq now n t q = (Inr ms, q')"
  shows "lq_body q' = lq_body q"
proof
  fix h
  show "lq_body q' h = lq_body q h"
    unfolding lq_body_def lq_receive_row(1) [OF rec table_ok_distinct [OF assms(1)]]
    by (cases "row_of q h") (simp_all add: claim_row_def)
qed

lemma lq_receive_locks:
  assumes ok: "table_ok rows" and rec: "lq_receive lq now n t rows = (Inr ms, rows')" and m: "m \<in> set ms"
  shows "(\<exists>c. lq_state rows (ms_handle m) = Some (Available c)
           \<and> lq_state rows' (ms_handle m) = Some (Locked (Suc c)) \<and> ms_delivery_count m = Suc c)
        \<and> lq_body rows (ms_handle m) = Some (ms_body m)"
proof -
  note d = table_ok_distinct [OF ok]
  obtain r where r: "r \<in> set rows" "eligible lq now r" "m = row_message (claim_row now t r)"
    using lq_receive_row(2) [OF rec d m] by auto
  have h: "ms_handle m = qr_id r" using r(3) by (simp add: row_message_def claim_row_def)
  have before: "row_of rows (qr_id r) = Some r" by (rule row_of_in [OF d r(1)])
  have "row_of rows' (qr_id r) = Some (claim_row now t r)"
    using lq_receive_row(1) [OF rec d, of "qr_id r"] before m h by force
  with before r h show ?thesis
    by (simp add: lq_state_def lq_body_def row_state_def eligible_def claim_row_def row_message_def)
qed

text \<open>The interpretation: \<^verbatim>\<open>LocalQueue\<close> keeps the contract.\<close>

interpretation lq: queue_contract "LocalQueue lq" lq_state lq_body table_ok "lq_max_delivery lq" for lq
proof
  fix q q' now b
  assume ok: "table_ok q" and p: "mq_publish (LocalQueue lq) now b q = (Inr (), q')"
  then show "table_ok q' \<and> (\<exists>h. lq_state q h = None \<and> lq_state q' = (lq_state q)(h \<mapsto> Available 0)
      \<and> lq_body q' = (lq_body q)(h \<mapsto> b))"
    using lq_publish_contract [OF ok refl, of lq now b] by (auto simp: LocalQueue_def)
next
  fix q q' now n t ms
  assume ok: "table_ok q" and "mq_receive (LocalQueue lq) now n t q = (Inr ms, q')"
  then have rec: "lq_receive lq now n t q = (Inr ms, q')" by (simp add: LocalQueue_def)
  show "table_ok q'"
    using rec ok by (auto simp: lq_receive_def Let_def claim_row_def intro!: table_ok_map [THEN iffD2])
  show "distinct (map ms_handle ms) \<and> length ms \<le> n" by (rule lq_receive_distinct [OF ok rec])
  show "(\<exists>c. lq_state q (ms_handle m) = Some (Available c)
           \<and> lq_state q' (ms_handle m) = Some (Locked (Suc c)) \<and> ms_delivery_count m = Suc c)
        \<and> lq_body q (ms_handle m) = Some (ms_body m)" if "m \<in> set ms" for m
    by (rule lq_receive_locks [OF ok rec that])
  show "lq_state q' h = lq_state q h" if "h \<notin> ms_handle ` set ms" for h
    using lq_receive_row(1) [OF rec table_ok_distinct [OF ok], of h] that
    by (auto simp: lq_state_def option.map_comp comp_def)
  show "lq_body q' = lq_body q" by (rule lq_receive_bodies [OF ok rec])
next
  fix q q' now m
  assume ok: "table_ok q" and "mq_complete (LocalQueue lq) now m q = (Inr (), q')"
  then have q': "q' = snd (lq_complete lq now m q)" by (simp add: LocalQueue_def lq_complete_def)
  show "table_ok q' \<and> lq_body q' = lq_body q \<and> lq_state q' = (lq_state q)(ms_handle m :=
      map_option (\<lambda>s. Completed (deliveries s)) (lq_state q (ms_handle m)))"
    unfolding q' lq_complete_def snd_conv
    by (rule lq_settle_contract [OF ok]) (simp_all add: row_state_def)
next
  fix q q' now m
  assume ok: "table_ok q" and "mq_abandon (LocalQueue lq) now m q = (Inr (), q')"
  then have q': "q' = snd (lq_abandon lq now m q)" by (simp add: LocalQueue_def lq_abandon_def)
  show "table_ok q' \<and> lq_body q' = lq_body q \<and> lq_state q' = (lq_state q)(ms_handle m := map_option
      (\<lambda>s. if lq_max_delivery lq \<le> deliveries s then Dead (deliveries s) else Available (deliveries s))
      (lq_state q (ms_handle m)))"
    unfolding q' lq_abandon_def snd_conv
    by (rule lq_settle_contract [OF ok]) (simp_all add: row_state_def)
next
  fix q q' now m r
  assume ok: "table_ok q" and "mq_dead_letter (LocalQueue lq) now m r q = (Inr (), q')"
  then have q': "q' = snd (lq_dead_letter lq now m r q)" by (simp add: LocalQueue_def lq_dead_letter_def)
  show "table_ok q' \<and> lq_body q' = lq_body q \<and> lq_state q' = (lq_state q)(ms_handle m :=
      map_option (\<lambda>s. Dead (deliveries s)) (lq_state q (ms_handle m)))"
    unfolding q' lq_dead_letter_def snd_conv
    by (rule lq_settle_contract [OF ok]) (simp_all add: row_state_def)
qed

end
