(* ===== verification/QueueLife.thy ===== *)
theory QueueLife
  imports ServiceBus
begin

text \<open>
  The life cycle of a message as an abstract machine: a map from handles to where a message is
  and a map to its body, and one labelled step per thing that can happen to one message. Every
  queue that keeps the contract refines it, and with it the local queue: whatever sequence of
  operations a client runs, the table moves as the machine does, and the messages handed out are
  the machine's deliveries.
\<close>

section \<open>The abstract machine\<close>

type_synonym life = "(nat \<Rightarrow> mstate option) \<times> (nat \<Rightarrow> pydict option)"

datatype bus_event =
    Published nat pydict
  | Delivered nat pydict nat     \<comment> \<open>handle, body and how often it was delivered by then\<close>
  | Finished nat
  | Returned nat
  | Buried nat

inductive life_step :: "nat \<Rightarrow> life \<Rightarrow> bus_event \<Rightarrow> life \<Rightarrow> bool" for limit where
  publishes: "st h = None \<Longrightarrow> life_step limit (st, bd) (Published h b) (st(h \<mapsto> Available 0), bd(h \<mapsto> b))"
| delivers: "st h = Some (Available c) \<Longrightarrow> bd h = Some b \<Longrightarrow>
    life_step limit (st, bd) (Delivered h b (Suc c)) (st(h \<mapsto> Locked (Suc c)), bd)"
| finishes: "st h = Some s \<Longrightarrow> life_step limit (st, bd) (Finished h) (st(h \<mapsto> Completed (deliveries s)), bd)"
| returns: "st h = Some s \<Longrightarrow> deliveries s < limit \<Longrightarrow>
    life_step limit (st, bd) (Returned h) (st(h \<mapsto> Available (deliveries s)), bd)"
| buries: "st h = Some s \<Longrightarrow> life_step limit (st, bd) (Buried h) (st(h \<mapsto> Dead (deliveries s)), bd)"

inductive_simps life_step_simps:
  "life_step limit l (Published h b) l'"
  "life_step limit l (Delivered h b n) l'"
  "life_step limit l (Finished h) l'"
  "life_step limit l (Returned h) l'"
  "life_step limit l (Buried h) l'"

inductive life_steps :: "nat \<Rightarrow> life \<Rightarrow> bus_event list \<Rightarrow> life \<Rightarrow> bool" for limit where
  stop [simp, intro]: "life_steps limit l [] l"
| more: "life_step limit l e l1 \<Longrightarrow> life_steps limit l1 es l2 \<Longrightarrow> life_steps limit l (e # es) l2"

lemma life_steps_one: "life_step limit l e l' \<Longrightarrow> life_steps limit l [e] l'"
  by (rule more) auto

lemma life_steps_append:
  "life_steps limit l es l1 \<Longrightarrow> life_steps limit l1 es' l2 \<Longrightarrow> life_steps limit l (es @ es') l2"
  by (induction rule: life_steps.induct) (auto intro: more)

fun deliveries_of :: "bus_event list \<Rightarrow> message list" where
  "deliveries_of [] = []"
| "deliveries_of (Delivered h b n # es) =
     \<lparr>ms_body = b, ms_delivery_count = n, ms_handle = h\<rparr> # deliveries_of es"
| "deliveries_of (_ # es) = deliveries_of es"

lemma deliveries_of_append: "deliveries_of (es @ es') = deliveries_of es @ deliveries_of es'"
  by (induction es rule: deliveries_of.induct) simp_all

definition delivered :: "message \<Rightarrow> bus_event" where
  "delivered m = Delivered (ms_handle m) (ms_body m) (ms_delivery_count m)"

lemma deliveries_of_delivered: "deliveries_of (map delivered ms) = ms"
  by (induction ms) (simp_all add: delivered_def)

section \<open>Operations of a client\<close>

datatype bus_op =
    Publish pydict
  | Receive nat int
  | Complete message
  | Abandon message
  | DeadLetter message string

definition no_messages :: "('q, unit) prog \<Rightarrow> ('q, message list) prog" where
  "no_messages p q = (case p q of (Inl e, q') \<Rightarrow> (Inl e, q') | (Inr _, q') \<Rightarrow> (Inr [], q'))"

lemma no_messages_Inr [prog_Inr]: "no_messages p q = (Inr ms, q') \<longleftrightarrow> ms = [] \<and> p q = (Inr (), q')"
  by (auto simp: no_messages_def split: prod.splits sum.splits)

fun run_op :: "'q message_queue \<Rightarrow> instant \<Rightarrow> bus_op \<Rightarrow> ('q, message list) prog" where
  "run_op mq now (Publish b) = no_messages (mq_publish mq now b)"
| "run_op mq now (Receive n t) = mq_receive mq now n t"
| "run_op mq now (Complete m) = no_messages (mq_complete mq now m)"
| "run_op mq now (Abandon m) = no_messages (mq_abandon mq now m)"
| "run_op mq now (DeadLetter m r) = no_messages (mq_dead_letter mq now m r)"

text \<open>A sequence of operations at their times, and all messages handed out on the way.\<close>

fun run_ops :: "'q message_queue \<Rightarrow> (instant \<times> bus_op) list \<Rightarrow> ('q, message list) prog" where
  "run_ops mq [] q = (Inr [], q)"
| "run_ops mq ((now, op) # ops) q =
     (case run_op mq now op q of
        (Inl e, q') \<Rightarrow> (Inl e, q')
      | (Inr ms, q') \<Rightarrow>
          (case run_ops mq ops q' of (Inl e, q'') \<Rightarrow> (Inl e, q'') | (Inr ms', q'') \<Rightarrow> (Inr (ms @ ms'), q'')))"

section \<open>Simulation\<close>

text \<open>Distinct available messages, delivered one after the other.\<close>

definition lock_all :: "message list \<Rightarrow> (nat \<Rightarrow> mstate option) \<Rightarrow> nat \<Rightarrow> mstate option" where
  "lock_all ms st = fold (\<lambda>m st. st(ms_handle m \<mapsto> Locked (ms_delivery_count m))) ms st"

lemma lock_all_simps [simp]:
  "lock_all [] st = st"
  "lock_all (m # ms) st = lock_all ms (st(ms_handle m \<mapsto> Locked (ms_delivery_count m)))"
  by (simp_all add: lock_all_def)

lemma lock_all_others: "h \<notin> ms_handle ` set ms \<Longrightarrow> lock_all ms st h = st h"
  by (induction ms arbitrary: st) auto

lemma lock_all_locked:
  "distinct (map ms_handle ms) \<Longrightarrow> m \<in> set ms \<Longrightarrow>
    lock_all ms st (ms_handle m) = Some (Locked (ms_delivery_count m))"
  by (induction ms arbitrary: st) (auto simp: lock_all_others)

lemma deliver_all:
  assumes "distinct (map ms_handle ms)"
    and "\<And>m. m \<in> set ms \<Longrightarrow> \<exists>c. st (ms_handle m) = Some (Available c) \<and> ms_delivery_count m = Suc c"
    and "\<And>m. m \<in> set ms \<Longrightarrow> bd (ms_handle m) = Some (ms_body m)"
  shows "life_steps limit (st, bd) (map delivered ms) (lock_all ms st, bd)"
  using assms
proof (induction ms arbitrary: st)
  case (Cons m ms)
  let ?st = "st(ms_handle m \<mapsto> Locked (ms_delivery_count m))"
  have "life_step limit (st, bd) (delivered m) (?st, bd)"
    using Cons.prems(2,3) [of m] by (auto simp: delivered_def intro: delivers)
  moreover have "life_steps limit (?st, bd) (map delivered ms) (lock_all ms ?st, bd)"
    by (rule Cons.IH) (use Cons.prems in \<open>auto simp: image_iff\<close>)
  ultimately show ?case by (auto intro: more)
qed simp

context queue_contract begin

text \<open>A settling operation is at most one step of its message.\<close>

lemma settle_trace:
  assumes "st' = st(h := map_option f (st h))"
    and "\<And>s. st h = Some s \<Longrightarrow> \<exists>e. life_step max_delivery (st, bd) e (st(h \<mapsto> f s), bd) \<and> deliveries_of [e] = []"
  shows "\<exists>es. life_steps max_delivery (st, bd) es (st', bd) \<and> deliveries_of es = []"
proof (cases "st h")
  case None
  then have "st' = st" using assms(1) by (simp add: fun_upd_idem)
  then show ?thesis by (intro exI [of _ "[]"]) simp
next
  case (Some s)
  from assms(2) [OF this] obtain e where
    "life_step max_delivery (st, bd) e (st(h \<mapsto> f s), bd)" "deliveries_of [e] = []" by blast
  with assms(1) Some show ?thesis by (intro exI [of _ "[e]"]) (simp add: life_steps_one)
qed

lemma receive_trace:
  assumes "wf q" "mq_receive mq now n t q = (Inr ms, q')"
  shows "life_steps max_delivery (state q, body_of q) (map delivered ms) (state q', body_of q')"
proof -
  note d = receive_distinct [OF assms, THEN conjunct1]
  have "state q' = lock_all ms (state q)"
  proof
    fix h show "state q' h = lock_all ms (state q) h"
    proof (cases "h \<in> ms_handle ` set ms")
      case True
      then obtain m where "m \<in> set ms" "h = ms_handle m" by auto
      with receive_locks [OF assms this(1)] lock_all_locked [OF d this(1)] show ?thesis by auto
    qed (simp add: lock_all_others receive_others [OF assms])
  qed
  moreover have "life_steps max_delivery (state q, body_of q) (map delivered ms) (lock_all ms (state q), body_of q)"
    by (rule deliver_all [OF d]) (use receive_locks [OF assms] in blast)+
  ultimately show ?thesis by (simp add: receive_bodies [OF assms])
qed

lemma op_trace:
  assumes "wf q" "run_op mq now op q = (Inr ms, q')"
  shows "wf q' \<and> (\<exists>es. life_steps max_delivery (state q, body_of q) es (state q', body_of q') \<and> deliveries_of es = ms)"
proof (cases op)
  case (Publish b)
  with assms(2) have "mq_publish mq now b q = (Inr (), q')" "ms = []" by (simp_all add: prog_Inr)
  from publish [OF assms(1) this(1)] obtain h where "wf q'" "state q h = None"
    "state q' = (state q)(h \<mapsto> Available 0)" "body_of q' = (body_of q)(h \<mapsto> b)" by blast
  with \<open>ms = []\<close> show ?thesis
    by (intro conjI exI [of _ "[Published h b]"]) (simp_all add: life_steps_one publishes)
next
  case (Receive n t)
  with assms(2) have "mq_receive mq now n t q = (Inr ms, q')" by simp
  from receive_trace [OF assms(1) this] receive_wf [OF assms(1) this] show ?thesis
    using deliveries_of_delivered by blast
next
  case (Complete m)
  with assms(2) have "mq_complete mq now m q = (Inr (), q')" and ms: "ms = []" by (simp_all add: prog_Inr)
  note c = complete [OF assms(1) this(1)]
  have "\<exists>es. life_steps max_delivery (state q, body_of q) es (state q', body_of q) \<and> deliveries_of es = []"
    by (rule settle_trace [OF c [THEN conjunct2, THEN conjunct2]])
      (rule exI [of _ "Finished (ms_handle m)"], simp add: finishes)
  with c ms show ?thesis by simp
next
  case (Abandon m)
  with assms(2) have "mq_abandon mq now m q = (Inr (), q')" and ms: "ms = []" by (simp_all add: prog_Inr)
  note c = abandon [OF assms(1) this(1)]
  have "\<exists>es. life_steps max_delivery (state q, body_of q) es (state q', body_of q) \<and> deliveries_of es = []"
  proof (rule settle_trace [OF c [THEN conjunct2, THEN conjunct2]])
    fix s assume s: "state q (ms_handle m) = Some s"
    show "\<exists>e. life_step max_delivery (state q, body_of q) e ((state q)(ms_handle m \<mapsto>
        if max_delivery \<le> deliveries s then Dead (deliveries s) else Available (deliveries s)), body_of q) \<and>
      deliveries_of [e] = []"
      using buries [of "state q" "ms_handle m" s] returns [of "state q" "ms_handle m" s] s
      by (cases "max_delivery \<le> deliveries s") (force simp: not_le)+
  qed
  with c ms show ?thesis by simp
next
  case (DeadLetter m r)
  with assms(2) have "mq_dead_letter mq now m r q = (Inr (), q')" and ms: "ms = []" by (simp_all add: prog_Inr)
  note c = dead_letter [OF assms(1) this(1)]
  have "\<exists>es. life_steps max_delivery (state q, body_of q) es (state q', body_of q) \<and> deliveries_of es = []"
    by (rule settle_trace [OF c [THEN conjunct2, THEN conjunct2]])
      (rule exI [of _ "Buried (ms_handle m)"], simp add: buries)
  with c ms show ?thesis by simp
qed

lemma ops_trace:
  assumes "wf q" "run_ops mq ops q = (Inr ms, q')"
  shows "wf q' \<and> (\<exists>es. life_steps max_delivery (state q, body_of q) es (state q', body_of q') \<and> deliveries_of es = ms)"
  using assms
proof (induction ops arbitrary: q ms)
  case (Cons p ops)
  obtain now op where "p = (now, op)" by (cases p)
  with Cons.prems(2) obtain ms1 q1 ms2 where o: "run_op mq now op q = (Inr ms1, q1)"
    "run_ops mq ops q1 = (Inr ms2, q')" "ms = ms1 @ ms2"
    by (auto split: prod.splits sum.splits)
  from op_trace [OF Cons.prems(1) o(1)] obtain es1 where
    "wf q1" "life_steps max_delivery (state q, body_of q) es1 (state q1, body_of q1)" "deliveries_of es1 = ms1"
    by blast
  moreover from Cons.IH [OF this(1) o(2)] obtain es2 where
    "wf q'" "life_steps max_delivery (state q1, body_of q1) es2 (state q', body_of q')" "deliveries_of es2 = ms2"
    by blast
  ultimately show ?case
    using o(3) life_steps_append
    by (intro conjI exI [of _ "es1 @ es2"]) (auto simp: deliveries_of_append)
qed auto

end

section \<open>The local queue\<close>

lemma local_ops_return: "\<exists>ms rows'. run_ops (LocalQueue lq) ops rows = (Inr ms, rows')"
proof (induction ops arbitrary: rows)
  case (Cons p ops)
  obtain now op where p: "p = (now, op)" by (cases p)
  have "\<exists>ms rows'. run_op (LocalQueue lq) now op rows = (Inr ms, rows')"
    by (cases op) (simp_all add: LocalQueue_def no_messages_def lq_publish_def lq_receive_def lq_complete_def
        lq_abandon_def lq_dead_letter_def Let_def)
  then obtain ms1 rows1 where "run_op (LocalQueue lq) now op rows = (Inr ms1, rows1)" by blast
  moreover from Cons.IH [of rows1] obtain ms2 rows2 where "run_ops (LocalQueue lq) ops rows1 = (Inr ms2, rows2)" by blast
  ultimately show ?case by (simp add: p)
qed simp

text \<open>C17 (refinement).
  The local queue implements the message life cycle: any sequence of operations of any client, from
  any well-formed table, returns, and what it does to the table is a run of the abstract machine in
  which a message is delivered only from \<^verbatim>\<open>available\<close>, its delivery count grows by one with each
  delivery, and it goes back to \<^verbatim>\<open>available\<close> only below the limit. The messages the client is
  handed are the machine's deliveries, in order.\<close>

theorem local_queue_refines_lifecycle:
  assumes "table_ok rows"
  shows "\<exists>ms rows' es. run_ops (LocalQueue lq) ops rows = (Inr ms, rows') \<and> table_ok rows' \<and>
    life_steps (lq_max_delivery lq) (lq_state rows, lq_body rows) es (lq_state rows', lq_body rows') \<and>
    deliveries_of es = ms"
proof -
  obtain ms rows' where run: "run_ops (LocalQueue lq) ops rows = (Inr ms, rows')"
    using local_ops_return by blast
  from lq.ops_trace [OF assms run] run show ?thesis by blast
qed

text \<open>Two messages; one is abandoned and delivered again.\<close>

theorem local_queue_refines_lifecycle_witness:
  "\<exists>ms rows' es. run_ops (LocalQueue \<lparr>lq_queue = ''q'', lq_max_delivery = 2\<rparr>)
      [(0, Publish []), (1, Receive 1 30), (2, Abandon \<lparr>ms_body = [], ms_delivery_count = 1, ms_handle = 1\<rparr>),
       (3, Receive 5 30)] [] = (Inr ms, rows') \<and>
    life_steps 2 (Map.empty, Map.empty) es (lq_state rows', lq_body rows') \<and>
    deliveries_of es = ms \<and> map ms_delivery_count ms = [1, 2]"
proof -
  let ?lq = "\<lparr>lq_queue = ''q'', lq_max_delivery = 2\<rparr>"
  let ?ops = "[(0, Publish []), (1, Receive 1 30),
    (2, Abandon \<lparr>ms_body = [], ms_delivery_count = 1, ms_handle = 1\<rparr>), (3, Receive 5 30)]"
  have empty: "table_ok []" "lq_state [] = Map.empty" "lq_body [] = Map.empty"
    by (auto simp: table_ok_def lq_state_def lq_body_def row_of_def)
  have "\<exists>ms rows'. run_ops (LocalQueue ?lq) ?ops [] = (Inr ms, rows') \<and> map ms_delivery_count ms = [1, 2]"
    by (simp add: LocalQueue_def no_messages_def lq_publish_def lq_receive_def lq_abandon_def eligible_def
        claim_row_def row_message_def update_row_def seconds_def)
  then show ?thesis
    using local_queue_refines_lifecycle [OF empty(1), of ?lq ?ops] by (auto simp: empty)
qed

end
