(* ===== verification/AuditDb.thy ===== *)
theory AuditDb
  imports PyValues
begin

text \<open>
  \<^verbatim>\<open>packages/audit\<close>: the tables (\<^verbatim>\<open>models.py\<close>), the transactional session
  (\<^verbatim>\<open>db.py\<close>) and the repository, the only writer (\<^verbatim>\<open>repository.py\<close>).

  A session is a snapshot of the database with the list of the writes it has pending, in the
  order they were made; its own reads see them. Committing checks each write against the
  database as it is \<^emph>\<open>then\<close> (primary keys, the unique \<^verbatim>\<open>request_id\<close>, and on PostgreSQL
  the column widths), and either applies all of them or none.
\<close>

section \<open>Rows (\<^verbatim>\<open>models.py\<close>)\<close>

record audit_event =
  ev_trace_id :: string
  ev_request_id :: string
  ev_event_type :: string
  ev_user_id :: string
  ev_agent_id :: string
  ev_role :: string
  ev_tool_name :: string
  ev_decision :: string
  ev_detail :: pydict
  ev_created_at :: instant

record tool_call =
  tc_trace_id :: string
  tc_request_id :: string
  tc_user_id :: string
  tc_agent_id :: string
  tc_role :: string
  tc_tool_name :: string
  tc_input_hash :: string
  tc_redaction_status :: string
  tc_decision :: string
  tc_error_code :: "string option"
  tc_latency_ms :: pyfloat
  tc_created_at :: instant

record tool_policy =
  tp_tool_name :: string
  tp_description :: string
  tp_required_roles :: "string list"
  tp_classification :: string
  tp_execution_mode :: string
  tp_pii_classification :: string
  tp_dry_run_required :: bool
  tp_enabled :: bool
  tp_updated_at :: instant

record async_job =
  aj_job_id :: string
  aj_trace_id :: string
  aj_request_id :: string
  aj_tool_name :: string
  aj_idempotency_key :: string
  aj_user_id :: string
  aj_agent_id :: string
  aj_role :: string
  aj_payload :: pydict
  aj_status :: string
  aj_attempts :: nat
  aj_result :: "pydict option"
  aj_error_code :: "string option"
  aj_error_detail :: "string option"
  aj_created_at :: instant
  aj_updated_at :: instant

record approval =
  ap_approval_id :: string
  ap_tool_name :: string
  ap_resource_id :: string
  ap_proposed_change :: pyval
  ap_requested_by_agent :: string
  ap_requested_by_role :: string
  ap_status :: string
  ap_approved_by :: "string option"
  ap_created_at :: instant
  ap_updated_at :: instant

record idempotency_row =
  ik_key :: string
  ik_tool_name :: string
  ik_job_id :: "string option"
  ik_input_hash :: string
  ik_status :: string
  ik_result :: "pydict option"
  ik_created_at :: instant

text \<open>
  Events and calls are kept in insertion order (their \<^verbatim>\<open>id\<close> is the position); the other
  tables are indexed by their primary key.
\<close>

record db =
  db_events :: "audit_event list"
  db_calls :: "tool_call list"
  db_policies :: "string \<rightharpoonup> tool_policy"
  db_jobs :: "string \<rightharpoonup> async_job"
  db_approvals :: "string \<rightharpoonup> approval"
  db_keys :: "string \<rightharpoonup> idempotency_row"

text \<open>\<^verbatim>\<open>create_all\<close> on a fresh database: all tables empty.\<close>

definition empty_db :: db where
  "empty_db = \<lparr>db_events = [], db_calls = [], db_policies = Map.empty, db_jobs = Map.empty,
     db_approvals = Map.empty, db_keys = Map.empty\<rparr>"

section \<open>Sessions (\<^verbatim>\<open>db.py\<close>)\<close>

datatype db_engine = SQLite | Postgres

text \<open>\<^verbatim>\<open>get_engine\<close> tells the two apart by the URL.\<close>

definition engine_of_url :: "string \<Rightarrow> db_engine" where
  "engine_of_url url = (if take 6 url = ''sqlite'' then SQLite else Postgres)"

datatype db_write =
    AddEvent audit_event
  | AddCall tool_call
  | AddPolicy tool_policy
  | UpdatePolicy tool_policy
  | AddJob async_job
  | UpdateJob string string "pydict option" "string option" "string option" "nat option" instant
  | AddApproval approval
  | UpdateApproval string string string instant
  | AddKey idempotency_row
  | CompleteKey string pydict

definition upd_or :: "'a option \<Rightarrow> 'a option \<Rightarrow> 'a option" where
  "upd_or new old = (case new of None \<Rightarrow> old | Some x \<Rightarrow> Some x)"

definition update_job ::
  "string \<Rightarrow> pydict option \<Rightarrow> string option \<Rightarrow> string option \<Rightarrow> nat option \<Rightarrow> instant \<Rightarrow>
   async_job \<Rightarrow> async_job" where
  "update_job status result code detail attempts now j =
     j\<lparr>aj_status := status,
       aj_result := upd_or result (aj_result j),
       aj_error_code := upd_or code (aj_error_code j),
       aj_error_detail := upd_or detail (aj_error_detail j),
       aj_attempts := (case attempts of None \<Rightarrow> aj_attempts j | Some n \<Rightarrow> n),
       aj_updated_at := now\<rparr>"

fun apply_write :: "db_write \<Rightarrow> db \<Rightarrow> db" where
  "apply_write (AddEvent e) d = d\<lparr>db_events := db_events d @ [e]\<rparr>"
| "apply_write (AddCall c) d = d\<lparr>db_calls := db_calls d @ [c]\<rparr>"
| "apply_write (AddPolicy p) d = d\<lparr>db_policies := (db_policies d)(tp_tool_name p \<mapsto> p)\<rparr>"
| "apply_write (UpdatePolicy p) d = d\<lparr>db_policies := (db_policies d)(tp_tool_name p \<mapsto> p)\<rparr>"
| "apply_write (AddJob j) d = d\<lparr>db_jobs := (db_jobs d)(aj_job_id j \<mapsto> j)\<rparr>"
| "apply_write (UpdateJob k st res code det att now) d =
     d\<lparr>db_jobs := (db_jobs d)(k := map_option (update_job st res code det att now) (db_jobs d k))\<rparr>"
| "apply_write (AddApproval a) d = d\<lparr>db_approvals := (db_approvals d)(ap_approval_id a \<mapsto> a)\<rparr>"
| "apply_write (UpdateApproval k st by now) d =
     d\<lparr>db_approvals := (db_approvals d)(k := map_option
        (\<lambda>a. a\<lparr>ap_status := st, ap_approved_by := Some by, ap_updated_at := now\<rparr>)
        (db_approvals d k))\<rparr>"
| "apply_write (AddKey r) d = d\<lparr>db_keys := (db_keys d)(ik_key r \<mapsto> r)\<rparr>"
| "apply_write (CompleteKey k res) d =
     d\<lparr>db_keys := (db_keys d)(k := map_option
        (\<lambda>r. r\<lparr>ik_status := ''completed'', ik_result := Some res\<rparr>) (db_keys d k))\<rparr>"

text \<open>The constraints an insert can break: primary keys and the unique request id.\<close>

fun conflicts :: "db_write \<Rightarrow> db \<Rightarrow> bool" where
  "conflicts (AddCall c) d = (tc_request_id c \<in> tc_request_id ` set (db_calls d))"
| "conflicts (AddPolicy p) d = (db_policies d (tp_tool_name p) \<noteq> None)"
| "conflicts (AddJob j) d = (db_jobs d (aj_job_id j) \<noteq> None)"
| "conflicts (AddApproval a) d = (db_approvals d (ap_approval_id a) \<noteq> None)"
| "conflicts (AddKey r) d = (db_keys d (ik_key r) \<noteq> None)"
| "conflicts _ d = False"

text \<open>The declared column widths (\<^verbatim>\<open>String(n)\<close>), which PostgreSQL enforces and SQLite ignores.\<close>

definition fits :: "nat \<Rightarrow> string \<Rightarrow> bool" where
  "fits n s \<longleftrightarrow> length s \<le> n"

definition fits_opt :: "nat \<Rightarrow> string option \<Rightarrow> bool" where
  "fits_opt n s = (case s of None \<Rightarrow> True | Some t \<Rightarrow> fits n t)"

fun row_fits :: "db_write \<Rightarrow> bool" where
  "row_fits (AddEvent e) =
     (fits 64 (ev_trace_id e) \<and> fits 64 (ev_request_id e) \<and> fits 64 (ev_event_type e)
      \<and> fits 128 (ev_user_id e) \<and> fits 128 (ev_agent_id e) \<and> fits 64 (ev_role e)
      \<and> fits 128 (ev_tool_name e) \<and> fits 32 (ev_decision e))"
| "row_fits (AddCall c) =
     (fits 64 (tc_trace_id c) \<and> fits 64 (tc_request_id c) \<and> fits 128 (tc_user_id c)
      \<and> fits 128 (tc_agent_id c) \<and> fits 64 (tc_role c) \<and> fits 128 (tc_tool_name c)
      \<and> fits 64 (tc_input_hash c) \<and> fits 32 (tc_redaction_status c) \<and> fits 32 (tc_decision c)
      \<and> fits_opt 64 (tc_error_code c))"
| "row_fits (AddPolicy p) =
     (fits 128 (tp_tool_name p) \<and> fits 32 (tp_classification p) \<and> fits 16 (tp_execution_mode p)
      \<and> fits 32 (tp_pii_classification p))"
| "row_fits (UpdatePolicy p) =
     (fits 32 (tp_classification p) \<and> fits 16 (tp_execution_mode p)
      \<and> fits 32 (tp_pii_classification p))"
| "row_fits (AddJob j) =
     (fits 64 (aj_job_id j) \<and> fits 64 (aj_trace_id j) \<and> fits 64 (aj_request_id j)
      \<and> fits 128 (aj_tool_name j) \<and> fits 96 (aj_idempotency_key j) \<and> fits 128 (aj_user_id j)
      \<and> fits 128 (aj_agent_id j) \<and> fits 64 (aj_role j) \<and> fits 32 (aj_status j)
      \<and> fits_opt 64 (aj_error_code j))"
| "row_fits (UpdateJob k st res code det att now) = (fits 32 st \<and> fits_opt 64 code)"
| "row_fits (AddApproval a) =
     (fits 64 (ap_approval_id a) \<and> fits 128 (ap_tool_name a) \<and> fits 128 (ap_resource_id a)
      \<and> fits 128 (ap_requested_by_agent a) \<and> fits 64 (ap_requested_by_role a)
      \<and> fits 32 (ap_status a) \<and> fits_opt 128 (ap_approved_by a))"
| "row_fits (UpdateApproval k st by now) = (fits 32 st \<and> fits 128 by)"
| "row_fits (AddKey r) =
     (fits 96 (ik_key r) \<and> fits 128 (ik_tool_name r) \<and> fits_opt 64 (ik_job_id r)
      \<and> fits 64 (ik_input_hash r) \<and> fits 32 (ik_status r))"
| "row_fits (CompleteKey k res) = True"

fun commit :: "db_engine \<Rightarrow> db_write list \<Rightarrow> db \<Rightarrow> db res" where
  "commit eng [] d = Inr d"
| "commit eng (w # ws) d =
     (if conflicts w d then Inl (IntegrityError ''unique constraint failed'')
      else if eng = Postgres \<and> \<not> row_fits w
      then Inl (PyExn ''DataError'' ''value too long for type character varying'')
      else commit eng ws (apply_write w d))"

record session =
  se_snap :: db
  se_log :: "db_write list"
  se_now :: instant

definition open_session :: "instant \<Rightarrow> db \<Rightarrow> session" where
  "open_session now d = \<lparr>se_snap = d, se_log = [], se_now = now\<rparr>"

definition se_view :: "session \<Rightarrow> db" where
  "se_view s = fold apply_write (se_log s) (se_snap s)"

definition se_add :: "db_write \<Rightarrow> session \<Rightarrow> session" where
  "se_add w s = s\<lparr>se_log := se_log s @ [w]\<rparr>"

text \<open>
  \<^verbatim>\<open>session_scope\<close>: run the body, commit when it returns, roll back when it or the commit
  raises. The body may also act on a second state (the message queue, which commits on its
  own); that state keeps what was done to it in every case.
\<close>

definition session_scope ::
  "db_engine \<Rightarrow> instant \<Rightarrow> (session \<times> 'q, 'a) prog \<Rightarrow> (db \<times> 'q, 'a) prog" where
  "session_scope eng now body dq =
     (case body (open_session now (fst dq), snd dq) of
        (Inl e, (s, q)) \<Rightarrow> (Inl e, (fst dq, q))
      | (Inr x, (s, q)) \<Rightarrow>
          (case commit eng (se_log s) (fst dq) of
             Inl e \<Rightarrow> (Inl e, (fst dq, q))
           | Inr d \<Rightarrow> (Inr x, (d, q))))"

section \<open>The repository (\<^verbatim>\<open>repository.py\<close>)\<close>

text \<open>The defaults of \<^verbatim>\<open>record_event\<close>'s keyword arguments.\<close>

definition blank_event :: audit_event where
  "blank_event = \<lparr>ev_trace_id = '''', ev_request_id = '''', ev_event_type = '''', ev_user_id = '''',
     ev_agent_id = '''', ev_role = '''', ev_tool_name = '''', ev_decision = '''', ev_detail = [],
     ev_created_at = 0\<rparr>"

definition record_event :: "audit_event \<Rightarrow> session \<Rightarrow> session" where
  "record_event ev s = se_add (AddEvent (ev\<lparr>ev_created_at := se_now s\<rparr>)) s"

definition record_tool_call :: "tool_call \<Rightarrow> session \<Rightarrow> session" where
  "record_tool_call c s = se_add (AddCall (c\<lparr>tc_created_at := se_now s\<rparr>)) s"

definition upsert_policy :: "tool_policy \<Rightarrow> session \<Rightarrow> session" where
  "upsert_policy p s =
     (let p' = p\<lparr>tp_updated_at := se_now s\<rparr> in
      case db_policies (se_view s) (tp_tool_name p) of
        None \<Rightarrow> se_add (AddPolicy p') s
      | Some _ \<Rightarrow> se_add (UpdatePolicy p') s)"

definition create_job :: "async_job \<Rightarrow> session \<Rightarrow> session" where
  "create_job j s = se_add (AddJob (j\<lparr>aj_created_at := se_now s, aj_updated_at := se_now s\<rparr>)) s"

definition get_job :: "string \<Rightarrow> session \<Rightarrow> async_job option" where
  "get_job k s = db_jobs (se_view s) k"

text \<open>An absent id (\<^verbatim>\<open>None\<close>) finds no row.\<close>

definition set_job_status ::
  "string option \<Rightarrow> string \<Rightarrow> pydict option \<Rightarrow> string option \<Rightarrow> string option \<Rightarrow> nat option \<Rightarrow>
   session \<Rightarrow> session" where
  "set_job_status job_id status result error_code error_detail attempts s =
     (case job_id of
        None \<Rightarrow> s
      | Some k \<Rightarrow>
          (case get_job k s of
             None \<Rightarrow> s
           | Some _ \<Rightarrow>
               se_add (UpdateJob k status result error_code error_detail attempts (se_now s)) s))"

definition get_idempotency :: "string \<Rightarrow> session \<Rightarrow> idempotency_row option" where
  "get_idempotency k s = db_keys (se_view s) k"

definition reserve_idempotency ::
  "string \<Rightarrow> string \<Rightarrow> string \<Rightarrow> string option \<Rightarrow> session \<Rightarrow> unit res \<times> session" where
  "reserve_idempotency key tool_name input_hash job_id s =
     (case get_idempotency key s of
        Some _ \<Rightarrow> (Inl (IdempotencyConflict key), s)
      | None \<Rightarrow>
          (Inr (), se_add (AddKey \<lparr>ik_key = key, ik_tool_name = tool_name, ik_job_id = job_id,
             ik_input_hash = input_hash, ik_status = ''reserved'', ik_result = None,
             ik_created_at = se_now s\<rparr>) s))"

definition complete_idempotency :: "string \<Rightarrow> pydict \<Rightarrow> session \<Rightarrow> session" where
  "complete_idempotency key result s =
     (case get_idempotency key s of
        None \<Rightarrow> s
      | Some _ \<Rightarrow> se_add (CompleteKey key result) s)"

definition create_approval :: "approval \<Rightarrow> session \<Rightarrow> session" where
  "create_approval a s =
     se_add (AddApproval (a\<lparr>ap_created_at := se_now s, ap_updated_at := se_now s\<rparr>)) s"

definition get_approval :: "string \<Rightarrow> session \<Rightarrow> approval option" where
  "get_approval k s = db_approvals (se_view s) k"

text \<open>
  \<^verbatim>\<open>order_by(id.desc()).limit(limit)\<close>. A negative limit is no limit for SQLite, and an error
  for PostgreSQL.
\<close>

definition limit_rows :: "db_engine \<Rightarrow> int \<Rightarrow> 'a list \<Rightarrow> 'a list res" where
  "limit_rows eng lim rows =
     (if 0 \<le> lim then Inr (take (nat lim) rows)
      else if eng = SQLite then Inr rows
      else Inl (PyExn ''DataError'' ''LIMIT must not be negative''))"

definition recent_tool_calls :: "db_engine \<Rightarrow> int \<Rightarrow> session \<Rightarrow> tool_call list res" where
  "recent_tool_calls eng lim s = limit_rows eng lim (rev (db_calls (se_view s)))"

definition recent_events :: "db_engine \<Rightarrow> int \<Rightarrow> session \<Rightarrow> audit_event list res" where
  "recent_events eng lim s = limit_rows eng lim (rev (db_events (se_view s)))"

section \<open>What the session and the commit guarantee\<close>

lemma se_view_open [simp]: "se_view (open_session now d) = d"
  by (simp add: se_view_def open_session_def)

lemma se_view_add [simp]: "se_view (se_add w s) = apply_write w (se_view s)"
  by (simp add: se_view_def se_add_def)

lemma se_now_add [simp]: "se_now (se_add w s) = se_now s"
  by (simp add: se_add_def)

lemma se_now_open [simp]: "se_now (open_session now d) = now"
  by (simp add: open_session_def)

lemma se_log_add [simp]: "se_log (se_add w s) = se_log s @ [w]"
  by (simp add: se_add_def)

lemma se_log_open [simp]: "se_log (open_session now d) = []"
  by (simp add: open_session_def)

lemma se_snap_add [simp]: "se_snap (se_add w s) = se_snap s"
  by (simp add: se_add_def)

lemma se_snap_open [simp]: "se_snap (open_session now d) = d"
  by (simp add: open_session_def)

text \<open>A commit that succeeds applies the whole log.\<close>

lemma commit_InrD: "commit eng ws d = Inr d' \<Longrightarrow> d' = fold apply_write ws d"
  by (induction ws arbitrary: d) (auto split: if_splits)

lemma commit_append:
  "commit eng (ws @ vs) d = bind_res (commit eng ws d) (commit eng vs)"
  by (induction ws arbitrary: d) simp_all

text \<open>In a database nobody else writes, a successful scope leaves exactly what its session saw.\<close>

lemma session_scope_Inr:
  assumes "session_scope eng now body (d, q) = (Inr x, (d', q'))"
  shows "\<exists>s. body (open_session now d, q) = (Inr x, (s, q')) \<and>
    commit eng (se_log s) d = Inr d' \<and> d' = fold apply_write (se_log s) d"
  using assms by (auto simp: session_scope_def split: prod.splits sum.splits dest: commit_InrD)

text \<open>Nothing is ever removed: the audit tables only grow at the end, keyed rows stay.\<close>

definition extends :: "db \<Rightarrow> db \<Rightarrow> bool" where
  "extends d d' \<longleftrightarrow>
     (\<exists>es. db_events d' = db_events d @ es) \<and> (\<exists>cs. db_calls d' = db_calls d @ cs) \<and>
     dom (db_policies d) \<subseteq> dom (db_policies d') \<and> dom (db_jobs d) \<subseteq> dom (db_jobs d') \<and>
     dom (db_approvals d) \<subseteq> dom (db_approvals d') \<and> dom (db_keys d) \<subseteq> dom (db_keys d')"

lemma extends_refl [simp]: "extends d d"
  by (simp add: extends_def)

lemma extends_trans: "extends a b \<Longrightarrow> extends b c \<Longrightarrow> extends a c"
  unfolding extends_def by (metis append.assoc order_trans)

lemma apply_write_extends: "extends d (apply_write w d)"
  by (cases w) (auto simp: extends_def)

lemma fold_apply_write_extends: "extends d (fold apply_write ws d)"
proof (induction ws arbitrary: d)
  case (Cons w ws)
  show ?case
    using extends_trans [OF apply_write_extends Cons.IH] by simp
qed simp

lemma commit_extends: "commit eng ws d = Inr d' \<Longrightarrow> extends d d'"
  using commit_InrD fold_apply_write_extends by metis

text \<open>The keyed tables are filed under their primary keys.\<close>

definition db_keyed :: "db \<Rightarrow> bool" where
  "db_keyed d \<longleftrightarrow>
     (\<forall>k p. db_policies d k = Some p \<longrightarrow> tp_tool_name p = k) \<and>
     (\<forall>k j. db_jobs d k = Some j \<longrightarrow> aj_job_id j = k) \<and>
     (\<forall>k a. db_approvals d k = Some a \<longrightarrow> ap_approval_id a = k) \<and>
     (\<forall>k r. db_keys d k = Some r \<longrightarrow> ik_key r = k)"

lemma db_keyed_empty [simp]: "db_keyed empty_db"
  by (simp add: db_keyed_def empty_db_def)

lemma apply_write_keyed: "db_keyed d \<Longrightarrow> db_keyed (apply_write w d)"
  by (cases w) (auto simp: db_keyed_def update_job_def)

lemma fold_apply_write_keyed: "db_keyed d \<Longrightarrow> db_keyed (fold apply_write ws d)"
  by (induction ws arbitrary: d) (simp_all add: apply_write_keyed)

lemma db_keyed_approval: "db_keyed d \<Longrightarrow> db_approvals d k = Some a \<Longrightarrow> ap_approval_id a = k"
  by (simp add: db_keyed_def)

text \<open>All or nothing: the two outcomes of a scope.\<close>

lemma session_scope_cases:
  obtains (failed) e q' where "session_scope eng now body (d, q) = (Inl e, (d, q'))"
  | (ok) x s q' where "session_scope eng now body (d, q) = (Inr x, (fold apply_write (se_log s) d, q'))"
      "body (open_session now d, q) = (Inr x, (s, q'))" "commit eng (se_log s) d = Inr (fold apply_write (se_log s) d)"
proof -
  obtain r s q' where body: "body (open_session now d, q) = (r, (s, q'))"
    by (metis prod.exhaust)
  show ?thesis
  proof (cases r)
    case (Inl e)
    with body failed [of e q'] show ?thesis by (simp add: session_scope_def)
  next
    case (Inr x)
    show ?thesis
    proof (cases "commit eng (se_log s) d")
      case (Inl e)
      with body \<open>r = Inr x\<close> failed [of e q'] show ?thesis by (simp add: session_scope_def)
    next
      case c: (Inr d')
      then have "d' = fold apply_write (se_log s) d" by (rule commit_InrD)
      with body \<open>r = Inr x\<close> c ok [of x s q'] show ?thesis by (simp add: session_scope_def)
    qed
  qed
qed

lemma session_scope_extends:
  "session_scope eng now body (d, q) = (r, (d', q')) \<Longrightarrow> extends d d'"
  by (rule session_scope_cases [of eng now body d q]) (auto intro: fold_apply_write_extends)

text \<open>The columns \<^verbatim>\<open>set_job_status\<close> writes, and the ones it leaves.\<close>

lemma update_job_fields [simp]:
  "aj_status (update_job st res code det att now j) = st"
  "aj_job_id (update_job st res code det att now j) = aj_job_id j"
  "aj_idempotency_key (update_job st res code det att now j) = aj_idempotency_key j"
  "aj_tool_name (update_job st res code det att now j) = aj_tool_name j"
  "aj_payload (update_job st res code det att now j) = aj_payload j"
  "aj_role (update_job st res code det att now j) = aj_role j"
  "aj_result (update_job st (Some r) code det att now j) = Some r"
  "aj_result (update_job st None code det att now j) = aj_result j"
  "aj_attempts (update_job st res code det (Some n) now j) = n"
  "aj_attempts (update_job st res code det None now j) = aj_attempts j"
  "aj_error_code (update_job st res None det att now j) = aj_error_code j"
  "aj_error_code (update_job st res (Some c) det att now j) = Some c"
  by (simp_all add: update_job_def upd_or_def)

lemma commit_single_update [simp]:
  "commit eng [UpdateJob k st res code det att now] d =
     (if eng = Postgres \<and> \<not> row_fits (UpdateJob k st res code det att now)
      then Inl (PyExn ''DataError'' ''value too long for type character varying'')
      else Inr (apply_write (UpdateJob k st res code det att now) d))"
  by simp

end
