(* ===== verification/Worker.thy ===== *)
theory Worker
  imports Tools AuditDb ServiceBus
begin

text \<open>
  \<^verbatim>\<open>apps/worker/worker.py\<close>: the asynchronous executor of queued jobs. Its state is the
  database together with the queue; each \<^verbatim>\<open>with session_scope\<close> is one transaction, and every
  queue operation takes effect on its own. An exception that no clause catches ends the poll.

  The instants at which the steps of one message happen are the function \<open>clk\<close>. Identifiers
  in a message body are text, as the gateway publishes them; anything else counts as absent.
\<close>

section \<open>Programs\<close>

definition bind_prog :: "('s, 'a) prog \<Rightarrow> ('a \<Rightarrow> ('s, 'b) prog) \<Rightarrow> ('s, 'b) prog" where
  "bind_prog p f s = (case p s of (Inl e, s') \<Rightarrow> (Inl e, s') | (Inr x, s') \<Rightarrow> f x s')"

text \<open>A queue operation acts on the second component.\<close>

definition on_queue :: "('q, 'a) prog \<Rightarrow> ('d \<times> 'q, 'a) prog" where
  "on_queue op dq = (case op (snd dq) of (r, q') \<Rightarrow> (r, (fst dq, q')))"

text \<open>A repository action in a session.\<close>

definition repo :: "(session \<Rightarrow> session) \<Rightarrow> (session \<times> 'q, unit) prog" where
  "repo f st = (Inr (), (f (fst st), snd st))"

section \<open>The worker\<close>

record 'q worker =
  wk_settings :: settings
  wk_registry :: tool_registry
  wk_queue :: "'q message_queue"
  wk_tool_ctx :: tool_context
  wk_max_delivery :: nat

definition new_worker :: "settings \<Rightarrow> 'q message_queue \<Rightarrow> 'q worker res" where
  "new_worker s queue =
     bind_res (build_default_registry (is_demo s)) (\<lambda>registry.
     bind_res (build_connector s) (\<lambda>dbx.
       Inr \<lparr>wk_settings = s, wk_registry = registry, wk_queue = queue,
            wk_tool_ctx = \<lparr>cx_settings = s, cx_databricks = dbx\<rparr>,
            wk_max_delivery = st_queue_max_delivery_count s\<rparr>))"

definition wk_scope :: "'q worker \<Rightarrow> instant \<Rightarrow> (session \<times> 'q, 'a) prog \<Rightarrow> (db \<times> 'q, 'a) prog" where
  "wk_scope w now body = session_scope (engine_of_url (st_database_url (wk_settings w))) now body"

text \<open>What the worker reads from a body.\<close>

definition body_text :: "pydict \<Rightarrow> string \<Rightarrow> string" where
  "body_text body k = (case dict_get body k of PStr s \<Rightarrow> s | _ \<Rightarrow> '''')"

definition body_key :: "message \<Rightarrow> string option" where
  "body_key m =
     (case message_idempotency_key m of None \<Rightarrow> None | Some k \<Rightarrow> if k = [] then None else Some k)"

definition job_event :: "message \<Rightarrow> string \<Rightarrow> string \<Rightarrow> pydict \<Rightarrow> audit_event" where
  "job_event m event_type decision detail =
     blank_event\<lparr>ev_trace_id := body_text (ms_body m) ''trace_id'',
       ev_request_id := (case message_job_id m of None \<Rightarrow> '''' | Some j \<Rightarrow> j),
       ev_event_type := event_type, ev_decision := decision,
       ev_tool_name := body_text (ms_body m) ''tool_name'', ev_detail := detail\<rparr>"

text \<open>\<^verbatim>\<open>spec.run(self.tool_ctx, arguments)\<close>.\<close>

definition run_tool :: "tool_context \<Rightarrow> tool_spec \<Rightarrow> pyval \<Rightarrow> tool_result res" where
  "run_tool ctx spec arguments =
     (case arguments of
        PDict args \<Rightarrow> ts_run spec ctx args
      | _ \<Rightarrow> Inl (PyExn ''TypeError'' ''arguments is not a dict''))"

text \<open>\<^verbatim>\<open>getattr(exc, "code", "EXECUTION_ERROR")\<close>.\<close>

definition attr_code :: "py_exn \<Rightarrow> string" where
  "attr_code e =
     (case e of ToolError m c \<Rightarrow> c | AuthError m c \<Rightarrow> c | _ \<Rightarrow> ''EXECUTION_ERROR'')"

section \<open>Failure\<close>

definition failure_status :: "'q worker \<Rightarrow> message \<Rightarrow> string" where
  "failure_status w m = (if wk_max_delivery w \<le> ms_delivery_count m then ''dead_letter'' else ''failed'')"

definition failure_update :: "'q worker \<Rightarrow> message \<Rightarrow> py_exn \<Rightarrow> session \<Rightarrow> session" where
  "failure_update w m e s =
     record_event
       (job_event m
          (if wk_max_delivery w \<le> ms_delivery_count m then ''job.dead_letter'' else ''job.retry'')
          ''failed''
          [(''error_code'', PStr (attr_code e)), (''attempt'', PInt (int (ms_delivery_count m))),
           (''max_delivery'', PInt (int (wk_max_delivery w)))])
       (set_job_status (message_job_id m) (failure_status w m) None (Some (attr_code e))
          (Some (exn_message e)) (Some (ms_delivery_count m)) s)"

definition handle_failure ::
  "'q worker \<Rightarrow> (nat \<Rightarrow> instant) \<Rightarrow> message \<Rightarrow> py_exn \<Rightarrow> (db \<times> 'q, unit) prog" where
  "handle_failure w clk m e =
     bind_prog (wk_scope w (clk 2) (repo (failure_update w m e)))
       (\<lambda>_. on_queue (mq_abandon (wk_queue w) (clk 3) m))"

section \<open>One message\<close>

text \<open>The idempotency guard: the value says whether the message is settled already.\<close>

definition duplicate_guard ::
  "'q worker \<Rightarrow> (nat \<Rightarrow> instant) \<Rightarrow> message \<Rightarrow> (session \<times> 'q, bool) prog" where
  "duplicate_guard w clk m st =
     (case Option.bind (body_key m) (\<lambda>k. get_idempotency k (fst st)) of
        None \<Rightarrow> (Inr False, st)
      | Some idem \<Rightarrow>
          if ik_status idem \<noteq> ''completed'' then (Inr False, st)
          else
            bind_prog
              (repo (\<lambda>s.
                 record_event
                   (job_event m ''job.duplicate_skipped'' ''executed''
                      [(''idempotency_key'', dict_get (ms_body m) ''idempotency_key'')])
                   (set_job_status (message_job_id m) ''succeeded''
                      (Some (case ik_result idem of None \<Rightarrow> [] | Some r \<Rightarrow> r)) None None None s)))
              (\<lambda>_. bind_prog (on_queue (mq_complete (wk_queue w) (clk 1) m)) (\<lambda>_ st'. (Inr True, st')))
              st)"

text \<open>The bodies of the other transactions: marking the job, and its two other ends.\<close>

definition running_update :: "message \<Rightarrow> session \<Rightarrow> session" where
  "running_update m =
     set_job_status (message_job_id m) ''running'' None None None (Some (ms_delivery_count m))"

definition success_update :: "message \<Rightarrow> pydict \<Rightarrow> session \<Rightarrow> session" where
  "success_update m output s =
     record_event
       (job_event m ''job.succeeded'' ''executed'' [(''job_id'', dict_get (ms_body m) ''job_id'')])
       ((case body_key m of None \<Rightarrow> id | Some k \<Rightarrow> complete_idempotency k output)
          (set_job_status (message_job_id m) ''succeeded'' (Some output) None None
             (Some (ms_delivery_count m)) s))"

definition unknown_update :: "message \<Rightarrow> session \<Rightarrow> session" where
  "unknown_update m s =
     record_event
       (job_event m ''job.dead_letter'' ''failed'' [(''reason'', PStr ''unknown_tool'')])
       (set_job_status (message_job_id m) ''dead_letter'' None (Some ''UNKNOWN_TOOL'')
          (Some (''tool '' @ body_text (ms_body m) ''tool_name'' @ '' not registered'')) None s)"

definition settle_success ::
  "'q worker \<Rightarrow> (nat \<Rightarrow> instant) \<Rightarrow> message \<Rightarrow> pydict \<Rightarrow> (db \<times> 'q, unit) prog" where
  "settle_success w clk m output =
     bind_prog (wk_scope w (clk 2) (repo (success_update m output)))
       (\<lambda>_. on_queue (mq_complete (wk_queue w) (clk 3) m))"

definition unknown_tool ::
  "'q worker \<Rightarrow> (nat \<Rightarrow> instant) \<Rightarrow> message \<Rightarrow> (db \<times> 'q, unit) prog" where
  "unknown_tool w clk m =
     bind_prog (wk_scope w (clk 1) (repo (unknown_update m)))
       (\<lambda>_. on_queue (mq_dead_letter (wk_queue w) (clk 2) m ''unknown tool''))"

definition process :: "'q worker \<Rightarrow> (nat \<Rightarrow> instant) \<Rightarrow> message \<Rightarrow> (db \<times> 'q, unit) prog" where
  "process w clk m =
     bind_prog (wk_scope w (clk 0) (duplicate_guard w clk m)) (\<lambda>settled.
       if settled then (\<lambda>dq. (Inr (), dq))
       else
         (case registry_get (wk_registry w) (body_text (ms_body m) ''tool_name'') of
            None \<Rightarrow> unknown_tool w clk m
          | Some spec \<Rightarrow>
              bind_prog
                (wk_scope w (clk 1) (repo (running_update m)))
                (\<lambda>_.
                   case run_tool (wk_tool_ctx w) spec (dict_get_or (ms_body m) ''arguments'' (PDict [])) of
                     Inl e \<Rightarrow> handle_failure w clk m e
                   | Inr result \<Rightarrow> settle_success w clk m (tr_output result))))"

section \<open>Polling\<close>

fun process_all ::
  "'q worker \<Rightarrow> (nat \<Rightarrow> nat \<Rightarrow> instant) \<Rightarrow> message list \<Rightarrow> (db \<times> 'q, unit) prog" where
  "process_all w clk [] = (\<lambda>dq. (Inr (), dq))"
| "process_all w clk (m # ms) =
     bind_prog (process w (clk 0) m) (\<lambda>_. process_all w (\<lambda>i. clk (Suc i)) ms)"

text \<open>The clock of a poll gives the instant of the receive and those of each message.\<close>

record poll_clock =
  pc_receive :: instant
  pc_message :: "nat \<Rightarrow> nat \<Rightarrow> instant"

definition poll_once :: "'q worker \<Rightarrow> poll_clock \<Rightarrow> nat \<Rightarrow> int \<Rightarrow> (db \<times> 'q, nat) prog" where
  "poll_once w clk max_messages visibility_timeout =
     bind_prog (on_queue (mq_receive (wk_queue w) (pc_receive clk) max_messages visibility_timeout))
       (\<lambda>ms. bind_prog (process_all w (pc_message clk) ms) (\<lambda>_ dq. (Inr (length ms), dq)))"

text \<open>
  The service loop. Each element of the list is one round that starts before a stop signal has
  arrived; a poll that raises is logged, and the loop goes on. The result says, per round,
  whether it ended with the idle sleep.
\<close>

fun run_forever :: "'q worker \<Rightarrow> poll_clock list \<Rightarrow> db \<times> 'q \<Rightarrow> bool list \<times> (db \<times> 'q)" where
  "run_forever w [] dq = ([], dq)"
| "run_forever w (clk # clks) dq =
     (let (r, dq') = poll_once w clk 10 30 dq;
          processed = (case r of Inl e \<Rightarrow> 0 | Inr n \<Rightarrow> n);
          (sleeps, dq'') = run_forever w clks dq'
      in ((processed = 0) # sleeps, dq''))"

end
