(* ===== verification/WorkerFacts.thy ===== *)
theory WorkerFacts
  imports Worker
begin

text \<open>
  What one message does to its job, its key and the queue. The worker is a client of the queue
  contract: the locale \<open>worker_on\<close> adds it to the contract, and the worker of the local queue
  interprets it.
\<close>

section \<open>Transactions of the worker\<close>

lemma bind_prog_Inr [prog_Inr]:
  "bind_prog p f s = (Inr y, s'') \<longleftrightarrow> (\<exists>x s'. p s = (Inr x, s') \<and> f x s' = (Inr y, s''))"
  by (auto simp: bind_prog_def split: prod.splits sum.splits)

lemma on_queue_Inr [prog_Inr]:
  "on_queue op (d, q) = (Inr x, (d', q')) \<longleftrightarrow> d' = d \<and> op q = (Inr x, q')"
  by (auto simp: on_queue_def split: prod.splits)

text \<open>The snapshot is the database the session was opened on.\<close>

lemma se_snap_ops [simp]:
  "se_snap (record_event ev s) = se_snap s"
  "se_snap (set_job_status k st r c de att s) = se_snap s"
  "se_snap (complete_idempotency key res s) = se_snap s"
  by (auto simp: record_event_def set_job_status_def complete_idempotency_def split: option.splits)

lemma se_now_ops [simp]:
  "se_now (record_event ev s) = se_now s"
  "se_now (set_job_status k st r c de att s) = se_now s"
  "se_now (complete_idempotency key res s) = se_now s"
  by (auto simp: record_event_def set_job_status_def complete_idempotency_def split: option.splits)

lemma wk_scope_repo:
  assumes "wk_scope w now (repo f) (d, q) = (Inr x, (d', q'))" "se_snap (f (open_session now d)) = d"
  shows "q' = q \<and> d' = se_view (f (open_session now d))"
  using assms
  by (auto simp: wk_scope_def session_scope_def repo_def se_view_def dest: commit_InrD split: sum.splits)

text \<open>What the operations of a session do to the tables it sees.\<close>

definition on_job :: "string option \<Rightarrow> (async_job \<Rightarrow> async_job) \<Rightarrow> (string \<rightharpoonup> async_job) \<Rightarrow> string \<rightharpoonup> async_job" where
  "on_job k g js = (case k of None \<Rightarrow> js | Some j \<Rightarrow> js(j := map_option g (js j)))"

lemma on_job_on_job [simp]: "on_job k g (on_job k h js) = on_job k (g \<circ> h) js"
  by (auto simp: on_job_def option.map_comp split: option.splits)

lemma jobs_after [simp]:
  "db_jobs (se_view (record_event ev s)) = db_jobs (se_view s)"
  "db_jobs (se_view (complete_idempotency key res s)) = db_jobs (se_view s)"
  "db_jobs (se_view (set_job_status k st r c de att s)) =
     on_job k (update_job st r c de att (se_now s)) (db_jobs (se_view s))"
  by (auto simp: record_event_def set_job_status_def complete_idempotency_def get_job_def fun_eq_iff on_job_def
      split: option.splits)

lemma keys_after [simp]:
  "db_keys (se_view (record_event ev s)) = db_keys (se_view s)"
  "db_keys (se_view (set_job_status k st r c de att s)) = db_keys (se_view s)"
  "db_keys (se_view (complete_idempotency key res s)) =
     (db_keys (se_view s))(key := map_option
        (\<lambda>row. row\<lparr>ik_status := ''completed'', ik_result := Some res\<rparr>) (db_keys (se_view s) key))"
  by (auto simp: record_event_def set_job_status_def complete_idempotency_def get_idempotency_def fun_eq_iff
      split: option.splits)

section \<open>The fate of a message\<close>

text \<open>What the worker does with a message, read off the database and the tool.\<close>

datatype fate = Skipped pydict | UnknownTool | Failed py_exn | Succeeded pydict

definition exec_fate :: "'q worker \<Rightarrow> message \<Rightarrow> fate" where
  "exec_fate w m =
     (case registry_get (wk_registry w) (body_text (ms_body m) ''tool_name'') of
        None \<Rightarrow> UnknownTool
      | Some spec \<Rightarrow>
          (case run_tool (wk_tool_ctx w) spec (dict_get_or (ms_body m) ''arguments'' (PDict [])) of
             Inl e \<Rightarrow> Failed e | Inr r \<Rightarrow> Succeeded (tr_output r)))"

definition completed_result :: "db \<Rightarrow> message \<Rightarrow> pydict option" where
  "completed_result d m =
     (case Option.bind (body_key m) (db_keys d) of
        None \<Rightarrow> None
      | Some idem \<Rightarrow>
          if ik_status idem = ''completed''
          then Some (case ik_result idem of None \<Rightarrow> [] | Some r \<Rightarrow> r) else None)"

definition fate_of :: "'q worker \<Rightarrow> db \<Rightarrow> message \<Rightarrow> fate" where
  "fate_of w d m = (case completed_result d m of None \<Rightarrow> exec_fate w m | Some r \<Rightarrow> Skipped r)"

text \<open>The job status and the operation on the message that go with it.\<close>

fun fate_status :: "'q worker \<Rightarrow> message \<Rightarrow> fate \<Rightarrow> string" where
  "fate_status w m (Skipped r) = ''succeeded''"
| "fate_status w m UnknownTool = ''dead_letter''"
| "fate_status w m (Failed e) = failure_status w m"
| "fate_status w m (Succeeded r) = ''succeeded''"

inductive settled_by :: "'q worker \<Rightarrow> (nat \<Rightarrow> instant) \<Rightarrow> message \<Rightarrow> fate \<Rightarrow> 'q \<Rightarrow> 'q \<Rightarrow> bool" for w clk m where
  "mq_complete (wk_queue w) (clk i) m q = (Inr (), q') \<Longrightarrow> settled_by w clk m (Skipped r) q q'"
| "mq_dead_letter (wk_queue w) (clk i) m ''unknown tool'' q = (Inr (), q') \<Longrightarrow> settled_by w clk m UnknownTool q q'"
| "mq_abandon (wk_queue w) (clk i) m q = (Inr (), q') \<Longrightarrow> settled_by w clk m (Failed e) q q'"
| "mq_complete (wk_queue w) (clk i) m q = (Inr (), q') \<Longrightarrow> settled_by w clk m (Succeeded r) q q'"

inductive_cases settled_byE: "settled_by w clk m f q q'"

text \<open>The keys after a message: only a success completes one.\<close>

definition fate_keys :: "message \<Rightarrow> fate \<Rightarrow> (string \<rightharpoonup> idempotency_row) \<Rightarrow> string \<rightharpoonup> idempotency_row" where
  "fate_keys m f ks =
     (case (f, body_key m) of
        (Succeeded r, Some k) \<Rightarrow>
          ks(k := map_option (\<lambda>row. row\<lparr>ik_status := ''completed'', ik_result := Some r\<rparr>) (ks k))
      | _ \<Rightarrow> ks)"

definition job_updated :: "'q worker \<Rightarrow> message \<Rightarrow> fate \<Rightarrow> (string \<rightharpoonup> async_job) \<Rightarrow> (string \<rightharpoonup> async_job) \<Rightarrow> bool" where
  "job_updated w m f js js' \<longleftrightarrow>
     dom js' = dom js \<and>
     (\<forall>j. message_job_id m \<noteq> Some j \<longrightarrow> js' j = js j) \<and>
     (\<forall>j jb jb'. js j = Some jb \<longrightarrow> js' j = Some jb' \<longrightarrow>
        aj_idempotency_key jb' = aj_idempotency_key jb \<and> aj_tool_name jb' = aj_tool_name jb \<and>
        aj_payload jb' = aj_payload jb \<and>
        (message_job_id m = Some j \<longrightarrow> aj_status jb' = fate_status w m f \<and>
           (case f of Skipped r \<Rightarrow> aj_result jb' = Some r | Succeeded r \<Rightarrow> aj_result jb' = Some r
            | Failed e \<Rightarrow> aj_error_code jb' = Some (attr_code e) \<and> aj_attempts jb' = ms_delivery_count m
            | UnknownTool \<Rightarrow> aj_error_code jb' = Some ''UNKNOWN_TOOL'')))"

lemma exec_fate_not_skipped [simp]: "exec_fate w m \<noteq> Skipped r"
  by (simp add: exec_fate_def split: option.splits sum.splits)

lemma guard_scope:
  assumes "wk_scope w now (duplicate_guard w clk m) (d, q) = (Inr settled, (d', q'))"
  obtains (fresh) "\<not> settled" "d' = d" "q' = q" "fate_of w d m = exec_fate w m"
    | (skip) r where "settled" "fate_of w d m = Skipped r"
        "mq_complete (wk_queue w) (clk 1) m q = (Inr (), q')" "db_keys d' = db_keys d"
        "db_jobs d' = on_job (message_job_id m) (update_job ''succeeded'' (Some r) None None None now) (db_jobs d)"
proof (cases "completed_result d m")
  case None
  then have "duplicate_guard w clk m (open_session now d, q) = (Inr False, (open_session now d, q))"
    by (auto simp: completed_result_def duplicate_guard_def get_idempotency_def split: option.splits if_splits)
  with assms have "\<not> settled \<and> d' = d \<and> q' = q"
    by (auto simp: wk_scope_def session_scope_def)
  with None show ?thesis by (intro fresh) (auto simp: fate_of_def)
next
  case (Some r)
  let ?s = "record_event (job_event m ''job.duplicate_skipped'' ''executed''
      [(''idempotency_key'', dict_get (ms_body m) ''idempotency_key'')])
    (set_job_status (message_job_id m) ''succeeded'' (Some r) None None None (open_session now d))"
  have "duplicate_guard w clk m (open_session now d, q) =
      bind_prog (on_queue (mq_complete (wk_queue w) (clk 1) m)) (\<lambda>_ st'. (Inr True, st')) (?s, q)"
    using Some by (auto simp: completed_result_def duplicate_guard_def get_idempotency_def bind_prog_def repo_def
        split: option.splits if_splits)
  then have "settled \<and> mq_complete (wk_queue w) (clk 1) m q = (Inr (), q') \<and> d' = se_view ?s"
    using assms
    by (auto simp: wk_scope_def session_scope_def bind_prog_def on_queue_def se_view_def
        dest: commit_InrD split: sum.splits prod.splits)
  then show ?thesis
    using Some by (intro skip [of r]) (auto simp: fate_of_def)
qed

definition keeps_identity :: "(async_job \<Rightarrow> async_job) \<Rightarrow> bool" where
  "keeps_identity g \<longleftrightarrow> (\<forall>jb. aj_idempotency_key (g jb) = aj_idempotency_key jb \<and>
     aj_tool_name (g jb) = aj_tool_name jb \<and> aj_payload (g jb) = aj_payload jb)"

lemma keeps_identity_update [simp]:
  "keeps_identity (update_job st r c de att now)"
  "keeps_identity g \<Longrightarrow> keeps_identity h \<Longrightarrow> keeps_identity (g \<circ> h)"
  by (simp_all add: keeps_identity_def)

lemma job_updatedI:
  assumes "keeps_identity g" "\<And>jb. aj_status (g jb) = fate_status w m f"
    and "\<And>jb. case f of Skipped r \<Rightarrow> aj_result (g jb) = Some r | Succeeded r \<Rightarrow> aj_result (g jb) = Some r
            | Failed e \<Rightarrow> aj_error_code (g jb) = Some (attr_code e) \<and> aj_attempts (g jb) = ms_delivery_count m
            | UnknownTool \<Rightarrow> aj_error_code (g jb) = Some ''UNKNOWN_TOOL''"
  shows "job_updated w m f js (on_job (message_job_id m) g js)"
  using assms unfolding job_updated_def on_job_def keeps_identity_def
  by (cases f) (auto split: option.splits if_splits)

text \<open>The effect of one message that was processed to the end.\<close>

lemma exec_effect:
  assumes "wk_scope w now (repo (running_update m)) (d, q) = (Inr (), (d1, q1))"
    and "(case r of Inl e \<Rightarrow> handle_failure w clk m e | Inr result \<Rightarrow> settle_success w clk m (tr_output result))
      (d1, q1) = (Inr (), (d', q'))"
  defines "f \<equiv> (case r of Inl e \<Rightarrow> Failed e | Inr result \<Rightarrow> Succeeded (tr_output result))"
  shows "settled_by w clk m f q q' \<and> db_keys d' = fate_keys m f (db_keys d) \<and>
    job_updated w m f (db_jobs d) (db_jobs d')"
proof -
  from wk_scope_repo [OF assms(1)] have q1: "q1 = q"
    and d1: "db_keys d1 = db_keys d" "db_jobs d1 = on_job (message_job_id m)
      (update_job ''running'' None None None (Some (ms_delivery_count m)) now) (db_jobs d)"
    by (simp_all add: running_update_def)
  show ?thesis
  proof (cases r)
    case (Inl e)
    with assms(2) obtain d2 q2 where "mq_abandon (wk_queue w) (clk 3) m q = (Inr (), q')" "db_keys d' = db_keys d1"
      "db_jobs d' = on_job (message_job_id m) (update_job (failure_status w m) None (Some (attr_code e))
         (Some (exn_message e)) (Some (ms_delivery_count m)) (clk 2)) (db_jobs d1)"
      by (auto simp: handle_failure_def failure_update_def prog_Inr q1 dest!: wk_scope_repo)
    with Inl d1 show ?thesis
      by (auto simp: f_def fate_keys_def intro: settled_by.intros intro!: job_updatedI)
  next
    case (Inr result)
    let ?s = "set_job_status (message_job_id m) ''succeeded'' (Some (tr_output result)) None None
      (Some (ms_delivery_count m)) (open_session (clk 2) d1)"
    let ?c = "case body_key m of None \<Rightarrow> id | Some k \<Rightarrow> complete_idempotency k (tr_output result)"
    have "se_snap (?c ?s) = d1" by (simp split: option.split)
    with Inr assms(2) have d': "mq_complete (wk_queue w) (clk 3) m q = (Inr (), q')"
      "db_keys d' = db_keys (se_view (?c ?s))" "db_jobs d' = db_jobs (se_view (?c ?s))"
      by (auto simp: settle_success_def success_update_def prog_Inr q1 dest!: wk_scope_repo)
    then have "db_jobs d' = on_job (message_job_id m) (update_job ''succeeded'' (Some (tr_output result)) None None
         (Some (ms_delivery_count m)) (clk 2)) (db_jobs d1)"
      "db_keys d' = fate_keys m f (db_keys d1)"
      by (auto simp: f_def Inr fate_keys_def split: option.split)
    with Inr d1 d'(1) show ?thesis
      by (simp add: f_def settled_by.intros job_updatedI)
  qed
qed

lemma process_effect:
  assumes "process w clk m (d, q) = (Inr (), (d', q'))"
  defines "f \<equiv> fate_of w d m"
  shows "settled_by w clk m f q q' \<and> db_keys d' = fate_keys m f (db_keys d) \<and>
    job_updated w m f (db_jobs d) (db_jobs d')"
proof -
  let ?exec = "\<lambda>spec. bind_prog
    (wk_scope w (clk 1) (repo (running_update m)))
    (\<lambda>_. case run_tool (wk_tool_ctx w) spec (dict_get_or (ms_body m) ''arguments'' (PDict [])) of
           Inl e \<Rightarrow> handle_failure w clk m e
         | Inr result \<Rightarrow> settle_success w clk m (tr_output result))"
  from assms(1) obtain settled d1 q1 where
    guard: "wk_scope w (clk 0) (duplicate_guard w clk m) (d, q) = (Inr settled, (d1, q1))"
    and rest: "(if settled then (\<lambda>dq. (Inr (), dq))
       else (case registry_get (wk_registry w) (body_text (ms_body m) ''tool_name'') of
            None \<Rightarrow> unknown_tool w clk m | Some spec \<Rightarrow> ?exec spec)) (d1, q1) = (Inr (), (d', q'))"
    unfolding process_def bind_prog_Inr by (metis prod.exhaust)
  from guard show ?thesis
  proof (cases rule: guard_scope)
    case (skip r)
    with rest have "d' = d1" "q' = q1" by auto
    with skip show ?thesis
      by (auto simp: f_def fate_keys_def intro: settled_by.intros intro!: job_updatedI)
  next
    case fresh
    show ?thesis
    proof (cases "registry_get (wk_registry w) (body_text (ms_body m) ''tool_name'')")
      case None
      with fresh rest have "mq_dead_letter (wk_queue w) (clk 2) m ''unknown tool'' q = (Inr (), q')"
        "db_keys d' = db_keys d"
        "\<exists>g. db_jobs d' = on_job (message_job_id m) g (db_jobs d) \<and> keeps_identity g \<and>
          (\<forall>jb. aj_status (g jb) = ''dead_letter'' \<and> aj_error_code (g jb) = Some ''UNKNOWN_TOOL'')"
        by (auto simp: unknown_tool_def unknown_update_def prog_Inr dest!: wk_scope_repo
            intro!: exI [of _ "update_job ''dead_letter'' None (Some ''UNKNOWN_TOOL'') _ None (clk 1)"])
      with None fresh show ?thesis
        by (auto simp: f_def exec_fate_def fate_keys_def intro: settled_by.intros intro!: job_updatedI)
    next
      case (Some spec)
      let ?r = "run_tool (wk_tool_ctx w) spec (dict_get_or (ms_body m) ''arguments'' (PDict []))"
      have "f = (case ?r of Inl e \<Rightarrow> Failed e | Inr result \<Rightarrow> Succeeded (tr_output result))"
        using fresh Some by (simp add: f_def exec_fate_def)
      moreover obtain d2 q2 where "wk_scope w (clk 1) (repo (running_update m)) (d, q) = (Inr (), (d2, q2))"
        "(case ?r of Inl e \<Rightarrow> handle_failure w clk m e | Inr result \<Rightarrow> settle_success w clk m (tr_output result))
           (d2, q2) = (Inr (), (d', q'))"
        using fresh Some rest by (auto simp: prog_Inr)
      ultimately show ?thesis using exec_effect by metis
    qed
  qed
qed

section \<open>The worker as a client of the queue contract\<close>

definition fate_state :: "nat \<Rightarrow> fate \<Rightarrow> nat \<Rightarrow> mstate" where
  "fate_state limit f c =
     (case f of
        Skipped r \<Rightarrow> Completed c
      | Succeeded r \<Rightarrow> Completed c
      | UnknownTool \<Rightarrow> Dead c
      | Failed e \<Rightarrow> if limit \<le> c then Dead c else Available c)"

lemma within_fate_state: "c \<le> n \<Longrightarrow> within n (fate_state n f c)"
  by (cases f) (auto simp: fate_state_def)

locale worker_on = queue_contract mq state body_of wf max_delivery
  for mq :: "'q message_queue" and state :: "'q \<Rightarrow> nat \<Rightarrow> mstate option"
    and body_of :: "'q \<Rightarrow> nat \<Rightarrow> pydict option" and wf :: "'q \<Rightarrow> bool" and max_delivery :: nat +
  fixes w :: "'q worker"
  assumes uses: "wk_queue w = mq" and same_limit: "wk_max_delivery w = max_delivery"
begin

lemma settled_state:
  assumes "settled_by w clk m f q q'" "wf q" "state q (ms_handle m) = Some (Locked c)"
  shows "wf q' \<and> body_of q' = body_of q \<and>
    state q' = (state q)(ms_handle m \<mapsto> fate_state max_delivery f c)"
  using assms(1)
proof (cases rule: settled_by.cases)
  case (1 i)
  with complete [OF assms(2), of "clk i" m q'] assms(3) show ?thesis by (auto simp: uses fate_state_def)
next
  case (2 i)
  with dead_letter [OF assms(2), of "clk i" m "''unknown tool''" q'] assms(3) show ?thesis
    by (auto simp: uses fate_state_def)
next
  case (3 i)
  with abandon [OF assms(2), of "clk i" m q'] assms(3) show ?thesis by (auto simp: uses fate_state_def)
next
  case (4 i)
  with complete [OF assms(2), of "clk i" m q'] assms(3) show ?thesis by (auto simp: uses fate_state_def)
qed

lemma process_state:
  assumes "process w clk m (d, q) = (Inr (), (d', q'))" "wf q"
    and "state q (ms_handle m) = Some (Locked (ms_delivery_count m))"
  shows "wf q' \<and> body_of q' = body_of q \<and>
    state q' = (state q)(ms_handle m \<mapsto> fate_state max_delivery (fate_of w d m) (ms_delivery_count m))"
  using settled_state [OF _ assms(2,3)] process_effect [OF assms(1)] by blast

text \<open>The status of the job and the place of the message tell the same story.\<close>

lemma job_and_message_agree:
  assumes "process w clk m (d, q) = (Inr (), (d', q'))" "wf q"
    and "state q (ms_handle m) = Some (Locked (ms_delivery_count m))"
    and "message_job_id m = Some j" "db_jobs d j \<noteq> None"
  shows "\<exists>jb s. db_jobs d' j = Some jb \<and> state q' (ms_handle m) = Some s \<and>
    deliveries s = ms_delivery_count m \<and>
    (case s of
       Completed c \<Rightarrow> aj_status jb = ''succeeded''
     | Dead c \<Rightarrow> aj_status jb = ''dead_letter''
     | Available c \<Rightarrow> aj_status jb = ''failed'' \<and> c < max_delivery
     | Locked c \<Rightarrow> False)"
proof -
  let ?f = "fate_of w d m"
  have ju: "job_updated w m ?f (db_jobs d) (db_jobs d')" using process_effect [OF assms(1)] by blast
  then have "db_jobs d' j \<noteq> None" using assms(5) by (auto simp: job_updated_def)
  then obtain jb where jb: "db_jobs d' j = Some jb" by blast
  with ju assms(4,5) have "aj_status jb = fate_status w m ?f" unfolding job_updated_def by blast
  with jb process_state [OF assms(1-3)] show ?thesis
    by (cases ?f) (auto simp: fate_state_def failure_status_def same_limit)
qed

text \<open>A batch of locked messages: each is settled once, nothing else moves.\<close>

lemma process_all_state:
  assumes "process_all w clk ms (d, q) = (Inr (), (d', q'))" "wf q" "distinct (map ms_handle ms)"
    and "\<forall>m \<in> set ms. state q (ms_handle m) = Some (Locked (ms_delivery_count m))"
  shows "wf q' \<and> body_of q' = body_of q \<and>
    (\<forall>h. h \<notin> ms_handle ` set ms \<longrightarrow> state q' h = state q h) \<and>
    (\<forall>m \<in> set ms. \<exists>f. state q' (ms_handle m) = Some (fate_state max_delivery f (ms_delivery_count m)))"
  using assms
proof (induction ms arbitrary: clk d q)
  case (Cons m ms)
  then obtain d1 q1 where p: "process w (clk 0) m (d, q) = (Inr (), (d1, q1))"
    "process_all w (\<lambda>i. clk (Suc i)) ms (d1, q1) = (Inr (), (d', q'))"
    by (auto simp: prog_Inr)
  from process_state [OF p(1) Cons.prems(2)] Cons.prems(4)
  have s1: "wf q1" "body_of q1 = body_of q"
    "state q1 = (state q)(ms_handle m \<mapsto> fate_state max_delivery (fate_of w d m) (ms_delivery_count m))"
    by auto
  have "\<forall>m' \<in> set ms. state q1 (ms_handle m') = Some (Locked (ms_delivery_count m'))"
    using Cons.prems(3,4) s1(3) by (auto simp: image_iff)
  from Cons.IH [OF p(2) s1(1) _ this] Cons.prems(3) have IH: "wf q'" "body_of q' = body_of q1"
    "\<forall>h. h \<notin> ms_handle ` set ms \<longrightarrow> state q' h = state q1 h"
    "\<forall>m \<in> set ms. \<exists>f. state q' (ms_handle m) = Some (fate_state max_delivery f (ms_delivery_count m))"
    by auto
  from IH(3) Cons.prems(3) s1(3)
  have "state q' (ms_handle m) = Some (fate_state max_delivery (fate_of w d m) (ms_delivery_count m))"
    by (auto simp: image_iff)
  with IH s1 show ?case by auto
qed simp

text \<open>One poll: a message is untouched, or it was available and has been delivered once more.\<close>

lemma poll_state:
  assumes "poll_once w clk n t (d, q) = (Inr k, (d', q'))" "wf q"
  shows "wf q' \<and> body_of q' = body_of q \<and> k \<le> n \<and>
    (\<exists>ms q1. mq_receive mq (pc_receive clk) n t q = (Inr ms, q1) \<and> length ms = k \<and>
       (\<forall>m \<in> set ms. \<exists>c f. state q (ms_handle m) = Some (Available c)
          \<and> state q' (ms_handle m) = Some (fate_state max_delivery f (Suc c))) \<and>
       (\<forall>h. h \<notin> ms_handle ` set ms \<longrightarrow> state q' h = state q h))"
proof -
  from assms(1) obtain ms q1 where rec: "mq_receive mq (pc_receive clk) n t q = (Inr ms, q1)"
    and all: "process_all w (pc_message clk) ms (d, q1) = (Inr (), (d', q'))" and k: "k = length ms"
    by (auto simp: poll_once_def prog_Inr uses)
  have locked: "\<forall>m \<in> set ms. state q1 (ms_handle m) = Some (Locked (ms_delivery_count m))"
    using receive_locks [OF assms(2) rec] by fastforce
  from process_all_state [OF all receive_wf [OF assms(2) rec] _ locked] receive_distinct [OF assms(2) rec]
  have st: "wf q'" "body_of q' = body_of q1" "\<forall>h. h \<notin> ms_handle ` set ms \<longrightarrow> state q' h = state q1 h"
    "\<forall>m \<in> set ms. \<exists>f. state q' (ms_handle m) = Some (fate_state max_delivery f (ms_delivery_count m))"
    by auto
  have "\<exists>c f. state q (ms_handle m) = Some (Available c)
      \<and> state q' (ms_handle m) = Some (fate_state max_delivery f (Suc c))" if "m \<in> set ms" for m
    using receive_locks [OF assms(2) rec that] st(4) that by metis
  moreover have "state q' h = state q h" if "h \<notin> ms_handle ` set ms" for h
    using receive_others [OF assms(2) rec that] st(3) that by simp
  ultimately show ?thesis
    using rec st receive_bodies [OF assms(2) rec] receive_distinct [OF assms(2) rec] k by auto
qed

lemma poll_step:
  assumes "poll_once w clk n t (d, q) = (Inr k, (d', q'))" "wf q"
  shows "state q' h = state q h \<or>
     (\<exists>c f. state q h = Some (Available c) \<and> state q' h = Some (fate_state max_delivery f (Suc c)))"
proof -
  from poll_state [OF assms] obtain ms :: "message list" where
    "\<forall>m \<in> set ms. \<exists>c f. state q (ms_handle m) = Some (Available c)
       \<and> state q' (ms_handle m) = Some (fate_state max_delivery f (Suc c))"
    "\<forall>h. h \<notin> ms_handle ` set ms \<longrightarrow> state q' h = state q h" by blast
  then show ?thesis by (cases "h \<in> ms_handle ` set ms") auto
qed

lemma poll_bounded:
  assumes "poll_once w clk n t (d, q) = (Inr k, (d', q'))" "wf q" "bounded q"
  shows "bounded q'"
  unfolding bounded_def
proof (intro allI impI)
  fix h s assume s: "state q' h = Some s"
  from poll_step [OF assms(1,2), of h] show "within max_delivery s"
  proof (elim disjE exE conjE)
    assume "state q' h = state q h"
    with s assms(3) show ?thesis by (simp add: bounded_def)
  next
    fix c f assume c: "state q h = Some (Available c)" "state q' h = Some (fate_state max_delivery f (Suc c))"
    then have "within max_delivery (Available c)" using assms(3) unfolding bounded_def by blast
    with c(2) s show ?thesis by (simp add: within_fate_state Suc_le_eq)
  qed
qed

end

section \<open>The worker of the local queue\<close>

definition local_worker :: "settings \<Rightarrow> tool_registry \<Rightarrow> databricks \<Rightarrow> queue_table worker" where
  "local_worker s reg dbx =
     \<lparr>wk_settings = s, wk_registry = reg,
      wk_queue = LocalQueue \<lparr>lq_queue = st_servicebus_queue_name s, lq_max_delivery = st_queue_max_delivery_count s\<rparr>,
      wk_tool_ctx = \<lparr>cx_settings = s, cx_databricks = dbx\<rparr>,
      wk_max_delivery = st_queue_max_delivery_count s\<rparr>"

interpretation wl: worker_on
    "LocalQueue \<lparr>lq_queue = st_servicebus_queue_name s, lq_max_delivery = st_queue_max_delivery_count s\<rparr>"
    lq_state lq_body table_ok "st_queue_max_delivery_count s" "local_worker s reg dbx" for s reg dbx
proof (rule worker_on.intro)
  show "queue_contract
    (LocalQueue \<lparr>lq_queue = st_servicebus_queue_name s, lq_max_delivery = st_queue_max_delivery_count s\<rparr>)
    lq_state lq_body table_ok (st_queue_max_delivery_count s)"
    using lq.queue_contract_axioms
      [of "\<lparr>lq_queue = st_servicebus_queue_name s, lq_max_delivery = st_queue_max_delivery_count s\<rparr>"] by simp
  show "worker_on_axioms
    (LocalQueue \<lparr>lq_queue = st_servicebus_queue_name s, lq_max_delivery = st_queue_max_delivery_count s\<rparr>)
    (st_queue_max_delivery_count s) (local_worker s reg dbx)"
    by (rule worker_on_axioms.intro) (simp_all add: local_worker_def)
qed

end
