(* ===== verification/Regex.thy ===== *)
theory Regex
  imports Prelude
begin

text \<open>
  The part of Python's \<^verbatim>\<open>re\<close> that the redactor uses: character sets, concatenation, greedy
  repetition, word boundaries and one-character negative lookaround, matched by backtracking.

  \<open>ends r s i\<close> lists the end positions of the matches of \<open>r\<close> in \<open>s\<close> from position \<open>i\<close>, in the
  order in which the backtracking matcher finds them; the first element is the match Python
  returns. Positions count characters from the start of the whole text, so that the
  lookaround and \<^verbatim>\<open>\b\<close> see their context.
\<close>

section \<open>Characters\<close>

text \<open>
  \<^verbatim>\<open>\d\<close>, \<^verbatim>\<open>\w\<close> and \<^verbatim>\<open>\s\<close> of a \<^verbatim>\<open>str\<close> pattern (Unicode rules), on code points below 256.
\<close>

definition is_digit :: "char \<Rightarrow> bool" where
  "is_digit c \<longleftrightarrow> CHR ''0'' \<le> c \<and> c \<le> CHR ''9''"

definition is_space :: "char \<Rightarrow> bool" where
  "is_space c \<longleftrightarrow>
     CHR 0x09 \<le> c \<and> c \<le> CHR 0x0D \<or> CHR 0x1C \<le> c \<and> c \<le> CHR 0x20 \<or> c = CHR 0x85 \<or> c = CHR 0xA0"

definition is_word :: "char \<Rightarrow> bool" where
  "is_word c \<longleftrightarrow>
     is_digit c \<or> CHR ''A'' \<le> c \<and> c \<le> CHR ''Z'' \<or> CHR ''a'' \<le> c \<and> c \<le> CHR ''z''
     \<or> c = CHR ''_'' \<or> c \<in> {CHR 0xAA, CHR 0xB2, CHR 0xB3, CHR 0xB5, CHR 0xB9, CHR 0xBA}
     \<or> CHR 0xBC \<le> c \<and> c \<le> CHR 0xBE
     \<or> CHR 0xC0 \<le> c \<and> c \<noteq> CHR 0xD7 \<and> c \<noteq> CHR 0xF7"

datatype cset = CDigit | CSpace | CRange char char | COne char

fun in_cset :: "cset \<Rightarrow> char \<Rightarrow> bool" where
  "in_cset CDigit c = is_digit c"
| "in_cset CSpace c = is_space c"
| "in_cset (CRange a b) c = (a \<le> c \<and> c \<le> b)"
| "in_cset (COne a) c = (c = a)"

definition in_set :: "cset list \<Rightarrow> char \<Rightarrow> bool" where
  "in_set cs c = list_ex (\<lambda>s. in_cset s c) cs"

section \<open>Patterns and the matcher\<close>

datatype rx =
    RSet "cset list"                   \<comment> \<open>one character of a set\<close>
  | RCat rx rx
  | RRep rx nat "nat option"           \<comment> \<open>greedy, with bounds; the body consumes text\<close>
  | RWordB                             \<comment> \<open>\<^verbatim>\<open>\b\<close>\<close>
  | RNotBehind "cset list"             \<comment> \<open>\<^verbatim>\<open>(?<!...)\<close>\<close>
  | RNotAhead "cset list"              \<comment> \<open>\<^verbatim>\<open>(?!...)\<close>\<close>

definition word_at :: "string \<Rightarrow> nat \<Rightarrow> bool" where
  "word_at s i \<longleftrightarrow> i < length s \<and> is_word (s ! i)"

text \<open>
  \<open>rep step fuel lo hi i\<close>: greedy repetition, trying one more round before stopping. A round
  consumes at least one character, so \<open>length s - i\<close> rounds are enough fuel.
\<close>

fun rep :: "(nat \<Rightarrow> nat list) \<Rightarrow> nat \<Rightarrow> nat \<Rightarrow> nat option \<Rightarrow> nat \<Rightarrow> nat list" where
  "rep step 0 lo hi i = (if lo = 0 then [i] else [])"
| "rep step (Suc fuel) lo hi i =
     (if hi = Some 0 then []
      else concat (map (\<lambda>j. if i < j then rep step fuel (lo - 1) (map_option (\<lambda>h. h - 1) hi) j else [])
             (step i)))
     @ (if lo = 0 then [i] else [])"

fun ends :: "rx \<Rightarrow> string \<Rightarrow> nat \<Rightarrow> nat list" where
  "ends (RSet cs) s i = (if i < length s \<and> in_set cs (s ! i) then [Suc i] else [])"
| "ends (RCat a b) s i = concat (map (ends b s) (ends a s i))"
| "ends (RRep a lo hi) s i = rep (ends a s) (length s - i) lo hi i"
| "ends RWordB s i = (if (0 < i \<and> word_at s (i - 1)) \<noteq> word_at s i then [i] else [])"
| "ends (RNotBehind cs) s i = (if 0 < i \<and> i \<le> length s \<and> in_set cs (s ! (i - 1)) then [] else [i])"
| "ends (RNotAhead cs) s i = (if i < length s \<and> in_set cs (s ! i) then [] else [i])"

text \<open>\<^verbatim>\<open>pattern.search\<close> from position \<open>i\<close>: the leftmost match, as a span.\<close>

function search_from :: "rx \<Rightarrow> string \<Rightarrow> nat \<Rightarrow> (nat \<times> nat) option" where
  "search_from r s i =
     (case ends r s i of
        j # _ \<Rightarrow> Some (i, j)
      | [] \<Rightarrow> if i < length s then search_from r s (Suc i) else None)"
  by pat_completeness auto
termination
  by (relation "measure (\<lambda>(r, s, i). length s - i)") auto

declare search_from.simps [simp del]

definition search :: "rx \<Rightarrow> string \<Rightarrow> (nat \<times> nat) option" where
  "search r s = search_from r s 0"

text \<open>
  \<^verbatim>\<open>pattern.sub(repl, s)\<close> from position \<open>i\<close>, for a pattern that never matches the empty
  string (the guard \<open>b < e\<close> makes the recursion total; \<open>ends_consume\<close> shows that it always
  holds for the redactor's patterns).
\<close>

function sub_from :: "rx \<Rightarrow> string \<Rightarrow> string \<Rightarrow> nat \<Rightarrow> string" where
  "sub_from r repl s i =
     (case search_from r s i of
        None \<Rightarrow> drop i s
      | Some (b, e) \<Rightarrow>
          if i \<le> b \<and> b < e \<and> i < length s
          then take (b - i) (drop i s) @ repl @ sub_from r repl s e
          else drop i s)"
  by pat_completeness auto
termination
  by (relation "measure (\<lambda>(r, repl, s, i). length s - i)") auto

declare sub_from.simps [simp del]

definition sub :: "rx \<Rightarrow> string \<Rightarrow> string \<Rightarrow> string" where
  "sub r repl s = sub_from r repl s 0"

section \<open>Facts\<close>

text \<open>Matches stay inside the text and never move backwards.\<close>

lemma rep_range:
  assumes step: "\<And>i j. i \<le> n \<Longrightarrow> j \<in> set (step i) \<Longrightarrow> j \<le> n"
  shows "j \<in> set (rep step fuel lo hi i) \<Longrightarrow> i \<le> n \<Longrightarrow> i \<le> j \<and> j \<le> n"
proof (induction fuel arbitrary: lo hi i)
  case 0
  then show ?case by (auto split: if_splits)
next
  case (Suc fuel)
  show ?case
  proof (cases "j = i")
    case True
    with Suc.prems show ?thesis by simp
  next
    case False
    with Suc.prems obtain k where k: "k \<in> set (step i)" "i < k"
      and j: "j \<in> set (rep step fuel (lo - 1) (map_option (\<lambda>h. h - 1) hi) k)"
      by (auto split: if_splits)
    from step [OF Suc.prems(2) k(1)] Suc.IH [OF j] k(2) show ?thesis by simp
  qed
qed

lemma ends_range: "j \<in> set (ends r s i) \<Longrightarrow> i \<le> length s \<Longrightarrow> i \<le> j \<and> j \<le> length s"
proof (induction r arbitrary: i j)
  case (RCat a b)
  then obtain k where "k \<in> set (ends a s i)" "j \<in> set (ends b s k)" by auto
  with RCat.IH(1) [of k i] RCat.IH(2) [of j k] RCat.prems(2) show ?case by fastforce
next
  case (RRep a lo hi)
  show ?case
    by (rule rep_range [of "length s" "ends a s" j "length s - i" lo hi i])
      (use RRep in \<open>auto\<close>)
qed (auto split: if_splits)

text \<open>A pattern that cannot match the empty string.\<close>

fun consumes :: "rx \<Rightarrow> bool" where
  "consumes (RSet cs) = True"
| "consumes (RCat a b) = (consumes a \<or> consumes b)"
| "consumes (RRep a lo hi) = (consumes a \<and> 0 < lo)"
| "consumes _ = False"

lemma rep_consume:
  "j \<in> set (rep step fuel lo hi i) \<Longrightarrow> 0 < lo \<Longrightarrow>
    (\<And>i j. i \<le> n \<Longrightarrow> j \<in> set (step i) \<Longrightarrow> j \<le> n) \<Longrightarrow> i \<le> n \<Longrightarrow> i < j"
proof (cases fuel)
  case (Suc f)
  assume j: "j \<in> set (rep step fuel lo hi i)" and lo: "0 < lo" and i: "i \<le> n"
    and step: "\<And>i j. i \<le> n \<Longrightarrow> j \<in> set (step i) \<Longrightarrow> j \<le> n"
  from j lo Suc obtain k where k: "k \<in> set (step i)" "i < k"
    and "j \<in> set (rep step f (lo - 1) (map_option (\<lambda>h. h - 1) hi) k)"
    by (auto split: if_splits)
  with rep_range [of n step j f "lo - 1" "map_option (\<lambda>h. h - 1) hi" k] step i
  have "k \<le> j" by blast
  with k show ?thesis by simp
qed (auto split: if_splits)

lemma ends_consume:
  "consumes r \<Longrightarrow> j \<in> set (ends r s i) \<Longrightarrow> i \<le> length s \<Longrightarrow> i < j"
proof (induction r arbitrary: i j)
  case (RCat a b)
  then obtain k where k: "k \<in> set (ends a s i)" "j \<in> set (ends b s k)" by auto
  with ends_range [of k a s i] ends_range [of j b s k] RCat.prems(3)
  have "i \<le> k" "k \<le> length s" "k \<le> j" by auto
  with RCat.IH(1) [of k i] RCat.IH(2) [of j k] RCat.prems k show ?case by fastforce
next
  case (RRep a lo hi)
  then show ?case
    by (auto elim!: rep_consume [where n = "length s"] dest: ends_range)
qed (auto split: if_splits)

text \<open>What the leftmost search returns.\<close>

lemma search_from_SomeD:
  "search_from r s i = Some (b, e) \<Longrightarrow>
     i \<le> b \<and> (\<exists>rest. ends r s b = e # rest) \<and> (\<forall>k. i \<le> k \<and> k < b \<longrightarrow> ends r s k = [])"
proof (induction r s i rule: search_from.induct)
  case (1 r s i)
  show ?case
  proof (cases "ends r s i")
    case Nil
    with "1.prems" have "i < length s" "search_from r s (Suc i) = Some (b, e)"
      by (auto simp: search_from.simps [of r s i] split: if_splits)
    with "1.IH" Nil have *: "Suc i \<le> b" "\<exists>rest. ends r s b = e # rest"
      "\<forall>k. Suc i \<le> k \<and> k < b \<longrightarrow> ends r s k = []" by auto
    moreover have "ends r s k = []" if "i \<le> k" "k < b" for k
      using that * Nil by (cases "k = i") auto
    ultimately show ?thesis by auto
  next
    case (Cons j js)
    with "1.prems" show ?thesis by (auto simp: search_from.simps [of r s i])
  qed
qed

lemma search_from_NoneD:
  "search_from r s i = None \<Longrightarrow> i \<le> k \<Longrightarrow> k \<le> length s \<Longrightarrow> ends r s k = []"
proof (induction r s i rule: search_from.induct)
  case (1 r s i)
  then show ?case
    by (cases "k = i") (auto simp: search_from.simps [of r s i] split: list.splits if_splits)
qed

lemma search_from_le: "search_from r s i = Some (b, e) \<Longrightarrow> i \<le> length s \<Longrightarrow> b \<le> length s"
proof (induction r s i rule: search_from.induct)
  case (1 r s i)
  then show ?case
    by (auto simp: search_from.simps [of r s i] split: list.splits if_splits)
qed

lemma search_None_iff: "search r s = None \<longleftrightarrow> (\<forall>k \<le> length s. ends r s k = [])"
proof
  assume "search r s = None"
  then show "\<forall>k \<le> length s. ends r s k = []"
    using search_from_NoneD by (auto simp: search_def)
next
  assume *: "\<forall>k \<le> length s. ends r s k = []"
  show "search r s = None"
  proof (cases "search_from r s 0")
    case (Some be)
    then obtain b e where be: "search_from r s 0 = Some (b, e)" by (cases be) auto
    then have "ends r s b \<noteq> []" using search_from_SomeD by fastforce
    moreover have "b \<le> length s" using search_from_le [OF be] by simp
    ultimately show ?thesis using * by blast
  qed (simp add: search_def)
qed

text \<open>Without a match, substitution is the identity.\<close>

lemma sub_no_match: "search r s = None \<Longrightarrow> sub r repl s = s"
  by (simp add: search_def sub_def sub_from.simps [of r repl s 0])

end
