(* ===== verification/Auth.thy ===== *)
theory Auth
  imports Regex ToolSpec
begin

text \<open>
  \<^verbatim>\<open>packages/auth\<close>: the verified caller and the two token verifiers, and the bearer-token
  dependency of the gateway (\<^verbatim>\<open>app/deps.py\<close>).

  PyJWT and the JWKS client are third-party code: the record \<open>jwt\<close> holds their operations
  (over any type of tokens), and \<open>jwt_laws\<close> states what signing and verifying promise.
\<close>

section \<open>Identity (\<^verbatim>\<open>identity.py\<close>)\<close>

text \<open>A claim can hold any JSON value; nothing converts it.\<close>

record principal =
  pr_subject :: pyval
  pr_agent_id :: pyval
  pr_role :: pyval
  pr_scopes :: "pyval list"
  pr_tenant_id :: pyval
  pr_raw_claims :: pydict

definition has_scope :: "principal \<Rightarrow> string \<Rightarrow> bool" where
  "has_scope p scope \<longleftrightarrow> PStr scope \<in> set (pr_scopes p)"

text \<open>The gateway works on callers whose three identities are text.\<close>

record caller =
  cl_subject :: string
  cl_agent_id :: string
  cl_role :: string

definition caller_of :: "principal \<Rightarrow> caller option" where
  "caller_of p =
     (case (pr_subject p, pr_agent_id p, pr_role p) of
        (PStr s, PStr a, PStr r) \<Rightarrow> Some \<lparr>cl_subject = s, cl_agent_id = a, cl_role = r\<rparr>
      | _ \<Rightarrow> None)"

section \<open>Claims (\<^verbatim>\<open>tokens.py\<close>)\<close>

text \<open>\<^verbatim>\<open>a or b\<close>.\<close>

definition py_or :: "pyval \<Rightarrow> pyval \<Rightarrow> pyval" where
  "py_or a b = (if truthy a then a else b)"

text \<open>\<^verbatim>\<open>s.split()\<close>: the maximal runs without white space.\<close>

fun split_words :: "string \<Rightarrow> string \<Rightarrow> string list" where
  "split_words [] w = (if w = [] then [] else [w])"
| "split_words (c # cs) w =
     (if is_space c then (if w = [] then split_words cs [] else w # split_words cs [])
      else split_words cs (w @ [c]))"

text \<open>\<^verbatim>\<open>tuple(x)\<close>: the elements of a list, the keys of a dictionary.\<close>

fun py_tuple :: "pyval \<Rightarrow> pyval list res" where
  "py_tuple (PStr s) = Inr (map (\<lambda>c. PStr [c]) s)"
| "py_tuple (PList xs) = Inr xs"
| "py_tuple (PDict kvs) = Inr (map (PStr \<circ> fst) kvs)"
| "py_tuple _ = Inl (PyExn ''TypeError'' ''object is not iterable'')"

definition principal_from_claims :: "pydict \<Rightarrow> principal res" where
  "principal_from_claims claims =
     (let role = py_or (dict_get claims ''agent_role'') (py_or (dict_get claims ''role'') (PStr ''''));
          agent_id = py_or (dict_get claims ''agent_id'')
                       (py_or (dict_get claims ''azp'') (dict_get_or claims ''sub'' (PStr '''')));
          scopes_claim = py_or (dict_get claims ''scp'') (py_or (dict_get claims ''scope'') (PStr ''''))
      in bind_res
           (case scopes_claim of
              PStr s \<Rightarrow> Inr (map PStr (split_words s []))
            | v \<Rightarrow> py_tuple v)
           (\<lambda>scopes.
              if \<not> truthy role
              then Inl (AuthError ''token is missing the agent_role claim'' ''AUTH_NO_ROLE'')
              else Inr \<lparr>pr_subject = dict_get_or claims ''sub'' (PStr ''''),
                        pr_agent_id = agent_id, pr_role = role, pr_scopes = scopes,
                        pr_tenant_id = dict_get_or claims ''tid'' (PStr ''''),
                        pr_raw_claims = claims\<rparr>))"

section \<open>Verifiers (\<^verbatim>\<open>tokens.py\<close>)\<close>

datatype jwt_error = ExpiredSignature string | InvalidToken string | OtherFailure string

text \<open>The options of a \<^verbatim>\<open>jwt.decode\<close> call.\<close>

record decode_options =
  do_algorithms :: "string list"
  do_audience :: string
  do_issuer :: "string option"
  do_require :: "string list"

text \<open>Times are in seconds, as in the claims.\<close>

record 'tok jwt =
  jwt_encode :: "pydict \<Rightarrow> string \<Rightarrow> string \<Rightarrow> 'tok"
  jwt_decode :: "int \<Rightarrow> 'tok \<Rightarrow> string \<Rightarrow> decode_options \<Rightarrow> jwt_error + pydict"
  jwks_key :: "string \<Rightarrow> 'tok \<Rightarrow> jwt_error + string"

text \<open>
  What PyJWT documents and the code relies on, for tokens signed with the symmetric algorithm
  of the dev signer: a token with text for its subject decodes, under the key it was signed
  with, to its claims as long as the audience and the times are right; from its \<^verbatim>\<open>exp\<close> on it
  is reported as expired; under another key it is invalid (collisions of the MAC are left out
  of account).
\<close>

definition jwt_laws :: "'tok jwt \<Rightarrow> bool" where
  "jwt_laws J \<longleftrightarrow>
     (\<forall>now claims key opts subj t0 t1. ''HS256'' \<in> set (do_algorithms opts) \<longrightarrow>
        do_issuer opts = None \<longrightarrow> do_require opts = [] \<longrightarrow> distinct (map fst claims) \<longrightarrow>
        map_of claims ''sub'' = Some (PStr subj) \<longrightarrow>
        map_of claims ''aud'' = Some (PStr (do_audience opts)) \<longrightarrow>
        map_of claims ''iat'' = Some (PInt t0) \<longrightarrow> map_of claims ''nbf'' = Some (PInt t0) \<longrightarrow>
        map_of claims ''exp'' = Some (PInt t1) \<longrightarrow> t0 \<le> now \<longrightarrow>
        (now < t1 \<longrightarrow> jwt_decode J now (jwt_encode J claims key ''HS256'') key opts = Inr claims) \<and>
        (t1 \<le> now \<longrightarrow>
          (\<exists>m. jwt_decode J now (jwt_encode J claims key ''HS256'') key opts = Inl (ExpiredSignature m)))) \<and>
     (\<forall>now claims key key' opts. key' \<noteq> key \<longrightarrow>
        (\<exists>m. jwt_decode J now (jwt_encode J claims key ''HS256'') key' opts = Inl (InvalidToken m)))"

record dev_signer =
  ds_secret :: string
  ds_audience :: string

definition dev_claims ::
  "dev_signer \<Rightarrow> int \<Rightarrow> string \<Rightarrow> string \<Rightarrow> string \<Rightarrow> string list \<Rightarrow> int \<Rightarrow> pydict" where
  "dev_claims sg now subject agent_id role scopes ttl_seconds =
     [(''iss'', PStr ''dev-token-signer''), (''aud'', PStr (ds_audience sg)),
      (''sub'', PStr subject), (''agent_id'', PStr agent_id), (''agent_role'', PStr role),
      (''scp'', PStr (join '' '' scopes)), (''iat'', PInt now), (''nbf'', PInt now),
      (''exp'', PInt (now + ttl_seconds))]"

definition mint ::
  "'tok jwt \<Rightarrow> dev_signer \<Rightarrow> int \<Rightarrow> string \<Rightarrow> string \<Rightarrow> string \<Rightarrow> string list \<Rightarrow> int \<Rightarrow> 'tok" where
  "mint J sg now subject agent_id role scopes ttl_seconds =
     jwt_encode J (dev_claims sg now subject agent_id role scopes ttl_seconds) (ds_secret sg) ''HS256''"

datatype verifier =
    DevTokenVerifier (vf_secret: string) (vf_audience: string)
  | EntraOIDCVerifier (vf_jwks_url: string) (vf_issuer: string) (vf_audience: string)

definition new_entra_verifier :: "string \<Rightarrow> string \<Rightarrow> string \<Rightarrow> verifier res" where
  "new_entra_verifier jwks_url issuer audience =
     (if jwks_url = [] \<or> issuer = [] \<or> audience = []
      then Inl (AuthError ''Entra verifier requires jwks_url, issuer and audience'' ''AUTH_MISCONFIGURED'')
      else Inr (EntraOIDCVerifier jwks_url issuer audience))"

definition dev_options :: "string \<Rightarrow> decode_options" where
  "dev_options audience =
     \<lparr>do_algorithms = [''HS256''], do_audience = audience, do_issuer = None, do_require = []\<rparr>"

definition entra_options :: "string \<Rightarrow> string \<Rightarrow> decode_options" where
  "entra_options audience issuer =
     \<lparr>do_algorithms = [''RS256''], do_audience = audience, do_issuer = Some issuer,
      do_require = [''exp'', ''iat'', ''aud'', ''iss'']\<rparr>"

text \<open>
  The dev verifier lets an exception that is not PyJWT's own pass; the Entra verifier turns
  every failure into an \<^verbatim>\<open>AuthError\<close>.
\<close>

fun dev_failure :: "jwt_error \<Rightarrow> py_exn" where
  "dev_failure (ExpiredSignature m) = AuthError ''token expired'' ''AUTH_TOKEN_EXPIRED''"
| "dev_failure (InvalidToken m) = AuthError (''invalid token: '' @ m) ''AUTH_INVALID_TOKEN''"
| "dev_failure (OtherFailure m) = PyExn ''Exception'' m"

fun entra_failure :: "jwt_error \<Rightarrow> py_exn" where
  "entra_failure (ExpiredSignature m) = AuthError ''token expired'' ''AUTH_TOKEN_EXPIRED''"
| "entra_failure (InvalidToken m) = AuthError (''invalid Entra token: '' @ m) ''AUTH_INVALID_TOKEN''"
| "entra_failure (OtherFailure m) = AuthError (''token key resolution failed: '' @ m) ''AUTH_JWKS''"

fun verify :: "'tok jwt \<Rightarrow> int \<Rightarrow> verifier \<Rightarrow> 'tok \<Rightarrow> principal res" where
  "verify J now (DevTokenVerifier secret audience) token =
     (case jwt_decode J now token secret (dev_options audience) of
        Inl e \<Rightarrow> Inl (dev_failure e)
      | Inr claims \<Rightarrow> principal_from_claims claims)"
| "verify J now (EntraOIDCVerifier jwks_url issuer audience) token =
     (case jwks_key J jwks_url token of
        Inl e \<Rightarrow> Inl (entra_failure e)
      | Inr key \<Rightarrow>
          (case jwt_decode J now token key (entra_options audience issuer) of
             Inl e \<Rightarrow> Inl (entra_failure e)
           | Inr claims \<Rightarrow> principal_from_claims claims))"

definition build_verifier :: "settings \<Rightarrow> verifier res" where
  "build_verifier s =
     (case st_auth_mode s of
        Entra \<Rightarrow> new_entra_verifier (st_entra_jwks_url s) (st_entra_issuer s) (st_entra_audience s)
      | Dev \<Rightarrow> Inr (DevTokenVerifier (st_dev_token_signing_secret s) (st_entra_audience s)))"

section \<open>The bearer token (\<^verbatim>\<open>app/deps.py\<close>)\<close>

text \<open>\<^verbatim>\<open>s.lower()\<close> on Latin-1, and \<^verbatim>\<open>s.strip()\<close>.\<close>

definition lower_char :: "char \<Rightarrow> char" where
  "lower_char c =
     (let n = of_char c :: nat in
      if 65 \<le> n \<and> n \<le> 90 \<or> 192 \<le> n \<and> n \<le> 222 \<and> n \<noteq> 215 then char_of (n + 32) else c)"

definition strip :: "string \<Rightarrow> string" where
  "strip s = rev (dropWhile is_space (rev (dropWhile is_space s)))"

definition bearer_token :: "string \<Rightarrow> string option" where
  "bearer_token authorization =
     (if take 7 (map lower_char authorization) = ''bearer ''
      then Some (strip (tl (dropWhile (\<lambda>c. c \<noteq> CHR '' '') authorization)))
      else None)"

definition get_principal :: "string jwt \<Rightarrow> int \<Rightarrow> verifier \<Rightarrow> string \<Rightarrow> principal res" where
  "get_principal J now vf authorization =
     (case bearer_token authorization of
        None \<Rightarrow> Inl (HTTPException 401 ''missing bearer token'')
      | Some token \<Rightarrow>
          (case verify J now vf token of
             Inl (AuthError msg code) \<Rightarrow> Inl (HTTPException 401 msg)
           | r \<Rightarrow> r))"

section \<open>Facts\<close>

lemma split_words_word:
  "\<forall>c \<in> set w. \<not> is_space c \<Longrightarrow> split_words (w @ cs) acc = split_words cs (acc @ w)"
  by (induction w arbitrary: acc) auto

lemma is_space_blank [simp]: "is_space (CHR '' '')"
  by (simp add: is_space_def less_eq_char_def)

text \<open>Joining words with blanks and splitting gives the words back.\<close>

lemma split_join_words:
  assumes "\<forall>w \<in> set ws. w \<noteq> [] \<and> (\<forall>c \<in> set w. \<not> is_space c)"
  shows "split_words (join '' '' ws) [] = ws"
  using assms
proof (induction ws)
  case (Cons w ws)
  then have w: "w \<noteq> []" "\<forall>c \<in> set w. \<not> is_space c" by auto
  show ?case
  proof (cases ws)
    case Nil
    with w split_words_word [OF w(2), of "[]" "[]"] show ?thesis by simp
  next
    case (Cons v vs)
    with w Cons.IH Cons.prems split_words_word [OF w(2), of "'' '' @ join '' '' ws" "[]"]
    show ?thesis by simp
  qed
qed simp

lemma jwt_lawsD:
  assumes "jwt_laws J" "''HS256'' \<in> set (do_algorithms opts)" "do_issuer opts = None" "do_require opts = []"
    and "distinct (map fst claims)" "map_of claims ''sub'' = Some (PStr subj)"
    and "map_of claims ''aud'' = Some (PStr (do_audience opts))" "map_of claims ''iat'' = Some (PInt t0)"
    and "map_of claims ''nbf'' = Some (PInt t0)" "map_of claims ''exp'' = Some (PInt t1)" "t0 \<le> now"
  shows "now < t1 \<Longrightarrow> jwt_decode J now (jwt_encode J claims key ''HS256'') key opts = Inr claims"
    and "t1 \<le> now \<Longrightarrow>
      \<exists>m. jwt_decode J now (jwt_encode J claims key ''HS256'') key opts = Inl (ExpiredSignature m)"
proof -
  note laws = assms(1) [unfolded jwt_laws_def, THEN conjunct1, rule_format, OF assms(2-11)]
  show "now < t1 \<Longrightarrow> jwt_decode J now (jwt_encode J claims key ''HS256'') key opts = Inr claims"
    using laws by simp
  show "t1 \<le> now \<Longrightarrow>
      \<exists>m. jwt_decode J now (jwt_encode J claims key ''HS256'') key opts = Inl (ExpiredSignature m)"
    using laws by simp
qed

text \<open>A freshly signed token decodes to the claims that were signed, and later as expired.\<close>

lemma dev_claims_fields:
  "distinct (map fst (dev_claims sg t0 subj agent role scopes ttl))"
  "map_of (dev_claims sg t0 subj agent role scopes ttl) ''sub'' = Some (PStr subj)"
  "map_of (dev_claims sg t0 subj agent role scopes ttl) ''aud'' =
     Some (PStr (do_audience (dev_options (ds_audience sg))))"
  "map_of (dev_claims sg t0 subj agent role scopes ttl) ''iat'' = Some (PInt t0)"
  "map_of (dev_claims sg t0 subj agent role scopes ttl) ''nbf'' = Some (PInt t0)"
  "map_of (dev_claims sg t0 subj agent role scopes ttl) ''exp'' = Some (PInt (t0 + ttl))"
  "''HS256'' \<in> set (do_algorithms (dev_options a))" "do_issuer (dev_options a) = None"
  "do_require (dev_options a) = []"
  by (simp_all add: dev_claims_def dev_options_def)

lemma decode_minted:
  assumes "jwt_laws J" "t0 \<le> now"
  shows "now < t0 + ttl \<Longrightarrow> jwt_decode J now (mint J sg t0 subj agent role scopes ttl) (ds_secret sg)
      (dev_options (ds_audience sg)) = Inr (dev_claims sg t0 subj agent role scopes ttl)"
    and "t0 + ttl \<le> now \<Longrightarrow> \<exists>m. jwt_decode J now (mint J sg t0 subj agent role scopes ttl) (ds_secret sg)
      (dev_options (ds_audience sg)) = Inl (ExpiredSignature m)"
  using jwt_lawsD [OF assms(1) dev_claims_fields(7-9) dev_claims_fields(1-6) assms(2), where key = "ds_secret sg"]
  by (simp_all add: mint_def)

lemma decode_other_key:
  "jwt_laws J \<Longrightarrow> key \<noteq> ds_secret sg \<Longrightarrow>
    \<exists>m. jwt_decode J now (mint J sg t0 subj agent role scopes ttl) key opts = Inl (InvalidToken m)"
  unfolding jwt_laws_def mint_def by blast

lemma principal_of_dev_claims:
  assumes "role \<noteq> []" "agent \<noteq> []" "\<forall>w \<in> set scopes. w \<noteq> [] \<and> (\<forall>c \<in> set w. \<not> is_space c)"
  shows "principal_from_claims (dev_claims sg t0 subj agent role scopes ttl) =
    Inr \<lparr>pr_subject = PStr subj, pr_agent_id = PStr agent, pr_role = PStr role,
         pr_scopes = map PStr scopes, pr_tenant_id = PStr '''',
         pr_raw_claims = dev_claims sg t0 subj agent role scopes ttl\<rparr>"
proof -
  have *: "split_words (join '' '' scopes) [] = scopes"
    by (rule split_join_words [OF assms(3)])
  then have "join '' '' scopes = [] \<Longrightarrow> scopes = []" by (metis split_words.simps(1))
  with assms(1,2) * show ?thesis
    by (simp add: principal_from_claims_def dev_claims_def dict_get_def dict_get_or_def py_or_def Let_def)
qed

text \<open>A JWT library without cryptography, which shows that the laws can be met.\<close>

definition plain_jwt :: "(pydict \<times> string \<times> string) jwt" where
  "plain_jwt =
     \<lparr>jwt_encode = (\<lambda>claims key alg. (claims, key, alg)),
      jwt_decode = (\<lambda>now tok key opts.
        if fst (snd tok) \<noteq> key then Inl (InvalidToken ''signature'')
        else (case dict_get (fst tok) ''exp'' of
                PInt t \<Rightarrow> if t \<le> now then Inl (ExpiredSignature ''exp'') else Inr (fst tok)
              | _ \<Rightarrow> Inl (InvalidToken ''exp''))),
      jwks_key = (\<lambda>url tok. Inl (OtherFailure url))\<rparr>"

lemma plain_jwt_laws: "jwt_laws plain_jwt"
  by (simp add: jwt_laws_def plain_jwt_def dict_get_def)

end
