(* ===== verification/Rbac.thy ===== *)
theory Rbac
  imports PyValues
begin

text \<open>
  \<^verbatim>\<open>packages/rbac\<close>: the agent roles and the deny-by-default decision function.
\<close>

section \<open>Roles (\<^verbatim>\<open>rbac/roles.py\<close>)\<close>

datatype agent_role = HR_AGENT | FINANCE_AGENT | SALES_AGENT | ADMIN_AGENT

text \<open>\<^verbatim>\<open>AgentRole\<close> is a \<^verbatim>\<open>StrEnum\<close>: its members are these strings.\<close>

fun role_value :: "agent_role \<Rightarrow> string" where
  "role_value HR_AGENT = ''hr_agent''"
| "role_value FINANCE_AGENT = ''finance_agent''"
| "role_value SALES_AGENT = ''sales_agent''"
| "role_value ADMIN_AGENT = ''admin_agent''"

definition all_roles :: "string list" where
  "all_roles = map role_value [HR_AGENT, FINANCE_AGENT, SALES_AGENT, ADMIN_AGENT]"

lemma role_value_inject [simp]: "role_value a = role_value b \<longleftrightarrow> a = b"
  by (cases a; cases b) simp_all

lemma role_value_known [simp]: "role_value r \<in> set all_roles"
  by (cases r) (simp_all add: all_roles_def)

text \<open>A \<^verbatim>\<open>StrEnum\<close> member compares as its string does.\<close>

instantiation agent_role :: linorder
begin

definition less_eq_agent_role :: "agent_role \<Rightarrow> agent_role \<Rightarrow> bool" where
  "less_eq_agent_role a b \<longleftrightarrow> role_value a \<le> role_value b"

definition less_agent_role :: "agent_role \<Rightarrow> agent_role \<Rightarrow> bool" where
  "less_agent_role a b \<longleftrightarrow> role_value a < role_value b"

instance
  by standard (auto simp: less_eq_agent_role_def less_agent_role_def less_le_not_le)

end

lemma insort_role_values: "insort (role_value r) (map role_value rs) = map role_value (insort r rs)"
  by (induction rs) (simp_all add: less_eq_agent_role_def)

lemma sort_role_values: "sort (map role_value rs) = map role_value (sort rs)"
  by (induction rs) (simp_all add: insort_role_values)

section \<open>The decision (\<^verbatim>\<open>rbac/policy.py\<close>)\<close>

datatype decision_reason = ALLOWED | ROLE_NOT_PERMITTED | UNKNOWN_ROLE | TOOL_DISABLED

fun reason_value :: "decision_reason \<Rightarrow> string" where
  "reason_value ALLOWED = ''allowed''"
| "reason_value ROLE_NOT_PERMITTED = ''role_not_permitted''"
| "reason_value UNKNOWN_ROLE = ''unknown_role''"
| "reason_value TOOL_DISABLED = ''tool_disabled''"

record decision =
  dc_allowed :: bool
  dc_reason :: decision_reason
  dc_detail :: string

definition decision_code :: "decision \<Rightarrow> string" where
  "decision_code d = reason_value (dc_reason d)"

definition evaluate :: "string \<Rightarrow> string list \<Rightarrow> string list \<Rightarrow> bool \<Rightarrow> decision" where
  "evaluate role required_roles known_roles tool_enabled =
     (if role \<notin> set known_roles then
        \<lparr>dc_allowed = False, dc_reason = UNKNOWN_ROLE,
         dc_detail = ''role '' @ sq @ role @ sq @ '' is not recognised''\<rparr>
      else if \<not> tool_enabled then
        \<lparr>dc_allowed = False, dc_reason = TOOL_DISABLED,
         dc_detail = ''tool is disabled in this environment''\<rparr>
      else if role \<in> set required_roles then
        \<lparr>dc_allowed = True, dc_reason = ALLOWED, dc_detail = ''''\<rparr>
      else
        \<lparr>dc_allowed = False, dc_reason = ROLE_NOT_PERMITTED,
         dc_detail = ''role '' @ sq @ role @ sq @ '' is not permitted; requires one of ''
           @ py_repr (PList (map PStr (sort required_roles)))\<rparr>)"

lemma evaluate_allowed_iff [simp]:
  "dc_allowed (evaluate role req known en) \<longleftrightarrow>
     role \<in> set known \<and> en \<and> role \<in> set req"
  by (simp add: evaluate_def)

lemma evaluate_allowed_code:
  "dc_allowed (evaluate role req known en) \<longleftrightarrow>
     decision_code (evaluate role req known en) = ''allowed''"
  by (simp add: evaluate_def decision_code_def)

text \<open>A denial lists the permitted roles in the order of \<^verbatim>\<open>AgentRole\<close>.\<close>

lemma denied_detail:
  assumes "r \<notin> set req"
  shows "dc_detail (evaluate (role_value r) (map role_value req) all_roles True) =
    ''role '' @ sq @ role_value r @ sq @ '' is not permitted; requires one of '' @
    py_repr (PList (map (PStr \<circ> role_value) (sort req)))"
  using assms by (auto simp: evaluate_def sort_role_values)

end
