(* ===== verification/Pii.thy ===== *)
theory Pii
  imports Regex PyValues
begin

text \<open>
  \<^verbatim>\<open>packages/pii/redactor.py\<close>: masking of declared fields and the pattern sweep.
\<close>

section \<open>Patterns\<close>

definition MASK :: string where
  "MASK = ''***REDACTED***''"

abbreviation alpha_upper :: cset where "alpha_upper \<equiv> CRange (CHR ''A'') (CHR ''Z'')"
abbreviation alpha_lower :: cset where "alpha_lower \<equiv> CRange (CHR ''a'') (CHR ''z'')"
abbreviation ascii_digit :: cset where "ascii_digit \<equiv> CRange (CHR ''0'') (CHR ''9'')"

definition email_rx :: rx where
  "email_rx =
     RCat (RRep (RSet [alpha_upper, alpha_lower, ascii_digit, COne (CHR ''.''), COne (CHR ''_''),
                       COne (CHR ''%''), COne (CHR ''+''), COne (CHR ''-'')]) 1 None)
     (RCat (RSet [COne (CHR ''@'')])
     (RCat (RRep (RSet [alpha_upper, alpha_lower, ascii_digit, COne (CHR ''.''), COne (CHR ''-'')]) 1 None)
     (RCat (RSet [COne (CHR ''.'')])
           (RRep (RSet [alpha_upper, alpha_lower]) 2 None))))"

definition iban_rx :: rx where
  "iban_rx =
     RCat RWordB
     (RCat (RRep (RSet [alpha_upper]) 2 (Some 2))
     (RCat (RRep (RSet [CDigit]) 2 (Some 2))
     (RCat (RRep (RSet [alpha_upper, ascii_digit]) 11 (Some 30))
           RWordB)))"

definition phone_rx :: rx where
  "phone_rx =
     RCat (RNotBehind [CDigit])
     (RCat (RRep (RSet [COne (CHR ''+'')]) 0 (Some 1))
     (RCat (RSet [CDigit])
     (RCat (RRep (RSet [CDigit, CSpace, COne (CHR ''(''), COne (CHR '')''), COne (CHR ''.''),
                        COne (CHR ''-'')]) 7 None)
     (RCat (RSet [CDigit])
           (RNotAhead [CDigit])))))"

definition ssn_like_rx :: rx where
  "ssn_like_rx =
     RCat RWordB
     (RCat (RRep (RSet [CDigit]) 3 (Some 3))
     (RCat (RSet [COne (CHR ''-'')])
     (RCat (RRep (RSet [CDigit]) 2 (Some 2))
     (RCat (RSet [COne (CHR ''-'')])
     (RCat (RRep (RSet [CDigit]) 4 (Some 4))
           RWordB)))))"

definition credit_card_rx :: rx where
  "credit_card_rx =
     RCat RWordB
     (RCat (RRep (RCat (RSet [CDigit]) (RRep (RSet [COne (CHR '' ''), COne (CHR ''-'')]) 0 (Some 1)))
                 13 (Some 16))
           RWordB)"

definition PATTERNS :: "(string \<times> rx) list" where
  "PATTERNS =
     [(''email'', email_rx), (''iban'', iban_rx), (''phone'', phone_rx),
      (''ssn_like'', ssn_like_rx), (''credit_card'', credit_card_rx)]"

section \<open>The sweep\<close>

text \<open>
  The loop of \<^verbatim>\<open>redact_text\<close>: the patterns in dictionary order, each on the text the
  previous ones left.
\<close>

fun sweep :: "(string \<times> rx) list \<Rightarrow> string \<Rightarrow> string \<times> string list" where
  "sweep [] out = (out, [])"
| "sweep ((name, pattern) # ps) out =
     (if search pattern out \<noteq> None
      then (let (out', matched) = sweep ps (sub pattern MASK out) in (out', name # matched))
      else sweep ps out)"

definition redact_text :: "string \<Rightarrow> string \<times> string list" where
  "redact_text text = sweep PATTERNS text"

section \<open>Redaction of a value\<close>

record redaction_result =
  rr_data :: pyval
  rr_redacted_fields :: "string list"
  rr_matched_patterns :: "string list"

definition redaction_status :: "redaction_result \<Rightarrow> string" where
  "redaction_status r =
     (if rr_redacted_fields r = [] \<and> rr_matched_patterns r = [] then ''none'' else ''redacted'')"

text \<open>
  \<^verbatim>\<open>_walk\<close> threads the two lists of the result: the redacted fields and the matched
  patterns, each name once.
\<close>

type_synonym rlists = "string list \<times> string list"

definition masked_key :: "string list \<Rightarrow> bool \<Rightarrow> string option \<Rightarrow> bool" where
  "masked_key sens allow_raw key \<longleftrightarrow>
     (case key of None \<Rightarrow> False | Some k \<Rightarrow> k \<in> set sens \<and> \<not> allow_raw)"

definition note_field :: "string option \<Rightarrow> rlists \<Rightarrow> rlists" where
  "note_field key st =
     (case key of None \<Rightarrow> st | Some k \<Rightarrow> (add_once k (fst st), snd st))"

definition walk_leaf :: "string list \<Rightarrow> bool \<Rightarrow> string option \<Rightarrow> pyval \<Rightarrow> rlists \<Rightarrow> pyval \<times> rlists" where
  "walk_leaf sens allow_raw key node st =
     (case node of
        PStr s \<Rightarrow>
          if masked_key sens allow_raw key then (PStr MASK, note_field key st)
          else (case redact_text s of (new, matched) \<Rightarrow>
                  (PStr new, (fst st, fold add_once matched (snd st))))
      | _ \<Rightarrow>
          if masked_key sens allow_raw key then (PStr MASK, note_field key st) else (node, st))"

fun walk :: "string list \<Rightarrow> bool \<Rightarrow> string option \<Rightarrow> pyval \<Rightarrow> rlists \<Rightarrow> pyval \<times> rlists"
and walk_items :: "string list \<Rightarrow> bool \<Rightarrow> pydict \<Rightarrow> rlists \<Rightarrow> pydict \<times> rlists"
and walk_list :: "string list \<Rightarrow> bool \<Rightarrow> string option \<Rightarrow> pyval list \<Rightarrow> rlists \<Rightarrow> pyval list \<times> rlists"
where
  "walk sens allow_raw key (PDict kvs) st =
     (let (kvs', st') = walk_items sens allow_raw kvs st in (PDict kvs', st'))"
| "walk sens allow_raw key (PList xs) st =
     (let (xs', st') = walk_list sens allow_raw key xs st in (PList xs', st'))"
| "walk sens allow_raw key node st = walk_leaf sens allow_raw key node st"
| "walk_items sens allow_raw [] st = ([], st)"
| "walk_items sens allow_raw ((k, v) # kvs) st =
     (let (v', st1) = walk sens allow_raw (Some k) v st;
          (kvs', st2) = walk_items sens allow_raw kvs st1
      in ((k, v') # kvs', st2))"
| "walk_list sens allow_raw key [] st = ([], st)"
| "walk_list sens allow_raw key (x # xs) st =
     (let (x', st1) = walk sens allow_raw key x st;
          (xs', st2) = walk_list sens allow_raw key xs st1
      in (x' # xs', st2))"

definition redact :: "pyval \<Rightarrow> string list \<Rightarrow> bool \<Rightarrow> redaction_result" where
  "redact data sensitive_fields allow_raw =
     (case walk sensitive_fields allow_raw None data ([], []) of
        (data', fs, ps) \<Rightarrow>
          \<lparr>rr_data = data', rr_redacted_fields = fs, rr_matched_patterns = ps\<rparr>)"

end
