(* ===== verification/Executor.thy ===== *)
theory Executor
  imports Auth Rbac Pii AuditDb ServiceBus
begin

text \<open>
  \<^verbatim>\<open>apps/mcp-gateway/app/executor.py\<close>: the governed execution pipeline. A call runs inside
  one audit session; the message queue is the second state, and commits on its own.

  What the call draws from its surroundings (uuids, the current trace, clocks) is the record
  \<open>call_env\<close>. Tracing spans have no effect on the state and are left out. The em dash of the
  messages (beyond Latin-1) is written as two hyphens.
\<close>

section \<open>Outcome\<close>

record outcome =
  oc_request_id :: string
  oc_trace_id :: string
  oc_tool :: string
  oc_decision :: string
  oc_result :: "pydict option"
  oc_job_id :: "string option"
  oc_approval_id :: "string option"
  oc_error_code :: "string option"
  oc_message :: "string option"
  oc_redaction_status :: string
  oc_redacted_fields :: "string list option"
  oc_matched_patterns :: "string list option"
  oc_latency_ms :: pyfloat

text \<open>The four required fields, the others at their defaults.\<close>

definition InvocationOutcome :: "string \<Rightarrow> string \<Rightarrow> string \<Rightarrow> string \<Rightarrow> outcome" where
  "InvocationOutcome request_id trace_id tool decision =
     \<lparr>oc_request_id = request_id, oc_trace_id = trace_id, oc_tool = tool, oc_decision = decision,
      oc_result = None, oc_job_id = None, oc_approval_id = None, oc_error_code = None,
      oc_message = None, oc_redaction_status = ''none'', oc_redacted_fields = None,
      oc_matched_patterns = None, oc_latency_ms = FlFin 0 0\<rparr>"

definition http_status :: "outcome \<Rightarrow> nat" where
  "http_status oc =
     (case map_of [(''denied'', 403), (''queued'', 202), (''dry_run'', 200), (''executed'', 200),
                   (''failed'', 400)] (oc_decision oc) of
        None \<Rightarrow> 200 | Some n \<Rightarrow> n)"

section \<open>The executor and its inputs\<close>

record 'q executor =
  ex_registry :: tool_registry
  ex_settings :: settings
  ex_queue :: "'q message_queue"
  ex_tool_ctx :: tool_context
  ex_known_roles :: "string list"

definition new_executor ::
  "tool_registry \<Rightarrow> settings \<Rightarrow> 'q message_queue \<Rightarrow> databricks \<Rightarrow> 'q executor" where
  "new_executor registry s queue dbx =
     \<lparr>ex_registry = registry, ex_settings = s, ex_queue = queue,
      ex_tool_ctx = \<lparr>cx_settings = s, cx_databricks = dbx\<rparr>, ex_known_roles = all_roles\<rparr>"

record call_env =
  ce_request_uuid :: uuid_hex
  ce_current_trace :: "string option"
  ce_trace_uuid :: uuid_hex
  ce_approval_uuid :: uuid_hex
  ce_key_uuid :: uuid_hex
  ce_job_uuid :: uuid_hex
  ce_started :: pyfloat
  ce_finished :: pyfloat
  ce_now :: instant

record invocation =
  iv_caller :: caller
  iv_tool :: string
  iv_arguments :: pydict
  iv_idempotency_key :: "string option"
  iv_approval_token :: "string option"
  iv_request_id :: "string option"

text \<open>\<^verbatim>\<open>x or y\<close> for an optional text.\<close>

definition text_or :: "string option \<Rightarrow> string \<Rightarrow> string" where
  "text_or x y = (case x of None \<Rightarrow> y | Some s \<Rightarrow> if s = [] then y else s)"

definition iv_request :: "call_env \<Rightarrow> invocation \<Rightarrow> string" where
  "iv_request env iv = text_or (iv_request_id iv) (gen_request_id (ce_request_uuid env))"

definition iv_trace :: "call_env \<Rightarrow> string" where
  "iv_trace env = text_or (ce_current_trace env) (ce_trace_uuid env)"

definition iv_input_hash :: "invocation \<Rightarrow> string" where
  "iv_input_hash iv =
     sha256_hex (PDict [(''tool'', PStr (iv_tool iv)), (''args'', PDict (iv_arguments iv))])"

definition outcome_for :: "call_env \<Rightarrow> invocation \<Rightarrow> string \<Rightarrow> string \<Rightarrow> outcome" where
  "outcome_for env iv tool decision =
     InvocationOutcome (iv_request env iv) (iv_trace env) tool decision"

definition refused :: "call_env \<Rightarrow> invocation \<Rightarrow> string \<Rightarrow> string \<Rightarrow> string \<Rightarrow> string \<Rightarrow> outcome" where
  "refused env iv tool decision code msg =
     (outcome_for env iv tool decision)\<lparr>oc_error_code := Some code, oc_message := Some msg\<rparr>"

section \<open>Redaction of the output\<close>

text \<open>A redacted dictionary is a dictionary (\<open>walk\<close> keeps the constructor).\<close>

fun dict_of :: "pyval \<Rightarrow> pydict" where
  "dict_of (PDict d) = d"
| "dict_of _ = []"

definition redact_output :: "tool_spec \<Rightarrow> caller \<Rightarrow> pydict \<Rightarrow> pydict \<times> redaction_result" where
  "redact_output spec cl result_output =
     (let allow_raw = cl_role cl \<in> set (ts_raw_pii_roles spec);
          red = redact (PDict result_output) (ts_sensitive_fields spec) allow_raw
      in (dict_of (rr_data red), red))"

section \<open>Handlers\<close>

type_synonym 'q call_state = "session \<times> 'q"

definition handle_sync ::
  "'q executor \<Rightarrow> call_env \<Rightarrow> invocation \<Rightarrow> tool_spec \<Rightarrow> pydict \<Rightarrow> ('q call_state, outcome) prog" where
  "handle_sync ex env iv spec args st =
     (case ts_run spec (ex_tool_ctx ex) args of
        Inl e \<Rightarrow> (Inl e, st)
      | Inr result \<Rightarrow>
          (let (redacted, red) = redact_output spec (iv_caller iv) (tr_output result) in
           (Inr ((outcome_for env iv (ts_name spec) ''executed'')
                   \<lparr>oc_result := Some redacted,
                    oc_redaction_status := redaction_status red,
                    oc_redacted_fields := Some (rr_redacted_fields red),
                    oc_matched_patterns := Some (rr_matched_patterns red)\<rparr>), st)))"

definition approval_id_of :: "call_env \<Rightarrow> string" where
  "approval_id_of env = ''apr_'' @ take 16 (ce_approval_uuid env)"

definition pending_approval :: "call_env \<Rightarrow> invocation \<Rightarrow> tool_spec \<Rightarrow> tool_result \<Rightarrow> approval" where
  "pending_approval env iv spec result =
     \<lparr>ap_approval_id = approval_id_of env,
      ap_tool_name = ts_name spec,
      ap_resource_id = py_str (dict_get_or (tr_metadata result) ''resource_id'' (PStr '''')),
      ap_proposed_change = dict_get_or (tr_metadata result) ''proposed_change'' (PDict []),
      ap_requested_by_agent = cl_agent_id (iv_caller iv),
      ap_requested_by_role = cl_role (iv_caller iv),
      ap_status = ''pending'', ap_approved_by = None, ap_created_at = 0, ap_updated_at = 0\<rparr>"

definition handle_dry_run ::
  "'q executor \<Rightarrow> call_env \<Rightarrow> invocation \<Rightarrow> tool_spec \<Rightarrow> pydict \<Rightarrow> ('q call_state, outcome) prog" where
  "handle_dry_run ex env iv spec args st =
     (case ts_run spec (ex_tool_ctx ex) args of
        Inl e \<Rightarrow> (Inl e, st)
      | Inr result \<Rightarrow>
          (let approval_id = approval_id_of env;
               st' = (create_approval (pending_approval env iv spec result) (fst st), snd st);
               (redacted, red) = redact_output spec (iv_caller iv) (tr_output result)
           in (Inr ((outcome_for env iv (ts_name spec) ''dry_run'')
                   \<lparr>oc_result := Some (odict_set ''approval_id'' (PStr approval_id) redacted),
                    oc_approval_id := Some approval_id,
                    oc_message := Some
                      ''Dry run only -- no writes performed. Human approval required.'',
                    oc_redaction_status := redaction_status red,
                    oc_redacted_fields := Some (rr_redacted_fields red),
                    oc_matched_patterns := Some (rr_matched_patterns red)\<rparr>), st')))"

definition job_id_of :: "call_env \<Rightarrow> string" where
  "job_id_of env = ''job_'' @ take 16 (ce_job_uuid env)"

definition call_key :: "call_env \<Rightarrow> invocation \<Rightarrow> string" where
  "call_key env iv = text_or (iv_idempotency_key iv) (gen_idempotency_key (ce_key_uuid env))"

definition queued_job :: "call_env \<Rightarrow> invocation \<Rightarrow> tool_spec \<Rightarrow> pydict \<Rightarrow> async_job" where
  "queued_job env iv spec args =
     \<lparr>aj_job_id = job_id_of env, aj_trace_id = iv_trace env, aj_request_id = iv_request env iv,
      aj_tool_name = ts_name spec, aj_idempotency_key = call_key env iv,
      aj_user_id = cl_subject (iv_caller iv), aj_agent_id = cl_agent_id (iv_caller iv),
      aj_role = cl_role (iv_caller iv), aj_payload = [(''arguments'', PDict args)],
      aj_status = ''queued'', aj_attempts = 0, aj_result = None, aj_error_code = None,
      aj_error_detail = None, aj_created_at = 0, aj_updated_at = 0\<rparr>"

definition job_message :: "call_env \<Rightarrow> invocation \<Rightarrow> tool_spec \<Rightarrow> pydict \<Rightarrow> pydict" where
  "job_message env iv spec args =
     [(''job_id'', PStr (job_id_of env)), (''idempotency_key'', PStr (call_key env iv)),
      (''tool_name'', PStr (ts_name spec)), (''trace_id'', PStr (iv_trace env)),
      (''arguments'', PDict args)]"

definition duplicate_outcome :: "call_env \<Rightarrow> invocation \<Rightarrow> tool_spec \<Rightarrow> string option \<Rightarrow> outcome" where
  "duplicate_outcome env iv spec job_id =
     (outcome_for env iv (ts_name spec) ''queued'')
       \<lparr>oc_job_id := job_id,
        oc_message := Some ''duplicate idempotency key -- returning existing job''\<rparr>"

definition handle_async ::
  "'q executor \<Rightarrow> call_env \<Rightarrow> invocation \<Rightarrow> tool_spec \<Rightarrow> pydict \<Rightarrow> ('q call_state, outcome) prog" where
  "handle_async ex env iv spec args st =
     (let idk = call_key env iv; (s, q) = st in
      case get_idempotency idk s of
        Some existing \<Rightarrow> (Inr (duplicate_outcome env iv spec (ik_job_id existing)), st)
      | None \<Rightarrow>
          (case reserve_idempotency idk (ts_name spec) (iv_input_hash iv) (Some (job_id_of env)) s of
             (Inl (IdempotencyConflict m), s1) \<Rightarrow>
               (Inr (duplicate_outcome env iv spec
                  (case get_idempotency idk s1 of None \<Rightarrow> None | Some row \<Rightarrow> ik_job_id row)), (s1, q))
           | (Inl e, s1) \<Rightarrow> (Inl e, (s1, q))
           | (Inr _, s1) \<Rightarrow>
               (let s2 = create_job (queued_job env iv spec args) s1 in
                case mq_publish (ex_queue ex) (ce_now env) (job_message env iv spec args) q of
                  (Inl e, q') \<Rightarrow> (Inl e, (s2, q'))
                | (Inr _, q') \<Rightarrow>
                    (Inr ((outcome_for env iv (ts_name spec) ''queued'')
                       \<lparr>oc_job_id := Some (job_id_of env),
                        oc_message := Some ''job queued for asynchronous execution''\<rparr>), (s2, q')))))"

text \<open>
  \<^verbatim>\<open>approval.status = "consumed"\<close> and \<^verbatim>\<open>approval.approved_by = ...\<close>: assignments to the row
  that the commit writes.
\<close>

definition set_approval :: "string \<Rightarrow> string \<Rightarrow> string \<Rightarrow> session \<Rightarrow> session" where
  "set_approval approval_id status subject s =
     se_add (UpdateApproval approval_id status subject (se_now s)) s"

definition approval_ref :: "pydict \<Rightarrow> string option" where
  "approval_ref args =
     (case as_text (dict_get args ''approved_change_id'') of
        None \<Rightarrow> None
      | Some a \<Rightarrow> if a = [] then None else Some a)"

definition handle_destructive ::
  "'q executor \<Rightarrow> call_env \<Rightarrow> invocation \<Rightarrow> tool_spec \<Rightarrow> pydict \<Rightarrow> ('q call_state, outcome) prog" where
  "handle_destructive ex env iv spec args st =
     (let (s, q) = st;
          configured = st_admin_approval_token (ex_settings ex);
          denied = refused env iv (ts_name spec) ''denied''
      in
      if \<not> ts_enabled spec then
        (Inr (denied ''tool_disabled''
           ''destructive tool is disabled in this environment (demo mode)''), st)
      else if configured = [] \<or> text_or (iv_approval_token iv) [] = []
              \<or> iv_approval_token iv \<noteq> Some configured then
        (Inr (denied ''APPROVAL_REQUIRED''
           ''a valid X-Approval-Token is required for destructive execution''), st)
      else
        (case Option.bind (approval_ref args) (\<lambda>a. get_approval a s) of
           None \<Rightarrow> (Inr (denied ''APPROVAL_NOT_APPROVED''
              (''referenced approval does not exist or is not in '' @ sq @ ''approved'' @ sq @ '' state'')), st)
         | Some approval \<Rightarrow>
             if ap_status approval \<noteq> ''approved'' then
               (Inr (denied ''APPROVAL_NOT_APPROVED''
                  (''referenced approval does not exist or is not in '' @ sq @ ''approved'' @ sq @ '' state'')), st)
             else
               (case ts_run spec (ex_tool_ctx ex) args of
                  Inl e \<Rightarrow> (Inl e, st)
                | Inr result \<Rightarrow>
                    (let s' = set_approval (ap_approval_id approval) ''consumed''
                                (cl_subject (iv_caller iv)) s;
                         (redacted, red) = redact_output spec (iv_caller iv) (tr_output result)
                     in (Inr ((outcome_for env iv (ts_name spec) ''executed'')
                           \<lparr>oc_result := Some redacted,
                            oc_approval_id := approval_ref args,
                            oc_redaction_status := redaction_status red\<rparr>), (s', q))))))"

section \<open>The pipeline\<close>

text \<open>\<^verbatim>\<open>finish\<close>: the latency, one \<^verbatim>\<open>tool_calls\<close> row and one \<^verbatim>\<open>audit_events\<close> row.\<close>

definition opt_text :: "string option \<Rightarrow> pyval" where
  "opt_text x = (case x of None \<Rightarrow> PNone | Some s \<Rightarrow> PStr s)"

definition latency_ms :: "call_env \<Rightarrow> pyfloat" where
  "latency_ms env = round2 (fl_mul_int (fl_minus (ce_finished env) (ce_started env)) 1000)"

definition call_row :: "call_env \<Rightarrow> invocation \<Rightarrow> outcome \<Rightarrow> tool_call" where
  "call_row env iv oc =
     \<lparr>tc_trace_id = iv_trace env, tc_request_id = iv_request env iv,
      tc_user_id = cl_subject (iv_caller iv), tc_agent_id = cl_agent_id (iv_caller iv),
      tc_role = cl_role (iv_caller iv), tc_tool_name = iv_tool iv,
      tc_input_hash = iv_input_hash iv, tc_redaction_status = oc_redaction_status oc,
      tc_decision = oc_decision oc, tc_error_code = oc_error_code oc,
      tc_latency_ms = oc_latency_ms oc, tc_created_at = 0\<rparr>"

definition event_row :: "call_env \<Rightarrow> invocation \<Rightarrow> outcome \<Rightarrow> audit_event" where
  "event_row env iv oc =
     blank_event\<lparr>ev_trace_id := iv_trace env, ev_request_id := iv_request env iv,
       ev_event_type := ''tool.'' @ oc_decision oc, ev_decision := oc_decision oc,
       ev_tool_name := iv_tool iv, ev_user_id := cl_subject (iv_caller iv),
       ev_agent_id := cl_agent_id (iv_caller iv), ev_role := cl_role (iv_caller iv),
       ev_detail := [(''error_code'', opt_text (oc_error_code oc)),
                     (''message'', opt_text (oc_message oc))]\<rparr>"

definition finish :: "call_env \<Rightarrow> invocation \<Rightarrow> outcome \<Rightarrow> session \<Rightarrow> outcome \<times> session" where
  "finish env iv oc s =
     (let oc' = oc\<lparr>oc_latency_ms := latency_ms env\<rparr> in
      (oc', record_event (event_row env iv oc') (record_tool_call (call_row env iv oc') s)))"

text \<open>Step 3: routing by classification and mode.\<close>

definition route ::
  "'q executor \<Rightarrow> call_env \<Rightarrow> invocation \<Rightarrow> tool_spec \<Rightarrow> pydict \<Rightarrow> ('q call_state, outcome) prog" where
  "route ex env iv spec args =
     (if ts_classification spec = DESTRUCTIVE then handle_destructive ex env iv spec args
      else if ts_dry_run_required spec then handle_dry_run ex env iv spec args
      else if ts_execution_mode spec = ASYNC then handle_async ex env iv spec args
      else handle_sync ex env iv spec args)"

text \<open>The two \<^verbatim>\<open>except\<close> clauses around it.\<close>

definition failure_code :: "py_exn \<Rightarrow> string" where
  "failure_code e = (case e of ToolError msg code \<Rightarrow> code | _ \<Rightarrow> ''INTERNAL_ERROR'')"

definition failed_outcome :: "call_env \<Rightarrow> invocation \<Rightarrow> py_exn \<Rightarrow> outcome" where
  "failed_outcome env iv e =
     refused env iv (iv_tool iv) ''failed'' (failure_code e) (exn_message e)"

text \<open>What the steps before \<open>finish\<close> decide, with the state they leave.\<close>

definition decide ::
  "validator \<Rightarrow> 'q executor \<Rightarrow> call_env \<Rightarrow> invocation \<Rightarrow> 'q call_state \<Rightarrow> outcome \<times> 'q call_state" where
  "decide V ex env iv st =
     (case registry_get (ex_registry ex) (iv_tool iv) of
        None \<Rightarrow>
          (refused env iv (iv_tool iv) ''denied'' ''UNKNOWN_TOOL''
             (''tool '' @ sq @ iv_tool iv @ sq @ '' is not in the published registry''), st)
      | Some spec \<Rightarrow>
          (let dc = evaluate (cl_role (iv_caller iv)) (ts_required_roles spec)
                      (ex_known_roles ex) (ts_enabled spec) in
           if \<not> dc_allowed dc then
             (refused env iv (iv_tool iv) ''denied'' (decision_code dc) (dc_detail dc), st)
           else
             (case validate_args V spec (iv_arguments iv) of
                Inl msg \<Rightarrow> (refused env iv (iv_tool iv) ''failed'' ''INVALID_ARGUMENTS'' msg, st)
              | Inr args \<Rightarrow>
                  (case route ex env iv spec args st of
                     (Inl e, st') \<Rightarrow> (failed_outcome env iv e, st')
                   | (Inr oc, st') \<Rightarrow> (oc, st')))))"

definition invoke_body ::
  "validator \<Rightarrow> 'q executor \<Rightarrow> call_env \<Rightarrow> invocation \<Rightarrow> ('q call_state, outcome) prog" where
  "invoke_body V ex env iv st =
     (let (oc, s, q) = decide V ex env iv st; (oc', s') = finish env iv oc s in (Inr oc', (s', q)))"

definition invoke ::
  "validator \<Rightarrow> 'q executor \<Rightarrow> call_env \<Rightarrow> invocation \<Rightarrow> (db \<times> 'q, outcome) prog" where
  "invoke V ex env iv =
     session_scope (engine_of_url (st_database_url (ex_settings ex))) (ce_now env)
       (invoke_body V ex env iv)"

end
