(* ===== verification/Pipeline.thy ===== *)
theory Pipeline
  imports Executor Tools
begin

text \<open>
  The guarantees of the execution pipeline: what every call records, what it needs to run a
  tool, and what each route leaves in the database and the queue.
\<close>

section \<open>The effect of each route\<close>

text \<open>Writes that are not rows of the audit trail.\<close>

fun audit_write :: "db_write \<Rightarrow> bool" where
  "audit_write (AddEvent _) = True"
| "audit_write (AddCall _) = True"
| "audit_write _ = False"

lemma handle_sync_state: "handle_sync ex env iv spec args st = (r, st') \<Longrightarrow> st' = st"
  by (auto simp: handle_sync_def split: sum.splits prod.splits)

lemma handle_sync_Inr:
  "handle_sync ex env iv spec args st = (Inr oc, st') \<Longrightarrow> oc_decision oc = ''executed''"
  by (auto simp: handle_sync_def outcome_for_def InvocationOutcome_def split: sum.splits prod.splits)

lemma handle_dry_run_cases:
  assumes "handle_dry_run ex env iv spec args (s, q) = (r, (s', q'))"
  obtains (raised) e where "ts_run spec (ex_tool_ctx ex) args = Inl e" "r = Inl e" "s' = s" "q' = q"
  | (proposed) result oc where "ts_run spec (ex_tool_ctx ex) args = Inr result" "r = Inr oc"
      "s' = create_approval (pending_approval env iv spec result) s" "q' = q"
      "oc_decision oc = ''dry_run''" "oc_approval_id oc = Some (approval_id_of env)"
      "oc_error_code oc = None"
proof (cases "ts_run spec (ex_tool_ctx ex) args")
  case (Inl e)
  with assms have "r = Inl e" "s' = s" "q' = q" by (simp_all add: handle_dry_run_def)
  with Inl show ?thesis by (rule raised)
next
  case (Inr result)
  with assms show ?thesis
    by (intro proposed [of result "projr r"])
      (auto simp: handle_dry_run_def outcome_for_def InvocationOutcome_def Let_def split: prod.splits)
qed

lemma handle_async_cases:
  assumes "handle_async ex env iv spec args (s, q) = (r, (s', q'))"
  obtains (duplicate) row where "get_idempotency (call_key env iv) s = Some row"
      "r = Inr (duplicate_outcome env iv spec (ik_job_id row))" "s' = s" "q' = q"
  | (submitted) p oc where "get_idempotency (call_key env iv) s = None"
      "s' = create_job (queued_job env iv spec args)
        (snd (reserve_idempotency (call_key env iv) (ts_name spec) (iv_input_hash iv) (Some (job_id_of env)) s))"
      "mq_publish (ex_queue ex) (ce_now env) (job_message env iv spec args) q = (p, q')"
      "p = Inr () \<Longrightarrow> r = Inr oc \<and> oc_decision oc = ''queued'' \<and> oc_job_id oc = Some (job_id_of env)
         \<and> oc_error_code oc = None"
      "\<And>e. p = Inl e \<Longrightarrow> r = Inl e"
proof (cases "get_idempotency (call_key env iv) s")
  case (Some row)
  with assms have "r = Inr (duplicate_outcome env iv spec (ik_job_id row))" "s' = s" "q' = q"
    by (simp_all add: handle_async_def)
  with Some show ?thesis by (rule duplicate)
next
  case None
  obtain p q1 where p: "mq_publish (ex_queue ex) (ce_now env) (job_message env iv spec args) q = (p, q1)"
    by (metis prod.exhaust)
  let ?s' = "create_job (queued_job env iv spec args)
    (snd (reserve_idempotency (call_key env iv) (ts_name spec) (iv_input_hash iv) (Some (job_id_of env)) s))"
  have step: "handle_async ex env iv spec args (s, q) =
      (case p of Inl e \<Rightarrow> (Inl e, (?s', q1))
       | Inr _ \<Rightarrow> (Inr ((outcome_for env iv (ts_name spec) ''queued'')
           \<lparr>oc_job_id := Some (job_id_of env),
            oc_message := Some ''job queued for asynchronous execution''\<rparr>), (?s', q1)))"
    using None by (cases p) (simp_all add: handle_async_def reserve_idempotency_def p)
  show ?thesis
  proof (cases p)
    case (Inl e)
    then have "r = Inl e" "s' = ?s'" "q' = q1" using assms step by auto
    then show ?thesis by (intro submitted [of p undefined]) (use None p Inl in auto)
  next
    case (Inr u)
    let ?oc = "(outcome_for env iv (ts_name spec) ''queued'')
      \<lparr>oc_job_id := Some (job_id_of env), oc_message := Some ''job queued for asynchronous execution''\<rparr>"
    from Inr have "r = Inr ?oc" "s' = ?s'" "q' = q1" using assms step by auto
    then show ?thesis
      by (intro submitted [of p ?oc]) (use None p Inr in \<open>auto simp: outcome_for_def InvocationOutcome_def\<close>)
  qed
qed

lemma handle_destructive_cases:
  assumes "handle_destructive ex env iv spec args (s, q) = (r, (s', q'))"
  obtains (denied) oc where "r = Inr oc" "oc_decision oc = ''denied''" "s' = s" "q' = q"
  | (raised) e where "r = Inl e" "s' = s" "q' = q" "ts_run spec (ex_tool_ctx ex) args = Inl e"
  | (applied) a approval result oc where "r = Inr oc" "oc_decision oc = ''executed''"
      "oc_approval_id oc = Some a" "q' = q"
      "ts_enabled spec" "st_admin_approval_token (ex_settings ex) \<noteq> []"
      "iv_approval_token iv = Some (st_admin_approval_token (ex_settings ex))"
      "approval_ref args = Some a" "get_approval a s = Some approval" "ap_status approval = ''approved''"
      "ts_run spec (ex_tool_ctx ex) args = Inr result"
      "s' = set_approval (ap_approval_id approval) ''consumed'' (cl_subject (iv_caller iv)) s"
proof -
  note defs = handle_destructive_def refused_def outcome_for_def InvocationOutcome_def Let_def
  let ?cfg = "st_admin_approval_token (ex_settings ex)"
  let ?refused = "\<exists>oc. r = Inr oc \<and> oc_decision oc = ''denied'' \<and> s' = s \<and> q' = q"
  let ?found = "Option.bind (approval_ref args) (\<lambda>a. get_approval a s)"
  consider (gate) "\<not> (ts_enabled spec \<and> ?cfg \<noteq> [] \<and> iv_approval_token iv = Some ?cfg)"
    | (missing) "ts_enabled spec" "?cfg \<noteq> []" "iv_approval_token iv = Some ?cfg" "?found = None"
    | (found) a approval where "ts_enabled spec" "?cfg \<noteq> []" "iv_approval_token iv = Some ?cfg"
        "approval_ref args = Some a" "get_approval a s = Some approval"
    by (cases ?found) (auto simp: bind_eq_Some_conv)
  then show ?thesis
  proof cases
    case gate
    with assms have ?refused by (auto simp: defs text_or_def split: if_splits)
    then show ?thesis using denied by blast
  next
    case missing
    with assms have ?refused by (auto simp: defs text_or_def)
    then show ?thesis using denied by blast
  next
    case found
    show ?thesis
    proof (cases "ap_status approval = ''approved''")
      case False
      with found assms have ?refused by (auto simp: defs text_or_def)
      then show ?thesis using denied by blast
    next
      case approved: True
      show ?thesis
      proof (cases "ts_run spec (ex_tool_ctx ex) args")
        case (Inl e)
        with found approved assms have "r = Inl e" "s' = s" "q' = q"
          by (simp_all add: defs text_or_def)
        with Inl show ?thesis by (intro raised) simp_all
      next
        case (Inr result)
        have "\<exists>oc. r = Inr oc \<and> oc_decision oc = ''executed'' \<and> oc_approval_id oc = Some a \<and> q' = q
          \<and> s' = set_approval (ap_approval_id approval) ''consumed'' (cl_subject (iv_caller iv)) s"
          using assms found approved Inr by (auto simp: defs text_or_def split: prod.splits)
        then show ?thesis using found approved Inr by (elim exE conjE) (rule applied)
      qed
    qed
  qed
qed

section \<open>The decision as a whole\<close>

lemma decide_cases:
  assumes "decide V ex env iv st = (oc, st')"
  obtains (unknown) "registry_get (ex_registry ex) (iv_tool iv) = None" "st' = st"
      "oc_decision oc = ''denied''" "oc_error_code oc = Some ''UNKNOWN_TOOL''"
  | (denied) spec where "registry_get (ex_registry ex) (iv_tool iv) = Some spec" "st' = st"
      "\<not> dc_allowed (evaluate (cl_role (iv_caller iv)) (ts_required_roles spec) (ex_known_roles ex) (ts_enabled spec))"
      "oc_decision oc = ''denied''"
      "oc_error_code oc = Some (decision_code (evaluate (cl_role (iv_caller iv)) (ts_required_roles spec) (ex_known_roles ex) (ts_enabled spec)))"
  | (invalid) spec msg where "registry_get (ex_registry ex) (iv_tool iv) = Some spec" "st' = st"
      "dc_allowed (evaluate (cl_role (iv_caller iv)) (ts_required_roles spec) (ex_known_roles ex) (ts_enabled spec))"
      "validate_args V spec (iv_arguments iv) = Inl msg"
      "oc_decision oc = ''failed''" "oc_error_code oc = Some ''INVALID_ARGUMENTS''"
  | (routed) spec args r where "registry_get (ex_registry ex) (iv_tool iv) = Some spec"
      "dc_allowed (evaluate (cl_role (iv_caller iv)) (ts_required_roles spec) (ex_known_roles ex) (ts_enabled spec))"
      "validate_args V spec (iv_arguments iv) = Inr args"
      "route ex env iv spec args st = (r, st')"
      "oc = (case r of Inl e \<Rightarrow> failed_outcome env iv e | Inr oc' \<Rightarrow> oc')"
proof -
  note defs = decide_def refused_def outcome_for_def InvocationOutcome_def Let_def
  let ?dc = "\<lambda>spec. evaluate (cl_role (iv_caller iv)) (ts_required_roles spec) (ex_known_roles ex) (ts_enabled spec)"
  consider (A) "registry_get (ex_registry ex) (iv_tool iv) = None"
    | (B) spec where "registry_get (ex_registry ex) (iv_tool iv) = Some spec" "\<not> dc_allowed (?dc spec)"
    | (C) spec msg where "registry_get (ex_registry ex) (iv_tool iv) = Some spec" "dc_allowed (?dc spec)"
        "validate_args V spec (iv_arguments iv) = Inl msg"
    | (D) spec args where "registry_get (ex_registry ex) (iv_tool iv) = Some spec" "dc_allowed (?dc spec)"
        "validate_args V spec (iv_arguments iv) = Inr args"
    by (metis option.exhaust sum.exhaust)
  then show ?thesis
  proof cases
    case A
    with assms have "st' = st" "oc_decision oc = ''denied''" "oc_error_code oc = Some ''UNKNOWN_TOOL''"
      by (auto simp: defs)
    with A show ?thesis by (rule unknown)
  next
    case B
    with assms have "st' = st" "oc_decision oc = ''denied''"
      "oc_error_code oc = Some (decision_code (?dc spec))"
      by (auto simp: defs simp del: evaluate_allowed_iff)
    then show ?thesis using B by (intro denied)
  next
    case C
    with assms have "st' = st" "oc_decision oc = ''failed''" "oc_error_code oc = Some ''INVALID_ARGUMENTS''"
      by (auto simp: defs simp del: evaluate_allowed_iff)
    then show ?thesis using C by (intro invalid)
  next
    case D
    obtain r where r: "route ex env iv spec args st = (r, st')"
      "oc = (case r of Inl e \<Rightarrow> failed_outcome env iv e | Inr oc' \<Rightarrow> oc')"
      using assms D by (auto simp: decide_def Let_def simp del: evaluate_allowed_iff split: prod.splits sum.splits)
    show ?thesis by (rule routed [OF D r])
  qed
qed

section \<open>The session of a call\<close>

lemma reserve_free:
  "get_idempotency k s = None \<Longrightarrow> snd (reserve_idempotency k t h j s) =
    se_add (AddKey \<lparr>ik_key = k, ik_tool_name = t, ik_job_id = j, ik_input_hash = h,
      ik_status = ''reserved'', ik_result = None, ik_created_at = se_now s\<rparr>) s"
  by (simp add: reserve_idempotency_def)

text \<open>The writes each route can make before \<open>finish\<close>.\<close>

inductive side_log :: "'q executor \<Rightarrow> call_env \<Rightarrow> invocation \<Rightarrow> tool_spec \<Rightarrow> pydict \<Rightarrow> session \<Rightarrow>
    db_write list \<Rightarrow> bool"
  for ex env iv spec args s where
  no_writes: "side_log ex env iv spec args s []"
| one_approval: "ts_run spec (ex_tool_ctx ex) args = Inr result \<Longrightarrow>
    side_log ex env iv spec args s [AddApproval ((pending_approval env iv spec result)
      \<lparr>ap_created_at := se_now s, ap_updated_at := se_now s\<rparr>)]"
| key_and_job: "get_idempotency (call_key env iv) s = None \<Longrightarrow>
    side_log ex env iv spec args s
      [AddKey \<lparr>ik_key = call_key env iv, ik_tool_name = ts_name spec, ik_job_id = Some (job_id_of env),
         ik_input_hash = iv_input_hash iv, ik_status = ''reserved'', ik_result = None,
         ik_created_at = se_now s\<rparr>,
       AddJob ((queued_job env iv spec args)\<lparr>aj_created_at := se_now s, aj_updated_at := se_now s\<rparr>)]"
| consumed: "approval_ref args = Some a \<Longrightarrow> get_approval a s = Some approval \<Longrightarrow>
    ap_status approval = ''approved'' \<Longrightarrow>
    side_log ex env iv spec args s
      [UpdateApproval (ap_approval_id approval) ''consumed'' (cl_subject (iv_caller iv)) (se_now s)]"

definition log_by :: "session \<Rightarrow> db_write list \<Rightarrow> session \<Rightarrow> bool" where
  "log_by s ws s' \<longleftrightarrow> s' = s\<lparr>se_log := se_log s @ ws\<rparr>"

lemma log_by_simps [simp]:
  "log_by s [] s"
  "log_by s [w] (se_add w s)"
  "log_by s [w, v] (se_add v (se_add w s))"
  by (simp_all add: log_by_def se_add_def)

lemma route_log:
  assumes "route ex env iv spec args (s, q) = (r, (s', q'))"
  shows "\<exists>ws. side_log ex env iv spec args s ws \<and> log_by s ws s'"
proof -
  consider "handle_destructive ex env iv spec args (s, q) = (r, (s', q'))"
    | "handle_dry_run ex env iv spec args (s, q) = (r, (s', q'))"
    | "handle_async ex env iv spec args (s, q) = (r, (s', q'))"
    | "handle_sync ex env iv spec args (s, q) = (r, (s', q'))"
    using assms by (auto simp: route_def split: if_splits)
  then show ?thesis
  proof cases
    case 1
    then show ?thesis
    proof (cases rule: handle_destructive_cases)
      case (applied a approval result oc)
      then show ?thesis
        unfolding set_approval_def using consumed [OF applied(8-10)] log_by_simps(2) by blast
    qed (use no_writes log_by_simps(1) in blast)+
  next
    case 2
    then show ?thesis
    proof (cases rule: handle_dry_run_cases)
      case (proposed result oc)
      then show ?thesis
        unfolding create_approval_def using one_approval [OF proposed(1)] log_by_simps(2) by blast
    qed (use no_writes log_by_simps(1) in blast)
  next
    case 3
    then show ?thesis
    proof (cases rule: handle_async_cases)
      case (submitted p oc)
      have "s' = se_add (AddJob ((queued_job env iv spec args)\<lparr>aj_created_at := se_now s, aj_updated_at := se_now s\<rparr>))
          (se_add (AddKey \<lparr>ik_key = call_key env iv, ik_tool_name = ts_name spec, ik_job_id = Some (job_id_of env),
             ik_input_hash = iv_input_hash iv, ik_status = ''reserved'', ik_result = None,
             ik_created_at = se_now s\<rparr>) s)"
        unfolding submitted(2) reserve_free [OF submitted(1)] by (simp add: create_job_def)
      then show ?thesis using key_and_job [OF submitted(1)] log_by_simps(3) by blast
    qed (use no_writes log_by_simps(1) in blast)
  next
    case 4
    from handle_sync_state [OF 4] show ?thesis using no_writes log_by_simps(1) by blast
  qed
qed

lemma side_log_no_audit: "side_log ex env iv spec args s ws \<Longrightarrow> \<forall>w \<in> set ws. \<not> audit_write w"
  by (erule side_log.cases) auto

lemma decide_log:
  assumes "decide V ex env iv (s, q) = (oc, (s', q'))"
  shows "\<exists>ws. log_by s ws s' \<and> (\<forall>w \<in> set ws. \<not> audit_write w)"
  using assms
proof (cases rule: decide_cases)
  case (routed spec args r)
  from route_log [OF routed(4)] show ?thesis using side_log_no_audit by blast
qed (use log_by_simps(1) in \<open>auto intro!: exI [of _ "[]"]\<close>)

lemma no_audit_frame:
  "\<forall>w \<in> set ws. \<not> audit_write w \<Longrightarrow>
    db_calls (fold apply_write ws d) = db_calls d \<and> db_events (fold apply_write ws d) = db_events d"
proof (induction ws arbitrary: d)
  case (Cons w ws)
  then show ?case by (cases w) auto
qed simp

section \<open>Every call is recorded\<close>

definition call_log :: "call_env \<Rightarrow> invocation \<Rightarrow> outcome \<Rightarrow> db_write list" where
  "call_log env iv oc =
     [AddCall ((call_row env iv oc)\<lparr>tc_created_at := ce_now env\<rparr>),
      AddEvent ((event_row env iv oc)\<lparr>ev_created_at := ce_now env\<rparr>)]"

lemma invoke_unfold:
  assumes "decide V ex env iv (open_session (ce_now env) d, q) = (oc0, (s, q1))"
    and "log_by (open_session (ce_now env) d) ws s"
  shows "invoke V ex env iv (d, q) =
    (let oc = oc0\<lparr>oc_latency_ms := latency_ms env\<rparr> in
     case commit (engine_of_url (st_database_url (ex_settings ex))) (ws @ call_log env iv oc) d of
       Inl e \<Rightarrow> (Inl e, (d, q1)) | Inr d' \<Rightarrow> (Inr oc, (d', q1)))"
proof -
  have s: "se_log s = ws" "se_now s = ce_now env"
    using assms(2) by (simp_all add: log_by_def open_session_def)
  show ?thesis
    using assms(1) s
    by (simp add: invoke_def session_scope_def invoke_body_def finish_def call_log_def
        record_event_def record_tool_call_def Let_def split: sum.split)
qed

text \<open>The two outcomes of a call, with the session that decided it.\<close>

lemma invoke_cases:
  obtains (aborted) e q' where "invoke V ex env iv (d, q) = (Inl e, (d, q'))"
  | (recorded) oc0 oc s q' ws where
      "invoke V ex env iv (d, q) = (Inr oc, (fold apply_write (ws @ call_log env iv oc) d, q'))"
      "decide V ex env iv (open_session (ce_now env) d, q) = (oc0, (s, q'))"
      "oc = oc0\<lparr>oc_latency_ms := latency_ms env\<rparr>"
      "log_by (open_session (ce_now env) d) ws s" "\<forall>w \<in> set ws. \<not> audit_write w"
proof -
  obtain oc0 s q1 where dec: "decide V ex env iv (open_session (ce_now env) d, q) = (oc0, (s, q1))"
    by (metis prod.exhaust)
  from decide_log [OF dec] obtain ws where ws: "log_by (open_session (ce_now env) d) ws s"
    "\<forall>w \<in> set ws. \<not> audit_write w" by blast
  let ?oc = "oc0\<lparr>oc_latency_ms := latency_ms env\<rparr>"
  let ?eng = "engine_of_url (st_database_url (ex_settings ex))"
  show ?thesis
  proof (cases "commit ?eng (ws @ call_log env iv ?oc) d")
    case (Inl e)
    then have "invoke V ex env iv (d, q) = (Inl e, (d, q1))"
      by (simp add: invoke_unfold [OF dec ws(1)] Let_def)
    then show ?thesis by (rule aborted)
  next
    case (Inr d')
    then have "invoke V ex env iv (d, q) = (Inr ?oc, (fold apply_write (ws @ call_log env iv ?oc) d, q1))"
      by (simp add: invoke_unfold [OF dec ws(1)] Let_def commit_InrD [OF Inr] del: fold_append)
    then show ?thesis using dec ws by (intro recorded) auto
  qed
qed

end
