(* ===== verification/Guarantees.thy ===== *)
theory Guarantees
  imports Pipeline
begin

text \<open>
  The properties of the execution pipeline (\<^verbatim>\<open>executor.py\<close>), with the concrete gateway on
  which their witnesses run: the reference tools, the local queue and the mock connector.
\<close>

section \<open>A concrete gateway\<close>

definition ref_queue :: local_queue where
  "ref_queue = \<lparr>lq_queue = ''tool-jobs'', lq_max_delivery = 5\<rparr>"

definition ref_settings :: "string \<Rightarrow> settings" where
  "ref_settings token = default_settings\<lparr>st_app_env := (if token = [] then Demo else Prod),
     st_admin_approval_token := token\<rparr>"

definition ref_executor :: "string \<Rightarrow> queue_table executor" where
  "ref_executor token = new_executor (default_registry (token = [])) (ref_settings token)
     (LocalQueue ref_queue) MockDatabricksConnector"

definition ref_env :: call_env where
  "ref_env = \<lparr>ce_request_uuid = ''c0ffee'', ce_current_trace = None, ce_trace_uuid = ''7ace'',
     ce_approval_uuid = ''0123456789abcdef0123456789abcdef'', ce_key_uuid = ''4e1'',
     ce_job_uuid = ''fedcba9876543210fedcba9876543210'', ce_started = FlFin 0 0,
     ce_finished = FlFin 0 0, ce_now = 1000\<rparr>"

definition ref_call :: "string \<Rightarrow> string \<Rightarrow> pydict \<Rightarrow> string option \<Rightarrow> string option \<Rightarrow> invocation" where
  "ref_call role tool args key token =
     \<lparr>iv_caller = \<lparr>cl_subject = ''user'', cl_agent_id = ''agent'', cl_role = role\<rparr>,
      iv_tool = tool, iv_arguments = args, iv_idempotency_key = key, iv_approval_token = token,
      iv_request_id = None\<rparr>"

lemma ref_executor_simps [simp]:
  "ex_registry (ref_executor t) = default_registry (t = [])"
  "ex_known_roles (ref_executor t) = all_roles"
  "ex_queue (ref_executor t) = LocalQueue ref_queue"
  "ex_tool_ctx (ref_executor t) = \<lparr>cx_settings = ref_settings t, cx_databricks = MockDatabricksConnector\<rparr>"
  "st_admin_approval_token (ex_settings (ref_executor t)) = t"
  "engine_of_url (st_database_url (ex_settings (ref_executor t))) = SQLite"
  by (simp_all add: ref_executor_def new_executor_def ref_settings_def default_settings_def engine_of_url_def)

lemma ref_call_simps [simp]:
  "iv_caller (ref_call r n a k t) = \<lparr>cl_subject = ''user'', cl_agent_id = ''agent'', cl_role = r\<rparr>"
  "iv_tool (ref_call r n a k t) = n"
  "iv_arguments (ref_call r n a k t) = a"
  "iv_idempotency_key (ref_call r n a k t) = k"
  "iv_approval_token (ref_call r n a k t) = t"
  "iv_request ref_env (ref_call r n a k t) = ''c0ffee''"
  by (simp_all add: ref_call_def iv_request_def text_or_def ref_env_def gen_request_id_def)

lemma ref_ids [simp]:
  "job_id_of ref_env = ''job_fedcba9876543210''"
  "approval_id_of ref_env = ''apr_0123456789abcdef''"
  "ce_now ref_env = 1000"
  by (simp_all add: job_id_of_def approval_id_of_def ref_env_def)

lemma default_lookup [simp]:
  "registry_get (default_registry b) ''get_employee_profile'' = Some spec_employee_profile"
  "registry_get (default_registry b) ''get_invoice_status'' = Some spec_invoice_status"
  "registry_get (default_registry b) ''trigger_databricks_workflow'' = Some spec_trigger_workflow"
  "registry_get (default_registry b) ''create_crm_update_dry_run'' = Some spec_crm_dry_run"
  "registry_get (default_registry b) ''execute_crm_update'' = Some (spec_crm_execute b)"
  by (simp_all add: registry_get_def default_registry_def reference_tools_def spec_defs)

section \<open>Authorisation\<close>

text \<open>A call that passes the first two steps: a registered, enabled tool and a permitted role.\<close>

definition authorised :: "'q executor \<Rightarrow> invocation \<Rightarrow> bool" where
  "authorised ex iv =
     (case registry_get (ex_registry ex) (iv_tool iv) of
        None \<Rightarrow> False
      | Some spec \<Rightarrow> ts_enabled spec \<and> cl_role (iv_caller iv) \<in> set (ex_known_roles ex)
                      \<and> cl_role (iv_caller iv) \<in> set (ts_required_roles spec))"

text \<open>Two states that differ in the audit trail only.\<close>

definition same_tables :: "db \<Rightarrow> db \<Rightarrow> bool" where
  "same_tables d d' \<longleftrightarrow>
     db_policies d' = db_policies d \<and> db_jobs d' = db_jobs d \<and>
     db_approvals d' = db_approvals d \<and> db_keys d' = db_keys d"

lemma same_tables_call_log [simp]:
  "same_tables d (fold apply_write (call_log env iv oc) d') = same_tables d d'"
  by (simp add: same_tables_def call_log_def)

lemma same_tables_refl [simp]: "same_tables d d"
  by (simp add: same_tables_def)

lemma call_log_tables [simp]:
  "db_policies (fold apply_write (call_log env iv oc) d) = db_policies d"
  "db_jobs (fold apply_write (call_log env iv oc) d) = db_jobs d"
  "db_approvals (fold apply_write (call_log env iv oc) d) = db_approvals d"
  "db_keys (fold apply_write (call_log env iv oc) d) = db_keys d"
  "db_calls (fold apply_write (call_log env iv oc) d) =
     db_calls d @ [(call_row env iv oc)\<lparr>tc_created_at := ce_now env\<rparr>]"
  "db_events (fold apply_write (call_log env iv oc) d) =
     db_events d @ [(event_row env iv oc)\<lparr>ev_created_at := ce_now env\<rparr>]"
  by (simp_all add: call_log_def)

lemma log_by_Nil_iff [simp]: "log_by s ws s \<longleftrightarrow> ws = []"
proof
  assume "log_by s ws s"
  then have "se_log s = se_log (s\<lparr>se_log := se_log s @ ws\<rparr>)" by (simp add: log_by_def)
  then show "ws = []" by simp
qed simp

text \<open>The registry with other handlers behind the same declarations.\<close>

definition with_runs :: "(string \<Rightarrow> tool_context \<Rightarrow> pydict \<Rightarrow> tool_result res) \<Rightarrow> tool_registry \<Rightarrow> tool_registry" where
  "with_runs f reg = map (\<lambda>(n, s). (n, s\<lparr>ts_run := f n\<rparr>)) reg"

lemma registry_get_with_runs [simp]:
  "registry_get (with_runs f reg) n = map_option (\<lambda>s. s\<lparr>ts_run := f n\<rparr>) (registry_get reg n)"
  unfolding registry_get_def with_runs_def by (induction reg) auto

text \<open>What a refused call decides does not depend on the handlers or the queue.\<close>

lemma decide_unauthorised:
  assumes "\<not> authorised ex iv"
  shows "\<exists>oc. decide V ex env iv st = (oc, st) \<and> oc_decision oc = ''denied'' \<and> oc_result oc = None \<and>
    decide V (ex\<lparr>ex_registry := with_runs f (ex_registry ex), ex_queue := mq\<rparr>) env iv st = (oc, st)"
  using assms
  by (cases "registry_get (ex_registry ex) (iv_tool iv)")
    (auto simp: decide_def refused_def outcome_for_def InvocationOutcome_def authorised_def Let_def)

text \<open>C1 (safety).
  A call whose tool is unknown or disabled, or whose role is unknown or not one of the tool's
  roles, is refused whatever its arguments: nothing is published, no table but the audit
  trail changes, no result is returned, and neither the handlers nor the queue behind the
  registry have any influence on what the caller gets: none of them runs.\<close>

theorem refused_without_effect:
  assumes "\<not> authorised ex iv"
  shows "invoke V ex env iv (d, q) =
      invoke V (ex\<lparr>ex_registry := with_runs f (ex_registry ex), ex_queue := mq\<rparr>) env iv (d, q) \<and>
    (case invoke V ex env iv (d, q) of
       (Inl e, (d', q')) \<Rightarrow> d' = d \<and> q' = q
     | (Inr oc, (d', q')) \<Rightarrow>
         oc_decision oc = ''denied'' \<and> http_status oc = 403 \<and> oc_result oc = None \<and>
         same_tables d d' \<and> q' = q)"
proof -
  obtain oc where dec: "decide V ex env iv (open_session (ce_now env) d, q) = (oc, (open_session (ce_now env) d, q))"
      "decide V (ex\<lparr>ex_registry := with_runs f (ex_registry ex), ex_queue := mq\<rparr>) env iv
         (open_session (ce_now env) d, q) = (oc, (open_session (ce_now env) d, q))"
      "oc_decision oc = ''denied''" "oc_result oc = None"
    using decide_unauthorised [OF assms] by blast
  note unfold = invoke_unfold [OF dec(1) log_by_simps(1)] invoke_unfold [OF dec(2) log_by_simps(1)]
  show ?thesis
    using dec(3,4) by (auto simp: unfold Let_def http_status_def dest: commit_InrD split: sum.splits)
qed

theorem refused_without_effect_witness:
  "\<not> authorised (ref_executor []) (ref_call ''hr_agent'' ''get_invoice_status'' [] None None) \<and>
   (case invoke strict_validate (ref_executor []) ref_env
      (ref_call ''hr_agent'' ''get_invoice_status'' [] None None) (empty_db, []) of
       (Inl e, (d', q')) \<Rightarrow> d' = empty_db \<and> q' = []
     | (Inr oc, (d', q')) \<Rightarrow>
         oc_decision oc = ''denied'' \<and> http_status oc = 403 \<and> oc_result oc = None \<and>
         same_tables empty_db d' \<and> q' = [])"
proof -
  have *: "\<not> authorised (ref_executor []) (ref_call ''hr_agent'' ''get_invoice_status'' [] None None)"
    by (simp add: authorised_def spec_invoice_status_def FINANCE_ROLES_def)
  show ?thesis by (rule conjI [OF * conjunct2 [OF refused_without_effect [OF *]]])
qed

section \<open>The audit trail\<close>

lemma route_ids:
  assumes "route ex env iv spec args (s, q) = (Inr oc, st')"
  shows "oc_request_id oc = iv_request env iv \<and> oc_trace_id oc = iv_trace env"
proof -
  note defs = refused_def outcome_for_def InvocationOutcome_def Let_def
  consider "handle_destructive ex env iv spec args (s, q) = (Inr oc, st')"
    | "handle_dry_run ex env iv spec args (s, q) = (Inr oc, st')"
    | "handle_async ex env iv spec args (s, q) = (Inr oc, st')"
    | "handle_sync ex env iv spec args (s, q) = (Inr oc, st')"
    using assms by (auto simp: route_def split: if_splits)
  then show ?thesis
  proof cases
    case 1
    then show ?thesis
      by (auto simp: handle_destructive_def defs split: if_splits option.splits sum.splits prod.splits)
  next
    case 2
    then show ?thesis by (auto simp: handle_dry_run_def defs split: sum.splits prod.splits)
  next
    case 3
    then show ?thesis
      by (auto simp: handle_async_def reserve_idempotency_def duplicate_outcome_def defs
          split: option.splits sum.splits prod.splits)
  next
    case 4
    then show ?thesis by (auto simp: handle_sync_def defs split: sum.splits prod.splits)
  qed
qed

lemma decide_ids:
  assumes "decide V ex env iv (s, q) = (oc, st')"
  shows "oc_request_id oc = iv_request env iv \<and> oc_trace_id oc = iv_trace env"
proof -
  note defs = refused_def outcome_for_def InvocationOutcome_def Let_def failed_outcome_def
  show ?thesis
    using assms route_ids [of ex env iv _ _ s q]
    unfolding decide_def by (auto simp: defs split: option.splits sum.splits prod.splits if_splits)
qed

text \<open>The side writes of a call meet no constraint when the generated identifiers are new.\<close>

lemma side_log_commits:
  assumes "side_log ex env iv spec args (open_session now d) ws"
    and "db_approvals d (approval_id_of env) = None" and "db_jobs d (job_id_of env) = None"
  shows "commit SQLite ws d = Inr (fold apply_write ws d)"
  using assms
  by cases (simp_all add: pending_approval_def queued_job_def get_idempotency_def)

lemma decide_commits:
  assumes "db_approvals d (approval_id_of env) = None" and "db_jobs d (job_id_of env) = None"
    and "decide V ex env iv (open_session now d, q) = (oc, (s, q'))"
    and "log_by (open_session now d) ws s"
  shows "commit SQLite ws d = Inr (fold apply_write ws d)"
  using assms(3)
proof (cases rule: decide_cases)
  case (routed spec args r)
  from route_log [OF routed(4)] obtain ws' where
    ws': "side_log ex env iv spec args (open_session now d) ws'" "log_by (open_session now d) ws' s"
    by blast
  then have "ws' = ws" using assms(4) by (auto simp: log_by_def open_session_def)
  with side_log_commits [OF ws'(1) assms(1,2)] show ?thesis by simp
qed (use assms(4) in simp_all)


section \<open>Calls return\<close>

lemma sqlite_returns:
  assumes "engine_of_url (st_database_url (ex_settings ex)) = SQLite"
    and "iv_request env iv \<notin> tc_request_id ` set (db_calls d)"
    and "db_approvals d (approval_id_of env) = None" and "db_jobs d (job_id_of env) = None"
    and dec: "decide V ex env iv (open_session (ce_now env) d, q) = (oc0, (s, q1))"
  shows "\<exists>d'. invoke V ex env iv (d, q) = (Inr (oc0\<lparr>oc_latency_ms := latency_ms env\<rparr>), (d', q1))"
proof -
  from decide_log [OF dec] obtain ws where ws: "log_by (open_session (ce_now env) d) ws s"
    "\<forall>w \<in> set ws. \<not> audit_write w" by blast
  from decide_commits [OF assms(3,4) dec ws(1)]
  have "commit SQLite ws d = Inr (fold apply_write ws d)" .
  moreover have "commit SQLite (call_log env iv oc) (fold apply_write ws d) \<noteq> Inl e" for oc e
    using no_audit_frame [OF ws(2)] assms(2) by (simp add: call_log_def call_row_def)
  ultimately have "\<exists>d'. commit SQLite (ws @ call_log env iv oc) d = Inr d'" for oc
    by (metis bind_res_simps(2) commit_append sum.exhaust)
  then obtain d' where "commit SQLite (ws @ call_log env iv (oc0\<lparr>oc_latency_ms := latency_ms env\<rparr>)) d = Inr d'"
    by blast
  with assms(1) show ?thesis by (simp add: invoke_unfold [OF dec ws(1)] Let_def)
qed

text \<open>
  On SQLite a call whose generated identifiers are not in use returns an answer, whatever the
  tool, the arguments and the queue do: no exception of a tool or of the queue escapes.\<close>

lemma call_returns:
  assumes "engine_of_url (st_database_url (ex_settings ex)) = SQLite"
    and "iv_request env iv \<notin> tc_request_id ` set (db_calls d)"
    and "db_approvals d (approval_id_of env) = None" and "db_jobs d (job_id_of env) = None"
  shows "\<exists>oc d' q'. invoke V ex env iv (d, q) = (Inr oc, (d', q'))"
  using sqlite_returns [OF assms] by (metis prod.exhaust)

lemma call_returns_witness:
  "\<exists>oc d' q'. invoke strict_validate (ref_executor []) ref_env
     (ref_call ''finance_agent'' ''trigger_databricks_workflow''
       [(''workflow_name'', PStr ''close'')] None None) (empty_db, []) = (Inr oc, (d', q'))"
  by (rule call_returns) (simp_all add: empty_db_def)

section \<open>Routes\<close>

lemma authorised_allowed:
  "registry_get (ex_registry ex) (iv_tool iv) = Some spec \<Longrightarrow>
    authorised ex iv \<longleftrightarrow> dc_allowed (evaluate (cl_role (iv_caller iv)) (ts_required_roles spec)
      (ex_known_roles ex) (ts_enabled spec))"
  by (auto simp: authorised_def)

lemma decide_routed:
  assumes "registry_get (ex_registry ex) (iv_tool iv) = Some spec" "authorised ex iv"
    and "validate_args V spec (iv_arguments iv) = Inr args"
  shows "decide V ex env iv st =
    (case route ex env iv spec args st of
       (Inl e, st') \<Rightarrow> (failed_outcome env iv e, st') | (Inr oc, st') \<Rightarrow> (oc, st'))"
  using assms authorised_allowed [OF assms(1)]
  by (simp add: decide_def Let_def del: evaluate_allowed_iff)

lemma decide_answered:
  assumes "registry_get (ex_registry ex) (iv_tool iv) = Some spec" "authorised ex iv"
    and "validate_args V spec (iv_arguments iv) = Inr args"
    and "route ex env iv spec args st = (Inr oc, st')"
  shows "decide V ex env iv st = (oc, st')"
  by (simp add: decide_routed [OF assms(1-3)] assms(4))

text \<open>A returned call either stopped before routing, without a trace, or was routed.\<close>

lemma returned_cases:
  assumes "invoke V ex env iv (d, q) = (Inr oc, (d', q'))"
    and reg: "registry_get (ex_registry ex) (iv_tool iv) = Some spec"
  obtains (stopped) "oc_decision oc \<in> {''denied'', ''failed''}" "same_tables d d'" "q' = q"
  | (raised) args e s ws where "authorised ex iv" "validate_args V spec (iv_arguments iv) = Inr args"
      "route ex env iv spec args (open_session (ce_now env) d, q) = (Inl e, (s, q'))"
      "log_by (open_session (ce_now env) d) ws s"
      "commit (engine_of_url (st_database_url (ex_settings ex))) ws d = Inr (fold apply_write ws d)"
      "same_tables (fold apply_write ws d) d'"
      "oc = (failed_outcome env iv e)\<lparr>oc_latency_ms := latency_ms env\<rparr>"
  | (answered) args oc0 s ws where "authorised ex iv" "validate_args V spec (iv_arguments iv) = Inr args"
      "route ex env iv spec args (open_session (ce_now env) d, q) = (Inr oc0, (s, q'))"
      "log_by (open_session (ce_now env) d) ws s"
      "commit (engine_of_url (st_database_url (ex_settings ex))) ws d = Inr (fold apply_write ws d)"
      "same_tables (fold apply_write ws d) d'" "oc = oc0\<lparr>oc_latency_ms := latency_ms env\<rparr>"
proof -
  obtain oc0 s q1 where dec: "decide V ex env iv (open_session (ce_now env) d, q) = (oc0, (s, q1))"
    by (metis prod.exhaust)
  from decide_log [OF dec] obtain ws where ws: "log_by (open_session (ce_now env) d) ws s" by blast
  let ?eng = "engine_of_url (st_database_url (ex_settings ex))"
  from assms(1) have c: "commit ?eng (ws @ call_log env iv oc) d = Inr d'" "q' = q1"
      "oc = oc0\<lparr>oc_latency_ms := latency_ms env\<rparr>"
    by (auto simp: invoke_unfold [OF dec ws] Let_def split: sum.splits)
  then obtain d1 where d1: "commit ?eng ws d = Inr d1" "commit ?eng (call_log env iv oc) d1 = Inr d'"
    by (auto simp: commit_append)
  then have tables: "same_tables (fold apply_write ws d) d'"
    using commit_InrD [OF d1(1)] commit_InrD [OF d1(2)] by simp
  have com: "commit ?eng ws d = Inr (fold apply_write ws d)"
    using d1(1) commit_InrD [OF d1(1)] by simp
  from dec show ?thesis
  proof (cases rule: decide_cases)
    case unknown
    with reg show ?thesis by simp
  next
    case (denied sp)
    then have "ws = []" using ws by simp
    with denied tables c show ?thesis by (intro stopped) auto
  next
    case (invalid sp msg)
    then have "ws = []" using ws by simp
    with invalid tables c show ?thesis by (intro stopped) auto
  next
    case (routed sp args r)
    with reg authorised_allowed [of ex iv spec] have auth: "authorised ex iv" and "sp = spec" by auto
    with routed have rt: "route ex env iv spec args (open_session (ce_now env) d, q) = (r, (s, q'))"
      and va: "validate_args V spec (iv_arguments iv) = Inr args" using c by auto
    show ?thesis
    proof (cases r)
      case (Inl e)
      with routed(5) c show ?thesis by (intro raised [OF auth va _ ws com tables]) (use rt in auto)
    next
      case (Inr oc1)
      with routed(5) c show ?thesis by (intro answered [OF auth va _ ws com tables]) (use rt in auto)
    qed
  qed
qed

text \<open>C4 (safety).
  A call answered with a result or a job was authorised: the tool is registered and enabled,
  the role is known and among the tool's roles, and the arguments passed the tool's model.\<close>

theorem effect_needs_authorisation:
  assumes "invoke V ex env iv (d, q) = (Inr oc, (d', q'))"
    and "oc_result oc \<noteq> None \<or> oc_job_id oc \<noteq> None \<or> oc_decision oc \<in> {''executed'', ''dry_run'', ''queued''}"
  shows "\<exists>spec args. registry_get (ex_registry ex) (iv_tool iv) = Some spec \<and> ts_enabled spec \<and>
    cl_role (iv_caller iv) \<in> set (ex_known_roles ex) \<and>
    cl_role (iv_caller iv) \<in> set (ts_required_roles spec) \<and>
    validate_args V spec (iv_arguments iv) = Inr args"
proof (cases rule: invoke_cases [of V ex env iv d q])
  case (aborted e q')
  with assms(1) show ?thesis by simp
next
  case (recorded oc0 oc1 s q1 ws)
  with assms(1) have oc: "oc = oc0\<lparr>oc_latency_ms := latency_ms env\<rparr>" by simp
  show ?thesis
  proof (cases "\<exists>spec args. registry_get (ex_registry ex) (iv_tool iv) = Some spec \<and> authorised ex iv \<and>
      validate_args V spec (iv_arguments iv) = Inr args")
    case True
    then show ?thesis by (auto simp: authorised_def)
  next
    case False
    with recorded(2) have "oc_result oc0 = None \<and> oc_job_id oc0 = None \<and> oc_decision oc0 \<in> {''denied'', ''failed''}"
      by (auto simp: decide_def refused_def outcome_for_def InvocationOutcome_def Let_def authorised_def
          split: option.splits sum.splits if_splits)
    with assms(2) oc show ?thesis by auto
  qed
qed

text \<open>Calls of the concrete gateway on an empty database, for the witnesses.\<close>

lemma handle_sync_ok:
  assumes "ts_run spec (ex_tool_ctx ex) args = Inr result"
  shows "\<exists>oc. handle_sync ex env iv spec args st = (Inr oc, st) \<and> oc_decision oc = ''executed'' \<and>
    oc_result oc = Some (fst (redact_output spec (iv_caller iv) (tr_output result)))"
  using assms by (simp add: handle_sync_def outcome_for_def InvocationOutcome_def split: prod.splits)

lemma ref_returns:
  assumes "decide strict_validate (ref_executor t) ref_env (ref_call r n a k tok)
      (open_session 1000 d, q) = (oc0, (s, q1))"
    and "db_calls d = []" "db_approvals d ''apr_0123456789abcdef'' = None"
    and "db_jobs d ''job_fedcba9876543210'' = None"
  shows "\<exists>d'. invoke strict_validate (ref_executor t) ref_env (ref_call r n a k tok) (d, q) =
    (Inr (oc0\<lparr>oc_latency_ms := latency_ms ref_env\<rparr>), (d', q1))"
  using sqlite_returns [of "ref_executor t" ref_env "ref_call r n a k tok" d strict_validate q oc0 s q1] assms
  by simp

lemma ref_invoice_call_on:
  assumes "db_calls d = []" "db_approvals d = Map.empty" "db_jobs d = Map.empty"
  shows "\<exists>oc d'. invoke strict_validate (ref_executor []) ref_env
     (ref_call ''finance_agent'' ''get_invoice_status'' [(''invoice_id'', PStr ''INV-5001'')] None None)
     (d, []) = (Inr oc, (d', [])) \<and> oc_decision oc = ''executed''"
proof -
  let ?iv = "ref_call ''finance_agent'' ''get_invoice_status'' [(''invoice_id'', PStr ''INV-5001'')] None None"
  let ?args = "[(''invoice_id'', PStr ''INV-5001'')]"
  let ?st = "(open_session 1000 d, [] :: queue_table)"
  have "\<exists>res. ts_run spec_invoice_status (ex_tool_ctx (ref_executor [])) ?args = Inr res"
    by (simp add: spec_invoice_status_def tool_defs INVOICES_def)
  then obtain oc where "route (ref_executor []) ref_env ?iv spec_invoice_status ?args ?st = (Inr oc, ?st)"
    "oc_decision oc = ''executed''"
    using handle_sync_ok [of spec_invoice_status "ref_executor []" ?args _ ref_env ?iv ?st]
    by (auto simp: route_def spec_invoice_status_def)
  moreover have "authorised (ref_executor []) ?iv"
    by (simp add: authorised_def spec_invoice_status_def FINANCE_ROLES_def all_roles_def)
  moreover have "validate_args strict_validate spec_invoice_status ?args = Inr ?args"
    by (simp add: validate_args_def strict_validate_def spec_invoice_status_def model_defs field_value_def)
  ultimately have "decide strict_validate (ref_executor []) ref_env ?iv ?st = (oc, ?st)"
    by (intro decide_answered [of _ _ spec_invoice_status _ ?args]) simp_all
  from ref_returns [OF this] \<open>oc_decision oc = ''executed''\<close> show ?thesis
    using assms by auto
qed

lemma ref_invoice_call:
  "\<exists>oc d'. invoke strict_validate (ref_executor []) ref_env
     (ref_call ''finance_agent'' ''get_invoice_status'' [(''invoice_id'', PStr ''INV-5001'')] None None)
     (empty_db, []) = (Inr oc, (d', [])) \<and> oc_decision oc = ''executed''"
  by (rule ref_invoice_call_on) (simp_all add: empty_db_def)

theorem effect_needs_authorisation_witness:
  "\<exists>spec args. registry_get (default_registry True) ''get_invoice_status'' = Some spec \<and> ts_enabled spec \<and>
    ''finance_agent'' \<in> set all_roles \<and> ''finance_agent'' \<in> set (ts_required_roles spec) \<and>
    validate_args strict_validate spec [(''invoice_id'', PStr ''INV-5001'')] = Inr args"
proof -
  from ref_invoice_call obtain oc d' where "invoke strict_validate (ref_executor []) ref_env
     (ref_call ''finance_agent'' ''get_invoice_status'' [(''invoice_id'', PStr ''INV-5001'')] None None)
     (empty_db, []) = (Inr oc, (d', []))" "oc_decision oc = ''executed''" by blast
  from effect_needs_authorisation [OF this(1)] this(2) show ?thesis by simp
qed

end
