(* ===== verification/WorkerProps.thy ===== *)
theory WorkerProps
  imports WorkerFacts Guarantees
begin

text \<open>
  The properties of the worker on the local queue: it always comes to an end, it settles each
  message in step with its job, it never repeats a completed job, and it drains the queue.
\<close>

section \<open>Nothing the worker does on SQLite raises\<close>

fun plain_write :: "db_write \<Rightarrow> bool" where
  "plain_write (AddEvent e) = True"
| "plain_write (UpdateJob k st r c de att now) = True"
| "plain_write (CompleteKey k r) = True"
| "plain_write _ = False"

definition plain_log :: "session \<Rightarrow> bool" where
  "plain_log s \<longleftrightarrow> list_all plain_write (se_log s)"

lemma plain_log_ops [simp]:
  "plain_log (open_session now d)"
  "plain_log s \<Longrightarrow> plain_log (record_event ev s)"
  "plain_log s \<Longrightarrow> plain_log (set_job_status k st r c de att s)"
  "plain_log s \<Longrightarrow> plain_log (complete_idempotency key res s)"
  by (auto simp: plain_log_def record_event_def set_job_status_def complete_idempotency_def split: option.splits)

inductive worker_update :: "'q worker \<Rightarrow> (session \<Rightarrow> session) \<Rightarrow> bool" for w where
  running: "worker_update w (running_update m)"
| failure: "worker_update w (failure_update w m e)"
| success: "worker_update w (success_update m output)"
| unknown: "worker_update w (unknown_update m)"

lemma worker_update_plain: "worker_update w f \<Longrightarrow> plain_log s \<Longrightarrow> plain_log (f s)"
  by (induction rule: worker_update.induct)
    (auto simp: running_update_def failure_update_def success_update_def unknown_update_def split: option.split)

lemmas worker_updates_plain = worker_update.intros [THEN worker_update_plain]

lemma commit_plain: "list_all plain_write ws \<Longrightarrow> commit SQLite ws d = Inr (fold apply_write ws d)"
proof (induction ws arbitrary: d)
  case (Cons w ws)
  then show ?case by (cases w) auto
qed simp

lemma wk_scope_repo_returns:
  assumes "engine_of_url (st_database_url (wk_settings w)) = SQLite" "plain_log (f (open_session now d))"
  shows "\<exists>d'. wk_scope w now (repo f) (d, q) = (Inr (), (d', q))"
  using assms by (simp add: wk_scope_def session_scope_def repo_def commit_plain plain_log_def)

text \<open>A queue whose settling operations do not raise.\<close>

definition settles :: "'q message_queue \<Rightarrow> bool" where
  "settles mq \<longleftrightarrow> (\<forall>now m q. \<exists>q'. mq_complete mq now m q = (Inr (), q')) \<and>
     (\<forall>now m q. \<exists>q'. mq_abandon mq now m q = (Inr (), q')) \<and>
     (\<forall>now m r q. \<exists>q'. mq_dead_letter mq now m r q = (Inr (), q'))"

lemma LocalQueue_settles: "settles (LocalQueue lq)"
  by (simp add: settles_def LocalQueue_def lq_complete_def lq_abandon_def lq_dead_letter_def)

lemma bind_prog_returns:
  "p s = (Inr x, s') \<Longrightarrow> f x s' = r \<Longrightarrow> bind_prog p f s = r"
  by (simp add: bind_prog_def)

lemma guard_returns:
  assumes "engine_of_url (st_database_url (wk_settings w)) = SQLite" "settles (wk_queue w)"
  shows "\<exists>b d' q'. wk_scope w now (duplicate_guard w clk m) (d, q) = (Inr b, (d', q'))"
proof (cases "completed_result d m")
  case None
  then have "duplicate_guard w clk m (open_session now d, q) = (Inr False, (open_session now d, q))"
    by (auto simp: completed_result_def duplicate_guard_def get_idempotency_def split: option.splits if_splits)
  then show ?thesis by (auto simp: wk_scope_def session_scope_def)
next
  case (Some r)
  let ?s = "record_event (job_event m ''job.duplicate_skipped'' ''executed''
      [(''idempotency_key'', dict_get (ms_body m) ''idempotency_key'')])
    (set_job_status (message_job_id m) ''succeeded'' (Some r) None None None (open_session now d))"
  obtain q' where "mq_complete (wk_queue w) (clk 1) m q = (Inr (), q')"
    using assms(2) unfolding settles_def by blast
  with Some have "duplicate_guard w clk m (open_session now d, q) = (Inr True, (?s, q'))"
    by (auto simp: completed_result_def duplicate_guard_def get_idempotency_def bind_prog_def repo_def on_queue_def
        split: option.splits if_splits)
  moreover have "commit SQLite (se_log ?s) d = Inr (fold apply_write (se_log ?s) d)"
    by (rule commit_plain) (simp add: plain_log_def [symmetric])
  ultimately show ?thesis using assms(1) by (auto simp: wk_scope_def session_scope_def)
qed

lemma scope_then_queue_returns:
  assumes "engine_of_url (st_database_url (wk_settings w)) = SQLite" "plain_log (f (open_session now d))"
    and "\<exists>q'. op q = (Inr (), q')"
  shows "\<exists>d' q'. bind_prog (wk_scope w now (repo f)) (\<lambda>_. on_queue op) (d, q) = (Inr (), (d', q'))"
proof -
  from wk_scope_repo_returns [where f = f and now = now and d = d and q = q, OF assms(1,2)] obtain d' where
    "wk_scope w now (repo f) (d, q) = (Inr (), (d', q))" by blast
  moreover from assms(3) obtain q' where "op q = (Inr (), q')" by blast
  ultimately show ?thesis by (simp add: bind_prog_def on_queue_def)
qed

lemma process_returns:
  assumes "engine_of_url (st_database_url (wk_settings w)) = SQLite" "settles (wk_queue w)"
  shows "\<exists>d' q'. process w clk m (d, q) = (Inr (), (d', q'))"
proof -
  from guard_returns [OF assms] obtain b d1 q1 where
    guard: "wk_scope w (clk 0) (duplicate_guard w clk m) (d, q) = (Inr b, (d1, q1))" by blast
  have unknown: "\<exists>d' q'. unknown_tool w clk m (d1, q1) = (Inr (), (d', q'))"
    unfolding unknown_tool_def
    by (rule scope_then_queue_returns [OF assms(1)])
      (use assms(2) in \<open>auto simp: settles_def intro: worker_updates_plain\<close>)
  have failure: "\<exists>d' q'. handle_failure w clk m e (d2, q2) = (Inr (), (d', q'))" for e d2 q2
    unfolding handle_failure_def
    by (rule scope_then_queue_returns [OF assms(1)])
      (use assms(2) in \<open>auto simp: settles_def intro: worker_updates_plain\<close>)
  have success: "\<exists>d' q'. settle_success w clk m res (d2, q2) = (Inr (), (d', q'))" for res d2 q2
    unfolding settle_success_def
    by (rule scope_then_queue_returns [OF assms(1)])
      (use assms(2) in \<open>auto simp: settles_def intro: worker_updates_plain\<close>)
  show ?thesis
  proof (cases b)
    case True
    with guard show ?thesis by (simp add: process_def bind_prog_def)
  next
    case False
    show ?thesis
    proof (cases "registry_get (wk_registry w) (body_text (ms_body m) ''tool_name'')")
      case None
      with False guard unknown show ?thesis by (simp add: process_def bind_prog_def)
    next
      case (Some spec)
      have "plain_log (running_update m (open_session (clk 1) d1))" by (intro worker_updates_plain) simp
      from wk_scope_repo_returns [where f = "running_update m" and q = q1, OF assms(1) this] obtain d2 where
        "wk_scope w (clk 1) (repo (running_update m)) (d1, q1) = (Inr (), (d2, q1))" by auto
      with False guard Some failure success show ?thesis
        by (auto simp: process_def bind_prog_def split: sum.split)
    qed
  qed
qed

lemma process_all_returns:
  assumes "engine_of_url (st_database_url (wk_settings w)) = SQLite" "settles (wk_queue w)"
  shows "\<exists>d' q'. process_all w clk ms (d, q) = (Inr (), (d', q'))"
proof (induction ms arbitrary: clk d q)
  case (Cons m ms)
  from process_returns [OF assms] obtain d1 q1 where "process w (clk 0) m (d, q) = (Inr (), (d1, q1))" by blast
  with Cons.IH [of "\<lambda>i. clk (Suc i)" d1 q1] show ?case by (simp add: bind_prog_def)
qed simp

lemma local_poll:
  assumes "engine_of_url (st_database_url s) = SQLite"
  shows "\<exists>k d' rows'. poll_once (local_worker s reg dbx) clk n t (d, rows) = (Inr k, (d', rows')) \<and>
    k = length (take n (filter (eligible \<lparr>lq_queue = st_servicebus_queue_name s,
      lq_max_delivery = st_queue_max_delivery_count s\<rparr> (pc_receive clk)) rows))"
proof -
  let ?lq = "\<lparr>lq_queue = st_servicebus_queue_name s, lq_max_delivery = st_queue_max_delivery_count s\<rparr>"
  let ?w = "local_worker s reg dbx"
  have eng: "engine_of_url (st_database_url (wk_settings ?w)) = SQLite" "settles (wk_queue ?w)"
    using assms by (simp_all add: local_worker_def LocalQueue_settles)
  obtain ms q1 where rec: "mq_receive (wk_queue ?w) (pc_receive clk) n t rows = (Inr ms, q1)"
    and ms: "length ms = length (take n (filter (eligible ?lq (pc_receive clk)) rows))"
    by (simp add: local_worker_def LocalQueue_def lq_receive_def Let_def)
  from process_all_returns [OF eng] obtain d' q' where
    "process_all ?w (pc_message clk) ms (d, q1) = (Inr (), (d', q'))" by blast
  with rec ms show ?thesis by (simp add: poll_once_def bind_prog_def on_queue_def)
qed

section \<open>Rows the worker touches\<close>

abbreviation queue_of :: "settings \<Rightarrow> local_queue" where
  "queue_of s \<equiv> \<lparr>lq_queue = st_servicebus_queue_name s, lq_max_delivery = st_queue_max_delivery_count s\<rparr>"

lemma local_worker_simps [simp]:
  "wk_queue (local_worker s reg dbx) = LocalQueue (queue_of s)"
  "wk_settings (local_worker s reg dbx) = s"
  "wk_registry (local_worker s reg dbx) = reg"
  "wk_max_delivery (local_worker s reg dbx) = st_queue_max_delivery_count s"
  "wk_tool_ctx (local_worker s reg dbx) = \<lparr>cx_settings = s, cx_databricks = dbx\<rparr>"
  by (simp_all add: local_worker_def)

text \<open>The rows of a queue that can still be delivered, and when they become visible.\<close>

definition deliverable :: "local_queue \<Rightarrow> queue_row \<Rightarrow> bool" where
  "deliverable lq r \<longleftrightarrow> qr_queue_name r = lq_queue lq \<and> qr_status r = ''available''"

definition visible_by :: "local_queue \<Rightarrow> instant \<Rightarrow> queue_table \<Rightarrow> bool" where
  "visible_by lq u rows \<longleftrightarrow> (\<forall>r \<in> set rows. deliverable lq r \<longrightarrow> qr_visible_at r \<le> u)"

definition row_names :: "queue_table \<Rightarrow> (nat \<times> string) list" where
  "row_names rows = map (\<lambda>r. (qr_id r, qr_queue_name r)) rows"

lemma visible_by_mono: "visible_by lq u rows \<Longrightarrow> u \<le> v \<Longrightarrow> visible_by lq v rows"
  by (force simp: visible_by_def)

lemma update_row_visible:
  assumes "visible_by lq u rows" "\<And>r. deliverable lq (f r) \<Longrightarrow> qr_visible_at (f r) \<le> u"
  shows "visible_by lq u (update_row h f rows)"
  using assms by (auto simp: visible_by_def update_row_def)

lemma update_row_names:
  assumes "\<And>r. qr_id (f r) = qr_id r" "\<And>r. qr_queue_name (f r) = qr_queue_name r"
  shows "row_names (update_row h f rows) = row_names rows"
  using assms by (simp add: row_names_def update_row_def)

lemmas local_settle_defs = LocalQueue_def lq_complete_def lq_abandon_def lq_dead_letter_def

lemma settled_names:
  "settled_by (local_worker s reg dbx) clk m f rows rows' \<Longrightarrow> row_names rows' = row_names rows"
  by (erule settled_by.cases) (auto simp: local_settle_defs intro!: update_row_names)

lemma settled_visible:
  assumes "settled_by (local_worker s reg dbx) clk m f rows rows'" "\<forall>i. clk i \<le> u" "visible_by lq u rows"
  shows "visible_by lq u rows'"
  using assms
  by cases (auto simp: local_settle_defs deliverable_def split: if_splits intro!: update_row_visible)

lemma receive_rows:
  assumes "lq_receive lq' now n t rows = (Inr ms, rows')"
  shows "row_names rows' = row_names rows" and "visible_by lq u rows \<Longrightarrow> visible_by lq u rows'"
  using assms
  by (auto simp: lq_receive_def Let_def visible_by_def row_names_def deliverable_def claim_row_def)

lemma process_all_rows:
  assumes "process_all (local_worker s reg dbx) clk ms (d, rows) = (Inr (), (d', rows'))"
  shows "row_names rows' = row_names rows \<and>
    ((\<forall>i j. clk i j \<le> u) \<longrightarrow> visible_by lq u rows \<longrightarrow> visible_by lq u rows')"
  using assms
proof (induction ms arbitrary: clk d rows)
  case (Cons m ms)
  then obtain d1 rows1 where p: "process (local_worker s reg dbx) (clk 0) m (d, rows) = (Inr (), (d1, rows1))"
    "process_all (local_worker s reg dbx) (\<lambda>i. clk (Suc i)) ms (d1, rows1) = (Inr (), (d', rows'))"
    by (auto simp: prog_Inr)
  from process_effect [OF p(1)]
  have "settled_by (local_worker s reg dbx) (clk 0) m (fate_of (local_worker s reg dbx) d m) rows rows1" by blast
  with settled_names settled_visible Cons.IH [OF p(2)] show ?case by fastforce
qed simp

lemma poll_rows:
  assumes "poll_once (local_worker s reg dbx) clk n t (d, rows) = (Inr k, (d', rows'))"
  shows "row_names rows' = row_names rows"
    and "\<forall>i j. pc_message clk i j \<le> u \<Longrightarrow> visible_by lq u rows \<Longrightarrow> visible_by lq u rows'"
proof -
  from assms(1) obtain ms rows1 where "lq_receive (queue_of s) (pc_receive clk) n t rows = (Inr ms, rows1)"
    "process_all (local_worker s reg dbx) (pc_message clk) ms (d, rows1) = (Inr (), (d', rows'))"
    by (auto simp: poll_once_def prog_Inr LocalQueue_def)
  with receive_rows [of "queue_of s" "pc_receive clk" n t rows ms rows1]
    process_all_rows [of s reg dbx "pc_message clk" ms d rows1 d' rows' u lq]
  show "row_names rows' = row_names rows"
    and "\<forall>i j. pc_message clk i j \<le> u \<Longrightarrow> visible_by lq u rows \<Longrightarrow> visible_by lq u rows'"
    by auto
qed

section \<open>Draining\<close>

definition delivery_bound :: "settings \<Rightarrow> queue_table \<Rightarrow> bool" where
  "delivery_bound s rows \<longleftrightarrow>
     (\<forall>h st. lq_state rows h = Some st \<longrightarrow> within (st_queue_max_delivery_count s) st)"

lemma bounded_iff: "wl.bounded s rows = delivery_bound s rows"
  by (simp add: wl.bounded_def delivery_bound_def)

definition own_ids :: "settings \<Rightarrow> queue_table \<Rightarrow> nat set" where
  "own_ids s rows = {h. (h, st_servicebus_queue_name s) \<in> set (row_names rows)}"

lemma finite_own_ids [simp]: "finite (own_ids s rows)"
proof -
  have "own_ids s rows \<subseteq> fst ` set (row_names rows)" by (force simp: own_ids_def)
  then show ?thesis by (rule finite_subset) simp
qed

text \<open>The deliveries a message may still have, and those of the whole queue.\<close>

definition left :: "nat \<Rightarrow> mstate option \<Rightarrow> nat" where
  "left n st = (case st of Some (Available c) \<Rightarrow> n - c | _ \<Rightarrow> 0)"

definition deliveries_left :: "settings \<Rightarrow> queue_table \<Rightarrow> nat" where
  "deliveries_left s rows =
     (\<Sum>h \<in> own_ids s rows. left (st_queue_max_delivery_count s) (lq_state rows h))"

lemma left_fate: "c < n \<Longrightarrow> left n (Some (fate_state n f (Suc c))) < left n (Some (Available c))"
  by (cases f) (auto simp: left_def fate_state_def)

lemma delivery_boundD:
  "delivery_bound s rows \<Longrightarrow> lq_state rows h = Some (Available c) \<Longrightarrow> c < st_queue_max_delivery_count s"
  by (metis delivery_bound_def within.simps(1))

lemma poll_uses_up:
  assumes poll: "poll_once (local_worker s reg dbx) clk n t (d, rows) = (Inr k, (d', rows'))"
    and ok: "table_ok rows" "delivery_bound s rows" and "0 < k"
  shows "deliveries_left s rows' < deliveries_left s rows"
proof -
  let ?N = "st_queue_max_delivery_count s"
  from wl.poll_state [OF poll ok(1)] obtain ms :: "message list" and q1 where
    rec: "mq_receive (LocalQueue (queue_of s)) (pc_receive clk) n t rows = (Inr ms, q1)" and "length ms = k"
    and moved: "\<forall>m \<in> set ms. \<exists>c f. lq_state rows (ms_handle m) = Some (Available c)
          \<and> lq_state rows' (ms_handle m) = Some (fate_state ?N f (Suc c))" by blast
  with \<open>0 < k\<close> obtain m where m: "m \<in> set ms" by fastforce
  have own: "own_ids s rows' = own_ids s rows"
    by (simp add: own_ids_def poll_rows(1) [OF poll])
  have le: "left ?N (lq_state rows' h) \<le> left ?N (lq_state rows h)" for h
    using wl.poll_step [OF poll ok(1), of h]
  proof (elim disjE exE conjE)
    fix c f assume *: "lq_state rows h = Some (Available c)" "lq_state rows' h = Some (fate_state ?N f (Suc c))"
    have "c < ?N" using delivery_boundD [OF ok(2)] *(1) by blast
    with left_fate [OF this, of f] * show ?thesis by simp
  qed simp
  from lq_receive_row(2) [of "queue_of s" "pc_receive clk" n t rows ms q1 m] rec table_ok_distinct [OF ok(1)] m
  obtain r where r: "r \<in> set rows" "eligible (queue_of s) (pc_receive clk) r" "m = row_message (claim_row (pc_receive clk) t r)"
    by (auto simp: LocalQueue_def)
  then have "ms_handle m \<in> own_ids s rows"
    by (auto simp: own_ids_def row_names_def eligible_def row_message_def claim_row_def image_iff)
  moreover have "left ?N (lq_state rows' (ms_handle m)) < left ?N (lq_state rows (ms_handle m))"
  proof -
    from moved m obtain c f where *: "lq_state rows (ms_handle m) = Some (Available c)"
      "lq_state rows' (ms_handle m) = Some (fate_state ?N f (Suc c))" by blast
    have "c < ?N" using delivery_boundD [OF ok(2)] *(1) by blast
    with left_fate [OF this, of f] * show ?thesis by simp
  qed
  ultimately show ?thesis
    unfolding deliveries_left_def own using le by (intro sum_strict_mono_ex1) auto
qed

text \<open>
  The clocks of the rounds go forward: each round starts after everything the rounds before it
  did, and after \<open>u\<close>.
\<close>

fun clocks_from :: "instant \<Rightarrow> poll_clock list \<Rightarrow> bool" where
  "clocks_from u [] = True"
| "clocks_from u (c # cs) \<longleftrightarrow>
     u \<le> pc_receive c \<and> (\<exists>v \<ge> u. (\<forall>i j. pc_message c i j \<le> v) \<and> clocks_from v cs)"

text \<open>A poll that found nothing, and the table it leaves.\<close>

lemma idle_poll:
  assumes "poll_once (local_worker s reg dbx) clk 10 30 (d, rows) = (Inr 0, (d', rows'))"
    and "engine_of_url (st_database_url s) = SQLite"
    and "visible_by (queue_of s) u rows" "u \<le> pc_receive clk"
  shows "\<forall>r \<in> set rows. \<not> deliverable (queue_of s) r"
proof -
  from local_poll [OF assms(2), of reg dbx clk 10 30 d rows] assms(1)
  have "min (length (filter (eligible (queue_of s) (pc_receive clk)) rows)) 10 = 0" by simp
  then have "length (filter (eligible (queue_of s) (pc_receive clk)) rows) = 0" by linarith
  then have "filter (eligible (queue_of s) (pc_receive clk)) rows = []" by (simp only: length_0_conv)
  then have "\<forall>r \<in> set rows. \<not> eligible (queue_of s) (pc_receive clk) r" by (simp add: filter_empty_conv)
  with assms(3,4) show ?thesis by (force simp: eligible_def deliverable_def visible_by_def)
qed

lemma none_deliverable_poll:
  assumes "poll_once (local_worker s reg dbx) clk 10 30 (d, rows) = (Inr k, (d', rows'))"
    and "\<forall>r \<in> set rows. \<not> deliverable (queue_of s) r"
  shows "rows' = rows"
proof -
  have none: "filter (eligible (queue_of s) (pc_receive clk)) rows = []"
    using assms(2) by (auto simp: filter_empty_conv eligible_def deliverable_def)
  from assms(1) obtain ms rows1 where rec: "lq_receive (queue_of s) (pc_receive clk) 10 30 rows = (Inr ms, rows1)"
    "process_all (local_worker s reg dbx) (pc_message clk) ms (d, rows1) = (Inr (), (d', rows'))"
    by (auto simp: poll_once_def prog_Inr LocalQueue_def)
  from rec(1) none have "ms = []" "rows1 = rows" by (auto simp: lq_receive_def Let_def map_idI)
  with rec(2) show ?thesis by simp
qed

lemma run_forever_none:
  assumes "\<forall>r \<in> set rows. \<not> deliverable (queue_of s) r" "engine_of_url (st_database_url s) = SQLite"
  shows "snd (snd (run_forever (local_worker s reg dbx) clks (d, rows))) = rows"
  using assms(1)
proof (induction clks arbitrary: d)
  case (Cons clk clks)
  from local_poll [OF assms(2), of reg dbx clk 10 30 d rows] obtain k d1 rows1 where
    p: "poll_once (local_worker s reg dbx) clk 10 30 (d, rows) = (Inr k, (d1, rows1))" by blast
  with none_deliverable_poll [OF p Cons.prems] Cons.IH [OF Cons.prems, of d1] show ?case
    by (auto simp: Let_def split: prod.splits)
qed simp

lemma run_forever_drains:
  assumes "engine_of_url (st_database_url s) = SQLite"
  shows "table_ok rows \<Longrightarrow> delivery_bound s rows \<Longrightarrow> visible_by (queue_of s) u rows \<Longrightarrow>
    clocks_from u clks \<Longrightarrow> deliveries_left s rows < length clks \<Longrightarrow>
    \<forall>r \<in> set (snd (snd (run_forever (local_worker s reg dbx) clks (d, rows)))). \<not> deliverable (queue_of s) r"
proof (induction clks arbitrary: d rows u)
  case (Cons clk clks)
  from local_poll [OF assms, of reg dbx clk 10 30 d rows] obtain k d1 rows1 where
    p: "poll_once (local_worker s reg dbx) clk 10 30 (d, rows) = (Inr k, (d1, rows1))" by blast
  have run: "snd (snd (run_forever (local_worker s reg dbx) (clk # clks) (d, rows))) =
      snd (snd (run_forever (local_worker s reg dbx) clks (d1, rows1)))"
    using p by (simp add: Let_def split: prod.split)
  from Cons.prems(4) obtain v where v: "u \<le> v" "\<forall>i j. pc_message clk i j \<le> v" "clocks_from v clks"
    "u \<le> pc_receive clk" by auto
  show ?case
  proof (cases "k = 0")
    case True
    with p have "poll_once (local_worker s reg dbx) clk 10 30 (d, rows) = (Inr 0, (d1, rows1))" by simp
    from idle_poll [OF this assms Cons.prems(3) v(4)] have none: "\<forall>r \<in> set rows. \<not> deliverable (queue_of s) r" .
    with none_deliverable_poll [OF p] run_forever_none [OF _ assms, of rows1 reg dbx clks d1] run show ?thesis by simp
  next
    case False
    then have "deliveries_left s rows1 < length clks"
      using poll_uses_up [OF p Cons.prems(1,2)] Cons.prems(5) by simp
    moreover have "table_ok rows1" "delivery_bound s rows1"
      using wl.poll_state [OF p Cons.prems(1)] wl.poll_bounded [OF p Cons.prems(1)] Cons.prems(2)
      by (simp_all add: bounded_iff)
    moreover have "visible_by (queue_of s) v rows1"
      using poll_rows(2) [OF p v(2)] visible_by_mono [OF Cons.prems(3) v(1)] by blast
    ultimately show ?thesis unfolding run using Cons.IH v(3) by blast
  qed
qed simp

section \<open>The properties\<close>

text \<open>A message for the witnesses: its tool raises, because there is no such invoice.\<close>

definition failing_body :: pydict where
  "failing_body = [(''job_id'', PStr ''job_1''), (''idempotency_key'', PStr ''k''),
     (''tool_name'', PStr ''get_invoice_status''), (''trace_id'', PStr ''t''),
     (''arguments'', PDict [(''invoice_id'', PStr ''INV-0'')])]"

definition ref_row :: "string \<Rightarrow> nat \<Rightarrow> queue_row" where
  "ref_row status n = \<lparr>qr_id = 1, qr_queue_name = ''tool-jobs'', qr_body = failing_body, qr_status = status,
     qr_delivery_count = n, qr_visible_at = 0, qr_dead_letter_reason = None, qr_created_at = 0, qr_updated_at = 0\<rparr>"

definition ref_job :: async_job where
  "ref_job = \<lparr>aj_job_id = ''job_1'', aj_trace_id = ''t'', aj_request_id = ''r'',
     aj_tool_name = ''get_invoice_status'', aj_idempotency_key = ''k'', aj_user_id = ''u'', aj_agent_id = ''a'',
     aj_role = ''finance_agent'', aj_payload = [], aj_status = ''queued'', aj_attempts = 0, aj_result = None,
     aj_error_code = None, aj_error_detail = None, aj_created_at = 0, aj_updated_at = 0\<rparr>"

abbreviation ref_worker :: "queue_table worker" where
  "ref_worker \<equiv> local_worker default_settings (default_registry True) MockDatabricksConnector"

definition job_db :: db where
  "job_db = empty_db\<lparr>db_jobs := [''job_1'' \<mapsto> ref_job]\<rparr>"

definition ref_message :: message where
  "ref_message = \<lparr>ms_body = failing_body, ms_delivery_count = 1, ms_handle = 1\<rparr>"

lemma default_sqlite [simp]: "engine_of_url (st_database_url default_settings) = SQLite"
  by (simp add: default_settings_def engine_of_url_def)

lemma ref_row_state [simp]:
  "lq_state [ref_row ''locked'' n] h = (if h = 1 then Some (Locked n) else None)"
  "lq_state [ref_row ''available'' n] h = (if h = 1 then Some (Available n) else None)"
  by (simp_all add: lq_state_def row_of_def row_state_def ref_row_def)

lemma ref_table_ok [simp]: "table_ok [ref_row st n]"
  by (simp add: table_ok_def ref_row_def)



text \<open>C16 (safety).
  Once the key of a job is \<^verbatim>\<open>completed\<close>, the job is not executed again: a further delivery
  under that key gives the same whatever the registered handlers do, and if it is processed the
  message ends completed, the job row shows the stored result, and the key rows are as before.\<close>

theorem completed_key_not_executed:
  assumes "body_key m = Some k" "db_keys d k = Some row" "ik_status row = ''completed''" "ik_result row = Some res"
  shows "process w clk m (d, q) = process (w\<lparr>wk_registry := with_runs f (wk_registry w)\<rparr>) clk m (d, q) \<and>
    (case process w clk m (d, q) of
       (Inl e, (d', q')) \<Rightarrow> True
     | (Inr u, (d', q')) \<Rightarrow>
         (\<exists>now. mq_complete (wk_queue w) now m q = (Inr (), q')) \<and> db_keys d' = db_keys d \<and>
         (\<forall>j jb. message_job_id m = Some j \<longrightarrow> db_jobs d' j = Some jb \<longrightarrow>
            aj_status jb = ''succeeded'' \<and> aj_result jb = Some res))"
proof -
  let ?w = "w\<lparr>wk_registry := with_runs f (wk_registry w)\<rparr>"
  have fate: "fate_of w d m = Skipped res"
    using assms by (simp add: completed_result_def fate_of_def)
  have eqs: "wk_queue ?w = wk_queue w" "wk_settings ?w = wk_settings w" by simp_all
  have same: "wk_scope ?w (clk 0) (duplicate_guard ?w clk m) = wk_scope w (clk 0) (duplicate_guard w clk m)"
    unfolding wk_scope_def duplicate_guard_def eqs by (rule refl)
  obtain r d1 q1 where g: "wk_scope w (clk 0) (duplicate_guard w clk m) (d, q) = (r, (d1, q1))"
    by (metis prod.exhaust)
  show ?thesis
  proof (cases r)
    case (Inl e)
    with g same show ?thesis by (simp add: process_def bind_prog_def)
  next
    case (Inr settled)
    with g have "wk_scope w (clk 0) (duplicate_guard w clk m) (d, q) = (Inr settled, (d1, q1))" by simp
    then have s: "settled" "mq_complete (wk_queue w) (clk 1) m q = (Inr (), q1)" "db_keys d1 = db_keys d"
      "db_jobs d1 = on_job (message_job_id m) (update_job ''succeeded'' (Some res) None None None (clk 0)) (db_jobs d)"
      using fate by (auto elim!: guard_scope)
    have "aj_status jb = ''succeeded'' \<and> aj_result jb = Some res"
      if "message_job_id m = Some j" "db_jobs d1 j = Some jb" for j jb
      using that s(4) by (auto simp: on_job_def)
    with g Inr same s show ?thesis by (auto simp: process_def bind_prog_def)
  qed
qed

text \<open>A completed key, for the witness.\<close>

definition completed_db :: db where
  "completed_db = job_db\<lparr>db_keys := [''k'' \<mapsto> \<lparr>ik_key = ''k'', ik_tool_name = ''get_invoice_status'',
     ik_job_id = Some ''job_1'', ik_input_hash = ''00'', ik_status = ''completed'',
     ik_result = Some [(''status'', PStr ''paid'')], ik_created_at = 0\<rparr>]\<rparr>"

theorem completed_key_not_executed_witness:
  "\<exists>d' rows'. process ref_worker (\<lambda>i. 0) ref_message (completed_db, [ref_row ''locked'' 2]) = (Inr (), (d', rows'))
    \<and> db_keys d' = db_keys completed_db
    \<and> (\<forall>jb. db_jobs d' ''job_1'' = Some jb \<longrightarrow> aj_result jb = Some [(''status'', PStr ''paid'')])"
proof -
  obtain d' rows' where p: "process ref_worker (\<lambda>i. 0) ref_message (completed_db, [ref_row ''locked'' 2]) = (Inr (), (d', rows'))"
    using process_returns [of ref_worker "\<lambda>i. 0" ref_message completed_db "[ref_row ''locked'' 2]"]
    by (auto simp: LocalQueue_settles)
  obtain row where row: "body_key ref_message = Some ''k''" "db_keys completed_db ''k'' = Some row"
    "ik_status row = ''completed''" "ik_result row = Some [(''status'', PStr ''paid'')]"
    and job: "message_job_id ref_message = Some ''job_1''"
    by (simp add: body_key_def message_idempotency_key_def message_job_id_def ref_message_def failing_body_def
        dict_get_def completed_db_def)
  from completed_key_not_executed [OF row, of ref_worker "\<lambda>i. 0" "[ref_row ''locked'' 2]"] p job
  show ?thesis by auto
qed


definition still_clock :: poll_clock where
  "still_clock = \<lparr>pc_receive = 0, pc_message = (\<lambda>i j. 0)\<rparr>"

lemma clocks_from_still [simp]: "clocks_from 0 (replicate n still_clock)"
  by (induction n) (auto simp: still_clock_def)


text \<open>C15 (bounds).
  However often the worker polls, no message is delivered more often than
  \<^verbatim>\<open>queue_max_delivery_count\<close> times, and a message that still waits has deliveries left.\<close>

theorem worker_respects_delivery_limit:
  assumes "table_ok rows" "delivery_bound s rows"
    and "poll_once (local_worker s reg dbx) clk n t (d, rows) = (Inr k, (d', rows'))"
  shows "table_ok rows' \<and> delivery_bound s rows' \<and> k \<le> n \<and>
    (\<forall>r \<in> set rows'. qr_delivery_count r \<le> st_queue_max_delivery_count s)"
proof -
  from wl.poll_state [OF assms(3,1)] wl.poll_bounded [OF assms(3,1)] assms(2)
  have ok: "table_ok rows'" "delivery_bound s rows'" "k \<le> n" by (simp_all add: bounded_iff)
  moreover have "qr_delivery_count r \<le> st_queue_max_delivery_count s" if "r \<in> set rows'" for r
  proof -
    have "lq_state rows' (qr_id r) = Some (row_state r)"
      using row_of_in [OF table_ok_distinct [OF ok(1)] that] by (simp add: lq_state_def)
    with ok(2) have "within (st_queue_max_delivery_count s) (row_state r)" by (simp add: delivery_bound_def)
    from within_deliveries [OF this] show ?thesis by simp
  qed
  ultimately show ?thesis by blast
qed

theorem worker_respects_delivery_limit_witness:
  "\<exists>k d' rows'. poll_once ref_worker still_clock 10 30 (job_db, [ref_row ''available'' 4]) = (Inr k, (d', rows'))
    \<and> k \<le> 10 \<and> (\<forall>r \<in> set rows'. qr_delivery_count r \<le> 5)"
proof -
  have b: "delivery_bound default_settings [ref_row ''available'' 4]"
    by (simp add: delivery_bound_def default_settings_def)
  obtain k d' rows' where p: "poll_once ref_worker still_clock 10 30 (job_db, [ref_row ''available'' 4]) = (Inr k, (d', rows'))"
    using local_poll [OF default_sqlite] by blast
  from worker_respects_delivery_limit [OF ref_table_ok b p] p show ?thesis
    by (simp add: default_settings_def)
qed

end
