(* ===== verification/QueueProps.thy ===== *)
theory QueueProps
  imports WorkerProps
begin

text \<open>
  The life of a message: what the queue reports about it, what happens to one that nobody
  settles, and whose result a job can show.
\<close>

section \<open>Reports\<close>

definition count_status :: "local_queue \<Rightarrow> queue_table \<Rightarrow> string \<Rightarrow> nat" where
  "count_status lq rows st = length (filter (\<lambda>r. qr_queue_name r = lq_queue lq \<and> qr_status r = st) rows)"

lemma tally_fold:
  "map_of (fold (\<lambda>r out. odict_set (f r)
       ((case map_of out (f r) of None \<Rightarrow> 0 | Some n \<Rightarrow> n) + 1) out) rows out) k =
     (let n = length (filter (\<lambda>r. f r = k) rows) in
      if n = 0 then map_of out k
      else Some ((case map_of out k of None \<Rightarrow> 0 | Some m \<Rightarrow> m) + n))"
  by (induction rows arbitrary: out) (auto simp: Let_def split: option.split)

text \<open>
  \<^verbatim>\<open>stats()\<close> of the local queue says for every status how many rows of this queue have it; a
  status that no row has does not appear.\<close>

lemma stats_count_rows:
  "map_of (lq_stats lq rows) st =
     (if count_status lq rows st = 0 then None else Some (count_status lq rows st))"
proof -
  have "filter (\<lambda>r. qr_status r = st) (filter (\<lambda>r. qr_queue_name r = lq_queue lq) rows) =
      filter (\<lambda>r. qr_queue_name r = lq_queue lq \<and> qr_status r = st) rows"
    by (simp add: conj_commute)
  then show ?thesis
    unfolding lq_stats_def tally_fold count_status_def by (simp add: Let_def)
qed

section \<open>Locked messages\<close>

text \<open>C38 (safety).
  A message that is locked (received by a worker that then died) is never delivered again: however
  long the worker runs, and long after the visibility timeout, it stays locked. Nothing in the
  local queue lets the lock lapse.\<close>

theorem locked_message_is_stranded:
  assumes "engine_of_url (st_database_url s) = SQLite" "table_ok rows" "lq_state rows h = Some (Locked c)"
  shows "lq_state (snd (snd (run_forever (local_worker s reg dbx) clks (d, rows)))) h = Some (Locked c)"
  using assms(2,3)
proof (induction clks arbitrary: d rows)
  case (Cons clk clks)
  from local_poll [OF assms(1), of reg dbx clk 10 30 d rows] obtain k d1 rows1 where
    p: "poll_once (local_worker s reg dbx) clk 10 30 (d, rows) = (Inr k, (d1, rows1))" by blast
  have "table_ok rows1" using wl.poll_state [OF p Cons.prems(1)] by blast
  moreover have "lq_state rows1 h = Some (Locked c)"
    using wl.poll_step [OF p Cons.prems(1), of h] Cons.prems(2) by auto
  ultimately show ?case using Cons.IH [of rows1 d1] p by (auto simp: Let_def split: prod.split)
qed simp

definition far_clock :: "instant \<Rightarrow> poll_clock" where
  "far_clock t = \<lparr>pc_receive = t, pc_message = (\<lambda>i j. t)\<rparr>"

theorem locked_message_is_stranded_witness:
  "lq_state (snd (snd (run_forever ref_worker (map far_clock [0, seconds 3600, seconds 7200])
     (job_db, [ref_row ''locked'' 1])))) 1 = Some (Locked 1)"
  by (rule locked_message_is_stranded) (simp_all add: default_sqlite)

section \<open>Whose result a job shows\<close>

text \<open>
  The worker files results under the key that the message carries, whatever job the message is
  for: when a message under a reserved key succeeds with some output, a later message under the
  same key is not executed, and its job shows \<^verbatim>\<open>succeeded\<close> with the first message's output,
  even if the two have different jobs, tools or arguments.\<close>

lemma key_result_crosses_jobs:
  assumes "process w clk m (d, q) = (Inr (), (d1, q1))" "body_key m = Some k" "db_keys d k = Some row"
    and "ik_status row \<noteq> ''completed''" "exec_fate w m = Succeeded out"
    and "process w2 clk2 m2 (d1, q2) = (Inr (), (d2, q3))" "body_key m2 = Some k"
    and "message_job_id m2 = Some j" "db_jobs d j \<noteq> None"
  shows "\<exists>jb. db_jobs d2 j = Some jb \<and> aj_status jb = ''succeeded'' \<and> aj_result jb = Some out"
proof -
  have f1: "fate_of w d m = Succeeded out"
    using assms(2-5) by (simp add: fate_of_def completed_result_def)
  have e1: "db_keys d1 = fate_keys m (Succeeded out) (db_keys d)"
    "job_updated w m (Succeeded out) (db_jobs d) (db_jobs d1)"
    using process_effect [OF assms(1)] f1 by auto
  have f2: "fate_of w2 d1 m2 = Skipped out"
    using assms(2,3,7) by (simp add: e1 fate_keys_def fate_of_def completed_result_def)
  have e2: "job_updated w2 m2 (Skipped out) (db_jobs d1) (db_jobs d2)"
    using process_effect [OF assms(6)] f2 by auto
  from assms(9) e1(2) e2 have "db_jobs d2 j \<noteq> None" "db_jobs d1 j \<noteq> None"
    by (auto simp: job_updated_def)
  with e2 assms(8) show ?thesis by (auto simp: job_updated_def)
qed

text \<open>Two messages under one key: an invoice query first, then the failing one of \<open>job_1\<close>.\<close>

definition other_message :: message where
  "other_message = \<lparr>ms_body = [(''job_id'', PStr ''job_0''), (''idempotency_key'', PStr ''k''),
     (''tool_name'', PStr ''get_invoice_status''), (''trace_id'', PStr ''t''),
     (''arguments'', PDict [(''invoice_id'', PStr ''INV-5001'')])], ms_delivery_count = 1, ms_handle = 2\<rparr>"

definition reserved_db :: db where
  "reserved_db = job_db\<lparr>db_keys := [''k'' \<mapsto> \<lparr>ik_key = ''k'', ik_tool_name = ''get_invoice_status'',
     ik_job_id = Some ''job_1'', ik_input_hash = ''00'', ik_status = ''reserved'', ik_result = None,
     ik_created_at = 0\<rparr>]\<rparr>"

lemma other_message_fate:
  "exec_fate ref_worker other_message = Succeeded (the (map_of INVOICES ''INV-5001''))"
  by (simp add: exec_fate_def other_message_def body_text_def dict_get_def dict_get_or_def run_tool_def
      spec_invoice_status_def tool_defs INVOICES_def)

lemma key_result_crosses_jobs_witness:
  "\<exists>d1 q1 d2 q2 jb. process ref_worker (\<lambda>i. 0) other_message (reserved_db, []) = (Inr (), (d1, q1)) \<and>
    process ref_worker (\<lambda>i. 0) ref_message (d1, q1) = (Inr (), (d2, q2)) \<and>
    db_jobs d2 ''job_1'' = Some jb \<and> aj_status jb = ''succeeded'' \<and>
    aj_result jb = map_of INVOICES ''INV-5001''"
proof -
  obtain d1 q1 where p1: "process ref_worker (\<lambda>i. 0) other_message (reserved_db, []) = (Inr (), (d1, q1))"
    using process_returns [of ref_worker "\<lambda>i. 0" other_message reserved_db "[]"] by (auto simp: LocalQueue_settles)
  obtain d2 q2 where p2: "process ref_worker (\<lambda>i. 0) ref_message (d1, q1) = (Inr (), (d2, q2))"
    using process_returns [of ref_worker "\<lambda>i. 0" ref_message d1 q1] by (auto simp: LocalQueue_settles)
  have keys: "body_key other_message = Some ''k''" "body_key ref_message = Some ''k''"
    "message_job_id ref_message = Some ''job_1''"
    by (simp_all add: body_key_def message_idempotency_key_def message_job_id_def ref_message_def
        other_message_def failing_body_def dict_get_def)
  obtain row where row: "db_keys reserved_db ''k'' = Some row" "ik_status row \<noteq> ''completed''"
    by (simp add: reserved_db_def)
  have "db_jobs reserved_db ''job_1'' \<noteq> None" by (simp add: reserved_db_def job_db_def)
  from key_result_crosses_jobs [OF p1 keys(1) row other_message_fate p2 keys(2,3) this] p1 p2
  show ?thesis by (auto simp: INVOICES_def)
qed

end
