(* ===== verification/Routes.thy ===== *)
theory Routes
  imports Guarantees
begin

text \<open>
  What each route of the pipeline leaves behind: the pending approval of a dry run, the key,
  the job and the message of an asynchronous call, and the gate of a destructive call.
\<close>

section \<open>Dry runs\<close>

lemma route_dry:
  "ts_classification spec \<noteq> DESTRUCTIVE \<Longrightarrow> ts_dry_run_required spec \<Longrightarrow>
    route ex env iv spec args st = handle_dry_run ex env iv spec args st"
  by (simp add: route_def)

lemma route_async:
  "ts_classification spec \<noteq> DESTRUCTIVE \<Longrightarrow> \<not> ts_dry_run_required spec \<Longrightarrow>
    ts_execution_mode spec = ASYNC \<Longrightarrow>
    route ex env iv spec args st = handle_async ex env iv spec args st"
  by (simp add: route_def)

lemma route_destructive:
  "ts_classification spec = DESTRUCTIVE \<Longrightarrow>
    route ex env iv spec args st = handle_destructive ex env iv spec args st"
  by (simp add: route_def)

lemma log_by_add [simp]: "log_by s ws (se_add w s) \<longleftrightarrow> ws = [w]"
proof
  assume "log_by s ws (se_add w s)"
  then have "se_log (se_add w s) = se_log (s\<lparr>se_log := se_log s @ ws\<rparr>)" by (simp add: log_by_def)
  then show "ws = [w]" by simp
qed simp

lemma log_by_add2 [simp]: "log_by s ws (se_add v (se_add w s)) \<longleftrightarrow> ws = [w, v]"
proof
  assume "log_by s ws (se_add v (se_add w s))"
  then have "se_log (se_add v (se_add w s)) = se_log (s\<lparr>se_log := se_log s @ ws\<rparr>)" by (simp add: log_by_def)
  then show "ws = [w, v]" by simp
qed simp

lemma dry_run_effect:
  assumes "registry_get (ex_registry ex) (iv_tool iv) = Some spec"
    and "ts_classification spec \<noteq> DESTRUCTIVE" "ts_dry_run_required spec"
    and "invoke V ex env iv (d, q) = (Inr oc, (d', q'))"
  shows "q' = q \<and> db_jobs d' = db_jobs d \<and> db_keys d' = db_keys d \<and> db_policies d' = db_policies d \<and>
    (if oc_decision oc = ''dry_run'' then
       (\<exists>a. db_approvals d (approval_id_of env) = None \<and>
          db_approvals d' = (db_approvals d)(approval_id_of env \<mapsto> a) \<and>
          ap_status a = ''pending'' \<and> ap_approved_by a = None \<and> ap_tool_name a = ts_name spec \<and>
          ap_requested_by_agent a = cl_agent_id (iv_caller iv) \<and>
          ap_requested_by_role a = cl_role (iv_caller iv) \<and>
          oc_approval_id oc = Some (approval_id_of env))
     else oc_decision oc \<in> {''denied'', ''failed''} \<and> db_approvals d' = db_approvals d)"
proof (cases rule: returned_cases [OF assms(4,1)])
  case 1
  then show ?thesis by (auto simp: same_tables_def)
next
  case (2 args e s ws)
  from 2(3) have "s = open_session (ce_now env) d" "q' = q"
    unfolding route_dry [OF assms(2,3)] by (auto elim: handle_dry_run_cases)
  with 2 show ?thesis
    by (auto simp: same_tables_def failed_outcome_def refused_def outcome_for_def InvocationOutcome_def)
next
  case (3 args oc0 s ws)
  from 3(3) show ?thesis
    unfolding route_dry [OF assms(2,3)]
  proof (cases rule: handle_dry_run_cases)
    case (proposed result oc1)
    let ?a = "(pending_approval env iv spec result)\<lparr>ap_created_at := ce_now env, ap_updated_at := ce_now env\<rparr>"
    from 3(4) proposed have ws: "ws = [AddApproval ?a]" by (simp add: create_approval_def)
    with 3(5) have "db_approvals d (approval_id_of env) = None"
      by (auto simp: pending_approval_def split: if_splits)
    with ws 3 proposed show ?thesis
      by (auto simp: same_tables_def pending_approval_def intro!: exI [of _ ?a])
  qed simp
qed

text \<open>C20 (functional).
  A dry-run tool never gets further than a proposal: the call is refused, fails, or answers
  \<^verbatim>\<open>dry_run\<close>; in the last case it has added exactly one approval, under an id that was not in
  use, pending, not approved by anyone, in the caller's name and for this tool, and the
  answer carries its id. Nothing else in the tables changes and nothing is published.\<close>

theorem dry_run_only_proposes:
  assumes "registry_get (ex_registry ex) (iv_tool iv) = Some spec"
    and "ts_classification spec \<noteq> DESTRUCTIVE" "ts_dry_run_required spec"
    and "invoke V ex env iv (d, q) = (Inr oc, (d', q'))"
  shows "q' = q \<and> db_jobs d' = db_jobs d \<and> db_keys d' = db_keys d \<and> db_policies d' = db_policies d \<and>
    (if oc_decision oc = ''dry_run'' then
       (\<exists>a. db_approvals d (approval_id_of env) = None \<and>
          db_approvals d' = (db_approvals d)(approval_id_of env \<mapsto> a) \<and>
          ap_status a = ''pending'' \<and> ap_approved_by a = None \<and> ap_tool_name a = ts_name spec \<and>
          ap_requested_by_agent a = cl_agent_id (iv_caller iv) \<and>
          ap_requested_by_role a = cl_role (iv_caller iv) \<and>
          oc_approval_id oc = Some (approval_id_of env))
     else oc_decision oc \<in> {''denied'', ''failed''} \<and> db_approvals d' = db_approvals d)"
  by (rule dry_run_effect [OF assms])

section \<open>Asynchronous calls\<close>

lemma invoke_cong:
  assumes "\<And>st. decide V ex' env iv st = decide V ex env iv st" "ex_settings ex' = ex_settings ex"
  shows "invoke V ex' env iv dq = invoke V ex env iv dq"
  using assms by (simp add: invoke_def invoke_body_def session_scope_def)

lemma handle_async_ignores_run [simp]:
  "handle_async (ex\<lparr>ex_registry := reg\<rparr>) env iv (spec\<lparr>ts_run := g\<rparr>) args st = handle_async ex env iv spec args st"
proof -
  have eqs: "ts_name (spec\<lparr>ts_run := g\<rparr>) = ts_name spec"
    "ex_queue (ex\<lparr>ex_registry := reg\<rparr>) = ex_queue ex" by simp_all
  show ?thesis
    unfolding handle_async_def queued_job_def job_message_def duplicate_outcome_def eqs by (rule refl)
qed

lemma async_ignores_run:
  assumes "ts_execution_mode spec = ASYNC" "ts_classification spec \<noteq> DESTRUCTIVE" "\<not> ts_dry_run_required spec"
  shows "route (ex\<lparr>ex_registry := reg\<rparr>) env iv (spec\<lparr>ts_run := g\<rparr>) args st = route ex env iv spec args st"
  using assms by (simp add: route_def)

lemma async_ignores_runs:
  assumes "registry_get (ex_registry ex) (iv_tool iv) = Some spec"
    and "ts_classification spec \<noteq> DESTRUCTIVE" "\<not> ts_dry_run_required spec" "ts_execution_mode spec = ASYNC"
  shows "invoke V (ex\<lparr>ex_registry := with_runs f (ex_registry ex)\<rparr>) env iv dq = invoke V ex env iv dq"
  using assms
  by (intro invoke_cong) (simp_all add: decide_def validate_args_def async_ignores_run Let_def split: sum.split)

lemma async_queued_effect:
  assumes "registry_get (ex_registry ex) (iv_tool iv) = Some spec"
    and "ts_classification spec \<noteq> DESTRUCTIVE" "\<not> ts_dry_run_required spec" "ts_execution_mode spec = ASYNC"
    and "invoke V ex env iv (d, q) = (Inr oc, (d', q'))" "oc_decision oc = ''queued''"
    and "db_keys d (call_key env iv) = None"
  shows "oc_job_id oc = Some (job_id_of env) \<and>
    (\<exists>args j r. validate_args V spec (iv_arguments iv) = Inr args \<and>
       mq_publish (ex_queue ex) (ce_now env) (job_message env iv spec args) q = (Inr (), q') \<and>
       db_jobs d (job_id_of env) = None \<and> db_jobs d' = (db_jobs d)(job_id_of env \<mapsto> j) \<and>
       aj_status j = ''queued'' \<and> aj_attempts j = 0 \<and> aj_idempotency_key j = call_key env iv \<and>
       aj_tool_name j = ts_name spec \<and> aj_payload j = [(''arguments'', PDict args)] \<and>
       db_keys d' = (db_keys d)(call_key env iv \<mapsto> r) \<and> ik_status r = ''reserved'' \<and>
       ik_job_id r = Some (job_id_of env) \<and> ik_input_hash r = iv_input_hash iv \<and>
       db_approvals d' = db_approvals d) \<and>
    invoke V (ex\<lparr>ex_registry := with_runs f (ex_registry ex)\<rparr>) env iv (d, q) = (Inr oc, (d', q'))"
proof -
  note indep = async_ignores_runs [OF assms(1-4), of V f env "(d, q)"]
  show ?thesis
  proof (cases rule: returned_cases [OF assms(5,1)])
    case 1
    with assms(6) show ?thesis by simp
  next
    case (2 args e s ws)
    with assms(6) show ?thesis
      by (simp add: failed_outcome_def refused_def outcome_for_def InvocationOutcome_def)
  next
    case (3 args oc0 s ws)
    from 3(3) show ?thesis
      unfolding route_async [OF assms(2-4)]
    proof (cases rule: handle_async_cases)
      case (duplicate row)
      with assms(7) show ?thesis by (simp add: get_idempotency_def)
    next
      case (submitted p oc1)
      from submitted(4,5) have p: "p = Inr ()" "oc0 = oc1" "oc_job_id oc1 = Some (job_id_of env)"
        by (cases p; simp)+
      let ?j = "(queued_job env iv spec args)\<lparr>aj_created_at := ce_now env, aj_updated_at := ce_now env\<rparr>"
      let ?r = "\<lparr>ik_key = call_key env iv, ik_tool_name = ts_name spec, ik_job_id = Some (job_id_of env),
        ik_input_hash = iv_input_hash iv, ik_status = ''reserved'', ik_result = None, ik_created_at = ce_now env\<rparr>"
      have "s = se_add (AddJob ?j) (se_add (AddKey ?r) (open_session (ce_now env) d))"
        using submitted(2) reserve_free [OF submitted(1)] by (simp add: create_job_def)
      with 3(4) have ws: "ws = [AddKey ?r, AddJob ?j]" by simp
      with 3(5) have "db_jobs d (job_id_of env) = None"
        by (auto simp: queued_job_def split: if_splits)
      with ws 3 p submitted indep assms(5) show ?thesis
        by (auto simp: same_tables_def queued_job_def intro!: exI [of _ args] exI [of _ ?j] exI [of _ ?r])
    qed
  qed
qed

text \<open>C19 (functional).
  An asynchronous call under a new idempotency key that answers \<^verbatim>\<open>queued\<close> has published
  exactly one message, has reserved the key for the new job, and has added one job row in
  state \<^verbatim>\<open>queued\<close> with that key and the validated arguments; the message and the answer carry
  the same job id. The tool itself has not run: other handlers would have given the same.\<close>

theorem async_call_queues_once:
  assumes "registry_get (ex_registry ex) (iv_tool iv) = Some spec"
    and "ts_classification spec \<noteq> DESTRUCTIVE" "\<not> ts_dry_run_required spec" "ts_execution_mode spec = ASYNC"
    and "invoke V ex env iv (d, q) = (Inr oc, (d', q'))" "oc_decision oc = ''queued''"
    and "db_keys d (call_key env iv) = None"
  shows "oc_job_id oc = Some (job_id_of env) \<and>
    (\<exists>args j r. validate_args V spec (iv_arguments iv) = Inr args \<and>
       mq_publish (ex_queue ex) (ce_now env) (job_message env iv spec args) q = (Inr (), q') \<and>
       db_jobs d (job_id_of env) = None \<and> db_jobs d' = (db_jobs d)(job_id_of env \<mapsto> j) \<and>
       aj_status j = ''queued'' \<and> aj_attempts j = 0 \<and> aj_idempotency_key j = call_key env iv \<and>
       aj_tool_name j = ts_name spec \<and> aj_payload j = [(''arguments'', PDict args)] \<and>
       db_keys d' = (db_keys d)(call_key env iv \<mapsto> r) \<and> ik_status r = ''reserved'' \<and>
       ik_job_id r = Some (job_id_of env) \<and> ik_input_hash r = iv_input_hash iv \<and>
       db_approvals d' = db_approvals d) \<and>
    invoke V (ex\<lparr>ex_registry := with_runs f (ex_registry ex)\<rparr>) env iv (d, q) = (Inr oc, (d', q'))"
  by (rule async_queued_effect [OF assms])

section \<open>Concrete dry-run and asynchronous calls\<close>

lemma handle_dry_run_ok:
  assumes "ts_run spec (ex_tool_ctx ex) args = Inr result"
  shows "\<exists>oc s'. handle_dry_run ex env iv spec args (s, q) = (Inr oc, (s', q)) \<and> oc_decision oc = ''dry_run''"
  using assms by (simp add: handle_dry_run_def outcome_for_def InvocationOutcome_def Let_def split: prod.splits)

lemma handle_async_ok:
  assumes "get_idempotency (call_key env iv) s = None"
    and "mq_publish (ex_queue ex) (ce_now env) (job_message env iv spec args) q = (Inr (), q')"
  shows "\<exists>oc s'. handle_async ex env iv spec args (s, q) = (Inr oc, (s', q')) \<and> oc_decision oc = ''queued''"
proof -
  obtain r s' q'' where r: "handle_async ex env iv spec args (s, q) = (r, (s', q''))"
    by (metis prod.exhaust)
  show ?thesis
    by (rule handle_async_cases [OF r]) (use assms r in auto)
qed

abbreviation dry_call :: invocation where
  "dry_call \<equiv> ref_call ''sales_agent'' ''create_crm_update_dry_run''
     [(''account_id'', PStr ''ACC-300''), (''proposed_changes'', PDict [(''tier'', PStr ''gold'')])] None None"

abbreviation async_call :: "string \<Rightarrow> invocation" where
  "async_call key \<equiv> ref_call ''finance_agent'' ''trigger_databricks_workflow''
     [(''workflow_name'', PStr ''close'')] (Some key) None"

abbreviation async_args :: pydict where
  "async_args \<equiv> [(''workflow_name'', PStr ''close''), (''parameters'', PDict [])]"

lemma dry_call_decides:
  "\<exists>oc s. decide strict_validate (ref_executor t) ref_env dry_call (open_session 1000 d, q) = (oc, (s, q))
    \<and> oc_decision oc = ''dry_run''"
proof -
  let ?args = "[(''account_id'', PStr ''ACC-300''), (''proposed_changes'', PDict [(''tier'', PStr ''gold'')])]"
  have "\<exists>res. ts_run spec_crm_dry_run (ex_tool_ctx (ref_executor t)) ?args = Inr res"
    by (simp add: spec_crm_dry_run_def tool_defs CRM_ACCOUNTS_def)
  then obtain oc s where "route (ref_executor t) ref_env dry_call spec_crm_dry_run ?args (open_session 1000 d, q) = (Inr oc, (s, q))"
    "oc_decision oc = ''dry_run''"
    using handle_dry_run_ok [of spec_crm_dry_run "ref_executor t" ?args _ ref_env dry_call "open_session 1000 d" q]
    by (auto simp: route_def spec_crm_dry_run_def)
  moreover have "authorised (ref_executor t) dry_call"
    by (simp add: authorised_def spec_crm_dry_run_def SALES_ROLES_def all_roles_def)
  moreover have "validate_args strict_validate spec_crm_dry_run ?args = Inr ?args"
    by (simp add: validate_args_def strict_validate_def spec_crm_dry_run_def model_defs field_value_def)
  ultimately have "decide strict_validate (ref_executor t) ref_env dry_call (open_session 1000 d, q) = (oc, (s, q))"
    by (intro decide_answered [of _ _ spec_crm_dry_run _ ?args]) simp_all
  with \<open>oc_decision oc = ''dry_run''\<close> show ?thesis by blast
qed

theorem dry_run_only_proposes_witness:
  "\<exists>oc d' a. invoke strict_validate (ref_executor []) ref_env dry_call (empty_db, []) = (Inr oc, (d', []))
    \<and> oc_decision oc = ''dry_run'' \<and> db_approvals d' = [''apr_0123456789abcdef'' \<mapsto> a] \<and> ap_status a = ''pending''"
proof -
  obtain oc s where dec: "decide strict_validate (ref_executor []) ref_env dry_call (open_session 1000 empty_db, []) = (oc, (s, []))"
    and oc: "oc_decision oc = ''dry_run''" using dry_call_decides by blast
  let ?oc = "oc\<lparr>oc_latency_ms := latency_ms ref_env\<rparr>"
  obtain d' where inv: "invoke strict_validate (ref_executor []) ref_env dry_call (empty_db, []) = (Inr ?oc, (d', []))"
    using ref_returns [OF dec] by (auto simp: empty_db_def)
  have "registry_get (ex_registry (ref_executor [])) (iv_tool dry_call) = Some spec_crm_dry_run"
    "ts_classification spec_crm_dry_run \<noteq> DESTRUCTIVE" "ts_dry_run_required spec_crm_dry_run"
    by (simp_all add: spec_crm_dry_run_def)
  from dry_run_only_proposes [OF this inv] oc obtain a
    where "db_approvals d' = [''apr_0123456789abcdef'' \<mapsto> a]" "ap_status a = ''pending''"
    by (auto simp: empty_db_def)
  with inv oc show ?thesis by auto
qed

lemma async_call_authorised: "authorised (ref_executor t) (async_call key)"
  by (simp add: authorised_def spec_trigger_workflow_def FINANCE_ROLES_def all_roles_def)

lemma async_call_valid:
  "validate_args strict_validate spec_trigger_workflow [(''workflow_name'', PStr ''close'')] = Inr async_args"
  by (simp add: validate_args_def strict_validate_def spec_trigger_workflow_def model_defs field_value_def)

lemma async_spec:
  "ts_classification spec_trigger_workflow \<noteq> DESTRUCTIVE" "\<not> ts_dry_run_required spec_trigger_workflow"
  "ts_execution_mode spec_trigger_workflow = ASYNC" "ts_name spec_trigger_workflow = ''trigger_databricks_workflow''"
  by (simp_all add: spec_trigger_workflow_def)

lemma async_call_decides:
  assumes "db_keys d (call_key ref_env (async_call key)) = None"
    and "mq_publish (ex_queue ex) 1000 (job_message ref_env (async_call key) spec_trigger_workflow async_args) q = (Inr (), q')"
    and "ex_registry ex = default_registry b" "ex_known_roles ex = all_roles"
  shows "\<exists>oc s. decide strict_validate ex ref_env (async_call key) (open_session 1000 d, q) = (oc, (s, q'))
    \<and> oc_decision oc = ''queued''"
proof -
  obtain oc s where "route ex ref_env (async_call key) spec_trigger_workflow async_args (open_session 1000 d, q) = (Inr oc, (s, q'))"
    "oc_decision oc = ''queued''"
    using handle_async_ok [of ref_env "async_call key" "open_session 1000 d" ex spec_trigger_workflow async_args q q'] assms
    by (auto simp: route_async [OF async_spec(1-3)] get_idempotency_def)
  moreover have "authorised ex (async_call key)"
    using assms(3,4) by (simp add: authorised_def spec_trigger_workflow_def FINANCE_ROLES_def all_roles_def)
  ultimately have "decide strict_validate ex ref_env (async_call key) (open_session 1000 d, q) = (oc, (s, q'))"
    using assms(3)
    by (intro decide_answered [of _ _ spec_trigger_workflow _ async_args]) (simp_all add: async_call_valid)
  with \<open>oc_decision oc = ''queued''\<close> show ?thesis by blast
qed

lemma ref_async_call:
  "\<exists>oc d' q'. invoke strict_validate (ref_executor []) ref_env (async_call ''k'') (empty_db, []) = (Inr oc, (d', q'))
    \<and> oc_decision oc = ''queued''"
proof -
  let ?q = "snd (lq_publish ref_queue 1000 (job_message ref_env (async_call ''k'') spec_trigger_workflow async_args) [])"
  obtain oc s where dec: "decide strict_validate (ref_executor []) ref_env (async_call ''k'') (open_session 1000 empty_db, []) = (oc, (s, ?q))"
    and oc: "oc_decision oc = ''queued''"
    using async_call_decides [of empty_db "''k''" "ref_executor []" "[]" ?q True]
    by (auto simp: LocalQueue_def empty_db_def lq_publish_def)
  then show ?thesis using ref_returns [OF dec] by (auto simp: empty_db_def)
qed

theorem async_call_queues_once_witness:
  "\<exists>oc d' q' j. invoke strict_validate (ref_executor []) ref_env (async_call ''k'') (empty_db, []) = (Inr oc, (d', q'))
    \<and> oc_job_id oc = Some ''job_fedcba9876543210''
    \<and> db_jobs d' = [''job_fedcba9876543210'' \<mapsto> j] \<and> aj_status j = ''queued'' \<and> aj_payload j = [(''arguments'', PDict async_args)]"
proof -
  obtain oc d' q' where inv: "invoke strict_validate (ref_executor []) ref_env (async_call ''k'') (empty_db, []) = (Inr oc, (d', q'))"
    and oc: "oc_decision oc = ''queued''" using ref_async_call by blast
  have reg: "registry_get (ex_registry (ref_executor [])) (iv_tool (async_call ''k'')) = Some spec_trigger_workflow" by simp
  have "db_keys empty_db (call_key ref_env (async_call ''k'')) = None" by (simp add: empty_db_def)
  from async_call_queues_once [OF reg async_spec(1-3) inv oc this] inv show ?thesis
    using async_call_valid by (auto simp: empty_db_def)
qed

end
