(* ===== verification/EndToEnd.thy ===== *)
theory EndToEnd
  imports QueueProps Routes
begin

text \<open>
  A submitted job from the answer \<^verbatim>\<open>queued\<close> to its end: the gateway's call and the worker's rounds
  composed over the shared database and queue.
\<close>

section \<open>One job and its message\<close>

fun job_matches :: "mstate \<Rightarrow> async_job \<Rightarrow> bool" where
  "job_matches (Completed c) jb = (aj_status jb = ''succeeded'')"
| "job_matches (Dead c) jb = (aj_status jb = ''dead_letter'')"
| "job_matches (Available c) jb = True"
| "job_matches (Locked c) jb = False"

text \<open>Message \<open>h\<close>, and no other, is for job \<open>j\<close>.\<close>

definition only_message :: "(nat \<Rightarrow> pydict option) \<Rightarrow> nat \<Rightarrow> string \<Rightarrow> bool" where
  "only_message bodies h j \<longleftrightarrow>
     (\<forall>k b. bodies k = Some b \<longrightarrow> (as_text (dict_get b ''job_id'') = Some j \<longleftrightarrow> k = h))"

context worker_on begin

definition tracked :: "nat \<Rightarrow> string \<Rightarrow> db \<Rightarrow> 'q \<Rightarrow> bool" where
  "tracked h j d q \<longleftrightarrow> (\<exists>s jb. state q h = Some s \<and> db_jobs d j = Some jb \<and> job_matches s jb)"

lemma process_tracks:
  assumes p: "process w clk m (d, q) = (Inr (), (d', q'))" and "wf q"
    and lock: "state q (ms_handle m) = Some (Locked (ms_delivery_count m))"
    and own: "message_job_id m = Some j \<longleftrightarrow> ms_handle m = h" and job: "db_jobs d j \<noteq> None"
    and "ms_handle m = h \<or> tracked h j d q"
  shows "tracked h j d' q'"
proof (cases "ms_handle m = h")
  case True
  from job_and_message_agree [OF p \<open>wf q\<close> lock own [THEN iffD2, OF True] job] obtain jb s where
    "db_jobs d' j = Some jb" "state q' h = Some s" and
    "case s of Completed c \<Rightarrow> aj_status jb = ''succeeded'' | Dead c \<Rightarrow> aj_status jb = ''dead_letter''
     | Available c \<Rightarrow> aj_status jb = ''failed'' \<and> c < max_delivery | Locked c \<Rightarrow> False"
    using True by blast
  then show ?thesis by (cases s) (auto simp: tracked_def)
next
  case False
  then have "state q' h = state q h" using process_state [OF p \<open>wf q\<close> lock] by simp
  moreover have "db_jobs d' j = db_jobs d j"
    using process_effect [OF p] own False by (auto simp: job_updated_def)
  ultimately show ?thesis using assms(6) False by (simp add: tracked_def)
qed

lemma process_all_tracks:
  assumes "process_all w clk ms (d, q) = (Inr (), (d', q'))" "wf q" "distinct (map ms_handle ms)"
    and "\<forall>m \<in> set ms. state q (ms_handle m) = Some (Locked (ms_delivery_count m))"
    and "\<forall>m \<in> set ms. message_job_id m = Some j \<longleftrightarrow> ms_handle m = h" "db_jobs d j \<noteq> None"
    and "h \<in> ms_handle ` set ms \<or> tracked h j d q"
  shows "tracked h j d' q'"
  using assms
proof (induction ms arbitrary: clk d q)
  case (Cons m ms)
  then obtain d1 q1 where p: "process w (clk 0) m (d, q) = (Inr (), (d1, q1))"
    "process_all w (\<lambda>i. clk (Suc i)) ms (d1, q1) = (Inr (), (d', q'))"
    by (auto simp: prog_Inr)
  have lock: "state q (ms_handle m) = Some (Locked (ms_delivery_count m))" using Cons.prems(4) by simp
  note st = process_state [OF p(1) Cons.prems(2) lock]
  have locks: "\<forall>m' \<in> set ms. state q1 (ms_handle m') = Some (Locked (ms_delivery_count m'))"
    using Cons.prems(3,4) st by (auto simp: image_iff)
  have job: "db_jobs d1 j \<noteq> None"
    using process_effect [OF p(1)] Cons.prems(6) by (auto simp: job_updated_def)
  have "h \<in> ms_handle ` set ms \<or> tracked h j d1 q1"
    using process_tracks [OF p(1) Cons.prems(2) lock, of j h] Cons.prems(5-7) by auto
  with Cons.IH [OF p(2) _ _ locks _ job] Cons.prems(3,5) st show ?case by simp
qed simp

lemma poll_tracks:
  assumes "poll_once w clk n t (d, q) = (Inr k, (d', q'))" "wf q"
    and "only_message (body_of q) h j" "tracked h j d q"
  shows "tracked h j d' q'"
proof -
  from assms(1) obtain ms q1 where rec: "mq_receive mq (pc_receive clk) n t q = (Inr ms, q1)"
    and all: "process_all w (pc_message clk) ms (d, q1) = (Inr (), (d', q'))"
    by (auto simp: poll_once_def prog_Inr uses)
  have locked: "\<forall>m \<in> set ms. state q1 (ms_handle m) = Some (Locked (ms_delivery_count m))"
    using receive_locks [OF assms(2) rec] by fastforce
  have own: "\<forall>m \<in> set ms. message_job_id m = Some j \<longleftrightarrow> ms_handle m = h"
    using receive_locks [OF assms(2) rec] assms(3) by (auto simp: only_message_def message_job_id_def)
  have "h \<in> ms_handle ` set ms \<or> tracked h j d q1"
    using receive_others [OF assms(2) rec, of h] assms(4) by (auto simp: tracked_def)
  with process_all_tracks [OF all receive_wf [OF assms(2) rec] _ locked own] receive_distinct [OF assms(2) rec]
    assms(4) show ?thesis by (auto simp: tracked_def)
qed

end

section \<open>The worker of the local queue\<close>

lemma run_tracks:
  assumes "engine_of_url (st_database_url s) = SQLite"
    and "run_forever (local_worker s reg dbx) clks (d, rows) = (sleeps, (d', rows'))"
    and "table_ok rows" "only_message (lq_body rows) h j" "wl.tracked h j d rows"
  shows "wl.tracked h j d' rows' \<and> table_ok rows' \<and> lq_body rows' = lq_body rows \<and> row_names rows' = row_names rows"
  using assms(2-5)
proof (induction clks arbitrary: d rows sleeps)
  case (Cons clk clks)
  from local_poll [OF assms(1), of reg dbx clk 10 30 d rows] obtain k d1 rows1 where
    p: "poll_once (local_worker s reg dbx) clk 10 30 (d, rows) = (Inr k, (d1, rows1))" by blast
  with Cons.prems(1) obtain sl where
    run: "run_forever (local_worker s reg dbx) clks (d1, rows1) = (sl, (d', rows'))"
    by (auto simp: Let_def split: prod.splits)
  have ok: "table_ok rows1" "lq_body rows1 = lq_body rows" using wl.poll_state [OF p Cons.prems(2)] by auto
  from Cons.IH [OF run ok(1)] wl.poll_tracks [OF p Cons.prems(2-4)] Cons.prems(3) ok poll_rows(1) [OF p]
  show ?case by simp
qed simp

text \<open>A row that is not waiting, and whose job agrees with it, is at its end.\<close>

definition job_settled :: "string \<Rightarrow> nat \<Rightarrow> db \<Rightarrow> queue_table \<Rightarrow> bool" where
  "job_settled j h d rows \<longleftrightarrow>
     (\<exists>jb c. db_jobs d j = Some jb \<and>
       (aj_status jb = ''succeeded'' \<and> lq_state rows h = Some (Completed c) \<or>
        aj_status jb = ''dead_letter'' \<and> lq_state rows h = Some (Dead c)))"

lemma tracked_settled:
  assumes "wl.tracked h j d rows" "\<And>c. lq_state rows h \<noteq> Some (Available c)"
  shows "job_settled j h d rows"
proof -
  from assms(1) obtain st jb where st: "lq_state rows h = Some st" "db_jobs d j = Some jb" "job_matches st jb"
    by (auto simp: wl.tracked_def)
  with assms(2) show ?thesis by (cases st) (auto simp: job_settled_def)
qed

lemma not_waiting:
  assumes "\<forall>r \<in> set rows. \<not> deliverable (queue_of s) r" "(h, st_servicebus_queue_name s) \<in> set (row_names rows)"
    and "table_ok rows"
  shows "lq_state rows h \<noteq> Some (Available c)"
proof -
  from assms(2) obtain r where r: "r \<in> set rows" "qr_id r = h" "qr_queue_name r = st_servicebus_queue_name s"
    by (auto simp: row_names_def)
  with assms(1) have "qr_status r \<noteq> ''available''" by (auto simp: deliverable_def)
  moreover have "lq_state rows h = Some (row_state r)"
    using row_of_in [OF table_ok_distinct [OF assms(3)] r(1)] r(2) by (simp add: lq_state_def)
  ultimately show ?thesis by (simp add: row_state_def)
qed

text \<open>The table after the call has published its message.\<close>

lemma published_rows:
  assumes "lq_publish (queue_of s) now b rows = (Inr (), rows1)" "table_ok rows"
  shows "table_ok rows1" "lq_state rows1 = (lq_state rows)(Suc (length rows) \<mapsto> Available 0)"
    "lq_body rows1 = (lq_body rows)(Suc (length rows) \<mapsto> b)" "lq_body rows (Suc (length rows)) = None"
    "(Suc (length rows), st_servicebus_queue_name s) \<in> set (row_names rows1)"
    "visible_by (queue_of s) u rows \<Longrightarrow> now \<le> u \<Longrightarrow> visible_by (queue_of s) u rows1"
proof -
  have rows1: "rows1 = snd (lq_publish (queue_of s) now b rows)" using assms(1) by simp
  show "table_ok rows1" using table_ok_publish [OF assms(2)] rows1 by simp
  show "lq_state rows1 = (lq_state rows)(Suc (length rows) \<mapsto> Available 0)"
    "lq_body rows1 = (lq_body rows)(Suc (length rows) \<mapsto> b)" "lq_body rows (Suc (length rows)) = None"
    using row_of_fresh [OF assms(2)] unfolding rows1
    by (auto simp: fun_eq_iff lq_state_def lq_body_def lq_publish_def row_of_append row_state_def split: option.splits)
  show "(Suc (length rows), st_servicebus_queue_name s) \<in> set (row_names rows1)"
    by (simp add: rows1 lq_publish_def row_names_def)
  show "visible_by (queue_of s) u rows1" if "visible_by (queue_of s) u rows" "now \<le> u"
    using that by (auto simp: rows1 lq_publish_def visible_by_def)
qed


lemma clocks_from_far: "clocks_from t (replicate n (far_clock t))"
  by (induction n) (auto simp: far_clock_def)


end
