(* ===== verification/Gateway.thy ===== *)
theory Gateway
  imports Worker Executor
begin

text \<open>
  \<^verbatim>\<open>apps/mcp-gateway/app/main.py\<close> and \<^verbatim>\<open>schemas.py\<close>: start-up and the endpoints, with
  \<^verbatim>\<open>packages/servicebus/factory.py\<close>. Endpoints that depend on \<^verbatim>\<open>get_principal\<close> take the
  caller it returned; the reply is the JSON value, an exception the \<^verbatim>\<open>HTTPException\<close> that
  FastAPI turns into a response (or a server error). Endpoints that only need some principal
  take it as an argument of any type.
\<close>

section \<open>Start-up\<close>

text \<open>\<^verbatim>\<open>_sync_policies\<close>: the columns come from \<^verbatim>\<open>policy_dict\<close>.\<close>

definition policy_row :: "tool_spec \<Rightarrow> tool_policy" where
  "policy_row spec =
     \<lparr>tp_tool_name = ts_name spec, tp_description = ts_description spec,
      tp_required_roles = ts_required_roles spec,
      tp_classification = classification_value (ts_classification spec),
      tp_execution_mode = mode_value (ts_execution_mode spec),
      tp_pii_classification = pii_value (ts_pii_classification spec),
      tp_dry_run_required = ts_dry_run_required spec, tp_enabled = ts_enabled spec,
      tp_updated_at = 0\<rparr>"

definition sync_policies :: "settings \<Rightarrow> instant \<Rightarrow> tool_registry \<Rightarrow> (db \<times> 'q, unit) prog" where
  "sync_policies s now registry =
     session_scope (engine_of_url (st_database_url s)) now
       (repo (\<lambda>se. fold (\<lambda>spec. upsert_policy (policy_row spec)) (registry_list registry) se))"

text \<open>
  \<^verbatim>\<open>build_queue\<close>. The Azure adapter stands on a third-party SDK and is a parameter; its
  constructor refuses an empty connection string.
\<close>

datatype 'az queue_choice = UseLocal "queue_table message_queue" | UseAzure "'az message_queue"

definition build_queue ::
  "(string \<Rightarrow> string \<Rightarrow> 'az message_queue) \<Rightarrow> settings \<Rightarrow> 'az queue_choice res" where
  "build_queue azure s =
     (case st_queue_backend s of
        Azure \<Rightarrow>
          if st_servicebus_connection_string s = []
          then Inl (PyExn ''ValueError'' ''AzureServiceBusQueue requires SERVICEBUS_CONNECTION_STRING'')
          else Inr (UseAzure (azure (st_servicebus_connection_string s) (st_servicebus_queue_name s)))
      | Local \<Rightarrow> Inr (UseLocal (LocalQueue \<lparr>lq_queue = st_servicebus_queue_name s,
                                       lq_max_delivery = st_queue_max_delivery_count s\<rparr>)))"

record 'q app_state =
  app_settings :: settings
  app_registry :: tool_registry
  app_verifier :: verifier
  app_queue :: "'q message_queue"
  app_executor :: "'q executor"

text \<open>\<^verbatim>\<open>lifespan\<close> up to its \<^verbatim>\<open>yield\<close>, on the queue that \<open>build_queue\<close> chose.\<close>

definition startup ::
  "settings \<Rightarrow> instant \<Rightarrow> 'q message_queue res \<Rightarrow> (db \<times> 'q, 'q app_state) prog" where
  "startup s now queue dq =
     (case build_default_registry (is_demo s) of
        Inl e \<Rightarrow> (Inl e, dq)
      | Inr registry \<Rightarrow>
          bind_prog (sync_policies s now registry) (\<lambda>_ dq'.
            (bind_res queue (\<lambda>mq.
             bind_res (build_connector s) (\<lambda>dbx.
             bind_res (build_verifier s) (\<lambda>vf.
               Inr \<lparr>app_settings = s, app_registry = registry, app_verifier = vf, app_queue = mq,
                    app_executor = new_executor registry s mq dbx\<rparr>))), dq')) dq)"

section \<open>Health and tools\<close>

fun env_value :: "app_env \<Rightarrow> string" where
  "env_value Demo = ''demo''"
| "env_value Prod = ''prod''"

fun auth_value :: "auth_mode \<Rightarrow> string" where
  "auth_value Dev = ''dev''"
| "auth_value Entra = ''entra''"

fun backend_value :: "queue_backend \<Rightarrow> string" where
  "backend_value Local = ''local''"
| "backend_value Azure = ''azure''"

fun dbx_value :: "databricks_mode \<Rightarrow> string" where
  "dbx_value Mock = ''mock''"
| "dbx_value Real = ''real''"

definition liveness :: "settings \<Rightarrow> pydict" where
  "liveness s =
     [(''status'', PStr ''ok''), (''env'', PStr (env_value (st_app_env s))),
      (''auth_mode'', PStr (auth_value (st_auth_mode s))),
      (''queue_backend'', PStr (backend_value (st_queue_backend s))),
      (''databricks_mode'', PStr (dbx_value (st_databricks_mode s)))]"

definition health_tool :: "tool_spec \<Rightarrow> pydict" where
  "health_tool spec =
     [(''name'', PStr (ts_name spec)),
      (''classification'', PStr (classification_value (ts_classification spec))),
      (''execution_mode'', PStr (mode_value (ts_execution_mode spec))),
      (''enabled'', PBool (ts_enabled spec)),
      (''requires_approval'', PBool (ts_dry_run_required spec \<or> ts_requires_approval_token spec)),
      (''required_roles'', PList (map PStr (ts_required_roles spec)))]"

definition health_ai :: "settings \<Rightarrow> tool_registry \<Rightarrow> pydict" where
  "health_ai s registry =
     (let tools = map health_tool (registry_list registry);
          enabled = length (filter (\<lambda>t. truthy (dict_get t ''enabled'')) tools)
      in [(''status'', PStr ''ok''), (''env'', PStr (env_value (st_app_env s))),
          (''services'', PDict
             [(''auth_mode'', PStr (auth_value (st_auth_mode s))),
              (''queue_backend'', PStr (backend_value (st_queue_backend s))),
              (''databricks_mode'', PStr (dbx_value (st_databricks_mode s))),
              (''otel_enabled'', PBool (st_otel_enabled s))]),
          (''tools'', PDict
             [(''total'', PInt (int (length tools))), (''enabled'', PInt (int enabled)),
              (''disabled'', PInt (int (length tools) - int enabled)),
              (''registry'', PList (map PDict tools))])])"

definition list_tools :: "tool_registry \<Rightarrow> pyval" where
  "list_tools registry = PList (map (PDict \<circ> policy_dict) (registry_list registry))"

section \<open>Invocation\<close>

record invoke_request =
  rq_arguments :: pydict
  rq_idempotency_key :: "string option"

definition invoke_response :: "outcome \<Rightarrow> pydict" where
  "invoke_response oc =
     [(''request_id'', PStr (oc_request_id oc)), (''trace_id'', PStr (oc_trace_id oc)),
      (''tool'', PStr (oc_tool oc)), (''decision'', PStr (oc_decision oc)),
      (''result'', case oc_result oc of None \<Rightarrow> PNone | Some r \<Rightarrow> PDict r),
      (''job_id'', opt_text (oc_job_id oc)), (''approval_id'', opt_text (oc_approval_id oc)),
      (''error_code'', opt_text (oc_error_code oc)), (''message'', opt_text (oc_message oc)),
      (''redaction'', PDict
         [(''status'', PStr (oc_redaction_status oc)),
          (''redacted_fields'', PList (map PStr (case oc_redacted_fields oc of None \<Rightarrow> [] | Some fs \<Rightarrow> fs))),
          (''matched_patterns'', PList (map PStr (case oc_matched_patterns oc of None \<Rightarrow> [] | Some ps \<Rightarrow> ps)))]),
      (''latency_ms'', PFloat (oc_latency_ms oc))]"

record http_reply =
  hr_status :: nat
  hr_headers :: "(string \<times> string) list"
  hr_body :: pyval

definition invoke_tool ::
  "validator \<Rightarrow> 'q app_state \<Rightarrow> call_env \<Rightarrow> caller \<Rightarrow> string \<Rightarrow> invoke_request \<Rightarrow> string option \<Rightarrow>
   string option \<Rightarrow> (db \<times> 'q, http_reply) prog" where
  "invoke_tool V app env cl tool_name body idempotency_key approval_token =
     bind_prog
       (invoke V (app_executor app) env
          \<lparr>iv_caller = cl, iv_tool = tool_name, iv_arguments = rq_arguments body,
           iv_idempotency_key =
             (case idempotency_key of None \<Rightarrow> rq_idempotency_key body
              | Some k \<Rightarrow> if k = [] then rq_idempotency_key body else Some k),
           iv_approval_token = approval_token, iv_request_id = None\<rparr>)
       (\<lambda>oc dq. (Inr \<lparr>hr_status = http_status oc,
          hr_headers = [(''X-Trace-Id'', oc_trace_id oc), (''X-Request-Id'', oc_request_id oc)],
          hr_body = PDict (invoke_response oc)\<rparr>, dq))"

section \<open>Jobs and approvals\<close>

definition app_scope :: "settings \<Rightarrow> instant \<Rightarrow> (session \<times> 'q, 'a) prog \<Rightarrow> (db \<times> 'q, 'a) prog" where
  "app_scope s now body = session_scope (engine_of_url (st_database_url s)) now body"

definition job_view :: "async_job \<Rightarrow> pydict" where
  "job_view j =
     [(''job_id'', PStr (aj_job_id j)), (''tool_name'', PStr (aj_tool_name j)),
      (''status'', PStr (aj_status j)), (''attempts'', PInt (int (aj_attempts j))),
      (''result'', case aj_result j of None \<Rightarrow> PNone | Some r \<Rightarrow> PDict r),
      (''error_code'', opt_text (aj_error_code j)), (''trace_id'', PStr (aj_trace_id j))]"

definition get_job_endpoint :: "settings \<Rightarrow> instant \<Rightarrow> string \<Rightarrow> 'p \<Rightarrow> (db \<times> 'q, pydict) prog" where
  "get_job_endpoint s now job_id cl =
     app_scope s now (\<lambda>(se, q).
       case get_job job_id se of
         None \<Rightarrow> (Inl (HTTPException 404 ''job not found''), (se, q))
       | Some j \<Rightarrow> (Inr (job_view j), (se, q)))"

text \<open>The block of \<^verbatim>\<open>approve\<close> inside its session.\<close>

definition approve_body :: "string \<Rightarrow> caller \<Rightarrow> (session \<times> 'q, pydict) prog" where
  "approve_body approval_id cl = (\<lambda>(se, q).
     case get_approval approval_id se of
       None \<Rightarrow> (Inl (HTTPException 404 ''approval not found''), (se, q))
     | Some a \<Rightarrow>
         (Inr [(''approval_id'', PStr approval_id), (''status'', PStr ''approved''),
               (''approved_by'', PStr (cl_subject cl))],
          (record_event
             (blank_event\<lparr>ev_event_type := ''approval.approved'', ev_decision := ''approved'',
                ev_tool_name := ap_tool_name a, ev_user_id := cl_subject cl,
                ev_agent_id := cl_agent_id cl, ev_role := cl_role cl,
                ev_detail := [(''approval_id'', PStr approval_id)]\<rparr>)
             (set_approval approval_id ''approved'' (cl_subject cl) se), q)))"

definition approve :: "settings \<Rightarrow> instant \<Rightarrow> string \<Rightarrow> caller \<Rightarrow> (db \<times> 'q, pydict) prog" where
  "approve s now approval_id cl dq =
     (if cl_role cl \<noteq> role_value ADMIN_AGENT then
        (Inl (HTTPException 403 ''only the admin_agent role may approve''), dq)
      else app_scope s now (approve_body approval_id cl) dq)"

section \<open>The audit trail\<close>

text \<open>
  \<^verbatim>\<open>created_at.isoformat()\<close>: the civil date of the day, the time of day, microseconds when
  there are any. SQLite gives the time back without its zone, PostgreSQL with it (a session in
  UTC).
\<close>

definition civil_date :: "int \<Rightarrow> int \<times> int \<times> int" where
  "civil_date days =
     (let z = days + 719468; era = z div 146097; doe = z mod 146097;
          yoe = (doe - doe div 1460 + doe div 36524 - doe div 146096) div 365;
          doy = doe - (365 * yoe + yoe div 4 - yoe div 100);
          mp = (5 * doy + 2) div 153;
          d = doy - (153 * mp + 2) div 5 + 1;
          m = (if mp < 10 then mp + 3 else mp - 9)
      in (yoe + era * 400 + (if m \<le> 2 then 1 else 0), m, d))"

definition padded :: "nat \<Rightarrow> int \<Rightarrow> string" where
  "padded w n = replicate (w - length (int_str n)) (CHR ''0'') @ int_str n"

definition isoformat :: "db_engine \<Rightarrow> instant \<Rightarrow> string" where
  "isoformat eng t =
     (let day = t div 86400000000; us = t mod 86400000000;
          (y, m, d) = civil_date day; sec = us div 1000000; frac = us mod 1000000
      in padded 4 y @ ''-'' @ padded 2 m @ ''-'' @ padded 2 d @ ''T''
         @ padded 2 (sec div 3600) @ '':'' @ padded 2 (sec div 60 mod 60) @ '':'' @ padded 2 (sec mod 60)
         @ (if frac = 0 then '''' else ''.'' @ padded 6 frac)
         @ (if eng = Postgres then ''+00:00'' else ''''))"

definition call_view :: "db_engine \<Rightarrow> tool_call \<Rightarrow> pyval" where
  "call_view eng c = PDict
     [(''request_id'', PStr (tc_request_id c)), (''trace_id'', PStr (tc_trace_id c)),
      (''tool_name'', PStr (tc_tool_name c)), (''role'', PStr (tc_role c)),
      (''agent_id'', PStr (tc_agent_id c)), (''decision'', PStr (tc_decision c)),
      (''redaction_status'', PStr (tc_redaction_status c)), (''error_code'', opt_text (tc_error_code c)),
      (''latency_ms'', PFloat (tc_latency_ms c)), (''created_at'', PStr (isoformat eng (tc_created_at c)))]"

definition event_view :: "db_engine \<Rightarrow> audit_event \<Rightarrow> pyval" where
  "event_view eng e = PDict
     [(''event_type'', PStr (ev_event_type e)), (''trace_id'', PStr (ev_trace_id e)),
      (''tool_name'', PStr (ev_tool_name e)), (''role'', PStr (ev_role e)),
      (''decision'', PStr (ev_decision e)), (''detail'', PDict (ev_detail e)),
      (''created_at'', PStr (isoformat eng (ev_created_at e)))]"

definition audit_tool_calls :: "settings \<Rightarrow> instant \<Rightarrow> int \<Rightarrow> 'p \<Rightarrow> (db \<times> 'q, pyval list) prog" where
  "audit_tool_calls s now lim cl =
     (let eng = engine_of_url (st_database_url s) in
      app_scope s now (\<lambda>(se, q).
        (bind_res (recent_tool_calls eng lim se) (\<lambda>rows. Inr (map (call_view eng) rows)), (se, q))))"

definition audit_events :: "settings \<Rightarrow> instant \<Rightarrow> int \<Rightarrow> 'p \<Rightarrow> (db \<times> 'q, pyval list) prog" where
  "audit_events s now lim cl =
     (let eng = engine_of_url (st_database_url s) in
      app_scope s now (\<lambda>(se, q).
        (bind_res (recent_events eng lim se) (\<lambda>rows. Inr (map (event_view eng) rows)), (se, q))))"

text \<open>Only the local queue has \<^verbatim>\<open>stats\<close>.\<close>

definition queue_stats :: "settings \<Rightarrow> (string \<times> nat) list option \<Rightarrow> 'p \<Rightarrow> pydict" where
  "queue_stats s stats cl =
     (case stats of
        Some out \<Rightarrow>
          [(''backend'', PStr ''local''), (''queue'', PStr (st_servicebus_queue_name s)),
           (''depth_by_status'', PDict (map (\<lambda>(k, n). (k, PInt (int n))) out))]
      | None \<Rightarrow>
          [(''backend'', PStr ''azure''),
           (''note'', PStr ''inspect depth/DLQ in the Azure portal or via Monitor'')])"

end
