(* ===== verification/Schemas.thy ===== *)
theory Schemas
  imports Gateway
begin

text \<open>
  \<^verbatim>\<open>app/schemas.py\<close>: the response models, as declarations of typed fields, and the fact that what
  the endpoints construct fits them, so that no pydantic model refuses a reply.
\<close>

section \<open>Declarations\<close>

datatype json_type =
    JStr | JBool | JInt | JFloat
  | JDict                           \<comment> \<open>\<^verbatim>\<open>dict[str, Any]\<close>\<close>
  | JOpt json_type                  \<comment> \<open>\<^verbatim>\<open>t | None\<close>\<close>
  | JList json_type
  | JModel "(string \<times> json_type) list"

fun fits_type :: "json_type \<Rightarrow> pyval \<Rightarrow> bool" where
  "fits_type JStr v = (case v of PStr s \<Rightarrow> True | _ \<Rightarrow> False)"
| "fits_type JBool v = (case v of PBool b \<Rightarrow> True | _ \<Rightarrow> False)"
| "fits_type JInt v = (case v of PInt n \<Rightarrow> True | _ \<Rightarrow> False)"
| "fits_type JFloat v = (case v of PFloat f \<Rightarrow> True | _ \<Rightarrow> False)"
| "fits_type JDict v = (case v of PDict d \<Rightarrow> True | _ \<Rightarrow> False)"
| "fits_type (JOpt t) v = (v = PNone \<or> fits_type t v)"
| "fits_type (JList t) v = (case v of PList xs \<Rightarrow> (\<forall>x \<in> set xs. fits_type t x) | _ \<Rightarrow> False)"
| "fits_type (JModel fs) v =
     (case v of
        PDict d \<Rightarrow> map fst d = map fst fs \<and>
          (\<forall>(k, t) \<in> set fs. case map_of d k of None \<Rightarrow> False | Some x \<Rightarrow> fits_type t x)
      | _ \<Rightarrow> False)"

definition RedactionInfo :: "(string \<times> json_type) list" where
  "RedactionInfo = [(''status'', JStr), (''redacted_fields'', JList JStr), (''matched_patterns'', JList JStr)]"

definition InvokeResponse :: "(string \<times> json_type) list" where
  "InvokeResponse =
     [(''request_id'', JStr), (''trace_id'', JStr), (''tool'', JStr), (''decision'', JStr),
      (''result'', JOpt JDict), (''job_id'', JOpt JStr), (''approval_id'', JOpt JStr),
      (''error_code'', JOpt JStr), (''message'', JOpt JStr), (''redaction'', JModel RedactionInfo),
      (''latency_ms'', JFloat)]"

definition ToolPolicyView :: "(string \<times> json_type) list" where
  "ToolPolicyView =
     [(''name'', JStr), (''description'', JStr), (''required_roles'', JList JStr), (''classification'', JStr),
      (''execution_mode'', JStr), (''pii_classification'', JStr), (''dry_run_required'', JBool),
      (''enabled'', JBool), (''requires_approval_token'', JBool)]"

definition JobView :: "(string \<times> json_type) list" where
  "JobView =
     [(''job_id'', JStr), (''tool_name'', JStr), (''status'', JStr), (''attempts'', JInt),
      (''result'', JOpt JDict), (''error_code'', JOpt JStr), (''trace_id'', JStr)]"

lemmas response_models = RedactionInfo_def InvokeResponse_def ToolPolicyView_def JobView_def

section \<open>The replies fit\<close>

lemma fits_opt_text [simp]: "fits_type (JOpt JStr) (opt_text x)"
  by (cases x) (simp_all add: opt_text_def)

text \<open>
  Every reply of \<^verbatim>\<open>invoke_tool\<close>, \<^verbatim>\<open>get_job\<close> and \<^verbatim>\<open>list_tools\<close> has exactly the fields of its
  response model, each of the declared type, whatever the outcome, the job row or the registry.
\<close>

lemma responses_fit_models:
  "fits_type (JModel InvokeResponse) (PDict (invoke_response oc))"
  "fits_type (JModel JobView) (PDict (job_view j))"
  "fits_type (JList (JModel ToolPolicyView)) (list_tools reg)"
proof -
  show "fits_type (JModel InvokeResponse) (PDict (invoke_response oc))"
    using fits_opt_text [of "oc_job_id oc"] fits_opt_text [of "oc_approval_id oc"]
      fits_opt_text [of "oc_error_code oc"] fits_opt_text [of "oc_message oc"]
    by (simp add: invoke_response_def InvokeResponse_def RedactionInfo_def split: option.split)
  show "fits_type (JModel JobView) (PDict (job_view j))"
    using fits_opt_text [of "aj_error_code j"] by (simp add: job_view_def JobView_def split: option.split)
  have "fits_type (JModel ToolPolicyView) (PDict (policy_dict spec))" for spec
    by (simp add: policy_dict_def ToolPolicyView_def)
  then show "fits_type (JList (JModel ToolPolicyView)) (list_tools reg)"
    by (simp add: list_tools_def)
qed

text \<open>An answered call: its reply fits, and its status code is one of those the decisions have.\<close>

lemma reply_fits:
  assumes "invoke_tool V app env cl tool body key tok dq = (Inr r, dq')"
  shows "fits_type (JModel InvokeResponse) (hr_body r) \<and> hr_status r \<in> set [200, 202, 400, 403]"
proof -
  from assms obtain oc where r: "r = \<lparr>hr_status = http_status oc,
      hr_headers = [(''X-Trace-Id'', oc_trace_id oc), (''X-Request-Id'', oc_request_id oc)],
      hr_body = PDict (invoke_response oc)\<rparr>"
    by (auto simp: invoke_tool_def bind_prog_def split: prod.splits sum.splits)
  show ?thesis
    using responses_fit_models(1) [of oc] by (simp add: r http_status_def del: fits_type.simps)
qed

end
