(* ===== verification/Gates.thy ===== *)
theory Gates
  imports Routes
begin

text \<open>
  The idempotency guard of asynchronous calls and the approval gate of destructive ones.
\<close>

section \<open>Duplicate submissions\<close>

lemma duplicate_call:
  assumes "registry_get (ex_registry ex) (iv_tool iv) = Some spec"
    and "ts_classification spec \<noteq> DESTRUCTIVE" "\<not> ts_dry_run_required spec" "ts_execution_mode spec = ASYNC"
    and "authorised ex iv" "validate_args V spec (iv_arguments iv) = Inr args"
    and "db_keys d (call_key env iv) = Some row"
  shows "case invoke V ex env iv (d, q) of
      (Inl e, (d', q')) \<Rightarrow> d' = d \<and> q' = q
    | (Inr oc, (d', q')) \<Rightarrow>
        oc_decision oc = ''queued'' \<and> oc_job_id oc = ik_job_id row \<and> same_tables d d' \<and> q' = q"
proof -
  let ?s = "open_session (ce_now env) d"
  have "route ex env iv spec args (?s, q) = (Inr (duplicate_outcome env iv spec (ik_job_id row)), (?s, q))"
    using assms(7) by (simp add: route_async [OF assms(2-4)] handle_async_def get_idempotency_def)
  from decide_answered [OF assms(1,5,6) this]
  have dec: "decide V ex env iv (?s, q) = (duplicate_outcome env iv spec (ik_job_id row), (?s, q))" .
  show ?thesis
    unfolding invoke_unfold [OF dec log_by_simps(1)]
    by (auto simp: Let_def duplicate_outcome_def outcome_for_def InvocationOutcome_def
        dest: commit_InrD split: sum.splits)
qed

text \<open>C23 (functional).
  Under an idempotency key that is already filed, an authorised and valid asynchronous call
  answers \<^verbatim>\<open>queued\<close> with the job that is filed there, publishes nothing and changes nothing
  but the audit trail, whatever the tool, arguments and caller were that reserved the key: the
  stored \<^verbatim>\<open>input_hash\<close> plays no part.\<close>

theorem duplicate_key_returns_filed_job:
  assumes "registry_get (ex_registry ex) (iv_tool iv) = Some spec"
    and "ts_classification spec \<noteq> DESTRUCTIVE" "\<not> ts_dry_run_required spec" "ts_execution_mode spec = ASYNC"
    and "authorised ex iv" "validate_args V spec (iv_arguments iv) = Inr args"
    and "db_keys d (call_key env iv) = Some row"
  shows "case invoke V ex env iv (d, q) of
      (Inl e, (d', q')) \<Rightarrow> d' = d \<and> q' = q
    | (Inr oc, (d', q')) \<Rightarrow>
        oc_decision oc = ''queued'' \<and> oc_job_id oc = ik_job_id row \<and> same_tables d d' \<and> q' = q"
  by (rule duplicate_call [OF assms])

text \<open>A key that another tool reserved, for the witness.\<close>

definition other_key_db :: db where
  "other_key_db = empty_db\<lparr>db_keys := [''k'' \<mapsto> \<lparr>ik_key = ''k'', ik_tool_name = ''another_tool'',
     ik_job_id = Some ''job_1'', ik_input_hash = ''00'', ik_status = ''completed'', ik_result = None,
     ik_created_at = 0\<rparr>]\<rparr>"

lemma call_key_ref [simp]: "k \<noteq> [] \<Longrightarrow> call_key ref_env (ref_call r n a (Some k) t) = k"
  by (simp add: call_key_def text_or_def)

theorem duplicate_key_returns_filed_job_witness:
  "case invoke strict_validate (ref_executor []) ref_env (async_call ''k'') (other_key_db, []) of
      (Inl e, (d', q')) \<Rightarrow> d' = other_key_db \<and> q' = []
    | (Inr oc, (d', q')) \<Rightarrow>
        oc_decision oc = ''queued'' \<and> oc_job_id oc = Some ''job_1'' \<and> same_tables other_key_db d' \<and> q' = []"
proof -
  have reg: "registry_get (ex_registry (ref_executor [])) (iv_tool (async_call ''k'')) = Some spec_trigger_workflow"
    by simp
  have va: "validate_args strict_validate spec_trigger_workflow (iv_arguments (async_call ''k'')) = Inr async_args"
    by (simp add: async_call_valid)
  obtain row where row: "db_keys other_key_db (call_key ref_env (async_call ''k'')) = Some row"
    "ik_job_id row = Some ''job_1''" by (simp add: other_key_db_def)
  show ?thesis
    using duplicate_key_returns_filed_job [OF reg async_spec(1-3) async_call_authorised va row(1), of "[]"]
    unfolding row(2) .
qed

section \<open>A queue that fails\<close>

text \<open>
  When the queue refuses the message of a new asynchronous call, the caller is told that the
  call failed, but the reserved key and the \<^verbatim>\<open>queued\<close> job are committed all the same, for a
  message that was not published; a later call with that key is answered \<^verbatim>\<open>queued\<close> with this
  job, again without a message.\<close>

lemma publish_failure_leaves_job:
  assumes "registry_get (ex_registry ex) (iv_tool iv) = Some spec"
    and "ts_classification spec \<noteq> DESTRUCTIVE" "\<not> ts_dry_run_required spec" "ts_execution_mode spec = ASYNC"
    and "authorised ex iv" "validate_args V spec (iv_arguments iv) = Inr args"
    and "iv_idempotency_key iv = Some k" "k \<noteq> []" "db_keys d k = None"
    and "mq_publish (ex_queue ex) (ce_now env) (job_message env iv spec args) q = (Inl e, q1)"
    and "invoke V ex env iv (d, q) = (Inr oc, (d', q'))"
  shows "oc_decision oc = ''failed'' \<and> q' = q1 \<and>
    (\<exists>j. db_jobs d' (job_id_of env) = Some j \<and> aj_status j = ''queued'' \<and> aj_idempotency_key j = k) \<and>
    (case invoke V ex env' iv (d', q') of
       (Inl e', (d'', q'')) \<Rightarrow> d'' = d' \<and> q'' = q1
     | (Inr oc', (d'', q'')) \<Rightarrow>
         oc_decision oc' = ''queued'' \<and> oc_job_id oc' = Some (job_id_of env) \<and> same_tables d' d'' \<and> q'' = q1)"
proof -
  let ?s = "open_session (ce_now env) d"
  have key: "call_key e iv = k" for e using assms(7,8) by (simp add: call_key_def text_or_def)
  let ?j = "(queued_job env iv spec args)\<lparr>aj_created_at := ce_now env, aj_updated_at := ce_now env\<rparr>"
  let ?r = "\<lparr>ik_key = k, ik_tool_name = ts_name spec, ik_job_id = Some (job_id_of env),
    ik_input_hash = iv_input_hash iv, ik_status = ''reserved'', ik_result = None, ik_created_at = ce_now env\<rparr>"
  have free: "get_idempotency (call_key env iv) ?s = None" using assms(9) by (simp add: key get_idempotency_def)
  have "route ex env iv spec args (?s, q) = (Inl e, (se_add (AddJob ?j) (se_add (AddKey ?r) ?s), q1))"
    unfolding route_async [OF assms(2-4)] handle_async_def
    using free reserve_free [OF free] assms(10)
    by (simp add: key Let_def create_job_def reserve_idempotency_def)
  then have dec: "decide V ex env iv (?s, q) =
      (failed_outcome env iv e, (se_add (AddJob ?j) (se_add (AddKey ?r) ?s), q1))"
    by (simp add: decide_routed [OF assms(1,5,6)])
  have d': "d' = fold apply_write ([AddKey ?r, AddJob ?j] @ call_log env iv oc) d" "q' = q1"
      "oc = (failed_outcome env iv e)\<lparr>oc_latency_ms := latency_ms env\<rparr>"
    using assms(11) unfolding invoke_unfold [OF dec log_by_simps(3)]
    by (auto simp: Let_def simp del: commit.simps fold_append fold.simps append.simps dest: commit_InrD split: sum.splits)
  have tables: "db_keys d' (call_key env' iv) = Some ?r" "db_jobs d' (job_id_of env) = Some ?j"
    unfolding d'(1) fold_append o_apply call_log_tables by (simp_all add: key queued_job_def)
  note dup = duplicate_call [OF assms(1-6) tables(1), of q', unfolded d'(2) idempotency_row.select_convs]
  have "oc_decision oc = ''failed''"
    by (simp add: d'(3) failed_outcome_def refused_def outcome_for_def InvocationOutcome_def)
  moreover have "aj_status ?j = ''queued''" "aj_idempotency_key ?j = k" by (simp_all add: queued_job_def key)
  ultimately show ?thesis unfolding d'(2) using dup tables(2) by (intro conjI refl exI [of _ ?j])
qed

text \<open>A queue that cannot be written, for the witness.\<close>

definition locked_executor :: "queue_table executor" where
  "locked_executor = (ref_executor [])\<lparr>ex_queue := (LocalQueue ref_queue)
     \<lparr>mq_publish := (\<lambda>now body rows. (Inl (PyExn ''OperationalError'' ''database is locked''), rows))\<rparr>\<rparr>"

lemma locked_simps [simp]:
  "ex_registry locked_executor = default_registry True" "ex_known_roles locked_executor = all_roles"
  "ex_settings locked_executor = ref_settings []"
  "mq_publish (ex_queue locked_executor) now b q = (Inl (PyExn ''OperationalError'' ''database is locked''), q)"
  by (simp_all add: locked_executor_def) (simp_all add: ref_executor_def new_executor_def)

lemma publish_failure_leaves_job_witness:
  "\<exists>oc d' q'. invoke strict_validate locked_executor ref_env (async_call ''k'') (empty_db, []) = (Inr oc, (d', q'))
    \<and> oc_decision oc = ''failed'' \<and> q' = []
    \<and> (\<exists>j. db_jobs d' ''job_fedcba9876543210'' = Some j \<and> aj_status j = ''queued'')"
proof -
  have reg: "registry_get (ex_registry locked_executor) (iv_tool (async_call ''k'')) = Some spec_trigger_workflow"
    and auth: "authorised locked_executor (async_call ''k'')"
    and va: "validate_args strict_validate spec_trigger_workflow (iv_arguments (async_call ''k'')) = Inr async_args"
    and key: "iv_idempotency_key (async_call ''k'') = Some ''k''" "''k'' \<noteq> []" "db_keys empty_db ''k'' = None"
    using async_call_authorised [of "[]" "''k''"] async_call_valid
    by (simp_all add: empty_db_def authorised_def)
  obtain oc s q1 where dec: "decide strict_validate locked_executor ref_env (async_call ''k'') (open_session (ce_now ref_env) empty_db, []) = (oc, (s, q1))"
    by (metis prod.exhaust)
  have "engine_of_url (st_database_url (ex_settings locked_executor)) = SQLite"
    by (simp add: ref_settings_def default_settings_def engine_of_url_def)
  from sqlite_returns [OF this _ _ _ dec] obtain oc' d' where
    inv: "invoke strict_validate locked_executor ref_env (async_call ''k'') (empty_db, []) = (Inr oc', (d', q1))"
    by (auto simp: empty_db_def)
  from publish_failure_leaves_job [OF reg async_spec(1-3) auth va key locked_simps(4) inv]
  have "oc_decision oc' = ''failed'' \<and> q1 = [] \<and>
    (\<exists>j. db_jobs d' ''job_fedcba9876543210'' = Some j \<and> aj_status j = ''queued'')" by auto
  with inv show ?thesis by blast
qed

section \<open>The approval gate\<close>

text \<open>
  What a returned call of a destructive tool has done: nothing beyond the trail, or it has
  executed under an approved approval, which is then consumed.
\<close>

lemma destructive_call_cases:
  assumes "registry_get (ex_registry ex) (iv_tool iv) = Some spec"
    and "ts_classification spec = DESTRUCTIVE" "db_keyed d"
    and "invoke V ex env iv (d, q) = (Inr oc, (d', q'))"
  obtains (stopped) "oc_decision oc \<in> {''denied'', ''failed''}" "same_tables d d'" "q' = q"
  | (executed) args a ap where "oc_decision oc = ''executed''" "authorised ex iv" "q' = q"
      "validate_args V spec (iv_arguments iv) = Inr args"
      "st_admin_approval_token (ex_settings ex) \<noteq> []"
      "iv_approval_token iv = Some (st_admin_approval_token (ex_settings ex))"
      "approval_ref args = Some a" "oc_approval_id oc = Some a"
      "db_approvals d a = Some ap" "ap_status ap = ''approved''"
      "db_approvals d' = (db_approvals d)(a \<mapsto> ap\<lparr>ap_status := ''consumed'',
         ap_approved_by := Some (cl_subject (iv_caller iv)), ap_updated_at := ce_now env\<rparr>)"
      "db_jobs d' = db_jobs d" "db_keys d' = db_keys d" "db_policies d' = db_policies d"
proof (cases rule: returned_cases [OF assms(4,1)])
  case 1
  then show ?thesis by (rule stopped)
next
  case (2 args e s ws)
  from 2(3) have "s = open_session (ce_now env) d" "q' = q"
    unfolding route_destructive [OF assms(2)] by (auto elim: handle_destructive_cases)
  moreover from this 2(4) have "ws = []" by simp
  ultimately show ?thesis using 2
    by (intro stopped) (auto simp: failed_outcome_def refused_def outcome_for_def InvocationOutcome_def)
next
  case (3 args oc0 s ws)
  from 3(3) show ?thesis
    unfolding route_destructive [OF assms(2)]
  proof (cases rule: handle_destructive_cases)
    case (denied oc1)
    then have "ws = []" using 3(4) by simp
    with denied 3 show ?thesis by (intro stopped) auto
  next
    case (raised e)
    then show ?thesis by simp
  next
    case (applied a ap result oc1)
    then have ap: "db_approvals d a = Some ap" "ap_approval_id ap = a"
      using db_keyed_approval [OF assms(3)] by (auto simp: get_approval_def)
    with applied 3(4) have "ws = [UpdateApproval a ''consumed'' (cl_subject (iv_caller iv)) (ce_now env)]"
      by (simp add: set_approval_def)
    with 3(6) ap have "db_approvals d' = (db_approvals d)(a \<mapsto> ap\<lparr>ap_status := ''consumed'',
         ap_approved_by := Some (cl_subject (iv_caller iv)), ap_updated_at := ce_now env\<rparr>)"
      "db_jobs d' = db_jobs d" "db_keys d' = db_keys d" "db_policies d' = db_policies d"
      by (simp_all add: same_tables_def)
    with applied 3 ap show ?thesis by (intro executed [of args a ap]) auto
  qed
qed


text \<open>C22 (safety).
  An approval is good for one execution: after a call that executed under it, no call of a
  destructive tool executes under the same approval in the state it left, whoever calls,
  whatever the tool and the arguments.\<close>

theorem approval_single_use:
  assumes "registry_get (ex_registry ex) (iv_tool iv) = Some spec" "ts_classification spec = DESTRUCTIVE"
    and "db_keyed d" "invoke V ex env iv (d, q) = (Inr oc, (d1, q1))" "oc_decision oc = ''executed''"
    and "registry_get (ex_registry ex2) (iv_tool iv2) = Some spec2" "ts_classification spec2 = DESTRUCTIVE"
    and "invoke V2 ex2 env2 iv2 (d1, q2) = (Inr oc2, (d2, q3))"
  shows "oc_decision oc2 \<noteq> ''executed'' \<or> oc_approval_id oc2 \<noteq> oc_approval_id oc"
proof -
  obtain a ap where "oc_approval_id oc = Some a" "db_approvals d1 a = Some ap" "ap_status ap = ''consumed''"
    by (cases rule: destructive_call_cases [OF assms(1-4)]) (use assms(5) in auto)
  moreover have "db_keyed d1"
    using assms(4,3) by (cases rule: invoke_cases [of V ex env iv d q]) (auto intro!: fold_apply_write_keyed)
  ultimately show ?thesis
    by (cases rule: destructive_call_cases [OF assms(6,7) _ assms(8)]) auto
qed

lemma handle_destructive_ok:
  assumes "ts_enabled spec" "st_admin_approval_token (ex_settings ex) \<noteq> []"
    and "iv_approval_token iv = Some (st_admin_approval_token (ex_settings ex))"
    and "approval_ref args = Some a" "get_approval a s = Some ap" "ap_status ap = ''approved''"
    and "ts_run spec (ex_tool_ctx ex) args = Inr result"
  shows "\<exists>oc s'. handle_destructive ex env iv spec args (s, q) = (Inr oc, (s', q)) \<and> oc_decision oc = ''executed''"
  using assms
  by (simp add: handle_destructive_def text_or_def outcome_for_def InvocationOutcome_def Let_def split: prod.splits)

lemma destructive_decides:
  assumes "registry_get (ex_registry ex) (iv_tool iv) = Some spec" "ts_classification spec = DESTRUCTIVE"
    and "authorised ex iv" "validate_args V spec (iv_arguments iv) = Inr args"
    and "st_admin_approval_token (ex_settings ex) \<noteq> []"
    and "iv_approval_token iv = Some (st_admin_approval_token (ex_settings ex))"
    and "approval_ref args = Some a" "db_approvals d a = Some ap" "ap_status ap = ''approved''"
    and "ts_run spec (ex_tool_ctx ex) args = Inr result"
  shows "\<exists>oc s. decide V ex env iv (open_session now d, q) = (oc, (s, q)) \<and> oc_decision oc = ''executed''"
proof -
  have "ts_enabled spec" using assms(1,3) by (simp add: authorised_def)
  from handle_destructive_ok [OF this assms(5-7) _ assms(9,10), of "open_session now d" env q] assms(8)
  obtain oc s where "handle_destructive ex env iv spec args (open_session now d, q) = (Inr oc, (s, q))"
    "oc_decision oc = ''executed''" by (auto simp: get_approval_def)
  then show ?thesis
    using decide_answered [OF assms(1,3,4), of env "(open_session now d, q)" oc "(s, q)"]
    by (auto simp: route_destructive [OF assms(2)])
qed

text \<open>
  The gate looks at the status of the named approval and at nothing else in it: an authorised
  caller with the approval token gets a destructive tool executed under any approved approval,
  whatever tool, resource and change it was given for.\<close>

lemma gate_ignores_approved_content:
  assumes "registry_get (ex_registry ex) (iv_tool iv) = Some spec" "ts_classification spec = DESTRUCTIVE"
    and "authorised ex iv" "validate_args V spec (iv_arguments iv) = Inr args"
    and "st_admin_approval_token (ex_settings ex) \<noteq> []"
    and "iv_approval_token iv = Some (st_admin_approval_token (ex_settings ex))"
    and "approval_ref args = Some a" "db_approvals d a = Some ap" "ap_status ap = ''approved''"
    and "ts_run spec (ex_tool_ctx ex) args = Inr result"
    and "invoke V ex env iv (d, q) = (Inr oc, (d', q'))"
  shows "oc_decision oc = ''executed''"
proof -
  obtain oc0 s where dec: "decide V ex env iv (open_session (ce_now env) d, q) = (oc0, (s, q))"
    and oc0: "oc_decision oc0 = ''executed''"
    using destructive_decides [OF assms(1-10), of env "ce_now env" q] by auto
  from decide_log [OF dec] obtain ws where "log_by (open_session (ce_now env) d) ws s" by blast
  from invoke_unfold [OF dec this] assms(11) oc0 show ?thesis
    by (auto simp: Let_def split: sum.splits)
qed

text \<open>A destructive call under the approval of an invoice draft, for the witnesses.\<close>

definition draft_approval :: approval where
  "draft_approval = \<lparr>ap_approval_id = ''apr_1'', ap_tool_name = ''billing.create_invoice_draft'',
     ap_resource_id = ''DRAFT-CUST-700-10-EUR'', ap_proposed_change = PDict [],
     ap_requested_by_agent = ''agent'', ap_requested_by_role = ''finance_agent'',
     ap_status = ''approved'', ap_approved_by = Some ''boss'', ap_created_at = 0, ap_updated_at = 0\<rparr>"

definition approved_db :: db where
  "approved_db = empty_db\<lparr>db_approvals := [''apr_1'' \<mapsto> draft_approval]\<rparr>"

abbreviation destructive_args :: pydict where
  "destructive_args \<equiv> [(''account_id'', PStr ''ACC-300''), (''approved_change_id'', PStr ''apr_1'')]"

abbreviation destructive_call :: invocation where
  "destructive_call \<equiv> ref_call ''admin_agent'' ''execute_crm_update'' destructive_args None (Some ''s3cret'')"

lemma destructive_call_facts:
  "registry_get (ex_registry (ref_executor ''s3cret'')) (iv_tool destructive_call) = Some (spec_crm_execute False)"
  "ts_classification (spec_crm_execute False) = DESTRUCTIVE"
  "authorised (ref_executor ''s3cret'') destructive_call"
  "validate_args strict_validate (spec_crm_execute False) (iv_arguments destructive_call) = Inr destructive_args"
  "st_admin_approval_token (ex_settings (ref_executor ''s3cret'')) \<noteq> []"
  "iv_approval_token destructive_call = Some (st_admin_approval_token (ex_settings (ref_executor ''s3cret'')))"
  "approval_ref destructive_args = Some ''apr_1''"
  "db_approvals approved_db ''apr_1'' = Some draft_approval" "ap_status draft_approval = ''approved''"
  "\<exists>result. ts_run (spec_crm_execute False) (ex_tool_ctx (ref_executor ''s3cret'')) destructive_args = Inr result"
          apply (simp_all add: spec_crm_execute_def approved_db_def draft_approval_def)
    apply (simp add: authorised_def spec_crm_execute_def ADMIN_ONLY_def all_roles_def)
   apply (simp add: validate_args_def strict_validate_def model_defs field_value_def)
  apply (simp_all add: approval_ref_def dict_get_def tool_defs CRM_ACCOUNTS_def)
  done

lemma approved_db_keyed [simp]: "db_keyed approved_db"
  by (simp add: db_keyed_def approved_db_def empty_db_def draft_approval_def)

lemma approved_db_rest [simp]:
  "db_calls approved_db = []" "db_approvals approved_db ''apr_0123456789abcdef'' = None"
  "db_jobs approved_db = Map.empty"
  by (simp_all add: approved_db_def empty_db_def)

lemma ref_destructive_call:
  "\<exists>oc d'. invoke strict_validate (ref_executor ''s3cret'') ref_env destructive_call (approved_db, []) =
    (Inr oc, (d', [])) \<and> oc_decision oc = ''executed''"
proof -
  obtain result where
    "ts_run (spec_crm_execute False) (ex_tool_ctx (ref_executor ''s3cret'')) destructive_args = Inr result"
    using destructive_call_facts(10) by blast
  from destructive_decides [OF destructive_call_facts(1-9) this, of ref_env 1000 "[]"]
  obtain oc s where dec: "decide strict_validate (ref_executor ''s3cret'') ref_env destructive_call
      (open_session 1000 approved_db, []) = (oc, (s, []))" and oc: "oc_decision oc = ''executed''" by blast
  from ref_returns [OF dec] oc show ?thesis by auto
qed

lemma ref_second_state:
  assumes "invoke strict_validate (ref_executor ''s3cret'') ref_env destructive_call (approved_db, []) =
    (Inr oc, (d1, q1))" and "oc_decision oc = ''executed''"
  shows "(\<exists>c. db_calls d1 = [c] \<and> tc_request_id c = ''c0ffee'') \<and> dom (db_approvals d1) = {''apr_1''} \<and>
    db_jobs d1 = Map.empty"
proof -
  have "\<exists>c. db_calls d1 = [c] \<and> tc_request_id c = ''c0ffee''"
  proof (cases rule: invoke_cases [of strict_validate "ref_executor ''s3cret''" ref_env destructive_call approved_db "[]"])
    case (recorded oc0 oc1 s q' ws)
    with assms(1) no_audit_frame [OF recorded(5)] show ?thesis by (auto simp: call_row_def)
  qed (use assms(1) in simp)
  moreover have "dom (db_approvals d1) = {''apr_1''} \<and> db_jobs d1 = Map.empty"
    by (rule destructive_call_cases [OF destructive_call_facts(1,2) approved_db_keyed assms(1)])
      (use assms(2) in \<open>auto simp: approved_db_def empty_db_def split: if_splits\<close>)
  ultimately show ?thesis by blast
qed

lemma gate_ignores_approved_content_witness:
  "\<exists>oc d'. invoke strict_validate (ref_executor ''s3cret'') ref_env destructive_call (approved_db, []) =
    (Inr oc, (d', [])) \<and> ap_tool_name draft_approval \<noteq> ''execute_crm_update'' \<and> oc_decision oc = ''executed''"
proof -
  obtain result where
    run: "ts_run (spec_crm_execute False) (ex_tool_ctx (ref_executor ''s3cret'')) destructive_args = Inr result"
    using destructive_call_facts(10) by blast
  obtain oc d' where inv: "invoke strict_validate (ref_executor ''s3cret'') ref_env destructive_call (approved_db, []) =
    (Inr oc, (d', []))" using ref_destructive_call by blast
  from gate_ignores_approved_content [OF destructive_call_facts(1-9) run inv] inv show ?thesis
    by (auto simp: draft_approval_def)
qed


text \<open>A second call in another environment, after the first.\<close>

definition later_env :: call_env where
  "later_env = ref_env\<lparr>ce_request_uuid := ''d15c'', ce_approval_uuid := ''ffff'', ce_job_uuid := ''eeee''\<rparr>"

theorem approval_single_use_witness:
  "\<exists>oc d1 oc2 d2 q2.
     invoke strict_validate (ref_executor ''s3cret'') ref_env destructive_call (approved_db, []) = (Inr oc, (d1, []))
     \<and> oc_decision oc = ''executed''
     \<and> invoke strict_validate (ref_executor ''s3cret'') later_env destructive_call (d1, []) = (Inr oc2, (d2, q2))
     \<and> (oc_decision oc2 \<noteq> ''executed'' \<or> oc_approval_id oc2 \<noteq> oc_approval_id oc)"
proof -
  let ?ex = "ref_executor ''s3cret''"
  obtain oc d1 where inv: "invoke strict_validate ?ex ref_env destructive_call (approved_db, []) =
    (Inr oc, (d1, []))" and oc: "oc_decision oc = ''executed''" using ref_destructive_call by blast
  obtain c where c: "db_calls d1 = [c]" "tc_request_id c = ''c0ffee''"
    and dom: "dom (db_approvals d1) = {''apr_1''}" and jobs: "db_jobs d1 = Map.empty"
    using ref_second_state [OF inv oc] by blast
  obtain oc0 s q1 where dec: "decide strict_validate ?ex later_env destructive_call
      (open_session (ce_now later_env) d1, []) = (oc0, (s, q1))" by (metis prod.exhaust)
  have "iv_request later_env destructive_call = ''d15c''" "approval_id_of later_env = ''apr_ffff''"
    by (simp_all add: later_env_def iv_request_def ref_call_def text_or_def gen_request_id_def approval_id_of_def)
  moreover have "''apr_ffff'' \<notin> dom (db_approvals d1)"
    unfolding dom by simp
  then have "db_approvals d1 ''apr_ffff'' = None" by (simp add: domIff)
  ultimately have ids: "iv_request later_env destructive_call \<notin> tc_request_id ` set (db_calls d1)"
    "db_approvals d1 (approval_id_of later_env) = None" "db_jobs d1 (job_id_of later_env) = None"
    using c jobs by simp_all
  obtain oc2 d2 where inv2: "invoke strict_validate ?ex later_env destructive_call (d1, []) = (Inr oc2, (d2, q1))"
    using sqlite_returns [OF _ ids dec] by auto
  from approval_single_use [OF destructive_call_facts(1,2) approved_db_keyed inv oc destructive_call_facts(1,2) inv2]
  show ?thesis using inv oc inv2 by blast
qed

end
