(* ===== verification/RegexLang.thy ===== *)
theory RegexLang
  imports Regex
begin

text \<open>
  The matcher against a reference: for patterns without lookaround and word boundaries, the
  end positions the backtracking matcher finds are exactly those of the words of the pattern's
  language.
\<close>

section \<open>The language of a pattern\<close>

fun power :: "(string \<Rightarrow> bool) \<Rightarrow> nat \<Rightarrow> string \<Rightarrow> bool" where
  "power L 0 w = (w = [])"
| "power L (Suc n) w = (\<exists>u v. w = u @ v \<and> L u \<and> power L n v)"

fun lang :: "rx \<Rightarrow> string \<Rightarrow> bool" where
  "lang (RSet cs) w = (\<exists>c. w = [c] \<and> in_set cs c)"
| "lang (RCat a b) w = (\<exists>u v. w = u @ v \<and> lang a u \<and> lang b v)"
| "lang (RRep a lo hi) w = (\<exists>n. lo \<le> n \<and> (\<forall>h. hi = Some h \<longrightarrow> n \<le> h) \<and> power (lang a) n w)"
| "lang RWordB w = (w = [])"
| "lang (RNotBehind cs) w = (w = [])"
| "lang (RNotAhead cs) w = (w = [])"

text \<open>Patterns whose matches do not look at their surroundings, with repetitions that consume.\<close>

fun context_free :: "rx \<Rightarrow> bool" where
  "context_free (RSet cs) = True"
| "context_free (RCat a b) = (context_free a \<and> context_free b)"
| "context_free (RRep a lo hi) = (context_free a \<and> consumes a)"
| "context_free _ = False"

section \<open>Repetition as a path of rounds\<close>

fun path :: "(nat \<Rightarrow> nat list) \<Rightarrow> nat \<Rightarrow> nat \<Rightarrow> nat \<Rightarrow> bool" where
  "path step 0 i j = (i = j)"
| "path step (Suc n) i j = (\<exists>k \<in> set (step i). i < k \<and> path step n k j)"

lemma path_range:
  "path step n i j \<Longrightarrow> (\<And>i j. i \<le> m \<Longrightarrow> j \<in> set (step i) \<Longrightarrow> j \<le> m) \<Longrightarrow> i \<le> m \<Longrightarrow>
    i + n \<le> j \<and> j \<le> m"
proof (induction n arbitrary: i)
  case (Suc n)
  then obtain k where "k \<in> set (step i)" "i < k" "path step n k j" by auto
  with Suc.IH [of k] Suc.prems(2,3) show ?case by fastforce
qed simp

lemma ex_le_Suc: "(\<exists>n \<le> Suc m. P n) \<longleftrightarrow> P 0 \<or> (\<exists>n \<le> m. P (Suc n))"
proof
  assume "\<exists>n \<le> Suc m. P n"
  then obtain n where "n \<le> Suc m" "P n" by blast
  then show "P 0 \<or> (\<exists>n \<le> m. P (Suc n))" by (cases n) auto
qed auto

lemma rep_path:
  "j \<in> set (rep step fuel lo hi i) \<longleftrightarrow>
     (\<exists>n \<le> fuel. lo \<le> n \<and> (\<forall>h. hi = Some h \<longrightarrow> n \<le> h) \<and> path step n i j)"
proof (induction fuel arbitrary: lo hi i)
  case 0
  then show ?case by auto
next
  case (Suc fuel)
  let ?ok = "\<lambda>n. lo \<le> n \<and> (\<forall>h. hi = Some h \<longrightarrow> n \<le> h)"
  let ?P = "\<lambda>n. lo - 1 \<le> n \<and> (\<forall>h. map_option (\<lambda>h. h - 1) hi = Some h \<longrightarrow> n \<le> h)"
  have ok: "(hi \<noteq> Some 0 \<and> ?P n) = ?ok (Suc n)" for n
    by (cases hi) auto
  have "j \<in> set (rep step (Suc fuel) lo hi i) \<longleftrightarrow>
      (\<exists>k \<in> set (step i). i < k \<and> (\<exists>n \<le> fuel. (hi \<noteq> Some 0 \<and> ?P n) \<and> path step n k j)) \<or> lo = 0 \<and> i = j"
    by (auto simp: Suc.IH)
  also have "\<dots> \<longleftrightarrow> (\<exists>n \<le> fuel. ?ok (Suc n) \<and> path step (Suc n) i j) \<or> ?ok 0 \<and> path step 0 i j"
    unfolding ok path.simps by auto
  also have "\<dots> \<longleftrightarrow> (\<exists>n \<le> Suc fuel. ?ok n \<and> path step n i j)"
    unfolding ex_le_Suc by blast
  finally show ?case by (simp only: conj_assoc)
qed

section \<open>The matcher finds the words of the language\<close>

abbreviation slice :: "string \<Rightarrow> nat \<Rightarrow> nat \<Rightarrow> string" where
  "slice s i j \<equiv> take (j - i) (drop i s)"

lemma slice_append:
  assumes "i \<le> k" "k \<le> j"
  shows "slice s i j = slice s i k @ slice s k j"
proof -
  have "j - i = (k - i) + (j - k)" using assms by linarith
  then have "slice s i j = slice s i k @ take (j - k) (drop (k - i) (drop i s))"
    by (simp only: take_add)
  then show ?thesis using assms(1) by simp
qed

lemma slice_split:
  assumes "slice s i j = u @ v" "i \<le> j" "j \<le> length s"
  shows "u = slice s i (i + length u)" "v = slice s (i + length u) j" "i + length u \<le> j"
proof -
  have len: "length u + length v = j - i"
    using arg_cong [OF assms(1), of length] assms(2,3) by simp
  then show "i + length u \<le> j" using assms(2) by linarith
  have "u = take (length u) (slice s i j)" using assms(1) by simp
  then show "u = slice s i (i + length u)" using len by (simp add: min_def)
  have "v = drop (length u) (slice s i j)" using assms(1) by simp
  also have "\<dots> = take (j - i - length u) (drop (length u + i) s)" by (simp only: drop_take drop_drop)
  also have "\<dots> = slice s (i + length u) j" by (simp only: diff_diff_left add.commute)
  finally show "v = slice s (i + length u) j" .
qed

lemma consumes_lang: "consumes r \<Longrightarrow> lang r w \<Longrightarrow> w \<noteq> []"
proof (induction r arbitrary: w)
  case (RRep a lo hi)
  from RRep.prems obtain n where n: "lo \<le> n" "power (lang a) n w" and a: "consumes a" "0 < lo" by auto
  then obtain m where "n = Suc m" by (cases n) auto
  with n(2) obtain u v where "w = u @ v" "lang a u" by auto
  with RRep.IH [OF a(1)] show ?case by simp
qed auto

lemma power_path:
  assumes step: "\<And>i j. i \<le> length s \<Longrightarrow> j \<in> set (step i) \<longleftrightarrow> i \<le> j \<and> j \<le> length s \<and> L (slice s i j)"
    and ne: "\<And>w. L w \<Longrightarrow> w \<noteq> []"
  shows "i \<le> length s \<Longrightarrow> path step n i j \<longleftrightarrow> i \<le> j \<and> j \<le> length s \<and> power L n (slice s i j)"
proof (induction n arbitrary: i)
  case 0
  then show ?case by auto
next
  case (Suc n)
  show ?case
  proof
    assume "path step (Suc n) i j"
    then obtain k where k: "k \<in> set (step i)" "i < k" "path step n k j" by auto
    with step [OF Suc.prems] have k': "k \<le> length s" "L (slice s i k)" by auto
    from k(3) Suc.IH [OF k'(1)] have j: "k \<le> j" "j \<le> length s" "power L n (slice s k j)" by auto
    with k k' slice_append [of i k j s] show "i \<le> j \<and> j \<le> length s \<and> power L (Suc n) (slice s i j)"
      by auto
  next
    assume "i \<le> j \<and> j \<le> length s \<and> power L (Suc n) (slice s i j)"
    then obtain u v where uv: "slice s i j = u @ v" "L u" "power L n v" and j: "i \<le> j" "j \<le> length s"
      by auto
    from slice_split [OF uv(1) j] have sl: "u = slice s i (i + length u)" "v = slice s (i + length u) j"
      "i + length u \<le> j" by auto
    from ne [OF uv(2)] have "i < i + length u" by simp
    moreover have "i + length u \<in> set (step i)"
      using step [OF Suc.prems, of "i + length u"] sl(1,3) uv(2) j by auto
    moreover have "path step n (i + length u) j"
      using Suc.IH [of "i + length u"] sl(2,3) uv(3) j by auto
    ultimately show "path step (Suc n) i j" unfolding path.simps by blast
  qed
qed

lemma matcher_language:
  assumes "context_free r" "i \<le> length s"
  shows "j \<in> set (ends r s i) \<longleftrightarrow> i \<le> j \<and> j \<le> length s \<and> lang r (take (j - i) (drop i s))"
  using assms
proof (induction r arbitrary: i j)
  case (RSet cs)
  show ?case
  proof
    assume "j \<in> set (ends (RSet cs) s i)"
    then have "i < length s" "in_set cs (s ! i)" "j = Suc i" by (auto split: if_splits)
    then show "i \<le> j \<and> j \<le> length s \<and> lang (RSet cs) (slice s i j)"
      by (simp add: take_Suc_conv_app_nth [of 0, simplified] Cons_nth_drop_Suc [symmetric])
  next
    assume *: "i \<le> j \<and> j \<le> length s \<and> lang (RSet cs) (slice s i j)"
    then obtain c where c: "slice s i j = [c]" "in_set cs c" by auto
    from arg_cong [OF c(1), of length] * have "j = Suc i" by (simp add: min_def split: if_splits)
    moreover from this * have "i < length s" by simp
    moreover from c(1) this \<open>j = Suc i\<close> have "s ! i = c"
      by (simp add: Cons_nth_drop_Suc [symmetric])
    ultimately show "j \<in> set (ends (RSet cs) s i)" using c(2) by simp
  qed
next
  case (RCat a b)
  show ?case
  proof
    assume "j \<in> set (ends (RCat a b) s i)"
    then obtain k where k: "k \<in> set (ends a s i)" "j \<in> set (ends b s k)" by auto
    with RCat.IH(1) [of i k] RCat.prems have k': "i \<le> k" "k \<le> length s" "lang a (slice s i k)" by auto
    with RCat.IH(2) [of k j] RCat.prems k have "k \<le> j" "j \<le> length s" "lang b (slice s k j)" by auto
    with k' slice_append [of i k j s] show "i \<le> j \<and> j \<le> length s \<and> lang (RCat a b) (slice s i j)" by auto
  next
    assume "i \<le> j \<and> j \<le> length s \<and> lang (RCat a b) (slice s i j)"
    then obtain u v where uv: "slice s i j = u @ v" "lang a u" "lang b v" and j: "i \<le> j" "j \<le> length s" by auto
    from slice_split [OF uv(1) j] have sl: "u = slice s i (i + length u)" "v = slice s (i + length u) j"
      "i + length u \<le> j" by auto
    with RCat.IH(1) [of i "i + length u"] RCat.IH(2) [of "i + length u" j] RCat.prems uv j
    have "i + length u \<in> set (ends a s i)" "j \<in> set (ends b s (i + length u))" by auto
    then show "j \<in> set (ends (RCat a b) s i)" by auto
  qed
next
  case (RRep a lo hi)
  then have a: "context_free a" "consumes a" by auto
  have pp: "path (ends a s) n i j \<longleftrightarrow> i \<le> j \<and> j \<le> length s \<and> power (lang a) n (slice s i j)" for n
    by (rule power_path) (use RRep.IH a consumes_lang RRep.prems in auto)
  have "n \<le> length s - i" if "path (ends a s) n i j" for n
    using path_range [OF that, of "length s"] ends_range RRep.prems(2) by (metis add_le_imp_le_diff le_trans add.commute)
  then show ?case
    unfolding ends.simps rep_path lang.simps using pp by blast
qed auto



end
