(* ===== verification/PiiFacts.thy ===== *)
theory PiiFacts
  imports Pii RegexLang
begin

text \<open>
  What redaction guarantees: masking of the declared fields, an exact account of the masked
  fields, the shape of the data, and what the pattern sweep removes.
\<close>

section \<open>Declared fields\<close>

text \<open>
  \<open>masked sens u v\<close>: every scalar that stands under a sensitive key, directly or through
  lists, is the mask; \<open>u\<close> says whether \<open>v\<close> itself stands under one. Inside a dictionary the
  keys of that dictionary count.
\<close>

fun masked :: "string list \<Rightarrow> bool \<Rightarrow> pyval \<Rightarrow> bool" where
  "masked sens u (PDict kvs) = (\<forall>(k, v) \<in> set kvs. masked sens (k \<in> set sens) v)"
| "masked sens u (PList xs) = (\<forall>x \<in> set xs. masked sens u x)"
| "masked sens u v = (u \<longrightarrow> v = PStr MASK)"

lemma walk_masked:
  "\<not> ar \<Longrightarrow> masked sens (masked_key sens ar key) (fst (walk sens ar key v st))"
  "\<not> ar \<Longrightarrow> masked sens False (PDict (fst (walk_items sens ar kvs st)))"
  "\<not> ar \<Longrightarrow> masked sens (masked_key sens ar key) (PList (fst (walk_list sens ar key xs st)))"
  by (induction sens ar key v st and sens ar kvs st and sens ar key xs st
      rule: walk_walk_items_walk_list.induct)
    (auto simp: walk_leaf_def masked_key_def Let_def split: prod.splits)

text \<open>
  With raw access not allowed, every scalar below a declared sensitive field, at any depth of
  the output and through any nesting of lists, is replaced by the mask.\<close>

lemma redact_masks_sensitive_fields:
  "masked sensitive_fields False (rr_data (redact data sensitive_fields False))"
  using walk_masked(1) [of False sensitive_fields None data "([], [])"]
  by (auto simp: redact_def masked_key_def split: prod.splits)

text \<open>The sensitive keys that have a scalar to mask.\<close>

fun scalar_keys :: "string list \<Rightarrow> string option \<Rightarrow> pyval \<Rightarrow> string set" where
  "scalar_keys sens key (PDict kvs) = (\<Union>(k, v) \<in> set kvs. scalar_keys sens (Some k) v)"
| "scalar_keys sens key (PList xs) = (\<Union>x \<in> set xs. scalar_keys sens key x)"
| "scalar_keys sens key v = {k. key = Some k \<and> k \<in> set sens}"

lemma walk_fields:
  "set (fst (snd (walk sens ar key v st))) = set (fst st) \<union> (if ar then {} else scalar_keys sens key v) \<and>
     (distinct (fst st) \<longrightarrow> distinct (fst (snd (walk sens ar key v st))))"
  "set (fst (snd (walk_items sens ar kvs st))) =
       set (fst st) \<union> (if ar then {} else scalar_keys sens None (PDict kvs)) \<and>
     (distinct (fst st) \<longrightarrow> distinct (fst (snd (walk_items sens ar kvs st))))"
  "set (fst (snd (walk_list sens ar key xs st))) =
       set (fst st) \<union> (if ar then {} else scalar_keys sens key (PList xs)) \<and>
     (distinct (fst st) \<longrightarrow> distinct (fst (snd (walk_list sens ar key xs st))))"
  by (induction sens ar key v st and sens ar kvs st and sens ar key xs st
      rule: walk_walk_items_walk_list.induct)
    (auto simp: walk_leaf_def masked_key_def note_field_def Let_def split: prod.splits option.splits)

text \<open>C27 (functional).
  \<^verbatim>\<open>redacted_fields\<close> is an exact account: without raw access it lists, once each, precisely the
  sensitive keys under which the output had a scalar; with raw access it is empty.\<close>

theorem redacted_fields_exact:
  "set (rr_redacted_fields (redact data sensitive_fields allow_raw)) =
     (if allow_raw then {} else scalar_keys sensitive_fields None data) \<and>
   distinct (rr_redacted_fields (redact data sensitive_fields allow_raw))"
proof -
  obtain data' fs ps where w: "walk sensitive_fields allow_raw None data ([], []) = (data', fs, ps)"
    by (metis prod.exhaust)
  from walk_fields(1) [of sensitive_fields allow_raw None data "([], [])"]
  show ?thesis unfolding redact_def w by simp
qed

section \<open>The status\<close>

lemma sweep_no_names: "snd (sweep ps t) = [] \<Longrightarrow> fst (sweep ps t) = t"
proof (induction ps arbitrary: t)
  case (Cons p ps)
  obtain name pattern where "p = (name, pattern)" by (cases p)
  with Cons show ?case by (auto simp: Let_def split: prod.splits if_splits)
qed simp

lemma fold_add_once_Nil [simp]: "fold add_once xs ys = [] \<longleftrightarrow> xs = [] \<and> ys = []"
  by (metis Un_empty set_empty2 set_fold_add_once)

text \<open>The lists of the result only grow, and when both stay empty nothing was changed.\<close>

lemma walk_leaf_unchanged:
  assumes "snd (walk_leaf sens ar key v st) = ([], [])"
  shows "fst (walk_leaf sens ar key v st) = v \<and> st = ([], [])"
proof (cases "masked_key sens ar key")
  case True
  then obtain k where "key = Some k" by (auto simp: masked_key_def split: option.splits)
  with True assms show ?thesis
    by (auto simp: walk_leaf_def note_field_def split: pyval.splits)
next
  case False
  show ?thesis
  proof (cases v)
    case (PStr t)
    obtain new ms where rt: "redact_text t = (new, ms)" by (metis prod.exhaust)
    with PStr False assms have "ms = []" "st = ([], [])"
      by (auto simp: walk_leaf_def prod_eq_iff)
    moreover from this rt sweep_no_names [of PATTERNS t] have "new = t" by (simp add: redact_text_def)
    ultimately show ?thesis using PStr False rt by (simp add: walk_leaf_def)
  qed (use False assms in \<open>simp_all add: walk_leaf_def\<close>)
qed

lemma walk_unchanged:
  "snd (walk sens ar key v st) = ([], []) \<Longrightarrow> fst (walk sens ar key v st) = v \<and> st = ([], [])"
  "snd (walk_items sens ar kvs st) = ([], []) \<Longrightarrow> fst (walk_items sens ar kvs st) = kvs \<and> st = ([], [])"
  "snd (walk_list sens ar key xs st) = ([], []) \<Longrightarrow> fst (walk_list sens ar key xs st) = xs \<and> st = ([], [])"
proof (induction sens ar key v st and sens ar kvs st and sens ar key xs st
    rule: walk_walk_items_walk_list.induct)
qed (simp_all add: Let_def case_prod_beta walk_leaf_unchanged, (metis prod.collapse)+)

text \<open>
  A redaction status of \<^verbatim>\<open>none\<close> means what it says: the data handed on is the data the tool
  returned, unchanged.\<close>

lemma status_none_unchanged:
  assumes "redaction_status (redact data sensitive_fields allow_raw) = ''none''"
  shows "rr_data (redact data sensitive_fields allow_raw) = data"
proof -
  obtain data' fs ps where w: "walk sensitive_fields allow_raw None data ([], []) = (data', fs, ps)"
    by (metis prod.exhaust)
  with assms have "snd (walk sensitive_fields allow_raw None data ([], [])) = ([], [])"
    by (auto simp: redaction_status_def redact_def split: if_splits)
  from walk_unchanged(1) [OF this] w show ?thesis by (simp add: redact_def)
qed

theorem status_none_unchanged_witness:
  "rr_data (redact (PDict [(''tier'', PStr ''gold'')]) [''email''] False) = PDict [(''tier'', PStr ''gold'')]"
  by (rule status_none_unchanged) code_simp

section \<open>What the sweep leaves behind\<close>

text \<open>A stretch without a separator lies on one side of it.\<close>

lemma factor_beside:
  assumes "x @ u @ y = g @ c # r" "c \<notin> set u"
  shows "(\<exists>x' y'. g = x' @ u @ y') \<or> (\<exists>x' y'. r = x' @ u @ y')"
proof (cases "length x + length u \<le> length g")
  case True
  have "take (length g) (x @ u @ y) = g" using assms(1) by simp
  with True have "g = x @ u @ take (length g - length x - length u) y" by simp
  then show ?thesis by blast
next
  case False
  show ?thesis
  proof (cases "length g < length x")
    case True
    have "drop (Suc (length g)) (x @ u @ y) = r" using assms(1) by simp
    with True have "r = drop (Suc (length g)) x @ u @ y" by simp
    then show ?thesis by blast
  next
    case False2: False
    then have pos: "length g - length x < length u" using False by simp
    have "c = (x @ u @ y) ! length g" using assms(1) by simp
    also have "\<dots> = u ! (length g - length x)"
      using False2 pos by (simp add: nth_append)
    also have "\<dots> \<in> set u" using pos by (rule nth_mem)
    finally show ?thesis using assms(2) by simp
  qed
qed

lemma factor_after:
  assumes "x @ u @ y = g @ c # r" "c \<notin> set u" "a \<in> set u" "a \<notin> set g"
  obtains x' y' where "x' @ u @ y' = r"
  using factor_beside [OF assms(1,2)] assms(3,4) by auto

lemma factor_around_mask:
  assumes "x @ u @ y = g @ MASK @ r" "CHR ''*'' \<notin> set u" "c \<in> set u" "c \<notin> set ''REDACTED''"
  shows "(\<exists>x' y'. g = x' @ u @ y') \<or> (\<exists>x' y'. r = x' @ u @ y')"
proof -
  let ?s = "CHR ''*''"
  have mask: "g @ MASK @ r = g @ ?s # (?s # ?s # (''REDACTED'' @ ?s # ?s # ?s # r))"
    by (simp add: MASK_def)
  from factor_beside [OF assms(1) [unfolded mask] assms(2)] show ?thesis
  proof
    assume "\<exists>x' y'. ?s # ?s # (''REDACTED'' @ ?s # ?s # ?s # r) = x' @ u @ y'"
    then obtain a1 b1 where 1: "a1 @ u @ b1 = [] @ ?s # ?s # (''REDACTED'' @ ?s # ?s # ?s # r)" by auto
    obtain a2 b2 where 2: "a2 @ u @ b2 = ?s # (''REDACTED'' @ ?s # ?s # ?s # r)"
      by (rule factor_after [OF 1 assms(2,3)]) simp
    then have "a2 @ u @ b2 = [] @ ?s # (''REDACTED'' @ ?s # ?s # ?s # r)" by simp
    then obtain a3 b3 where 3: "a3 @ u @ b3 = ''REDACTED'' @ ?s # ?s # ?s # r"
      by (rule factor_after [OF _ assms(2,3)]) simp
    then obtain a4 b4 where "a4 @ u @ b4 = ?s # ?s # r"
      by (rule factor_after [OF _ assms(2,3)]) (use assms(4) in simp)
    then have "a4 @ u @ b4 = [] @ ?s # ?s # r" by simp
    then obtain a5 b5 where "a5 @ u @ b5 = ?s # r"
      by (rule factor_after [OF _ assms(2,3)]) simp
    then have "a5 @ u @ b5 = [] @ ?s # r" by simp
    then obtain a6 b6 where "a6 @ u @ b6 = r"
      by (rule factor_after [OF _ assms(2,3)]) simp
    then show ?thesis by metis
  qed simp
qed

text \<open>
  Substitution leaves stretches of the text between the masks, and none of them has a match of
  the pattern inside.
\<close>

lemma slice_factor:
  assumes "slice s i e = x @ u @ y" "i \<le> e" "e \<le> length s"
  shows "\<exists>a b. i \<le> a \<and> a \<le> b \<and> b \<le> e \<and> u = slice s a b"
proof -
  note sl = slice_split [OF assms]
  have "slice s (i + length x) e = u @ y" using sl(2) by simp
  from slice_split [OF this sl(3) assms(3)] show ?thesis by (metis le_add1)
qed

lemma sub_from_factor:
  assumes "CHR ''*'' \<notin> set u" "c \<in> set u" "c \<notin> set ''REDACTED''"
  shows "sub_from r MASK s i = x @ u @ y \<Longrightarrow> i \<le> length s \<Longrightarrow> consumes r \<Longrightarrow>
    \<exists>a b. a \<le> b \<and> b \<le> length s \<and> u = slice s a b \<and>
      (\<forall>a' b'. a \<le> a' \<longrightarrow> a' \<le> b' \<longrightarrow> b' \<le> b \<longrightarrow> b' \<notin> set (ends r s a'))"
proof (induction "length s - i" arbitrary: i x y rule: less_induct)
  case less
  show ?case
  proof (cases "search_from r s i")
    case None
    have "slice s i (length s) = drop i s" by simp
    also have "\<dots> = x @ u @ y" using less.prems(1) None by (simp add: sub_from.simps [of r MASK s i])
    finally obtain a b where ab: "i \<le> a" "a \<le> b" "b \<le> length s" "u = slice s a b"
      using slice_factor [where s = s and i = i and e = "length s"] less.prems(2) by blast
    have "ends r s k = []" if "i \<le> k" "k \<le> length s" for k
      using search_from_NoneD [OF None] that by blast
    with ab show ?thesis by (intro exI [of _ a] exI [of _ b]) auto
  next
    case (Some be)
    then obtain b e where be: "search_from r s i = Some (b, e)" by (cases be) auto
    note D = search_from_SomeD [OF be] search_from_le [OF be less.prems(2)]
    then obtain rest where rest: "ends r s b = e # rest" by blast
    then have "e \<in> set (ends r s b)" by simp
    then have e: "b < e" "e \<le> length s"
      using ends_consume [OF less.prems(3) _ D(2)] ends_range [OF _ D(2)] by auto
    have "sub_from r MASK s i = slice s i b @ MASK @ sub_from r MASK s e"
      using be D e by (simp add: sub_from.simps [of r MASK s i])
    with less.prems(1) have "x @ u @ y = slice s i b @ MASK @ sub_from r MASK s e" by simp
    from factor_around_mask [OF this assms] show ?thesis
    proof
      assume "\<exists>x' y'. slice s i b = x' @ u @ y'"
      then obtain x' y' where "slice s i b = x' @ u @ y'" by blast
      from slice_factor [OF this _ D(2)] D(1) obtain a c where
        ac: "i \<le> a" "a \<le> c" "c \<le> b" "u = slice s a c" by blast
      have "b' \<notin> set (ends r s a')" if "a \<le> a'" "a' \<le> b'" "b' \<le> c" for a' b'
      proof (cases "a' < b")
        case True
        with D(1) ac(1) that(1) show ?thesis by auto
      next
        case False
        with ac(3) that have "b' = a'" by linarith
        moreover have "a' \<le> length s" using that ac(3) D(2) by linarith
        ultimately show ?thesis using ends_consume [OF less.prems(3), of b'] by auto
      qed
      with ac D(2) show ?thesis by (intro exI [of _ a] exI [of _ c]) auto
    next
      assume "\<exists>x' y'. sub_from r MASK s e = x' @ u @ y'"
      then obtain x' y' where "sub_from r MASK s e = x' @ u @ y'" by blast
      moreover have "length s - e < length s - i" using e D(1) by linarith
      ultimately show ?thesis using less.hyps [of e x' y'] e(2) less.prems(3) by blast
    qed
  qed
qed

text \<open>The characters of a word, and the sign every e-mail address has.\<close>

fun may :: "rx \<Rightarrow> char \<Rightarrow> bool" where
  "may (RSet cs) c = in_set cs c"
| "may (RCat a b) c = (may a c \<or> may b c)"
| "may (RRep a lo hi) c = may a c"
| "may _ c = False"

lemma power_chars: "power L n w \<Longrightarrow> (\<And>w c. L w \<Longrightarrow> c \<in> set w \<Longrightarrow> P c) \<Longrightarrow> c \<in> set w \<Longrightarrow> P c"
  by (induction n arbitrary: w) auto

lemma lang_chars: "lang r w \<Longrightarrow> c \<in> set w \<Longrightarrow> may r c"
proof (induction r arbitrary: w c)
  case (RRep a lo hi)
  then obtain n where "power (lang a) n w" by auto
  have "may a c" by (rule power_chars [OF \<open>power (lang a) n w\<close> _ RRep.prems(2)]) (rule RRep.IH)
  then show ?case by simp
qed auto

lemma email_word: "lang email_rx u \<Longrightarrow> CHR ''*'' \<notin> set u \<and> CHR ''@'' \<in> set u"
proof
  assume u: "lang email_rx u"
  have "\<not> may email_rx (CHR ''*'')" by code_simp
  with lang_chars [OF u] show "CHR ''*'' \<notin> set u" by blast
  from u show "CHR ''@'' \<in> set u" by (auto simp: email_rx_def in_set_def)
qed

lemma email_context_free: "context_free email_rx" "consumes email_rx"
  by (simp_all add: email_rx_def)

lemma email_match:
  assumes "search email_rx s \<noteq> None"
  obtains x u y where "s = x @ u @ y" "lang email_rx u"
proof -
  from assms obtain i where i: "i \<le> length s" "ends email_rx s i \<noteq> []"
    unfolding search_None_iff by blast
  then obtain j where j: "j \<in> set (ends email_rx s i)" by (cases "ends email_rx s i") auto
  with matcher_language [OF email_context_free(1) i(1)]
  have l: "i \<le> j" "j \<le> length s" "lang email_rx (slice s i j)" by auto
  have "s = take i s @ slice s i j @ drop j s"
    using l(1) by (metis append.assoc append_take_drop_id le_add_diff_inverse take_add)
  with l(3) show ?thesis by (rule that [rotated]) 
qed

lemma email_factor_found:
  assumes "lang email_rx (slice s a b)" "a \<le> b" "b \<le> length s"
  shows "b \<in> set (ends email_rx s a)"
  using matcher_language [OF email_context_free(1), of a s b] assms by auto

lemma sub_email: "search email_rx (sub email_rx MASK s) = None"
proof (rule ccontr)
  assume "search email_rx (sub email_rx MASK s) \<noteq> None"
  then obtain x u y where u: "sub email_rx MASK s = x @ u @ y" "lang email_rx u" by (rule email_match)
  from email_word [OF u(2)] have "CHR ''*'' \<notin> set u" "CHR ''@'' \<in> set u" "CHR ''@'' \<notin> set ''REDACTED''" by auto
  from sub_from_factor [OF this u(1) [unfolded sub_def] _ email_context_free(2)] obtain a b where
    "a \<le> b" "b \<le> length s" "u = slice s a b" "b \<notin> set (ends email_rx s a)" by blast
  with email_factor_found u(2) show False by blast
qed

lemma sub_keeps_email_free:
  assumes "search email_rx s = None" "consumes r"
  shows "search email_rx (sub r MASK s) = None"
proof (rule ccontr)
  assume "search email_rx (sub r MASK s) \<noteq> None"
  then obtain x u y where u: "sub r MASK s = x @ u @ y" "lang email_rx u" by (rule email_match)
  from email_word [OF u(2)] have "CHR ''*'' \<notin> set u" "CHR ''@'' \<in> set u" "CHR ''@'' \<notin> set ''REDACTED''" by auto
  from sub_from_factor [OF this u(1) [unfolded sub_def] _ assms(2)] obtain a b where
    "a \<le> b" "b \<le> length s" "u = slice s a b" by blast
  with email_factor_found u(2) assms(1) show False
    unfolding search_None_iff by (metis emptyE le_trans list.set(1))
qed

lemma sweep_keeps_email_free:
  "search email_rx s = None \<Longrightarrow> \<forall>(n, r) \<in> set ps. consumes r \<Longrightarrow>
    search email_rx (fst (sweep ps s)) = None"
proof (induction ps arbitrary: s)
  case (Cons p ps)
  obtain n r where p: "p = (n, r)" by (cases p)
  with Cons.prems have r: "consumes r" "\<forall>(n, r) \<in> set ps. consumes r" by auto
  from Cons.IH [OF Cons.prems(1) r(2)] Cons.IH [OF sub_keeps_email_free [OF Cons.prems(1) r(1)] r(2)] p
  show ?case by (simp add: Let_def case_prod_beta)
qed simp

text \<open>Every text below a value, at any depth.\<close>

fun texts_ok :: "(string \<Rightarrow> bool) \<Rightarrow> pyval \<Rightarrow> bool" where
  "texts_ok P (PStr s) = P s"
| "texts_ok P (PList xs) = (\<forall>x \<in> set xs. texts_ok P x)"
| "texts_ok P (PDict kvs) = (\<forall>(k, v) \<in> set kvs. texts_ok P v)"
| "texts_ok P v = True"

lemma redact_text_email_free: "search email_rx (fst (redact_text text)) = None"
proof -
  define ps where "ps = tl PATTERNS"
  have P: "PATTERNS = (''email'', email_rx) # ps" by (simp add: ps_def PATTERNS_def)
  have c: "\<forall>(n, r) \<in> set ps. consumes r"
    by (simp add: ps_def PATTERNS_def iban_rx_def phone_rx_def ssn_like_rx_def credit_card_rx_def)
  show ?thesis
  proof (cases "search email_rx text = None")
    case True
    from sweep_keeps_email_free [OF True c] True show ?thesis by (simp add: redact_text_def P)
  next
    case False
    from sweep_keeps_email_free [OF sub_email c] False show ?thesis
      by (simp add: redact_text_def P Let_def case_prod_beta)
  qed
qed

lemma redact_text_email_freeD: "redact_text t = (u, ms) \<Longrightarrow> search email_rx u = None"
  using redact_text_email_free [of t] by simp

definition leak_text :: string where
  "leak_text = ''tel +12345678901AB12CDEFGHIJKLM''"

text \<open>
  The sweep is one pass in a fixed order, and it is not idempotent: masking a phone number can
  uncover an account number next to it. This text has no IBAN match, its redacted form has
  one, in clear.\<close>

lemma sweep_can_uncover_iban:
  "search iban_rx leak_text = None \<and> search iban_rx (fst (redact_text leak_text)) \<noteq> None \<and>
   fst (redact_text leak_text) = ''tel '' @ MASK @ ''AB12CDEFGHIJKLM''"
  by code_simp

end
