(* ===== verification/PiiSweep.thy ===== *)
theory PiiSweep
  imports PiiFacts
begin

text \<open>
  What the pattern sweep leaves of telephone, social security and card numbers: nothing. A text
  has a match of the phone pattern exactly when it has a \<open>core\<close>, a stretch of at least nine
  digits and separators between two digits; masking removes all cores, and the two patterns after
  it only match texts that have one.
\<close>

section \<open>Cores\<close>

abbreviation phone_set :: "cset list" where
  "phone_set \<equiv> [CDigit, CSpace, COne (CHR ''(''), COne (CHR '')''), COne (CHR ''.''), COne (CHR ''-'')]"

definition core_at :: "string \<Rightarrow> nat \<Rightarrow> nat \<Rightarrow> bool" where
  "core_at s a b \<longleftrightarrow> a + 9 \<le> b \<and> b \<le> length s \<and> is_digit (s ! a) \<and> is_digit (s ! (b - 1)) \<and>
     (\<forall>k. a \<le> k \<longrightarrow> k < b \<longrightarrow> in_set phone_set (s ! k))"

definition has_core :: "string \<Rightarrow> bool" where
  "has_core s \<longleftrightarrow> (\<exists>a b. core_at s a b)"

lemma digit_in_phone_set: "is_digit c \<Longrightarrow> in_set phone_set c"
  by (simp add: in_set_def)

lemma power_set: "power (lang (RSet cs)) n w \<longleftrightarrow> length w = n \<and> (\<forall>c \<in> set w. in_set cs c)"
proof (induction n arbitrary: w)
  case (Suc n)
  show ?case
  proof (cases w)
    case (Cons c t)
    have "w = u @ v \<and> lang (RSet cs) u \<longleftrightarrow> u = [c] \<and> v = t \<and> in_set cs c" for u v
      unfolding Cons by (cases u) auto
    then have *: "power (lang (RSet cs)) (Suc n) w \<longleftrightarrow> in_set cs c \<and> power (lang (RSet cs)) n t"
      unfolding power.simps by blast
    show ?thesis unfolding * Suc.IH by (auto simp: Cons)
  qed auto
qed auto

lemma slice_chars:
  assumes "i \<le> j" "j \<le> length s"
  shows "(\<forall>c \<in> set (slice s i j). P c) \<longleftrightarrow> (\<forall>k. i \<le> k \<longrightarrow> k < j \<longrightarrow> P (s ! k))"
proof -
  have "(\<forall>c \<in> set (slice s i j). P c) \<longleftrightarrow> (\<forall>n < j - i. P (s ! (i + n)))"
    using assms by (auto simp: all_set_conv_all_nth)
  also have "\<dots> \<longleftrightarrow> (\<forall>k. i \<le> k \<longrightarrow> k < j \<longrightarrow> P (s ! k))"
  proof
    assume n: "\<forall>n < j - i. P (s ! (i + n))"
    have "P (s ! k)" if "i \<le> k" "k < j" for k using n [rule_format, of "k - i"] that by simp
    then show "\<forall>k. i \<le> k \<longrightarrow> k < j \<longrightarrow> P (s ! k)" by blast
  qed auto
  finally show ?thesis .
qed

text \<open>The ends of a repetition of one character set.\<close>

lemma ends_rep_set:
  assumes "i \<le> length s"
  shows "j \<in> set (ends (RRep (RSet cs) lo hi) s i) \<longleftrightarrow> i + lo \<le> j \<and> (\<forall>h. hi = Some h \<longrightarrow> j \<le> i + h) \<and>
    j \<le> length s \<and> (\<forall>k. i \<le> k \<longrightarrow> k < j \<longrightarrow> in_set cs (s ! k))"
proof -
  have "context_free (RRep (RSet cs) lo hi)" by simp
  from matcher_language [OF this assms, of j] show ?thesis
    using slice_chars [of i j s "in_set cs"] by (auto simp: power_set min_def)
qed

lemma ends_set: "j \<in> set (ends (RSet cs) s i) \<longleftrightarrow> i < length s \<and> in_set cs (s ! i) \<and> j = Suc i"
  by auto

lemma ends_cat: "j \<in> set (ends (RCat a b) s i) \<longleftrightarrow> (\<exists>k \<in> set (ends a s i). j \<in> set (ends b s k))"
  by auto

section \<open>Phone numbers\<close>

lemma digit_set [simp]: "in_set [CDigit] c \<longleftrightarrow> is_digit c"
  by (simp add: in_set_def)

lemma core_ends:
  assumes "core_at s a b" "0 < a \<Longrightarrow> \<not> is_digit (s ! (a - 1))" "b < length s \<Longrightarrow> \<not> is_digit (s ! b)"
  shows "b \<in> set (ends phone_rx s a)"
proof -
  have c: "a + 9 \<le> b" "b \<le> length s" "is_digit (s ! a)" "is_digit (s ! (b - 1))"
    "\<And>k. a \<le> k \<Longrightarrow> k < b \<Longrightarrow> in_set phone_set (s ! k)"
    using assms(1) by (auto simp: core_at_def)
  have "a \<in> set (ends (RNotBehind [CDigit]) s a)" using assms(2) by auto
  moreover have "a \<in> set (ends (RRep (RSet [COne (CHR ''+'')]) 0 (Some 1)) s a)"
    using c by (subst ends_rep_set) auto
  moreover have "Suc a \<in> set (ends (RSet [CDigit]) s a)" using c by (subst ends_set) auto
  moreover have "b - 1 \<in> set (ends (RRep (RSet phone_set) 7 None) s (Suc a))"
    using c by (subst ends_rep_set) auto
  moreover have "b \<in> set (ends (RSet [CDigit]) s (b - 1))" using c by (subst ends_set) auto
  moreover have "b \<in> set (ends (RNotAhead [CDigit]) s b)" using assms(3) by auto
  ultimately show ?thesis unfolding phone_rx_def ends_cat by blast
qed

text \<open>From a core to a match: go back to the start of its first run of digits.\<close>

lemma run_start: "\<exists>a0 \<le> a. (\<forall>k. a0 \<le> k \<longrightarrow> k < a \<longrightarrow> is_digit (s ! k)) \<and> (0 < a0 \<longrightarrow> \<not> is_digit (s ! (a0 - 1)))"
proof (induction a)
  case (Suc a)
  show ?case
  proof (cases "is_digit (s ! a)")
    case True
    from Suc.IH obtain a0 where "a0 \<le> a" "\<forall>k. a0 \<le> k \<longrightarrow> k < a \<longrightarrow> is_digit (s ! k)"
      "0 < a0 \<longrightarrow> \<not> is_digit (s ! (a0 - 1))" by blast
    with True show ?thesis by (intro exI [of _ a0]) (auto simp: less_Suc_eq)
  qed (auto intro!: exI [of _ "Suc a"])
qed auto

lemma run_end: "b \<le> length s \<Longrightarrow> \<exists>b0 \<ge> b. b0 \<le> length s \<and> (\<forall>k. b \<le> k \<longrightarrow> k < b0 \<longrightarrow> is_digit (s ! k)) \<and>
    (b0 < length s \<longrightarrow> \<not> is_digit (s ! b0))"
proof (induction "length s - b" arbitrary: b)
  case (Suc n)
  show ?case
  proof (cases "is_digit (s ! b)")
    case True
    have "n = length s - Suc b" "Suc b \<le> length s" using Suc.hyps(2) by linarith+
    from Suc.hyps(1) [OF this] obtain b0 where "Suc b \<le> b0" "b0 \<le> length s"
      "\<forall>k. Suc b \<le> k \<longrightarrow> k < b0 \<longrightarrow> is_digit (s ! k)" "b0 < length s \<longrightarrow> \<not> is_digit (s ! b0)" by blast
    moreover have "is_digit (s ! k)" if "b \<le> k" "k < b0" for k
      using that True calculation(3) by (cases "k = b") auto
    ultimately show ?thesis by (intro exI [of _ b0]) auto
  next
    case False
    with Suc.prems show ?thesis by (intro exI [of _ b]) auto
  qed
qed auto

lemma core_match:
  assumes "core_at s a b"
  obtains a0 where "a0 \<le> a" "\<And>k. a0 \<le> k \<Longrightarrow> k \<le> a \<Longrightarrow> is_digit (s ! k)" "ends phone_rx s a0 \<noteq> []"
proof -
  have c: "a + 9 \<le> b" "b \<le> length s" "is_digit (s ! a)" "is_digit (s ! (b - 1))"
    "\<And>k. a \<le> k \<Longrightarrow> k < b \<Longrightarrow> in_set phone_set (s ! k)"
    using assms by (auto simp: core_at_def)
  obtain a0 where a0: "a0 \<le> a" "\<forall>k. a0 \<le> k \<longrightarrow> k < a \<longrightarrow> is_digit (s ! k)" "0 < a0 \<longrightarrow> \<not> is_digit (s ! (a0 - 1))"
    using run_start by blast
  obtain b0 where b0: "b \<le> b0" "b0 \<le> length s" "\<forall>k. b \<le> k \<longrightarrow> k < b0 \<longrightarrow> is_digit (s ! k)"
    "b0 < length s \<longrightarrow> \<not> is_digit (s ! b0)"
    using run_end [OF c(2)] by blast
  have digits: "is_digit (s ! k)" if "a0 \<le> k" "k \<le> a" for k
    using a0(2) c(3) that by (cases "k = a") auto
  have "is_digit (s ! (b0 - 1))" using b0(1,3) c(4) by (cases "b0 = b") auto
  moreover have "in_set phone_set (s ! k)" if "a0 \<le> k" "k < b0" for k
    using that digits b0(3) c(5) [of k] digit_in_phone_set by (metis le_cases not_le)
  ultimately have "core_at s a0 b0"
    using digits [of a0] a0(1) b0(1,2) c(1) by (simp add: core_at_def)
  then have "b0 \<in> set (ends phone_rx s a0)" by (rule core_ends) (use a0(3) b0(4) in auto)
  then have "ends phone_rx s a0 \<noteq> []" by auto
  with a0(1) digits show ?thesis by (rule that)
qed

lemma phone_match_core:
  assumes "j \<in> set (ends phone_rx s i)" "i \<le> length s"
  shows "(\<exists>a. core_at s a j) \<and> (j < length s \<longrightarrow> \<not> is_digit (s ! j))"
proof -
  from assms obtain p d m where pl: "p \<in> set (ends (RRep (RSet [COne (CHR ''+'')]) 0 (Some 1)) s i)"
    and d: "p < length s" "is_digit (s ! p)" "d = Suc p" and m: "m \<in> set (ends (RRep (RSet phone_set) 7 None) s d)"
    and e: "m < length s" "is_digit (s ! m)" "j = Suc m" and na: "j < length s \<longrightarrow> \<not> is_digit (s ! j)"
    unfolding phone_rx_def ends_cat ends_set by (auto split: if_splits)
  from m d have m': "Suc p + 7 \<le> m" "\<And>k. Suc p \<le> k \<Longrightarrow> k < m \<Longrightarrow> in_set phone_set (s ! k)"
    by (simp_all add: ends_rep_set del: ends.simps)
  have "in_set phone_set (s ! k)" if "p \<le> k" "k < j" for k
    using that m'(2) [of k] d(2) e(2,3) digit_in_phone_set by (metis Suc_leI le_neq_implies_less less_Suc_eq)
  with m'(1) d(2) e have "core_at s p j" by (simp add: core_at_def)
  with na show ?thesis by blast
qed

lemma phone_iff_core: "search phone_rx s = None \<longleftrightarrow> \<not> has_core s"
proof
  assume none: "search phone_rx s = None"
  show "\<not> has_core s"
  proof
    assume "has_core s"
    then obtain a b where c: "core_at s a b" by (auto simp: has_core_def)
    then obtain a0 where "a0 \<le> a" "ends phone_rx s a0 \<noteq> []" by (rule core_match)
    moreover have "a \<le> length s" using c by (simp add: core_at_def)
    ultimately show False using none unfolding search_None_iff by (meson le_trans)
  qed
next
  assume "\<not> has_core s"
  then have "ends phone_rx s i = []" if "i \<le> length s" for i
    using phone_match_core [OF _ that] by (cases "ends phone_rx s i") (auto simp: has_core_def)
  then show "search phone_rx s = None" unfolding search_None_iff by blast
qed

section \<open>Masking removes every core\<close>

definition core :: "string \<Rightarrow> bool" where
  "core u \<longleftrightarrow> 9 \<le> length u \<and> is_digit (hd u) \<and> is_digit (last u) \<and> (\<forall>c \<in> set u. in_set phone_set c)"

lemma core_at_slice:
  assumes "a \<le> b" "b \<le> length s"
  shows "core_at s a b \<longleftrightarrow> core (slice s a b)"
proof (cases "a + 9 \<le> b")
  case True
  have len: "length (slice s a b) = b - a" using assms by simp
  with True have ne: "slice s a b \<noteq> []" by (metis list.size(3) add_le_imp_le_diff le_zero_eq zero_neq_numeral add.commute)
  have "hd (slice s a b) = s ! a"
    using ne assms True by (simp add: hd_conv_nth)
  moreover have "last (slice s a b) = s ! (b - 1)"
    unfolding last_conv_nth [OF ne] len using assms True by simp
  ultimately show ?thesis
    using assms True slice_chars [OF assms, of "in_set phone_set"]
    by (auto simp: core_at_def core_def simp del: digit_set)
next
  case False
  then have "\<not> 9 \<le> length (slice s a b)" using assms by simp
  with False show ?thesis by (simp add: core_at_def core_def del: length_take)
qed

lemma has_core_factor: "has_core s \<longleftrightarrow> (\<exists>x u y. s = x @ u @ y \<and> core u)"
proof
  assume "has_core s"
  then obtain a b where c: "core_at s a b" by (auto simp: has_core_def)
  then have ab: "a \<le> b" "b \<le> length s" by (simp_all add: core_at_def)
  have "s = take a s @ slice s a b @ drop b s"
    using ab(1) by (metis append.assoc append_take_drop_id le_add_diff_inverse take_add)
  with core_at_slice [OF ab] c show "\<exists>x u y. s = x @ u @ y \<and> core u" by blast
next
  assume "\<exists>x u y. s = x @ u @ y \<and> core u"
  then obtain x u y where s: "s = x @ u @ y" "core u" by blast
  have "slice s (length x) (length x + length u) = u" by (simp add: s)
  with core_at_slice [of "length x" "length x + length u" s] s show "has_core s"
    by (auto simp: has_core_def)
qed

lemma core_chars: "core u \<Longrightarrow> CHR ''*'' \<notin> set u \<and> hd u \<in> set u \<and> hd u \<notin> set ''REDACTED''"
proof -
  assume c: "core u"
  have "\<not> in_set phone_set (CHR ''*'')" by code_simp
  moreover have "is_digit d \<Longrightarrow> d \<notin> set ''REDACTED''" for d by (auto simp: is_digit_def less_eq_char_def)
  moreover from c have "u \<noteq> []" by (auto simp: core_def)
  then have "hd u \<in> set u" by simp
  ultimately show ?thesis using c unfolding core_def by blast
qed

text \<open>
  The stretches between the masks start behind a match, which no digit follows; so the match that a
  core in them would give starts inside, which the search excludes.
\<close>

lemma no_core_between:
  assumes "core_at s a b" "i \<le> a" "0 < i \<Longrightarrow> \<not> is_digit (s ! i)"
    and "\<And>k. i \<le> k \<Longrightarrow> k \<le> a \<Longrightarrow> ends phone_rx s k = []"
  shows False
proof (rule core_match [OF assms(1)])
  fix a0
  assume a0: "a0 \<le> a" "\<And>k. a0 \<le> k \<Longrightarrow> k \<le> a \<Longrightarrow> is_digit (s ! k)" "ends phone_rx s a0 \<noteq> []"
  show False
  proof (cases "i \<le> a0")
    case True
    with a0 assms(4) show False by blast
  next
    case False
    with a0(2) [of i] assms(2,3) show False by simp
  qed
qed

lemma phone_consumes: "consumes phone_rx"
  by (simp add: phone_rx_def)

lemma sub_phone_core:
  "sub_from phone_rx MASK s i = x @ u @ y \<Longrightarrow> i \<le> length s \<Longrightarrow> core u \<Longrightarrow>
    0 < i \<and> i < length s \<longrightarrow> \<not> is_digit (s ! i) \<Longrightarrow> False"
proof (induction "length s - i" arbitrary: i x y rule: less_induct)
  case less
  show ?case
  proof (cases "search_from phone_rx s i")
    case None
    have "slice s i (length s) = drop i s" by simp
    also have "\<dots> = x @ u @ y" using less.prems(1) None by (simp add: sub_from.simps [of phone_rx MASK s i])
    finally obtain a b where ab: "i \<le> a" "a \<le> b" "b \<le> length s" "u = slice s a b"
      using slice_factor [where s = s and i = i and e = "length s"] less.prems(2) by blast
    with core_at_slice [OF ab(2,3)] less.prems(3) have c: "core_at s a b" by simp
    then have "a < length s" by (simp add: core_at_def)
    with no_core_between [OF c ab(1)] less.prems(4) ab(1) search_from_NoneD [OF None] show ?thesis
      by (metis le_trans less_imp_le order_le_less_trans)
  next
    case (Some be)
    then obtain b e where be: "search_from phone_rx s i = Some (b, e)" by (cases be) auto
    note D = search_from_SomeD [OF be] search_from_le [OF be less.prems(2)]
    then have e_in: "e \<in> set (ends phone_rx s b)" by auto
    then have e: "b < e" "e \<le> length s" "e < length s \<longrightarrow> \<not> is_digit (s ! e)"
      using ends_consume [OF phone_consumes _ D(2)] ends_range [OF _ D(2)] phone_match_core [OF _ D(2)] by auto
    have "sub_from phone_rx MASK s i = slice s i b @ MASK @ sub_from phone_rx MASK s e"
      using be D e by (simp add: sub_from.simps [of phone_rx MASK s i])
    with less.prems(1) have "x @ u @ y = slice s i b @ MASK @ sub_from phone_rx MASK s e" by simp
    from factor_around_mask [OF this] core_chars [OF less.prems(3)]
    have "(\<exists>x' y'. slice s i b = x' @ u @ y') \<or> (\<exists>x' y'. sub_from phone_rx MASK s e = x' @ u @ y')" by blast
    then show ?thesis
    proof
      assume "\<exists>x' y'. slice s i b = x' @ u @ y'"
      then obtain x' y' where "slice s i b = x' @ u @ y'" by blast
      from slice_factor [OF this _ D(2)] D(1) obtain a c where
        ac: "i \<le> a" "a \<le> c" "c \<le> b" "u = slice s a c" by blast
      then have "c \<le> length s" using D(2) by linarith
      with core_at_slice [of a c s] ac less.prems(3) have core: "core_at s a c" by simp
      then have "a < b" "a < length s" using ac(3) D(2) by (auto simp: core_at_def)
      with no_core_between [OF core ac(1)] less.prems(4) ac(1) D(1) show ?thesis
        by (metis order_le_less_trans)
    next
      assume "\<exists>x' y'. sub_from phone_rx MASK s e = x' @ u @ y'"
      then obtain x' y' where "sub_from phone_rx MASK s e = x' @ u @ y'" by blast
      moreover have "length s - e < length s - i" using e D(1) by linarith
      ultimately show ?thesis using less.hyps [of e x' y'] e(2,3) less.prems(3) by blast
    qed
  qed
qed

lemma sub_phone: "\<not> has_core (sub phone_rx MASK s)"
  unfolding has_core_factor sub_def using sub_phone_core [of s 0] by blast

lemma sub_keeps_core_free:
  assumes "\<not> has_core s" "consumes r"
  shows "\<not> has_core (sub r MASK s)"
proof
  assume "has_core (sub r MASK s)"
  then obtain x u y where u: "sub r MASK s = x @ u @ y" "core u" by (auto simp: has_core_factor)
  from core_chars [OF u(2)] have "CHR ''*'' \<notin> set u" "hd u \<in> set u" "hd u \<notin> set ''REDACTED''" by auto
  from sub_from_factor [OF this u(1) [unfolded sub_def] _ assms(2)] obtain a b where
    "a \<le> b" "b \<le> length s" "u = slice s a b" by blast
  with core_at_slice [of a b s] u(2) assms(1) show False by (auto simp: has_core_def)
qed

section \<open>The patterns after it\<close>

lemma sep_in_phone_set: "in_set phone_set (CHR '' '')" "in_set phone_set (CHR ''-'')"
  by code_simp+

lemma ends_exactly:
  assumes "i \<le> length s"
  shows "j \<in> set (ends (RRep (RSet cs) n (Some n)) s i) \<longleftrightarrow>
    j = i + n \<and> i + n \<le> length s \<and> (\<forall>k. i \<le> k \<longrightarrow> k < i + n \<longrightarrow> in_set cs (s ! k))"
  unfolding ends_rep_set [OF assms] by auto

lemma ssn_core:
  assumes "j \<in> set (ends ssn_like_rx s i)" "i \<le> length s"
  shows "core_at s i j"
proof -
  from assms obtain a b c d where 1: "a \<in> set (ends (RRep (RSet [CDigit]) 3 (Some 3)) s i)"
    "b \<in> set (ends (RSet [COne (CHR ''-'')]) s a)" "c \<in> set (ends (RRep (RSet [CDigit]) 2 (Some 2)) s b)"
    "d \<in> set (ends (RSet [COne (CHR ''-'')]) s c)" "j \<in> set (ends (RRep (RSet [CDigit]) 4 (Some 4)) s d)"
    unfolding ssn_like_rx_def ends_cat by (auto simp del: ends.simps(1,2,3) split: if_splits)
  from 1(1) have a: "a = i + 3" "a \<le> length s" "\<And>k. i \<le> k \<Longrightarrow> k < i + 3 \<Longrightarrow> is_digit (s ! k)"
    unfolding ends_exactly [OF assms(2)] by auto
  from 1(2) have b: "b = i + 4" "b \<le> length s" "s ! (i + 3) = CHR ''-''"
    unfolding ends_set by (auto simp: a(1) in_set_def)
  from 1(3) have c: "c = i + 6" "c \<le> length s" "\<And>k. i + 4 \<le> k \<Longrightarrow> k < i + 6 \<Longrightarrow> is_digit (s ! k)"
    unfolding ends_exactly [OF b(2)] by (auto simp: b(1))
  from 1(4) have d: "d = i + 7" "d \<le> length s" "s ! (i + 6) = CHR ''-''"
    unfolding ends_set by (auto simp: c(1) in_set_def)
  from 1(5) have j: "j = i + 11" "j \<le> length s" "\<And>k. i + 7 \<le> k \<Longrightarrow> k < i + 11 \<Longrightarrow> is_digit (s ! k)"
    unfolding ends_exactly [OF d(2)] by (auto simp: d(1))
  have "in_set phone_set (s ! k)" if "i \<le> k" "k < j" for k
  proof (cases "k = i + 3 \<or> k = i + 6")
    case True
    with b(3) d(3) sep_in_phone_set(2) show ?thesis by auto
  next
    case False
    then have "k < i + 3 \<or> i + 4 \<le> k \<and> k < i + 6 \<or> i + 7 \<le> k \<and> k < i + 11"
      using that j(1) by linarith
    then have "is_digit (s ! k)" using a(3) c(3) j(3) that(1) by blast
    then show ?thesis by (rule digit_in_phone_set)
  qed
  moreover have "is_digit (s ! i)" "is_digit (s ! (j - 1))" using a(3) [of i] j(3) [of "j - 1"] j(1) by simp_all
  ultimately show ?thesis using j by (simp add: core_at_def)
qed

abbreviation card_round :: rx where
  "card_round \<equiv> RCat (RSet [CDigit]) (RRep (RSet [COne (CHR '' ''), COne (CHR ''-'')]) 0 (Some 1))"

lemma card_round_ends:
  assumes "k \<in> set (ends card_round s i)"
  shows "i < length s \<and> is_digit (s ! i) \<and> i < k \<and> (\<forall>m. i \<le> m \<longrightarrow> m < k \<longrightarrow> in_set phone_set (s ! m))"
proof -
  from assms have i: "i < length s" "is_digit (s ! i)"
    and k: "k \<in> set (ends (RRep (RSet [COne (CHR '' ''), COne (CHR ''-'')]) 0 (Some 1)) s (Suc i))"
    unfolding ends_cat ends_set digit_set by auto
  have si: "Suc i \<le> length s" using i(1) by simp
  from k have k2: "Suc i \<le> k" "\<And>m. Suc i \<le> m \<Longrightarrow> m < k \<Longrightarrow> in_set [COne (CHR '' ''), COne (CHR ''-'')] (s ! m)"
    unfolding ends_rep_set [OF si] by auto
  have "in_set phone_set (s ! m)" if "i \<le> m" "m < k" for m
  proof (cases "m = i")
    case True
    with i(2) digit_in_phone_set show ?thesis by simp
  next
    case False
    with that k2(2) [of m] have "s ! m = CHR '' '' \<or> s ! m = CHR ''-''" by (auto simp: in_set_def)
    then show ?thesis using sep_in_phone_set by (elim disjE) simp_all
  qed
  with i k2(1) show ?thesis by simp
qed

lemma card_rounds:
  "path (ends card_round s) (Suc n) i j \<Longrightarrow>
    \<exists>b. i + Suc n \<le> b \<and> b \<le> length s \<and> is_digit (s ! i) \<and> is_digit (s ! (b - 1)) \<and>
      (\<forall>k. i \<le> k \<longrightarrow> k < b \<longrightarrow> in_set phone_set (s ! k))"
proof (induction n arbitrary: i)
  case 0
  then have "j \<in> set (ends card_round s i)" by (simp del: ends.simps)
  then have "i < length s" "is_digit (s ! i)" using card_round_ends by blast+
  then show ?case using digit_in_phone_set by (intro exI [of _ "Suc i"]) (auto simp: less_Suc_eq)
next
  case (Suc n)
  from Suc.prems obtain k where k: "k \<in> set (ends card_round s i)" "path (ends card_round s) (Suc n) k j"
    unfolding path.simps(2) [of _ "Suc n"] by blast
  note r = card_round_ends [OF k(1)]
  from Suc.IH [OF k(2)] obtain b where b: "k + Suc n \<le> b" "b \<le> length s" "is_digit (s ! (b - 1))"
    "\<forall>m. k \<le> m \<longrightarrow> m < b \<longrightarrow> in_set phone_set (s ! m)" by blast
  have "in_set phone_set (s ! m)" if "i \<le> m" "m < b" for m
  proof (cases "m < k")
    case True
    with r that show ?thesis by blast
  next
    case False
    with b(4) that show ?thesis by simp
  qed
  moreover have "i + Suc (Suc n) \<le> b" using r b(1) by linarith
  ultimately show ?case using r b(2,3) by blast
qed

lemma card_core:
  assumes "j \<in> set (ends credit_card_rx s i)"
  shows "has_core s"
proof -
  from assms obtain j' where "j' \<in> set (ends (RRep card_round 13 (Some 16)) s i)"
    unfolding credit_card_rx_def ends_cat by (auto simp del: ends.simps(1,2,3) split: if_splits)
  then obtain n where n: "13 \<le> n" "path (ends card_round s) n i j'"
    unfolding ends.simps(3) rep_path by blast
  then obtain m where m: "n = Suc m" "12 \<le> m" by (cases n) auto
  from card_rounds [OF n(2) [unfolded m(1)]] obtain b where b: "i + Suc m \<le> b" "b \<le> length s"
    "is_digit (s ! i)" "is_digit (s ! (b - 1))" "\<forall>k. i \<le> k \<longrightarrow> k < b \<longrightarrow> in_set phone_set (s ! k)" by blast
  from b(1) m(2) have "i + 9 \<le> b" by linarith
  with b(2-5) show ?thesis unfolding has_core_def core_at_def by blast
qed

lemma core_free_search:
  assumes "\<not> has_core s"
  shows "search phone_rx s = None" "search ssn_like_rx s = None" "search credit_card_rx s = None"
proof -
  show "search phone_rx s = None" using assms phone_iff_core by blast
  have "ends ssn_like_rx s i = []" if "i \<le> length s" for i
    using ssn_core [OF _ that] assms by (cases "ends ssn_like_rx s i") (auto simp: has_core_def)
  then show "search ssn_like_rx s = None" unfolding search_None_iff by blast
  have "ends credit_card_rx s i = []" for i
    using card_core [of _ s i] assms by (cases "ends credit_card_rx s i") auto
  then show "search credit_card_rx s = None" unfolding search_None_iff by blast
qed

section \<open>The sweep as a whole\<close>

lemma redact_text_core_free:
  "\<not> has_core (fst (redact_text t)) \<and> set (snd (redact_text t)) \<subseteq> {''email'', ''iban'', ''phone''}"
proof -
  define t1 where "t1 = sub iban_rx MASK (sub email_rx MASK t)"
  define t2 where "t2 = sub phone_rx MASK t1"
  have c: "\<not> has_core t2" by (simp add: t2_def sub_phone)
  note n = core_free_search(2,3) [OF c]
  have step: "sweep ((name, r) # ps) s =
      (fst (sweep ps (sub r MASK s)), (if search r s \<noteq> None then [name] else []) @ snd (sweep ps (sub r MASK s)))"
    for name r ps s by (cases "search r s") (simp_all add: sub_no_match case_prod_beta Let_def)
  have "redact_text t = (t2, snd (redact_text t))" and
    "set (snd (redact_text t)) \<subseteq> {''email'', ''iban'', ''phone''}"
    unfolding redact_text_def PATTERNS_def step t1_def [symmetric] t2_def [symmetric]
    by (auto simp: n sub_no_match)
  then show ?thesis using c by (metis fst_conv)
qed

definition contact_free :: "string \<Rightarrow> bool" where
  "contact_free s \<longleftrightarrow> search email_rx s = None \<and> search phone_rx s = None \<and>
     search ssn_like_rx s = None \<and> search credit_card_rx s = None"

definition contact_data_free :: "pyval \<Rightarrow> bool" where
  "contact_data_free v = texts_ok contact_free v"

lemma redact_text_contact_free:
  assumes "redact_text t = (u, ms)"
  shows "contact_free u" "set ms \<subseteq> {''email'', ''iban'', ''phone''}"
  using redact_text_core_free [of t] redact_text_email_freeD [OF assms] core_free_search [of u] assms
  by (simp_all add: contact_free_def)

lemma mask_contact_free: "contact_free MASK"
  by code_simp

lemma walk_contact_free:
  "texts_ok contact_free (fst (walk sens ar key v st))"
  "texts_ok contact_free (PDict (fst (walk_items sens ar kvs st)))"
  "texts_ok contact_free (PList (fst (walk_list sens ar key xs st)))"
  by (induction sens ar key v st and sens ar kvs st and sens ar key xs st
      rule: walk_walk_items_walk_list.induct)
    (auto simp: walk_leaf_def Let_def mask_contact_free redact_text_contact_free split: prod.splits)

lemma leaf_names:
  "set (snd (snd (walk_leaf sens ar key v st))) \<subseteq> set (snd st) \<union> {''email'', ''iban'', ''phone''}"
proof (cases "masked_key sens ar key")
  case True
  then show ?thesis by (auto simp: walk_leaf_def note_field_def split: pyval.splits option.splits)
next
  case False
  show ?thesis
  proof (cases v)
    case (PStr t)
    obtain u ms where rt: "redact_text t = (u, ms)" by (cases "redact_text t") auto
    from redact_text_contact_free(2) [OF rt] show ?thesis by (auto simp: walk_leaf_def False PStr rt)
  qed (auto simp: walk_leaf_def False)
qed

text \<open>What every scalar keeps of the two lists, the walk keeps.\<close>

lemma walk_keeps:
  assumes "\<And>key v st. Q st \<Longrightarrow> Q (snd (walk_leaf sens ar key v st))"
  shows "Q st \<Longrightarrow> Q (snd (walk sens ar key v st))"
    "Q st \<Longrightarrow> Q (snd (walk_items sens ar kvs st))"
    "Q st \<Longrightarrow> Q (snd (walk_list sens ar key xs st))"
  using assms
proof (induction sens ar key v st and sens ar kvs st and sens ar key xs st
    rule: walk_walk_items_walk_list.induct)
qed (auto simp: Let_def split: prod.splits)

lemma walk_names:
  "set (snd (snd (walk sens ar key v ([], [])))) \<subseteq> {''email'', ''iban'', ''phone''}"
proof (rule walk_keeps(1) [where Q = "\<lambda>st. set (snd st) \<subseteq> {''email'', ''iban'', ''phone''}"])
  fix key v and st :: rlists
  assume "set (snd st) \<subseteq> {''email'', ''iban'', ''phone''}"
  with leaf_names [of sens ar key v st]
  show "set (snd (snd (walk_leaf sens ar key v st))) \<subseteq> {''email'', ''iban'', ''phone''}" by blast
qed simp

lemma redact_contact_data_free: "contact_data_free (rr_data (redact data sens ar))"
  using walk_contact_free(1) [of sens ar None data "([], [])"]
  by (auto simp: contact_data_free_def redact_def split: prod.splits)


end
