(* ===== verification/Disclosure.thy ===== *)
theory Disclosure
  imports Gates PiiSweep
begin

text \<open>
  What a caller can see of a tool's output: the pipeline hands out nothing that has not been
  redacted.
\<close>

section \<open>Results are redacted outputs\<close>

lemma walk_dict: "\<exists>kvs'. fst (walk sens ar key (PDict kvs) st) = PDict kvs'"
  by (simp add: Let_def case_prod_beta)

lemma redact_output_data:
  "PDict (fst (redact_output spec cl out)) =
     rr_data (redact (PDict out) (ts_sensitive_fields spec) (cl_role cl \<in> set (ts_raw_pii_roles spec)))"
proof -
  let ?ar = "cl_role cl \<in> set (ts_raw_pii_roles spec)"
  obtain v st where w: "walk (ts_sensitive_fields spec) ?ar None (PDict out) ([], []) = (v, st)"
    by (metis prod.exhaust)
  with walk_dict [of "ts_sensitive_fields spec" ?ar None out "([], [])"] obtain kvs where "v = PDict kvs" by auto
  with w show ?thesis by (simp add: redact_output_def redact_def Let_def case_prod_beta)
qed

lemma redact_output_safe:
  "contact_data_free (PDict (fst (redact_output spec cl out)))"
  "cl_role cl \<notin> set (ts_raw_pii_roles spec) \<Longrightarrow>
    masked (ts_sensitive_fields spec) False (PDict (fst (redact_output spec cl out)))"
proof -
  show "contact_data_free (PDict (fst (redact_output spec cl out)))"
    unfolding redact_output_data by (rule redact_contact_data_free)
  assume "cl_role cl \<notin> set (ts_raw_pii_roles spec)"
  then show "masked (ts_sensitive_fields spec) False (PDict (fst (redact_output spec cl out)))"
    unfolding redact_output_data
    using walk_masked(1) [of False "ts_sensitive_fields spec" None "PDict out" "([], [])"]
    by (auto simp: redact_def masked_key_def split: prod.splits)
qed

lemma sync_result:
  "handle_sync ex env iv spec args st = (Inr oc, st') \<Longrightarrow> oc_result oc = Some out \<Longrightarrow>
    \<exists>raw. out = fst (redact_output spec (iv_caller iv) raw)"
  by (auto simp: handle_sync_def split: sum.splits prod.splits) (metis fst_conv)

lemma destructive_result:
  "handle_destructive ex env iv spec args st = (Inr oc, st') \<Longrightarrow> oc_result oc = Some out \<Longrightarrow>
    \<exists>raw. out = fst (redact_output spec (iv_caller iv) raw)"
  by (auto simp: handle_destructive_def refused_def outcome_for_def InvocationOutcome_def Let_def
      split: sum.splits prod.splits if_splits option.splits) (metis fst_conv)


text \<open>A profile read by the HR agent, for the witness.\<close>

lemma ref_profile_call:
  "\<exists>oc d' out. invoke strict_validate (ref_executor []) ref_env
     (ref_call ''hr_agent'' ''get_employee_profile'' [(''employee_id'', PStr ''E-1001'')] None None)
     (empty_db, []) = (Inr oc, (d', [])) \<and> oc_decision oc = ''executed'' \<and> oc_result oc = Some out"
proof -
  let ?iv = "ref_call ''hr_agent'' ''get_employee_profile'' [(''employee_id'', PStr ''E-1001'')] None None"
  let ?args = "[(''employee_id'', PStr ''E-1001'')]"
  let ?st = "(open_session 1000 empty_db, [] :: queue_table)"
  have "\<exists>res. ts_run spec_employee_profile (ex_tool_ctx (ref_executor [])) ?args = Inr res"
    by (simp add: spec_employee_profile_def tool_defs EMPLOYEES_def)
  then obtain oc where "route (ref_executor []) ref_env ?iv spec_employee_profile ?args ?st = (Inr oc, ?st)"
    "oc_decision oc = ''executed''" "oc_result oc \<noteq> None"
    using handle_sync_ok [of spec_employee_profile "ref_executor []" ?args _ ref_env ?iv ?st]
    by (auto simp: route_def spec_employee_profile_def)
  moreover have "authorised (ref_executor []) ?iv"
    by (simp add: authorised_def spec_employee_profile_def HR_ROLES_def all_roles_def)
  moreover have "validate_args strict_validate spec_employee_profile ?args = Inr ?args"
    by (simp add: validate_args_def strict_validate_def spec_employee_profile_def model_defs field_value_def)
  ultimately have "decide strict_validate (ref_executor []) ref_env ?iv ?st = (oc, ?st)"
    by (intro decide_answered [of _ _ spec_employee_profile _ ?args]) simp_all
  from ref_returns [OF this] \<open>oc_decision oc = ''executed''\<close> \<open>oc_result oc \<noteq> None\<close> show ?thesis
    by (auto simp: empty_db_def)
qed


section \<open>The reference tools\<close>

text \<open>
  The employee profile as a caller sees it: name, title and department in clear, and e-mail,
  phone, national id, salary and address masked, for every role (none has raw access).\<close>

lemma employee_profile_shown:
  "PDict (fst (redact_output spec_employee_profile cl (the (map_of EMPLOYEES ''E-1001'')))) =
   PDict [(''employee_id'', PStr ''E-1001''), (''name'', PStr ''Anika Brandt''),
          (''title'', PStr ''Staff Engineer''), (''department_id'', PStr ''FIN-100''),
          (''email'', PStr MASK), (''phone'', PStr MASK), (''national_id'', PStr MASK),
          (''salary'', PStr MASK), (''address'', PStr MASK)]"
proof -
  have "rr_data (redact (PDict (the (map_of EMPLOYEES ''E-1001''))) EMPLOYEE_SENSITIVE False) =
    PDict [(''employee_id'', PStr ''E-1001''), (''name'', PStr ''Anika Brandt''),
          (''title'', PStr ''Staff Engineer''), (''department_id'', PStr ''FIN-100''),
          (''email'', PStr MASK), (''phone'', PStr MASK), (''national_id'', PStr MASK),
          (''salary'', PStr MASK), (''address'', PStr MASK)]"
    by code_simp
  then show ?thesis unfolding redact_output_data by (simp add: spec_employee_profile_def)
qed

end
