(* ===== verification/Secrecy.thy ===== *)
theory Secrecy
  imports Disclosure
begin

text \<open>
  What a caller can learn: the sensitive values of a tool's output have no influence on the
  answer, on the audit trail or on anything else a call leaves behind.
\<close>

section \<open>Values that differ in sensitive scalars only\<close>

text \<open>
  \<open>agree sens u v w\<close>: the values have the same shape and differ at most in the scalars that
  stand under a sensitive key, directly or through lists; \<open>u\<close> says whether \<open>v\<close> and \<open>w\<close>
  themselves stand under one.
\<close>

fun scalar :: "pyval \<Rightarrow> bool" where
  "scalar (PDict kvs) = False"
| "scalar (PList xs) = False"
| "scalar v = True"

inductive agree :: "string list \<Rightarrow> bool \<Rightarrow> pyval \<Rightarrow> pyval \<Rightarrow> bool" for sens where
  agree_refl: "agree sens u v v"
| agree_hidden: "scalar v \<Longrightarrow> scalar w \<Longrightarrow> agree sens True v w"
| agree_dict: "list_all2 (\<lambda>x y. fst x = fst y \<and> agree sens (fst x \<in> set sens) (snd x) (snd y)) xs ys \<Longrightarrow>
    agree sens u (PDict xs) (PDict ys)"
| agree_list: "list_all2 (agree sens u) xs ys \<Longrightarrow> agree sens u (PList xs) (PList ys)"

lemma walk_hidden: "scalar v \<Longrightarrow> masked_key sens False key \<Longrightarrow>
    walk sens False key v st = (PStr MASK, note_field key st)"
  by (cases v) (simp_all add: walk_leaf_def)

lemma masked_key_Some [simp]: "masked_key sens False (Some k) \<longleftrightarrow> k \<in> set sens"
  by (simp add: masked_key_def)

lemma walk_agree:
  "agree sens u v w \<Longrightarrow> u = masked_key sens False key \<Longrightarrow> walk sens False key v st = walk sens False key w st"
proof (induction arbitrary: key st rule: agree.induct)
  case (agree_hidden v w)
  then show ?case by (simp add: walk_hidden)
next
  case (agree_dict xs ys u)
  then have "walk_items sens False xs st = walk_items sens False ys st" for st
    by (induction arbitrary: st rule: list_all2_induct) (auto simp: Let_def split: prod.splits)
  then show ?case by simp
next
  case (agree_list u xs ys)
  then have "walk_list sens False key xs st = walk_list sens False key ys st" for st
    by (induction arbitrary: st rule: list_all2_induct) (auto simp: Let_def)
  then show ?case by simp
qed simp

lemma redact_agree: "agree sens False v w \<Longrightarrow> redact v sens False = redact w sens False"
  by (simp add: redact_def walk_agree [of sens False v w None] masked_key_def)

section \<open>Calls\<close>

text \<open>Two ends of a tool run that a caller without raw access must not tell apart.\<close>

fun looks_same :: "string list \<Rightarrow> tool_result res \<Rightarrow> tool_result res \<Rightarrow> bool" where
  "looks_same sens (Inr a) (Inr b) \<longleftrightarrow>
     tr_metadata a = tr_metadata b \<and> agree sens False (PDict (tr_output a)) (PDict (tr_output b))"
| "looks_same sens r r' \<longleftrightarrow> r = r'"

lemma looks_same_cases:
  assumes "looks_same sens r r'"
  obtains (raised) e where "r = Inl e" "r' = Inl e"
  | (returned) a b where "r = Inr a" "r' = Inr b" "tr_metadata a = tr_metadata b"
      "agree sens False (PDict (tr_output a)) (PDict (tr_output b))"
  using assms by (cases r; cases r') auto

lemma redact_output_agree:
  assumes "agree (ts_sensitive_fields spec) False (PDict a) (PDict b)" "cl_role cl \<notin> set (ts_raw_pii_roles spec)"
  shows "redact_output (spec\<lparr>ts_run := f\<rparr>) cl a = redact_output (spec\<lparr>ts_run := g\<rparr>) cl b"
  using redact_agree [OF assms(1)] assms(2) by (simp add: redact_output_def)

lemma route_looks_same:
  fixes ex :: "'q executor"
  assumes same: "looks_same (ts_sensitive_fields spec) (f (ex_tool_ctx ex) args) (g (ex_tool_ctx ex) args)"
    and raw: "cl_role (iv_caller iv) \<notin> set (ts_raw_pii_roles spec)"
  shows "route (ex\<lparr>ex_registry := reg\<rparr>) env iv (spec\<lparr>ts_run := f\<rparr>) args st =
    route (ex\<lparr>ex_registry := reg'\<rparr>) env iv (spec\<lparr>ts_run := g\<rparr>) args st"
proof -
  let ?x = "ex\<lparr>ex_registry := reg\<rparr>" and ?y = "ex\<lparr>ex_registry := reg'\<rparr>"
  note out = redact_output_agree [OF _ raw, of _ _ f g]
  from same have "handle_sync ?x env iv (spec\<lparr>ts_run := f\<rparr>) args st = handle_sync ?y env iv (spec\<lparr>ts_run := g\<rparr>) args st"
    by (cases rule: looks_same_cases) (simp_all add: handle_sync_def out)
  moreover from same
  have "handle_dry_run ?x env iv (spec\<lparr>ts_run := f\<rparr>) args st = handle_dry_run ?y env iv (spec\<lparr>ts_run := g\<rparr>) args st"
    by (cases rule: looks_same_cases) (simp_all add: handle_dry_run_def pending_approval_def out)
  moreover obtain s q where st: "st = (s, q)" by (cases st)
  from same
  have "handle_destructive ?x env iv (spec\<lparr>ts_run := f\<rparr>) args st = handle_destructive ?y env iv (spec\<lparr>ts_run := g\<rparr>) args st"
    by (cases rule: looks_same_cases) (auto simp: handle_destructive_def st Let_def out split: option.split)
  ultimately show ?thesis by (simp add: route_def)
qed

lemma decide_looks_same:
  assumes "registry_get (ex_registry ex) (iv_tool iv) = Some spec"
    and "\<And>args. looks_same (ts_sensitive_fields spec) (f (iv_tool iv) (ex_tool_ctx ex) args) (g (iv_tool iv) (ex_tool_ctx ex) args)"
    and "cl_role (iv_caller iv) \<notin> set (ts_raw_pii_roles spec)"
  shows "decide V (ex\<lparr>ex_registry := with_runs f (ex_registry ex)\<rparr>) env iv st =
    decide V (ex\<lparr>ex_registry := with_runs g (ex_registry ex)\<rparr>) env iv st"
proof -
  note routes = route_looks_same [where f = "f (iv_tool iv)" and g = "g (iv_tool iv)", OF assms(2,3),
      where reg = "with_runs f (ex_registry ex)" and reg' = "with_runs g (ex_registry ex)"]
  show ?thesis by (simp add: decide_def assms(1) validate_args_def Let_def routes split: sum.split)
qed

text \<open>C7 (safety).
  Noninterference. A caller without raw access learns nothing about the sensitive values a tool
  reads: if two versions of the tools behave alike but for scalars under the declared sensitive
  fields of their output, then a call has the same answer, down to the account of the redaction,
  and leaves the same database, audit trail and queue with either.\<close>

theorem sensitive_values_do_not_interfere:
  assumes "registry_get (ex_registry ex) (iv_tool iv) = Some spec"
    and "\<And>args. looks_same (ts_sensitive_fields spec) (f (iv_tool iv) (ex_tool_ctx ex) args) (g (iv_tool iv) (ex_tool_ctx ex) args)"
    and "cl_role (iv_caller iv) \<notin> set (ts_raw_pii_roles spec)"
  shows "invoke V (ex\<lparr>ex_registry := with_runs f (ex_registry ex)\<rparr>) env iv dq =
    invoke V (ex\<lparr>ex_registry := with_runs g (ex_registry ex)\<rparr>) env iv dq"
  by (rule invoke_cong) (simp_all add: decide_looks_same [where f = f and g = g, OF assms])

text \<open>A tool whose answer has the given salary, alone and in a list.\<close>

definition paying :: "int \<Rightarrow> string \<Rightarrow> tool_context \<Rightarrow> pydict \<Rightarrow> tool_result res" where
  "paying n tool ctx args =
     Inr \<lparr>tr_output = [(''name'', PStr ''Anika Brandt''), (''salary'', PInt n),
        (''history'', PList [PDict [(''salary'', PList [PInt (n - 1), PInt n])]])], tr_metadata = []\<rparr>"

theorem sensitive_values_do_not_interfere_witness:
  "invoke strict_validate ((ref_executor [])\<lparr>ex_registry := with_runs (paying 118000) (ex_registry (ref_executor []))\<rparr>) ref_env
      (ref_call ''hr_agent'' ''get_employee_profile'' [(''employee_id'', PStr ''E-1001'')] None None) (empty_db, []) =
    invoke strict_validate ((ref_executor [])\<lparr>ex_registry := with_runs (paying 95000) (ex_registry (ref_executor []))\<rparr>) ref_env
      (ref_call ''hr_agent'' ''get_employee_profile'' [(''employee_id'', PStr ''E-1001'')] None None) (empty_db, [])"
proof (rule sensitive_values_do_not_interfere)
  fix args
  show "looks_same (ts_sensitive_fields spec_employee_profile) (paying 118000 (iv_tool (ref_call ''hr_agent'' ''get_employee_profile''
      [(''employee_id'', PStr ''E-1001'')] None None)) (ex_tool_ctx (ref_executor [])) args)
    (paying 95000 (iv_tool (ref_call ''hr_agent'' ''get_employee_profile''
      [(''employee_id'', PStr ''E-1001'')] None None)) (ex_tool_ctx (ref_executor [])) args)"
    by (auto simp: paying_def spec_employee_profile_def EMPLOYEE_SENSITIVE_def intro!: agree.intros)
qed (simp_all add: spec_employee_profile_def)

end
