(* ===== verification/System.thy ===== *)
theory System
  imports Gateway Gates WorkerProps
begin

text \<open>
  The running system: gateway requests that overlap in time, workers, and the database and
  queue they share. FastAPI runs the synchronous endpoints in a thread pool and the workers are
  processes of their own, so a transaction (\<^verbatim>\<open>session_scope\<close>) can be open while others begin
  and commit. A step begins one transaction, ends one, or is one operation on the queue. The
  relation does not fix in which order the transactions and operations of a worker follow each
  other, so it covers any number of workers and those that die on the way; that the program's own
  order is among the runs is shown for each of its operations (\<open>realised\<close>).
\<close>

section \<open>States and steps\<close>

record 'q deployment =
  dp_validator :: validator
  dp_executor :: "'q executor"
  dp_worker :: "'q worker"

definition dp_engine :: "'q deployment \<Rightarrow> db_engine" where
  "dp_engine dp = engine_of_url (st_database_url (ex_settings (dp_executor dp)))"

text \<open>The writes that open transactions hold, in the order they were begun.\<close>

record 'q system =
  sy_db :: db
  sy_queue :: 'q
  sy_open :: "db_write list list"

definition start :: "db \<Rightarrow> 'q \<Rightarrow> 'q system" where
  "start d q = \<lparr>sy_db = d, sy_queue = q, sy_open = []\<rparr>"

text \<open>The operations with which a worker settles a message.\<close>

inductive settle_op :: "'q message_queue \<Rightarrow> ('q, unit) prog \<Rightarrow> bool" for mq where
  completing: "settle_op mq (mq_complete mq now m)"
| abandoning: "settle_op mq (mq_abandon mq now m)"
| dead_lettering: "settle_op mq (mq_dead_letter mq now m reason)"

inductive sys_step :: "'q deployment \<Rightarrow> 'q system \<Rightarrow> 'q system \<Rightarrow> bool" for dp where
  begin_call: "invoke_body (dp_validator dp) (dp_executor dp) env iv
      (open_session (ce_now env) (sy_db \<sigma>), sy_queue \<sigma>) = (Inr oc, (s, q')) \<Longrightarrow>
    sys_step dp \<sigma> (\<sigma>\<lparr>sy_queue := q', sy_open := sy_open \<sigma> @ [se_log s]\<rparr>)"
| begin_approve: "cl_role cl = role_value ADMIN_AGENT \<Longrightarrow>
    approve_body k cl (open_session now (sy_db \<sigma>), sy_queue \<sigma>) = (Inr r, (s, q')) \<Longrightarrow>
    sys_step dp \<sigma> (\<sigma>\<lparr>sy_queue := q', sy_open := sy_open \<sigma> @ [se_log s]\<rparr>)"
| begin_sync: "s = fold (\<lambda>spec. upsert_policy (policy_row spec)) (registry_list reg)
      (open_session now (sy_db \<sigma>)) \<Longrightarrow>
    sys_step dp \<sigma> (\<sigma>\<lparr>sy_open := sy_open \<sigma> @ [se_log s]\<rparr>)"
| begin_guard: "duplicate_guard (dp_worker dp) clk m (open_session now (sy_db \<sigma>), sy_queue \<sigma>) =
      (Inr b, (s, q')) \<Longrightarrow>
    sys_step dp \<sigma> (\<sigma>\<lparr>sy_queue := q', sy_open := sy_open \<sigma> @ [se_log s]\<rparr>)"
| guard_raises: "duplicate_guard (dp_worker dp) clk m (open_session now (sy_db \<sigma>), sy_queue \<sigma>) =
      (Inl e, (s, q')) \<Longrightarrow>
    sys_step dp \<sigma> (\<sigma>\<lparr>sy_queue := q'\<rparr>)"
| begin_update: "worker_update (dp_worker dp) f \<Longrightarrow> s = f (open_session now (sy_db \<sigma>)) \<Longrightarrow>
    sys_step dp \<sigma> (\<sigma>\<lparr>sy_open := sy_open \<sigma> @ [se_log s]\<rparr>)"
| receives: "mq_receive (wk_queue (dp_worker dp)) now n t (sy_queue \<sigma>) = (r, q') \<Longrightarrow>
    sys_step dp \<sigma> (\<sigma>\<lparr>sy_queue := q'\<rparr>)"
| settles_message: "settle_op (wk_queue (dp_worker dp)) op \<Longrightarrow> op (sy_queue \<sigma>) = (r', q') \<Longrightarrow>
    sys_step dp \<sigma> (\<sigma>\<lparr>sy_queue := q'\<rparr>)"
| commits: "sy_open \<sigma> = us @ ws # vs \<Longrightarrow> commit (dp_engine dp) ws (sy_db \<sigma>) = Inr d' \<Longrightarrow>
    sys_step dp \<sigma> (\<sigma>\<lparr>sy_db := d', sy_open := us @ vs\<rparr>)"
| is_lost: "sy_open \<sigma> = us @ ws # vs \<Longrightarrow>
    sys_step dp \<sigma> (\<sigma>\<lparr>sy_open := us @ vs\<rparr>)"   \<comment> \<open>its commit failed, or the process died\<close>

inductive_cases sys_stepE: "sys_step dp \<sigma> \<sigma>'"

abbreviation sys_steps :: "'q deployment \<Rightarrow> 'q system \<Rightarrow> 'q system \<Rightarrow> bool" where
  "sys_steps dp \<equiv> (sys_step dp)\<^sup>*\<^sup>*"

definition reachable :: "'q deployment \<Rightarrow> 'q \<Rightarrow> 'q system \<Rightarrow> bool" where
  "reachable dp q \<sigma> \<longleftrightarrow> sys_steps dp (start empty_db q) \<sigma>"

section \<open>The program's operations are runs\<close>

definition realised :: "'q deployment \<Rightarrow> (db \<times> 'q, 'a) prog \<Rightarrow> bool" where
  "realised dp p \<longleftrightarrow> (\<forall>d q os r d' q'. p (d, q) = (r, (d', q')) \<longrightarrow>
     sys_steps dp \<lparr>sy_db = d, sy_queue = q, sy_open = os\<rparr> \<lparr>sy_db = d', sy_queue = q', sy_open = os\<rparr>)"

lemma realisedD:
  "realised dp p \<Longrightarrow> p (d, q) = (r, (d', q')) \<Longrightarrow> sys_steps dp (start d q) (start d' q')"
  unfolding realised_def start_def by blast

lemma realised_skip: "realised dp (\<lambda>dq. (r, dq))"
  by (simp add: realised_def)

lemma realised_bind:
  assumes "realised dp p" "\<And>x. realised dp (f x)"
  shows "realised dp (bind_prog p f)"
  unfolding realised_def
proof (intro allI impI)
  fix d q os r d' q' assume run: "bind_prog p f (d, q) = (r, (d', q'))"
  obtain r1 d1 q1 where p: "p (d, q) = (r1, (d1, q1))" by (metis prod.exhaust)
  with assms(1) have one: "sys_steps dp \<lparr>sy_db = d, sy_queue = q, sy_open = os\<rparr>
      \<lparr>sy_db = d1, sy_queue = q1, sy_open = os\<rparr>" unfolding realised_def by blast
  show "sys_steps dp \<lparr>sy_db = d, sy_queue = q, sy_open = os\<rparr> \<lparr>sy_db = d', sy_queue = q', sy_open = os\<rparr>"
  proof (cases r1)
    case (Inl e)
    with run p one show ?thesis by (simp add: bind_prog_def)
  next
    case (Inr x)
    with run p have "f x (d1, q1) = (r, (d', q'))" by (simp add: bind_prog_def)
    with assms(2) have "sys_steps dp \<lparr>sy_db = d1, sy_queue = q1, sy_open = os\<rparr>
        \<lparr>sy_db = d', sy_queue = q', sy_open = os\<rparr>" unfolding realised_def by blast
    with one show ?thesis by (rule rtranclp_trans)
  qed
qed

lemma realised_on_queue:
  assumes "\<And>\<sigma> r q'. op (sy_queue \<sigma>) = (r, q') \<Longrightarrow> sys_step dp \<sigma> (\<sigma>\<lparr>sy_queue := q'\<rparr>)"
  shows "realised dp (on_queue op)"
  unfolding realised_def
proof (intro allI impI)
  fix d :: db and q os r d' q' assume "on_queue op (d, q) = (r, (d', q'))"
  then have "op q = (r, q')" "d' = d" by (auto simp: on_queue_def split: prod.splits)
  with assms [of "\<lparr>sy_db = d, sy_queue = q, sy_open = os\<rparr>" r q']
  show "sys_steps dp \<lparr>sy_db = d, sy_queue = q, sy_open = os\<rparr> \<lparr>sy_db = d', sy_queue = q', sy_open = os\<rparr>"
    by auto
qed

text \<open>A transaction that nothing overlaps is its beginning and its end.\<close>

lemma realised_scope:
  assumes "\<And>\<sigma> x s q'. body (open_session now (sy_db \<sigma>), sy_queue \<sigma>) = (Inr x, (s, q')) \<Longrightarrow>
      sys_step dp \<sigma> (\<sigma>\<lparr>sy_queue := q', sy_open := sy_open \<sigma> @ [se_log s]\<rparr>)"
    and "\<And>\<sigma> e s q'. body (open_session now (sy_db \<sigma>), sy_queue \<sigma>) = (Inl e, (s, q')) \<Longrightarrow>
      sys_steps dp \<sigma> (\<sigma>\<lparr>sy_queue := q'\<rparr>)"
  shows "realised dp (session_scope (dp_engine dp) now body)"
  unfolding realised_def
proof (intro allI impI)
  fix d q os r d' q' assume run: "session_scope (dp_engine dp) now body (d, q) = (r, (d', q'))"
  let ?\<sigma> = "\<lparr>sy_db = d, sy_queue = q, sy_open = os\<rparr>"
  obtain rb s q1 where b: "body (open_session now d, q) = (rb, (s, q1))" by (metis prod.exhaust)
  show "sys_steps dp ?\<sigma> \<lparr>sy_db = d', sy_queue = q', sy_open = os\<rparr>"
  proof (cases rb)
    case (Inl e)
    with run b have "d' = d" "q' = q1" by (simp_all add: session_scope_def)
    with assms(2) [of ?\<sigma> e s q1] b Inl show ?thesis by simp
  next
    case (Inr x)
    let ?\<sigma>1 = "\<lparr>sy_db = d, sy_queue = q1, sy_open = os @ [se_log s]\<rparr>"
    have one: "sys_step dp ?\<sigma> ?\<sigma>1" using assms(1) [of ?\<sigma> x s q1] b Inr by simp
    have "sys_step dp ?\<sigma>1 \<lparr>sy_db = d', sy_queue = q', sy_open = os\<rparr>"
    proof (cases "commit (dp_engine dp) (se_log s) d")
      case (Inl e)
      with run b Inr have "d' = d" "q' = q1" by (simp_all add: session_scope_def)
      with is_lost [of ?\<sigma>1 os "se_log s" "[]" dp] show ?thesis by simp
    next
      case (Inr d1)
      with run b \<open>rb = Inr x\<close> have "d' = d1" "q' = q1" by (simp_all add: session_scope_def)
      with commits [of ?\<sigma>1 os "se_log s" "[]" dp d1] Inr show ?thesis by simp
    qed
    with one show ?thesis by (meson rtranclp.rtrancl_into_rtrancl r_into_rtranclp)
  qed
qed

lemma invoke_body_Inr:
  obtains oc s q' where "invoke_body V ex env iv st = (Inr oc, (s, q'))"
proof -
  obtain oc0 s0 q0 where dec: "decide V ex env iv st = (oc0, (s0, q0))" by (metis prod.exhaust)
  obtain oc s where "finish env iv oc0 s0 = (oc, s)" by (metis prod.exhaust)
  with dec that show ?thesis by (simp add: invoke_body_def)
qed

lemma realised_invoke: "realised dp (invoke (dp_validator dp) (dp_executor dp) env iv)"
  unfolding invoke_def dp_engine_def [symmetric]
proof (rule realised_scope)
  fix \<sigma> :: "'a system" and e s q'
  assume "invoke_body (dp_validator dp) (dp_executor dp) env iv
    (open_session (ce_now env) (sy_db \<sigma>), sy_queue \<sigma>) = (Inl e, (s, q'))"
  then show "sys_steps dp \<sigma> (\<sigma>\<lparr>sy_queue := q'\<rparr>)" by (metis invoke_body_Inr prod.inject sum.distinct(1))
qed (rule begin_call)

lemma approve_body_Inl: "approve_body k cl st = (Inl e, st') \<Longrightarrow> st' = st"
  by (auto simp: approve_body_def split: option.splits prod.splits)

lemma realised_approve:
  assumes "engine_of_url (st_database_url s) = dp_engine dp"
  shows "realised dp (approve s now k cl)"
proof (cases "cl_role cl = role_value ADMIN_AGENT")
  case True
  then have "realised dp (session_scope (dp_engine dp) now (approve_body k cl))"
    by (intro realised_scope) (auto intro: begin_approve dest: approve_body_Inl)
  with True show ?thesis by (simp add: realised_def approve_def app_scope_def assms)
next
  case False
  then show ?thesis by (auto simp: realised_def approve_def)
qed

lemma realised_sync:
  assumes "engine_of_url (st_database_url s) = dp_engine dp"
  shows "realised dp (sync_policies s now reg)"
  unfolding sync_policies_def assms
  by (rule realised_scope) (auto simp: repo_def intro: begin_sync)

text \<open>A worker of the deployment uses its database.\<close>

definition shares_database :: "'q deployment \<Rightarrow> bool" where
  "shares_database dp \<longleftrightarrow> engine_of_url (st_database_url (wk_settings (dp_worker dp))) = dp_engine dp"

lemma realised_update:
  assumes "shares_database dp" "worker_update (dp_worker dp) f"
  shows "realised dp (wk_scope (dp_worker dp) now (repo f))"
  using assms(1) unfolding wk_scope_def shares_database_def
  by (simp, intro realised_scope) (auto simp: repo_def intro: begin_update [OF assms(2)])

lemma realised_guard:
  assumes "shares_database dp"
  shows "realised dp (wk_scope (dp_worker dp) now (duplicate_guard (dp_worker dp) clk m))"
  using assms unfolding wk_scope_def shares_database_def
  by (simp, intro realised_scope) (auto intro: begin_guard guard_raises)

lemma realised_settle: "settle_op (wk_queue (dp_worker dp)) op \<Longrightarrow> realised dp (on_queue op)"
  by (rule realised_on_queue) (rule settles_message)

lemmas realised_rules = realised_bind realised_skip realised_update realised_guard realised_settle
  settle_op.intros worker_update.intros

lemma realised_process: "shares_database dp \<Longrightarrow> realised dp (process (dp_worker dp) clk m)"
  unfolding process_def unknown_tool_def handle_failure_def settle_success_def
  by (intro realised_bind realised_guard) (auto intro!: realised_rules split: option.split sum.split)

lemma realised_process_all: "shares_database dp \<Longrightarrow> realised dp (process_all (dp_worker dp) clk ms)"
  by (induction ms arbitrary: clk) (simp_all add: realised_skip realised_bind realised_process)

lemma realised_poll:
  assumes "shares_database dp"
  shows "realised dp (poll_once (dp_worker dp) clk n t)"
proof -
  have "realised dp (on_queue (mq_receive (wk_queue (dp_worker dp)) (pc_receive clk) n t))"
    by (rule realised_on_queue) (rule receives)
  then show ?thesis
    unfolding poll_once_def
    by (intro realised_bind realised_process_all realised_skip assms)
qed

section \<open>What transactions write\<close>

text \<open>An entry of the trail that shows an administrator's approval.\<close>

definition approval_event :: "string \<Rightarrow> audit_event \<Rightarrow> bool" where
  "approval_event k e \<longleftrightarrow> ev_event_type e = ''approval.approved'' \<and>
     ev_role e = role_value ADMIN_AGENT \<and> ev_detail e = [(''approval_id'', PStr k)]"

definition approval_recorded :: "db \<Rightarrow> string \<Rightarrow> bool" where
  "approval_recorded d k \<longleftrightarrow> (\<exists>e \<in> set (db_events d). approval_event k e)"

text \<open>Writes that neither file a job nor touch an approval.\<close>

fun neutral_write :: "db_write \<Rightarrow> bool" where
  "neutral_write (AddPolicy p) = True"
| "neutral_write (UpdatePolicy p) = True"
| "neutral_write w = (audit_write w \<or> plain_write w)"

inductive tx_log :: "db \<Rightarrow> db_write list \<Rightarrow> bool" for d where
  upkeep: "list_all neutral_write ws \<Longrightarrow> tx_log d ws"
| proposal: "ap_status a = ''pending'' \<Longrightarrow> list_all audit_write ws \<Longrightarrow> tx_log d (AddApproval a # ws)"
| submission: "ik_job_id r = Some (aj_job_id j) \<Longrightarrow> ik_key r = aj_idempotency_key j \<Longrightarrow>
    list_all audit_write ws \<Longrightarrow> tx_log d (AddKey r # AddJob j # ws)"
| consumption: "approval_recorded d k \<Longrightarrow> list_all audit_write ws \<Longrightarrow>
    tx_log d (UpdateApproval k ''consumed'' who now # ws)"
| approval: "approval_event k e \<Longrightarrow> tx_log d [UpdateApproval k ''approved'' who now, AddEvent e]"

lemma approval_recorded_mono: "extends d d' \<Longrightarrow> approval_recorded d k \<Longrightarrow> approval_recorded d' k"
  by (auto simp: approval_recorded_def extends_def)

lemma tx_log_mono: "tx_log d ws \<Longrightarrow> extends d d' \<Longrightarrow> tx_log d' ws"
  by (induction rule: tx_log.induct) (auto intro: tx_log.intros approval_recorded_mono)

section \<open>The invariant\<close>

definition jobs_filed :: "db \<Rightarrow> bool" where
  "jobs_filed d \<longleftrightarrow> (\<forall>i j. db_jobs d i = Some j \<longrightarrow>
     (\<exists>r. db_keys d (aj_idempotency_key j) = Some r \<and> ik_job_id r = Some i))"

definition approvals_backed :: "db \<Rightarrow> bool" where
  "approvals_backed d \<longleftrightarrow>
     (\<forall>k a. db_approvals d k = Some a \<longrightarrow> ap_status a = ''pending'' \<or> approval_recorded d k)"

definition db_inv :: "db \<Rightarrow> bool" where
  "db_inv d \<longleftrightarrow> db_keyed d \<and> jobs_filed d \<and> approvals_backed d"

definition sys_inv :: "'q system \<Rightarrow> bool" where
  "sys_inv \<sigma> \<longleftrightarrow> db_inv (sy_db \<sigma>) \<and> (\<forall>ws \<in> set (sy_open \<sigma>). tx_log (sy_db \<sigma>) ws)"

lemma db_inv_empty: "db_inv empty_db"
  by (simp add: db_inv_def jobs_filed_def approvals_backed_def) (simp add: empty_db_def)

lemma apply_neutral: "neutral_write w \<Longrightarrow> db_inv d \<Longrightarrow> db_inv (apply_write w d)"
  unfolding db_inv_def
proof (elim conjE, intro conjI)
  assume w: "neutral_write w" and inv: "db_keyed d" "jobs_filed d" "approvals_backed d"
  show "db_keyed (apply_write w d)" using inv(1) by (rule apply_write_keyed)
  show "jobs_filed (apply_write w d)"
    using w inv(2) by (cases w) (auto simp: jobs_filed_def split: if_splits, fastforce)
  show "approvals_backed (apply_write w d)"
    using w inv(3) approval_recorded_mono [OF apply_write_extends, of d _ w]
    unfolding approvals_backed_def by (cases w) auto
qed

lemma fold_neutral: "list_all neutral_write ws \<Longrightarrow> db_inv d \<Longrightarrow> db_inv (fold apply_write ws d)"
  by (induction ws arbitrary: d) (simp_all add: apply_neutral)

lemma neutral_audit: "list_all audit_write ws \<Longrightarrow> list_all neutral_write ws"
proof (erule list.pred_mono_strong)
  fix w show "audit_write w \<Longrightarrow> neutral_write w" by (cases w) simp_all
qed

lemma jobs_filed_submission:
  assumes "jobs_filed d" "db_keys d (ik_key r) = None" "ik_job_id r = Some (aj_job_id j)" "ik_key r = aj_idempotency_key j"
  shows "jobs_filed (apply_write (AddJob j) (apply_write (AddKey r) d))"
  unfolding jobs_filed_def
proof (intro allI impI)
  fix i jb assume jb: "db_jobs (apply_write (AddJob j) (apply_write (AddKey r) d)) i = Some jb"
  show "\<exists>row. db_keys (apply_write (AddJob j) (apply_write (AddKey r) d)) (aj_idempotency_key jb) = Some row
      \<and> ik_job_id row = Some i"
  proof (cases "i = aj_job_id j")
    case True
    with jb assms(3,4) show ?thesis by simp
  next
    case False
    with jb assms(1) obtain row where row: "db_keys d (aj_idempotency_key jb) = Some row" "ik_job_id row = Some i"
      by (auto simp: jobs_filed_def)
    then have "aj_idempotency_key jb \<noteq> ik_key r" using assms(2) by auto
    with row show ?thesis by simp
  qed
qed

lemma commit_tx:
  assumes "commit eng ws d = Inr d'" "tx_log d ws" "db_inv d"
  shows "db_inv d'"
proof -
  have d': "d' = fold apply_write ws d" using assms(1) by (rule commit_InrD)
  note rest = neutral_audit [THEN fold_neutral]
  from assms(2) show ?thesis
  proof cases
    case upkeep
    with assms(3) show ?thesis unfolding d' by (simp add: fold_neutral)
  next
    case (proposal a us)
    from assms(1) proposal(1) have new: "db_approvals d (ap_approval_id a) = None"
      by (auto split: if_splits)
    have "db_inv (apply_write (AddApproval a) d)"
      using assms(3) proposal(2) new
      by (auto simp: db_inv_def db_keyed_def jobs_filed_def approvals_backed_def approval_recorded_def)
    with proposal show ?thesis unfolding d' by (simp add: rest)
  next
    case (submission r j us)
    from assms(1) submission(1) have new: "db_keys d (ik_key r) = None" "db_jobs d (aj_job_id j) = None"
      by (auto split: if_splits)
    have "jobs_filed (apply_write (AddJob j) (apply_write (AddKey r) d))"
      using jobs_filed_submission [OF _ new(1) submission(2,3)] assms(3) by (simp add: db_inv_def)
    with assms(3) have "db_inv (apply_write (AddJob j) (apply_write (AddKey r) d))"
      by (auto simp: db_inv_def db_keyed_def approvals_backed_def approval_recorded_def)
    with submission show ?thesis unfolding d' by (simp add: rest)
  next
    case (consumption k us who now)
    have "db_inv (apply_write (UpdateApproval k ''consumed'' who now) d)"
      using assms(3) consumption(2)
      by (auto simp: db_inv_def db_keyed_def jobs_filed_def approvals_backed_def approval_recorded_def)
    with consumption show ?thesis unfolding d' by (simp add: rest)
  next
    case (approval k e who now)
    with assms(3) show ?thesis
      unfolding d'
      by (auto simp: db_inv_def db_keyed_def jobs_filed_def approvals_backed_def approval_recorded_def)
  qed
qed

section \<open>The gateway's transactions\<close>

lemma side_log_tx:
  assumes "side_log ex env iv spec args (open_session now d) ws" "list_all audit_write us" "db_inv d"
  shows "tx_log d (ws @ us)"
  using assms(1)
proof cases
  case no_writes
  with assms(2) show ?thesis by (simp add: upkeep neutral_audit)
next
  case (one_approval result)
  with assms(2) show ?thesis by (auto intro: proposal simp: pending_approval_def)
next
  case key_and_job
  with assms(2) show ?thesis by (auto intro: submission simp: queued_job_def)
next
  case (consumed a ap)
  then have ap: "db_approvals d a = Some ap" "ap_status ap \<noteq> ''pending''" by (simp_all add: get_approval_def)
  with assms(3) have "ap_approval_id ap = a" using db_keyed_approval unfolding db_inv_def by blast
  moreover have "approval_recorded d a" using ap assms(3) unfolding db_inv_def approvals_backed_def by blast
  ultimately show ?thesis using consumed assms(2) by (auto intro: consumption)
qed

lemma decide_tx:
  assumes "decide V ex env iv (open_session now d, q) = (oc, (s, q'))" "list_all audit_write us" "db_inv d"
  shows "tx_log d (se_log s @ us)"
  using assms(1)
proof (cases rule: decide_cases)
  case (routed spec args r)
  from route_log [OF routed(4)] obtain ws where
    "side_log ex env iv spec args (open_session now d) ws" "log_by (open_session now d) ws s" by blast
  with side_log_tx [OF _ assms(2,3)] show ?thesis by (auto simp: log_by_def)
qed (use assms(2) in \<open>simp_all add: upkeep neutral_audit\<close>)

lemma invoke_body_tx:
  assumes "invoke_body V ex env iv (open_session now d, q) = (Inr oc, (s, q'))" "db_inv d"
  shows "tx_log d (se_log s)"
proof -
  obtain oc0 s0 q0 where dec: "decide V ex env iv (open_session now d, q) = (oc0, (s0, q0))"
    by (metis prod.exhaust)
  with assms(1) obtain us where "se_log s = se_log s0 @ us" "list_all audit_write us"
    by (auto simp: invoke_body_def finish_def record_event_def record_tool_call_def Let_def)
  with decide_tx [OF dec _ assms(2)] show ?thesis by simp
qed

lemma approve_body_tx:
  assumes "approve_body k cl (open_session now d, q) = (Inr r, (s, q'))" "cl_role cl = role_value ADMIN_AGENT"
  shows "tx_log d (se_log s)"
  using assms
  by (auto simp: approve_body_def set_approval_def record_event_def approval_event_def blank_event_def
      intro!: approval split: option.splits)

section \<open>The worker's transactions and start-up\<close>

lemma plain_neutral: "plain_write w \<Longrightarrow> neutral_write w"
  by (cases w) simp_all

lemma plain_tx: "plain_log s \<Longrightarrow> tx_log d (se_log s)"
  unfolding plain_log_def by (rule upkeep) (auto elim: list.pred_mono_strong simp: plain_neutral)

lemma guard_plain:
  assumes "duplicate_guard w clk m (open_session now d, q) = (Inr b, (s, q'))"
  shows "plain_log s"
proof -
  from assms have "s = open_session now d \<or> (\<exists>ev r. s = record_event ev (set_job_status (message_job_id m)
      ''succeeded'' r None None None (open_session now d)))"
    by (auto simp: duplicate_guard_def bind_prog_def on_queue_def repo_def
        split: option.splits if_splits sum.splits prod.splits)
  then show ?thesis by auto
qed

lemma upserts_tx:
  "list_all neutral_write (se_log s) \<Longrightarrow>
    list_all neutral_write (se_log (fold (\<lambda>spec. upsert_policy (policy_row spec)) specs s))"
  by (induction specs arbitrary: s) (simp_all add: upsert_policy_def Let_def split: option.split)

section \<open>Every reachable state\<close>

lemma begins_inv: "sys_inv \<sigma> \<Longrightarrow> tx_log (sy_db \<sigma>) ws \<Longrightarrow>
    sys_inv (\<sigma>\<lparr>sy_queue := q', sy_open := sy_open \<sigma> @ [ws]\<rparr>)"
  by (auto simp: sys_inv_def)

lemma sys_step_inv:
  assumes "sys_step dp \<sigma> \<sigma>'" "sys_inv \<sigma>"
  shows "sys_inv \<sigma>'"
  using assms(1)
proof (cases rule: sys_step.cases)
  case (begin_call env iv oc s q')
  with assms(2) show ?thesis by (auto intro!: begins_inv intro: invoke_body_tx simp: sys_inv_def)
next
  case (begin_approve cl k now r s q')
  with assms(2) show ?thesis by (auto intro!: begins_inv dest: approve_body_tx)
next
  case (begin_sync s reg now)
  have "tx_log (sy_db \<sigma>) (se_log s)" unfolding begin_sync(2) by (intro upkeep upserts_tx) simp
  with begin_sync assms(2) show ?thesis by (auto simp: sys_inv_def)
next
  case (begin_guard clk m now b s q')
  with assms(2) show ?thesis by (auto intro!: begins_inv plain_tx dest: guard_plain)
next
  case (begin_update f s now)
  then have "plain_log s" by (simp add: worker_update_plain)
  with begin_update assms(2) show ?thesis by (auto simp: sys_inv_def plain_tx)
next
  case (commits us ws vs d')
  then have "extends (sy_db \<sigma>) d'" "db_inv d'"
    using assms(2) commit_extends commit_tx by (auto simp: sys_inv_def)
  with commits assms(2) show ?thesis by (auto simp: sys_inv_def intro: tx_log_mono)
qed (use assms(2) in \<open>auto simp: sys_inv_def\<close>)

lemma reachable_inv: "reachable dp q \<sigma> \<Longrightarrow> sys_inv \<sigma>"
  unfolding reachable_def
  by (induction rule: rtranclp_induct)
    (use db_inv_empty sys_step_inv in \<open>auto simp: sys_inv_def start_def\<close>)

text \<open>Steps only add, from any state.\<close>

lemma sys_step_extends: "sys_step dp \<sigma> \<sigma>' \<Longrightarrow> extends (sy_db \<sigma>) (sy_db \<sigma>')"
  by (erule sys_stepE) (auto intro: commit_extends extends_refl)

lemma sys_steps_extend: "sys_steps dp \<sigma> \<sigma>' \<Longrightarrow> extends (sy_db \<sigma>) (sy_db \<sigma>')"
  by (induction rule: rtranclp_induct) (auto intro: extends_trans sys_step_extends)

section \<open>What rows keep\<close>

text \<open>The columns that are written once, when the row is inserted.\<close>

definition job_filed :: "async_job \<Rightarrow> async_job" where
  "job_filed j = j\<lparr>aj_status := [], aj_attempts := 0, aj_result := None, aj_error_code := None,
     aj_error_detail := None, aj_updated_at := 0\<rparr>"

definition approval_asked :: "approval \<Rightarrow> approval" where
  "approval_asked a = a\<lparr>ap_status := [], ap_approved_by := None, ap_updated_at := 0\<rparr>"

definition key_reserved :: "idempotency_row \<Rightarrow> idempotency_row" where
  "key_reserved r = r\<lparr>ik_status := [], ik_result := None\<rparr>"

lemmas once_defs = job_filed_def approval_asked_def key_reserved_def update_job_def

definition keeps_rows :: "db \<Rightarrow> db \<Rightarrow> bool" where
  "keeps_rows d d' \<longleftrightarrow>
     (\<forall>k j. db_jobs d k = Some j \<longrightarrow> (\<exists>j'. db_jobs d' k = Some j' \<and> job_filed j' = job_filed j)) \<and>
     (\<forall>k a. db_approvals d k = Some a \<longrightarrow>
        (\<exists>a'. db_approvals d' k = Some a' \<and> approval_asked a' = approval_asked a)) \<and>
     (\<forall>k r. db_keys d k = Some r \<longrightarrow>
        (\<exists>r'. db_keys d' k = Some r' \<and> key_reserved r' = key_reserved r \<and>
          (ik_status r = ''completed'' \<longrightarrow> ik_status r' = ''completed'')))"

lemma keeps_rows_refl [simp]: "keeps_rows d d"
  by (simp add: keeps_rows_def)

lemma keeps_rows_trans:
  assumes "keeps_rows a b" "keeps_rows b c"
  shows "keeps_rows a c"
  unfolding keeps_rows_def
proof (intro conjI allI impI)
  fix k j assume "db_jobs a k = Some j"
  then obtain j1 where "db_jobs b k = Some j1" "job_filed j1 = job_filed j"
    using assms(1) unfolding keeps_rows_def by blast
  then show "\<exists>j'. db_jobs c k = Some j' \<and> job_filed j' = job_filed j"
    using assms(2) unfolding keeps_rows_def by metis
next
  fix k x assume "db_approvals a k = Some x"
  then obtain y where "db_approvals b k = Some y" "approval_asked y = approval_asked x"
    using assms(1) unfolding keeps_rows_def by blast
  then show "\<exists>z. db_approvals c k = Some z \<and> approval_asked z = approval_asked x"
    using assms(2) unfolding keeps_rows_def by metis
next
  fix k r assume "db_keys a k = Some r"
  then obtain r1 where "db_keys b k = Some r1" "key_reserved r1 = key_reserved r"
    "ik_status r = ''completed'' \<longrightarrow> ik_status r1 = ''completed''"
    using assms(1) unfolding keeps_rows_def by blast
  moreover from this(1) assms(2) obtain r2 where "db_keys c k = Some r2" "key_reserved r2 = key_reserved r1"
    "ik_status r1 = ''completed'' \<longrightarrow> ik_status r2 = ''completed''"
    unfolding keeps_rows_def by blast
  ultimately show "\<exists>r'. db_keys c k = Some r' \<and> key_reserved r' = key_reserved r \<and>
      (ik_status r = ''completed'' \<longrightarrow> ik_status r' = ''completed'')" by auto
qed

lemma apply_keeps_rows: "\<not> conflicts w d \<Longrightarrow> keeps_rows d (apply_write w d)"
  by (cases w) (auto simp: keeps_rows_def once_defs)

lemma commit_keeps_rows: "commit eng ws d = Inr d' \<Longrightarrow> keeps_rows d d'"
proof (induction ws arbitrary: d)
  case (Cons w ws)
  then have "\<not> conflicts w d" "commit eng ws (apply_write w d) = Inr d'" by (auto split: if_splits)
  with Cons.IH apply_keeps_rows keeps_rows_trans show ?case by blast
qed simp

lemma sys_steps_keep_rows: "sys_steps dp \<sigma> \<sigma>' \<Longrightarrow> keeps_rows (sy_db \<sigma>) (sy_db \<sigma>')"
proof (induction rule: rtranclp_induct)
  case (step \<sigma>1 \<sigma>2)
  from step(2) have "keeps_rows (sy_db \<sigma>1) (sy_db \<sigma>2)"
    by (rule sys_stepE) (auto intro: commit_keeps_rows)
  with step(3) show ?case by (rule keeps_rows_trans)
qed simp

end
