(* ===== verification/SystemProps.thy ===== *)
theory SystemProps
  imports System Routes
begin

text \<open>
  What holds in every reachable state of the running system, however requests overlap; and what
  overlapping requests and failing commits can bring about.
\<close>

section \<open>A concrete deployment\<close>

definition ref_deployment :: "string \<Rightarrow> queue_table deployment" where
  "ref_deployment token =
     \<lparr>dp_validator = strict_validate, dp_executor = ref_executor token,
      dp_worker = local_worker (ref_settings token) (default_registry (token = [])) MockDatabricksConnector\<rparr>"

lemma ref_deployment_simps [simp]:
  "dp_validator (ref_deployment t) = strict_validate"
  "dp_executor (ref_deployment t) = ref_executor t"
  "dp_engine (ref_deployment t) = SQLite"
  by (simp_all add: ref_deployment_def dp_engine_def)

lemma ref_call_steps:
  assumes "invoke strict_validate (ref_executor t) env iv (d, q) = (r, (d', q'))"
  shows "sys_steps (ref_deployment t) (start d q) (start d' q')"
  using realisedD [OF realised_invoke [of "ref_deployment t" env iv]] assms by simp

section \<open>The program's own order\<close>

lemma ref_shares_database [simp]: "shares_database (ref_deployment t)"
  by (simp add: shares_database_def) (simp add: ref_deployment_def ref_settings_def default_settings_def engine_of_url_def)



section \<open>One job for one key\<close>

lemma reachable_job_filed:
  assumes "reachable dp q \<sigma>" "db_jobs (sy_db \<sigma>) i = Some a"
  shows "aj_job_id a = i \<and> (\<exists>r. db_keys (sy_db \<sigma>) (aj_idempotency_key a) = Some r \<and> ik_job_id r = Some i)"
proof -
  have "db_inv (sy_db \<sigma>)" using reachable_inv [OF assms(1)] by (simp add: sys_inv_def)
  with assms(2) show ?thesis unfolding db_inv_def jobs_filed_def db_keyed_def by blast
qed

text \<open>C8 (invariant).
  However the transactions of requests, approvals, workers and restarts overlap, whichever of them
  are lost, and on either database, every job is filed under its idempotency key and no two jobs
  share one: a key is good for one job.\<close>

theorem one_job_per_key:
  assumes "reachable dp q \<sigma>"
    and "db_jobs (sy_db \<sigma>) i = Some a" "db_jobs (sy_db \<sigma>) j = Some b"
    and "aj_idempotency_key a = aj_idempotency_key b"
  shows "i = j \<and> a = b \<and> (\<exists>r. db_keys (sy_db \<sigma>) (aj_idempotency_key a) = Some r \<and> ik_job_id r = Some i)"
proof -
  obtain r where r: "db_keys (sy_db \<sigma>) (aj_idempotency_key a) = Some r" "ik_job_id r = Some i"
    using reachable_job_filed [OF assms(1,2)] by blast
  obtain r' where r': "db_keys (sy_db \<sigma>) (aj_idempotency_key b) = Some r'" "ik_job_id r' = Some j"
    using reachable_job_filed [OF assms(1,3)] by blast
  from r(1) r'(1) have "r = r'" unfolding assms(4) by simp
  with r(2) r'(2) have ij: "i = j" by simp
  with assms(2,3) have "a = b" by simp
  with ij r show ?thesis by blast
qed

theorem one_job_per_key_witness:
  "\<exists>\<sigma> a. reachable (ref_deployment []) [] \<sigma> \<and> db_jobs (sy_db \<sigma>) ''job_fedcba9876543210'' = Some a \<and>
    (\<exists>r. db_keys (sy_db \<sigma>) (aj_idempotency_key a) = Some r \<and> ik_job_id r = Some ''job_fedcba9876543210'')"
proof -
  obtain oc d' q' where inv: "invoke strict_validate (ref_executor []) ref_env (async_call ''k'') (empty_db, []) = (Inr oc, (d', q'))"
    and oc: "oc_decision oc = ''queued''" using ref_async_call by blast
  have r: "reachable (ref_deployment []) [] (start d' q')"
    unfolding reachable_def by (rule ref_call_steps [OF inv])
  have "registry_get (ex_registry (ref_executor [])) (iv_tool (async_call ''k'')) = Some spec_trigger_workflow"
    "db_keys empty_db (call_key ref_env (async_call ''k'')) = None" by (simp_all add: empty_db_def)
  from async_queued_effect [OF this(1) async_spec(1-3) inv oc this(2), where f = "\<lambda>_ _ _. Inl (PyExn [] [])"]
  have "db_jobs d' ''job_fedcba9876543210'' \<noteq> None" by auto
  then obtain a where a: "db_jobs (sy_db (start d' q')) ''job_fedcba9876543210'' = Some a"
    by (auto simp: start_def)
  from one_job_per_key [OF r a a refl] r a show ?thesis by blast
qed

section \<open>Approvals\<close>

lemma ref_proposal:
  "\<exists>d a. reachable (ref_deployment []) [] (start d []) \<and> db_approvals d ''apr_0123456789abcdef'' = Some a"
proof -
  obtain oc s where dec: "decide strict_validate (ref_executor []) ref_env dry_call (open_session 1000 empty_db, []) = (oc, (s, []))"
    and oc: "oc_decision oc = ''dry_run''" using dry_call_decides by blast
  let ?oc = "oc\<lparr>oc_latency_ms := latency_ms ref_env\<rparr>"
  obtain d' where inv: "invoke strict_validate (ref_executor []) ref_env dry_call (empty_db, []) = (Inr ?oc, (d', []))"
    using ref_returns [OF dec] by (auto simp: empty_db_def)
  have "registry_get (ex_registry (ref_executor [])) (iv_tool dry_call) = Some spec_crm_dry_run"
    "ts_classification spec_crm_dry_run \<noteq> DESTRUCTIVE" "ts_dry_run_required spec_crm_dry_run"
    by (simp_all add: spec_crm_dry_run_def)
  from dry_run_effect [OF this inv] oc obtain a
    where "db_approvals d' = [''apr_0123456789abcdef'' \<mapsto> a]" by (auto simp: empty_db_def)
  moreover have "reachable (ref_deployment []) [] (start d' [])"
    unfolding reachable_def by (rule ref_call_steps [OF inv])
  ultimately show ?thesis by auto
qed

text \<open>C9 (safety).
  In every reachable state, an approval that is not \<^verbatim>\<open>pending\<close> (approved, or consumed by an
  execution) has in the audit trail the approval by a caller of the admin role.\<close>

theorem approvals_have_admin_event:
  assumes "reachable dp q \<sigma>"
    and "db_approvals (sy_db \<sigma>) k = Some a" "ap_status a \<noteq> ''pending''"
  shows "\<exists>e \<in> set (db_events (sy_db \<sigma>)). ev_event_type e = ''approval.approved'' \<and>
    ev_role e = role_value ADMIN_AGENT \<and> ev_detail e = [(''approval_id'', PStr k)]"
proof -
  have "approvals_backed (sy_db \<sigma>)"
    using reachable_inv [OF assms(1)] by (simp add: sys_inv_def db_inv_def)
  with assms(2,3) show ?thesis
    by (auto simp: approvals_backed_def approval_recorded_def approval_event_def)
qed

theorem approvals_have_admin_event_witness:
  "\<exists>\<sigma> a e. reachable (ref_deployment []) [] \<sigma> \<and>
    db_approvals (sy_db \<sigma>) ''apr_0123456789abcdef'' = Some a \<and> ap_status a = ''approved'' \<and>
    e \<in> set (db_events (sy_db \<sigma>)) \<and> ev_role e = ''admin_agent''"
proof -
  let ?k = "''apr_0123456789abcdef''"
  let ?boss = "\<lparr>cl_subject = ''boss'', cl_agent_id = ''console'', cl_role = ''admin_agent''\<rparr>"
  obtain d a where r: "reachable (ref_deployment []) [] (start d [])" and a: "db_approvals d ?k = Some a"
    using ref_proposal by blast
  obtain res s where body: "approve_body ?k ?boss (open_session 2000 d, [] :: queue_table) = (Inr res, (s, []))"
    and log: "\<exists>e. se_log s = [UpdateApproval ?k ''approved'' ''boss'' 2000, AddEvent e]"
    using a by (auto simp: approve_body_def get_approval_def set_approval_def record_event_def)
  then obtain e where e: "se_log s = [UpdateApproval ?k ''approved'' ''boss'' 2000, AddEvent e]" by blast
  let ?d = "fold apply_write (se_log s) d"
  have "sys_step (ref_deployment []) (start d []) ((start d [])\<lparr>sy_open := [se_log s]\<rparr>)"
    using begin_approve [of ?boss ?k 2000 "start d []" res s "[]" "ref_deployment []"] body
    by (simp add: start_def)
  moreover have "sys_step (ref_deployment []) ((start d [])\<lparr>sy_open := [se_log s]\<rparr>) (start ?d [])"
    using commits [of "(start d [])\<lparr>sy_open := [se_log s]\<rparr>" "[]" "se_log s" "[]" "ref_deployment []" ?d] e
    by (simp add: start_def)
  ultimately have r2: "reachable (ref_deployment []) [] (start ?d [])"
    using r unfolding reachable_def by (meson rtranclp.rtrancl_into_rtrancl)
  obtain b where b: "db_approvals (sy_db (start ?d ([] :: queue_table))) ?k = Some b" "ap_status b = ''approved''"
    using a e by (auto simp: start_def)
  then have "ap_status b \<noteq> ''pending''" by simp
  from approvals_have_admin_event [OF r2 b(1) this] r2 b show ?thesis by auto
qed

section \<open>The trail\<close>

text \<open>C10 (invariant).
  Nothing that was written down is rewritten: whatever happens next, the rows of
  \<^verbatim>\<open>audit_events\<close> and \<^verbatim>\<open>tool_calls\<close> stay as they are and where they are; a job, an approval or an
  idempotency key never disappears and keeps what it was filed with (caller, tool, payload,
  proposed change, input hash); and a key that is \<^verbatim>\<open>completed\<close> stays so.\<close>

theorem audit_trail_append_only:
  assumes "sys_steps dp \<sigma> \<sigma>'"
  shows "(\<exists>es. db_events (sy_db \<sigma>') = db_events (sy_db \<sigma>) @ es) \<and>
    (\<exists>cs. db_calls (sy_db \<sigma>') = db_calls (sy_db \<sigma>) @ cs) \<and>
    keeps_rows (sy_db \<sigma>) (sy_db \<sigma>')"
  using sys_steps_extend [OF assms] sys_steps_keep_rows [OF assms] by (simp add: extends_def)

theorem audit_trail_append_only_witness:
  "\<exists>d' es cs. sys_steps (ref_deployment []) (start (empty_db\<lparr>db_events := [blank_event]\<rparr>) []) (start d' []) \<and>
     db_events d' = blank_event # es \<and> db_calls d' = cs"
proof -
  let ?d = "empty_db\<lparr>db_events := [blank_event]\<rparr>"
  obtain oc d' where "invoke strict_validate (ref_executor []) ref_env
     (ref_call ''finance_agent'' ''get_invoice_status'' [(''invoice_id'', PStr ''INV-5001'')] None None)
     (?d, []) = (Inr oc, (d', []))"
    using ref_invoice_call_on [of ?d] by (auto simp: empty_db_def)
  then have steps: "sys_steps (ref_deployment []) (start ?d []) (start d' [])" by (rule ref_call_steps)
  from audit_trail_append_only [OF steps] steps show ?thesis by (auto simp: start_def)
qed

end
