(* ===== verification/GatewayProps.thy ===== *)
theory GatewayProps
  imports Gateway Gates
begin

text \<open>
  Properties of authentication, of the published policies and of the endpoints.
\<close>

section \<open>Tokens\<close>

text \<open>The signer that goes with a deployment's settings, as the demo agent builds it.\<close>

definition settings_signer :: "settings \<Rightarrow> dev_signer" where
  "settings_signer s =
     \<lparr>ds_secret = st_dev_token_signing_secret s, ds_audience = st_entra_audience s\<rparr>"

lemma dev_verifier:
  "st_auth_mode s = Dev \<Longrightarrow>
    build_verifier s = Inr (DevTokenVerifier (st_dev_token_signing_secret s) (st_entra_audience s))"
  by (simp add: build_verifier_def)

text \<open>C24 (roundtrip).
  In dev mode a token that was minted with the secret and audience of the settings is verified,
  until it expires, to exactly the subject, agent, role and scopes it was minted for; from then
  on it is refused as expired; and one minted with another secret is refused as invalid.\<close>

theorem minted_token_identifies_caller:
  assumes "jwt_laws J" "st_auth_mode s = Dev" "build_verifier s = Inr vf"
    and "role \<noteq> []" "agent \<noteq> []" "\<forall>w \<in> set scopes. w \<noteq> [] \<and> (\<forall>c \<in> set w. \<not> is_space c)"
    and "t0 \<le> now" "secret \<noteq> st_dev_token_signing_secret s"
  shows "(if now < t0 + ttl then
       (\<exists>p. verify J now vf (mint J (settings_signer s) t0 subj agent role scopes ttl) = Inr p \<and>
          caller_of p = Some \<lparr>cl_subject = subj, cl_agent_id = agent, cl_role = role\<rparr> \<and>
          pr_scopes p = map PStr scopes)
     else verify J now vf (mint J (settings_signer s) t0 subj agent role scopes ttl) =
       Inl (AuthError ''token expired'' ''AUTH_TOKEN_EXPIRED'')) \<and>
    (\<exists>msg. verify J now vf (mint J ((settings_signer s)\<lparr>ds_secret := secret\<rparr>) t0 subj agent role scopes ttl) =
       Inl (AuthError msg ''AUTH_INVALID_TOKEN''))"
proof -
  let ?sg = "settings_signer s"
  have vf: "vf = DevTokenVerifier (ds_secret ?sg) (ds_audience ?sg)"
    using assms(2,3) by (simp add: dev_verifier settings_signer_def)
  have other: "\<exists>m. jwt_decode J now (mint J (?sg\<lparr>ds_secret := secret\<rparr>) t0 subj agent role scopes ttl)
      (ds_secret ?sg) (dev_options (ds_audience ?sg)) = Inl (InvalidToken m)"
    by (rule decode_other_key [OF assms(1)]) (use assms(8) in \<open>simp add: settings_signer_def\<close>)
  show ?thesis
    using decode_minted [OF assms(1,7), of ttl ?sg subj agent role scopes]
      principal_of_dev_claims [OF assms(4-6)] other
    by (auto simp: vf caller_of_def)
qed

theorem minted_token_identifies_caller_witness:
  "\<exists>p. verify plain_jwt 100 (DevTokenVerifier ''dev-only-not-for-production-change-me'' ''api://secure-mcp-gateway'')
      (mint plain_jwt (settings_signer default_settings) 90 ''ann'' ''agent-1'' ''hr_agent'' [''tools.invoke''] 3600) = Inr p \<and>
    caller_of p = Some \<lparr>cl_subject = ''ann'', cl_agent_id = ''agent-1'', cl_role = ''hr_agent''\<rparr>"
proof -
  have "st_auth_mode default_settings = Dev" by (simp add: default_settings_def)
  moreover from this have "build_verifier default_settings =
      Inr (DevTokenVerifier ''dev-only-not-for-production-change-me'' ''api://secure-mcp-gateway'')"
    by (simp add: dev_verifier) (simp add: default_settings_def)
  moreover have "\<forall>w \<in> set [''tools.invoke'']. w \<noteq> [] \<and> (\<forall>c \<in> set w. \<not> is_space c)" by code_simp
  moreover have "''x'' \<noteq> st_dev_token_signing_secret default_settings" by (simp add: default_settings_def)
  ultimately show ?thesis
    using minted_token_identifies_caller [OF plain_jwt_laws, of default_settings _ "''hr_agent''" "''agent-1''"
        "[''tools.invoke'']" 90 100 "''x''" 3600 "''ann''"]
    by auto
qed

lemma claims_role: "principal_from_claims c = Inr p \<Longrightarrow> truthy (pr_role p)"
  by (auto simp: principal_from_claims_def Let_def split: if_splits pyval.splits sum.splits)

lemma verified_role: "verify J now vf tok = Inr p \<Longrightarrow> truthy (pr_role p)"
  by (cases vf) (auto dest: claims_role split: sum.splits)

text \<open>C25 (safety).
  A request gets a principal only from a bearer token that the configured verifier accepts, and
  a principal always has a role; a request without a bearer token is answered 401.\<close>

theorem principal_only_from_verified_token:
  "case bearer_token h of
     None \<Rightarrow> get_principal J now vf h = Inl (HTTPException 401 ''missing bearer token'')
   | Some tok \<Rightarrow>
       (case get_principal J now vf h of
          Inr p \<Rightarrow> verify J now vf tok = Inr p \<and> truthy (pr_role p)
        | Inl e \<Rightarrow>
            (case verify J now vf tok of
               Inl (AuthError msg code) \<Rightarrow> e = HTTPException 401 msg
             | r \<Rightarrow> r = Inl e))"
  using verified_role [of J now vf]
  by (auto simp: get_principal_def split: option.split sum.split py_exn.split)

section \<open>The access matrix\<close>


section \<open>Published policies\<close>

definition synced :: "instant \<Rightarrow> tool_spec \<Rightarrow> tool_policy" where
  "synced now spec = (policy_row spec)\<lparr>tp_updated_at := now\<rparr>"

lemma upsert_effect:
  assumes "commit SQLite (se_log se) (se_snap se) = Inr (se_view se)"
  shows "commit SQLite (se_log (upsert_policy (policy_row spec) se)) (se_snap se) =
      Inr (se_view (upsert_policy (policy_row spec) se))"
    and "se_view (upsert_policy (policy_row spec) se) =
      (se_view se)\<lparr>db_policies := (db_policies (se_view se))(ts_name spec \<mapsto> synced (se_now se) spec)\<rparr>"
    and "se_snap (upsert_policy (policy_row spec) se) = se_snap se"
    and "se_now (upsert_policy (policy_row spec) se) = se_now se"
  using assms
  by (simp_all add: upsert_policy_def synced_def policy_row_def commit_append Let_def split: option.split)

lemma upserts_effect:
  assumes "commit SQLite (se_log se) (se_snap se) = Inr (se_view se)"
  shows "commit SQLite (se_log (fold (\<lambda>spec. upsert_policy (policy_row spec)) specs se)) (se_snap se) =
      Inr (fold (\<lambda>spec d. d\<lparr>db_policies := (db_policies d)(ts_name spec \<mapsto> synced (se_now se) spec)\<rparr>) specs (se_view se))"
  using assms
proof (induction specs arbitrary: se)
  case (Cons spec specs)
  from Cons.IH [OF upsert_effect(1) [OF Cons.prems, folded upsert_effect(3) [OF Cons.prems, of spec]], of]
  show ?case using upsert_effect [OF Cons.prems, of spec] by (simp add: fun_upd_def)
qed simp

lemma fold_policies:
  "fold (\<lambda>spec d. d\<lparr>db_policies := (db_policies d)(f spec \<mapsto> g spec)\<rparr>) specs d =
     d\<lparr>db_policies := fold (\<lambda>spec m. m(f spec \<mapsto> g spec)) specs (db_policies d)\<rparr>"
  by (induction specs arbitrary: d) simp_all

lemma fold_upd_distinct:
  "distinct (map f xs) \<Longrightarrow> fold (\<lambda>x m. m(f x \<mapsto> g x)) xs m = m ++ map_of (map (\<lambda>x. (f x, g x)) xs)"
proof (induction xs arbitrary: m)
  case (Cons x xs)
  then have "map_of (map (\<lambda>x. (f x, g x)) xs) (f x) = None"
    by (auto simp: map_of_eq_None_iff image_iff)
  with Cons show ?case by (auto simp: map_add_def fun_eq_iff split: option.split)
qed simp

text \<open>The policies that a synchronisation writes.\<close>

definition registry_policies :: "instant \<Rightarrow> tool_registry \<Rightarrow> string \<rightharpoonup> tool_policy" where
  "registry_policies now reg = (\<lambda>n. map_option (synced now) (registry_get reg n))"

lemma sync_run:
  assumes "registry_ok reg" "engine_of_url (st_database_url s) = SQLite"
  shows "sync_policies s now reg (e, q) =
    (Inr (), (e\<lparr>db_policies := db_policies e ++ registry_policies now reg\<rparr>, q))"
proof -
  have "map ts_name (map snd reg) = map fst reg"
    using assms(1) by (auto simp: registry_ok_def)
  then have "distinct (map ts_name (map snd reg))" using assms(1) by (simp only: registry_ok_def)
  moreover have "map_of (map (\<lambda>x. (ts_name x, synced now x)) (map snd reg)) = registry_policies now reg"
  proof -
    have "map (\<lambda>x. (ts_name x, synced now x)) (map snd reg) = map (\<lambda>(n, x). (n, synced now x)) reg"
      using assms(1) by (auto simp: registry_ok_def)
    then show ?thesis
      by (simp add: registry_policies_def registry_get_def map_of_map fun_eq_iff del: map_map)
  qed
  ultimately show ?thesis
    using upserts_effect [of "open_session now e" "map snd reg"] assms(2)
    by (simp add: sync_policies_def session_scope_def repo_def registry_list_def fold_policies
        fold_upd_distinct del: map_map)
qed



section \<open>Approving\<close>

lemma approve_body_cases:
  "approve_body k cl (open_session now d, q) =
     (case db_approvals d k of
        None \<Rightarrow> (Inl (HTTPException 404 ''approval not found''), (open_session now d, q))
      | Some a \<Rightarrow>
          (Inr [(''approval_id'', PStr k), (''status'', PStr ''approved''), (''approved_by'', PStr (cl_subject cl))],
           (record_event
              (blank_event\<lparr>ev_event_type := ''approval.approved'', ev_decision := ''approved'',
                 ev_tool_name := ap_tool_name a, ev_user_id := cl_subject cl,
                 ev_agent_id := cl_agent_id cl, ev_role := cl_role cl,
                 ev_detail := [(''approval_id'', PStr k)]\<rparr>)
              (set_approval k ''approved'' (cl_subject cl) (open_session now d)), q)))"
  by (simp add: approve_body_def get_approval_def split: option.split)



section \<open>Reading the trail back\<close>



section \<open>A gateway that has started\<close>

text \<open>The application state after a start in dev mode with the local queue and the mock connector.\<close>

definition local_app :: "settings \<Rightarrow> queue_table app_state" where
  "local_app s =
     (let mq = LocalQueue \<lparr>lq_queue = st_servicebus_queue_name s, lq_max_delivery = st_queue_max_delivery_count s\<rparr>;
          reg = default_registry (is_demo s)
      in \<lparr>app_settings = s, app_registry = reg,
          app_verifier = DevTokenVerifier (st_dev_token_signing_secret s) (st_entra_audience s), app_queue = mq,
          app_executor = new_executor reg s mq MockDatabricksConnector\<rparr>)"

definition local_settings :: "settings \<Rightarrow> bool" where
  "local_settings s \<longleftrightarrow> st_auth_mode s = Dev \<and> st_queue_backend s = Local \<and> st_databricks_mode s = Mock \<and>
     engine_of_url (st_database_url s) = SQLite"

lemma startup_local:
  assumes "local_settings s" "build_queue az s = Inr (UseLocal mq)"
  shows "startup s now (Inr mq) (d, q) = (Inr (local_app s),
    (d\<lparr>db_policies := db_policies d ++ registry_policies now (default_registry (is_demo s))\<rparr>, q))"
  using assms sync_run [OF default_registry_ok [of "is_demo s"], of s now d q]
  by (simp add: local_settings_def startup_def build_default_registry_def build_registry_eq bind_prog_def
      build_connector_def dev_verifier local_app_def build_queue_def Let_def)

lemma local_default: "local_settings default_settings"
  by (simp add: local_settings_def default_settings_def engine_of_url_def)

end
