(* ===== verification/Races.thy ===== *)
theory Races
  imports SystemProps
begin

text \<open>
  What goes wrong when the transaction of a call is not alone, or fails to commit: the queue and
  the handlers act outside it.
\<close>

section \<open>A commit that fails after the message was published\<close>

lemma async_call_log:
  assumes "registry_get (ex_registry ex) (iv_tool iv) = Some spec"
    and "ts_classification spec \<noteq> DESTRUCTIVE" "\<not> ts_dry_run_required spec" "ts_execution_mode spec = ASYNC"
    and "authorised ex iv" "validate_args V spec (iv_arguments iv) = Inr args"
    and "db_keys d (call_key env iv) = None"
    and "mq_publish (ex_queue ex) (ce_now env) (job_message env iv spec args) q = (Inr (), q')"
  shows "\<exists>oc s r j. decide V ex env iv (open_session (ce_now env) d, q) = (oc, (s, q')) \<and>
    oc_decision oc = ''queued'' \<and> log_by (open_session (ce_now env) d) [AddKey r, AddJob j] s \<and>
    ik_key r = call_key env iv \<and> aj_job_id j = job_id_of env"
proof -
  let ?s0 = "open_session (ce_now env) d"
  have free: "get_idempotency (call_key env iv) ?s0 = None" using assms(7) by (simp add: get_idempotency_def)
  from handle_async_ok [OF free assms(8)] obtain oc s where
    h: "handle_async ex env iv spec args (?s0, q) = (Inr oc, (s, q'))" and oc: "oc_decision oc = ''queued''" by blast
  have log: "s = create_job (queued_job env iv spec args) (snd (reserve_idempotency (call_key env iv)
      (ts_name spec) (iv_input_hash iv) (Some (job_id_of env)) ?s0))"
    using h by (cases rule: handle_async_cases) (use free in auto)
  have "decide V ex env iv (?s0, q) = (oc, (s, q'))"
    by (rule decide_answered [OF assms(1,5,6)]) (simp add: route_async [OF assms(2-4)] h)
  with oc show ?thesis
    by (auto simp: log reserve_free [OF free] create_job_def queued_job_def)
qed


definition pg_executor :: "queue_table executor" where
  "pg_executor = new_executor (default_registry True)
     (default_settings\<lparr>st_database_url := ''postgresql+psycopg://db''\<rparr>) (LocalQueue ref_queue) MockDatabricksConnector"

lemma pg_executor_simps [simp]:
  "ex_registry pg_executor = default_registry True" "ex_known_roles pg_executor = all_roles"
  "ex_queue pg_executor = LocalQueue ref_queue"
  "engine_of_url (st_database_url (ex_settings pg_executor)) = Postgres"
  by (simp_all add: pg_executor_def new_executor_def engine_of_url_def)


section \<open>Two calls under one approval\<close>

lemma destructive_log:
  assumes "registry_get (ex_registry ex) (iv_tool iv) = Some spec" "ts_classification spec = DESTRUCTIVE"
    and "authorised ex iv" "validate_args V spec (iv_arguments iv) = Inr args"
    and "st_admin_approval_token (ex_settings ex) \<noteq> []"
    and "iv_approval_token iv = Some (st_admin_approval_token (ex_settings ex))"
    and "approval_ref args = Some a" "db_approvals d a = Some ap" "ap_status ap = ''approved''"
    and "ts_run spec (ex_tool_ctx ex) args = Inr result"
  shows "\<exists>oc s. decide V ex env iv (open_session now d, q) = (oc, (s, q)) \<and> oc_decision oc = ''executed'' \<and>
    oc_approval_id oc = Some a \<and>
    log_by (open_session now d) [UpdateApproval (ap_approval_id ap) ''consumed'' (cl_subject (iv_caller iv)) now] s"
proof -
  from destructive_decides [OF assms, of env now q] obtain oc s where
    dec: "decide V ex env iv (open_session now d, q) = (oc, (s, q))" and oc: "oc_decision oc = ''executed''" by blast
  from dec show ?thesis
  proof (cases rule: decide_cases)
    case (routed spec' args' r)
    with assms(1,4) have eqs: "spec' = spec" "args' = args" by simp_all
    from routed(4) have "handle_destructive ex env iv spec args (open_session now d, q) = (r, (s, q))"
      by (simp add: eqs route_destructive [OF assms(2)])
    then show ?thesis
    proof (cases rule: handle_destructive_cases)
      case (applied a' ap' result' oc')
      then have "a' = a" "ap' = ap" using assms(7,8) by (simp_all add: get_approval_def)
      with applied routed(5) dec oc show ?thesis by (auto simp: set_approval_def)
    qed (use routed(5) oc in \<open>auto simp: failed_outcome_def refused_def outcome_for_def InvocationOutcome_def\<close>)
  qed (use oc in simp_all)
qed

lemma invoke_body_log:
  assumes "decide V ex env iv (open_session (ce_now env) d, q) = (oc, (s, q'))"
    and "log_by (open_session (ce_now env) d) ws s"
  shows "\<exists>s'. invoke_body V ex env iv (open_session (ce_now env) d, q) =
      (Inr (oc\<lparr>oc_latency_ms := latency_ms env\<rparr>), (s', q')) \<and>
    se_log s' = ws @ call_log env iv (oc\<lparr>oc_latency_ms := latency_ms env\<rparr>)"
  using assms
  by (auto simp: invoke_body_def finish_def log_by_def record_tool_call_def record_event_def call_log_def
      open_session_def se_add_def Let_def)

text \<open>The destructive call, up to the commit: it consumes the approval of its snapshot.\<close>

lemma destructive_body:
  assumes "ce_now env = 1000"
  obtains oc t where
    "invoke_body strict_validate (ref_executor ''s3cret'') env destructive_call
      (open_session (ce_now env) approved_db, [] :: queue_table) = (Inr oc, (t, []))"
    "oc_decision oc = ''executed''"
    "se_log t = UpdateApproval ''apr_1'' ''consumed'' ''user'' 1000 # call_log env destructive_call oc"
proof -
  let ?ex = "ref_executor ''s3cret''" and ?se = "open_session (ce_now env) approved_db"
  let ?upd = "UpdateApproval ''apr_1'' ''consumed'' ''user'' 1000"
  obtain result where
    run: "ts_run (spec_crm_execute False) (ex_tool_ctx ?ex) destructive_args = Inr result"
    using destructive_call_facts(10) by blast
  have id: "ap_approval_id draft_approval = ''apr_1''" by (simp add: draft_approval_def)
  obtain oc s where d: "decide strict_validate ?ex env destructive_call (?se, [] :: queue_table) = (oc, (s, []))"
    "oc_decision oc = ''executed''" "log_by ?se [?upd] s"
    using destructive_log [OF destructive_call_facts(1-9) run, of env "ce_now env" "[]"] by (auto simp: id assms)
  obtain t where "invoke_body strict_validate ?ex env destructive_call (?se, [] :: queue_table) =
      (Inr (oc\<lparr>oc_latency_ms := latency_ms env\<rparr>), (t, []))"
    "se_log t = [?upd] @ call_log env destructive_call (oc\<lparr>oc_latency_ms := latency_ms env\<rparr>)"
    using invoke_body_log [OF d(1,3)] by blast
  with d(2) that show thesis by simp
qed


end
