(* ===== verification/Telemetry.thy ===== *)
theory Telemetry
  imports Gateway Guarantees WorkerFacts
begin

text \<open>
  \<^verbatim>\<open>packages/telemetry/otel.py\<close> and \<^verbatim>\<open>app/logging_mw.py\<close>: the tracer set-up, the active trace
  id and the access log. The OpenTelemetry SDK is third-party code: whether it is installed,
  whether the OTLP exporter can be built, and the active span's trace id (0 when there is none)
  are parameters.
\<close>

section \<open>Tracer set-up (\<^verbatim>\<open>otel.py\<close>)\<close>

datatype span_processor = BatchOtlp string | SimpleConsole

record tracer_provider =
  pv_service_name :: string
  pv_processors :: "span_processor list"

text \<open>The module's \<^verbatim>\<open>_INITIALISED\<close> and the global tracer provider.\<close>

record telemetry =
  tl_initialised :: bool
  tl_provider :: "tracer_provider option"

definition fresh_telemetry :: telemetry where
  "fresh_telemetry = \<lparr>tl_initialised = False, tl_provider = None\<rparr>"

definition setup_telemetry ::
  "bool \<Rightarrow> bool \<Rightarrow> string \<Rightarrow> string \<Rightarrow> bool \<Rightarrow> bool \<Rightarrow> telemetry \<Rightarrow> telemetry" where
  "setup_telemetry otel_available exporter_builds service_name otlp_endpoint enabled console_fallback t =
     (if tl_initialised t \<or> \<not> otel_available \<or> \<not> enabled then t
      else
        (let exported = (otlp_endpoint \<noteq> [] \<and> exporter_builds) in
         \<lparr>tl_initialised = True,
          tl_provider = Some \<lparr>pv_service_name = service_name,
            pv_processors = (if exported then [BatchOtlp otlp_endpoint] else [])
              @ (if \<not> exported \<and> console_fallback then [SimpleConsole] else [])\<rparr>\<rparr>))"

text \<open>
  The worker's \<^verbatim>\<open>main\<close>: its own service name, then the worker, which builds its queue first.
  \<^verbatim>\<open>create_all\<close> leaves existing tables as they are.
\<close>

definition worker_main ::
  "bool \<Rightarrow> bool \<Rightarrow> settings \<Rightarrow> (settings \<Rightarrow> 'q message_queue res) \<Rightarrow> poll_clock list \<Rightarrow>
   telemetry \<Rightarrow> db \<times> 'q \<Rightarrow> unit res \<times> telemetry \<times> (db \<times> 'q)" where
  "worker_main otel_available exporter_builds s build clks t dq =
     (let t' = setup_telemetry otel_available exporter_builds ''mcp-worker''
                 (st_otel_exporter_otlp_endpoint s) (st_otel_enabled s) (st_otel_console_fallback s) t
      in case bind_res (build s) (new_worker s) of
           Inl e \<Rightarrow> (Inl e, t', dq)
         | Inr w \<Rightarrow> (Inr (), t', snd (run_forever w clks dq)))"

text \<open>
  \<^verbatim>\<open>span\<close> around a body, on the SDK as a parameter: opening a span and setting an attribute,
  which may raise; each attribute's exceptions are suppressed. An exception of the body passes
  through the context manager.
\<close>

record 'sp otel_sdk =
  sdk_start :: "string \<Rightarrow> 'sp"
  sdk_set_attribute :: "string \<Rightarrow> pyval \<Rightarrow> ('sp, unit) prog"

definition set_attributes :: "'sp otel_sdk \<Rightarrow> pydict \<Rightarrow> 'sp \<Rightarrow> 'sp" where
  "set_attributes sdk attributes sp = fold (\<lambda>(k, v) sp. snd (sdk_set_attribute sdk k v sp)) attributes sp"

definition span ::
  "bool \<Rightarrow> 'sp otel_sdk \<Rightarrow> string \<Rightarrow> pydict option \<Rightarrow> ('sp option \<Rightarrow> ('s, 'a) prog) \<Rightarrow> ('s, 'a) prog" where
  "span otel_available sdk name attributes body =
     (if \<not> otel_available then body None
      else let sp = sdk_start sdk name in
        body (Some (case attributes of None \<Rightarrow> sp | Some a \<Rightarrow> set_attributes sdk a sp)))"

text \<open>\<^verbatim>\<open>format(ctx.trace_id, "032x")\<close> of a 128-bit id.\<close>

definition hex32 :: "128 word \<Rightarrow> string" where
  "hex32 x = map (\<lambda>i. hex_digit (nat (uint x div 16 ^ i mod 16))) (rev [0..<32])"

definition current_trace_id :: "bool \<Rightarrow> 128 word \<Rightarrow> string option" where
  "current_trace_id otel_available trace_id =
     (if \<not> otel_available \<or> trace_id = 0 then None else Some (hex32 trace_id))"

section \<open>Access log (\<^verbatim>\<open>logging_mw.py\<close>)\<close>

text \<open>The handlers on the \<^verbatim>\<open>nervora.access\<close> logger, and the function's own flag.\<close>

record json_logging =
  jl_handlers :: nat
  jl_propagate :: bool
  jl_done :: bool

definition configure_json_logging :: "json_logging \<Rightarrow> json_logging" where
  "configure_json_logging j =
     (if jl_done j then j
      else \<lparr>jl_handlers = jl_handlers j + 1, jl_propagate = False, jl_done = True\<rparr>)"

definition access_record ::
  "string \<Rightarrow> string \<Rightarrow> pyfloat \<Rightarrow> pyfloat \<Rightarrow> string option \<Rightarrow> http_reply \<Rightarrow> pydict" where
  "access_record meth path started finished active_trace r =
     (let header = (\<lambda>k. case map_of (hr_headers r) k of None \<Rightarrow> '''' | Some v \<Rightarrow> v);
          active = (case active_trace of None \<Rightarrow> '''' | Some t \<Rightarrow> t)
      in [(''event'', PStr ''http_request''), (''method'', PStr meth), (''path'', PStr path),
          (''status'', PInt (int (hr_status r))),
          (''latency_ms'', PFloat (round2 (fl_mul_int (fl_minus finished started) 1000))),
          (''trace_id'', PStr (if header ''X-Trace-Id'' \<noteq> [] then header ''X-Trace-Id'' else active)),
          (''request_id'', PStr (header ''X-Request-Id''))])"

text \<open>The line itself, compact and in the order of the entries.\<close>

definition access_line :: "pydict \<Rightarrow> string" where
  "access_line rec =
     ''{'' @ join '','' (map (\<lambda>(k, v). json_str k @ '':'' @ json_dumps v) rec) @ ''}''"

section \<open>Properties\<close>

text \<open>
  The tracer is set up once per process: after a set-up that took effect, further ones change
  nothing, whatever their arguments; and then there is at most one processor, the OTLP one exactly
  when an endpoint was given and its exporter could be built, otherwise the console if allowed.\<close>

lemma telemetry_set_up_once:
  "setup_telemetry av2 bl2 name2 url2 en2 con2 (setup_telemetry True bl name url True con fresh_telemetry) =
     setup_telemetry True bl name url True con fresh_telemetry \<and>
   map_option pv_processors (tl_provider (setup_telemetry True bl name url True con fresh_telemetry)) =
     Some (if url \<noteq> [] \<and> bl then [BatchOtlp url] else if con then [SimpleConsole] else [])"
  by (simp add: setup_telemetry_def fresh_telemetry_def Let_def)

text \<open>
  With the local queue and the mock connector the worker process starts, is the worker whose
  properties are proved elsewhere, and ends when it is stopped.
\<close>

lemma worker_main_local:
  assumes "st_databricks_mode s = Mock"
  shows "worker_main av bl s (\<lambda>s. Inr (LocalQueue \<lparr>lq_queue = st_servicebus_queue_name s,
       lq_max_delivery = st_queue_max_delivery_count s\<rparr>)) clks t dq =
     (Inr (), setup_telemetry av bl ''mcp-worker'' (st_otel_exporter_otlp_endpoint s) (st_otel_enabled s)
        (st_otel_console_fallback s) t,
      snd (run_forever (local_worker s (default_registry (is_demo s)) MockDatabricksConnector) clks dq))"
  using assms
  by (simp add: worker_main_def new_worker_def build_default_registry_def build_registry_eq build_connector_def
      local_worker_def)

text \<open>
  No caller uses the span it is given, so the pipeline and the worker, which are modelled without
  their spans, do the same with them: whatever the SDK does, an attribute it rejects included.
\<close>

lemma span_transparent: "span av sdk name attributes (\<lambda>_. body) = body"
  by (simp add: span_def Let_def)

lemma hex_digit_mod: "hex_digit (nat (x mod 16)) \<in> set hex_chars"
proof -
  have "0 \<le> x mod 16" "x mod 16 < 16" by simp_all
  then have "nat (x mod 16) < 16" by linarith
  then show ?thesis by (rule hex_digit_chars)
qed

lemma hex32_shape: "length (hex32 x) = 32 \<and> set (hex32 x) \<subseteq> set hex_chars"
  by (auto simp: hex32_def hex_digit_mod)

text \<open>
  The trace id of a call is always 32 lower-case hexadecimal digits, whether it comes from the
  active span or is generated: it fits its columns.\<close>

lemma trace_id_shape:
  assumes "uuid_hex_ok (ce_trace_uuid env)" "ce_current_trace env = current_trace_id av tid"
  shows "length (iv_trace env) = 32 \<and> set (iv_trace env) \<subseteq> set hex_chars \<and> fits 64 (iv_trace env)"
  using assms hex32_shape [of tid]
  by (auto simp: iv_trace_def text_or_def current_trace_id_def uuid_hex_ok_def gen_trace_id_def fits_def
      split: option.splits if_splits)

definition ref_uuid :: uuid_hex where
  "ref_uuid = replicate 32 CHR ''a''"

lemma ref_uuid_ok: "uuid_hex_ok ref_uuid"
  by (simp add: uuid_hex_ok_def ref_uuid_def hex_chars_def)

theorem trace_id_shape_witness:
  "length (iv_trace (ref_env\<lparr>ce_trace_uuid := ref_uuid, ce_current_trace := current_trace_id True 0x2a\<rparr>)) = 32"
  using trace_id_shape [of "ref_env\<lparr>ce_trace_uuid := ref_uuid, ce_current_trace := current_trace_id True 0x2a\<rparr>" True "0x2a"]
    ref_uuid_ok by simp

text \<open>C36 (functional).
  The access log and the audit trail can be joined: the log record of an invocation that was
  answered carries the trace id and the request id of the row that the call added to
  \<^verbatim>\<open>tool_calls\<close>, and the HTTP status that belongs to that row's decision.\<close>

theorem access_log_joins_audit_trail:
  assumes "invoke_tool V app env cl tool body key tok (d, q) = (Inr r, (d', q'))"
    and "ce_trace_uuid env \<noteq> []"
  shows "\<exists>row oc. db_calls d' = db_calls d @ [row] \<and> tc_tool_name row = tool \<and>
    dict_get (access_record meth path started finished active r) ''trace_id'' = PStr (tc_trace_id row) \<and>
    dict_get (access_record meth path started finished active r) ''request_id'' = PStr (tc_request_id row) \<and>
    dict_get (access_record meth path started finished active r) ''status'' = PInt (int (http_status oc)) \<and>
    oc_decision oc = tc_decision row"
proof -
  let ?iv = "\<lparr>iv_caller = cl, iv_tool = tool, iv_arguments = rq_arguments body,
    iv_idempotency_key = (case key of None \<Rightarrow> rq_idempotency_key body
      | Some k \<Rightarrow> if k = [] then rq_idempotency_key body else Some k),
    iv_approval_token = tok, iv_request_id = None\<rparr>"
  from assms(1) obtain oc where inv: "invoke V (app_executor app) env ?iv (d, q) = (Inr oc, (d', q'))"
    and r: "r = \<lparr>hr_status = http_status oc,
      hr_headers = [(''X-Trace-Id'', oc_trace_id oc), (''X-Request-Id'', oc_request_id oc)],
      hr_body = PDict (invoke_response oc)\<rparr>"
    by (auto simp: invoke_tool_def prog_Inr)
  have "iv_trace env \<noteq> []"
    using assms(2) by (auto simp: iv_trace_def text_or_def split: option.splits)
  show ?thesis
  proof (cases rule: invoke_cases [of V "app_executor app" env ?iv d q])
    case (aborted e q1)
    with inv show ?thesis by simp
  next
    case (recorded oc0 oc1 se q1 ws)
    let ?row = "(call_row env ?iv oc)\<lparr>tc_created_at := ce_now env\<rparr>"
    have eqs: "oc1 = oc" "d' = fold apply_write (ws @ call_log env ?iv oc) d" using recorded(1) inv by simp_all
    have "db_calls d' = db_calls d @ [?row]"
      using no_audit_frame [OF recorded(5)] by (simp add: eqs(2))
    moreover have "oc_request_id oc = iv_request env ?iv" "oc_trace_id oc = iv_trace env"
      using decide_ids [OF recorded(2)] recorded(3) eqs(1) by auto
    ultimately show ?thesis
      using \<open>iv_trace env \<noteq> []\<close>
      by (intro exI [of _ ?row] exI [of _ oc]) (simp add: r access_record_def dict_get_def call_row_def Let_def)
  qed
qed

definition ref_app :: "queue_table app_state" where
  "ref_app = \<lparr>app_settings = ref_settings [], app_registry = default_registry True,
     app_verifier = DevTokenVerifier ''s'' ''a'', app_queue = LocalQueue ref_queue,
     app_executor = ref_executor []\<rparr>"

theorem access_log_joins_audit_trail_witness:
  "\<exists>r d' row. invoke_tool strict_validate ref_app ref_env
      \<lparr>cl_subject = ''user'', cl_agent_id = ''agent'', cl_role = ''finance_agent''\<rparr> ''get_invoice_status''
      \<lparr>rq_arguments = [(''invoice_id'', PStr ''INV-5001'')], rq_idempotency_key = None\<rparr> None None
      (empty_db, []) = (Inr r, (d', [])) \<and> db_calls d' = [row] \<and>
    dict_get (access_record ''POST'' ''/tools/get_invoice_status/invoke'' (FlFin 0 0) (FlFin 1 0) None r) ''trace_id'' =
      PStr (tc_trace_id row)"
proof -
  obtain oc d' where "invoke strict_validate (ref_executor []) ref_env
       (ref_call ''finance_agent'' ''get_invoice_status'' [(''invoice_id'', PStr ''INV-5001'')] None None)
       (empty_db, []) = (Inr oc, (d', []))"
    using ref_invoice_call by blast
  then obtain r where inv: "invoke_tool strict_validate ref_app ref_env
      \<lparr>cl_subject = ''user'', cl_agent_id = ''agent'', cl_role = ''finance_agent''\<rparr> ''get_invoice_status''
      \<lparr>rq_arguments = [(''invoice_id'', PStr ''INV-5001'')], rq_idempotency_key = None\<rparr> None None
      (empty_db, []) = (Inr r, (d', []))"
    by (simp add: invoke_tool_def ref_app_def ref_call_def bind_prog_def)
  have "ce_trace_uuid ref_env \<noteq> []" by (simp add: ref_env_def)
  from access_log_joins_audit_trail [OF inv this, where meth = "''POST''"
      and path = "''/tools/get_invoice_status/invoke''" and started = "FlFin 0 0" and finished = "FlFin 1 0" and active = None] inv
  show ?thesis by (auto simp: empty_db_def)
qed

end
