(* ===== verification/AzureBus.thy ===== *)
theory AzureBus
  imports WorkerFacts
begin

text \<open>
  \<^verbatim>\<open>packages/servicebus/azure_bus.py\<close>: the Azure Service Bus adapter. The SDK is third-party
  code: the record \<open>azure_sdk\<close> holds the calls the adapter makes, on a state of its own, and
  \<open>azure_laws\<close> states what they do to the liveness of a receiver. As for the local queue, a
  message text is kept as the JSON value it decodes to.
\<close>

section \<open>The SDK\<close>

record raw_message =
  rm_body :: pydict
  rm_delivery_count :: "nat option"
  rm_lock :: nat

record 'az azure_sdk =
  az_client :: "string \<Rightarrow> ('az, nat) prog"
  az_close_client :: "nat \<Rightarrow> ('az, unit) prog"
  az_sender :: "nat \<Rightarrow> string \<Rightarrow> ('az, nat) prog"
  az_close_sender :: "nat \<Rightarrow> ('az, unit) prog"
  az_send :: "nat \<Rightarrow> pydict \<Rightarrow> ('az, unit) prog"
  az_receiver :: "nat \<Rightarrow> string \<Rightarrow> nat \<Rightarrow> ('az, nat) prog"   \<comment> \<open>in peek-lock mode, with a wait time\<close>
  az_close :: "nat \<Rightarrow> ('az, unit) prog"
  az_fetch :: "nat \<Rightarrow> nat \<Rightarrow> nat \<Rightarrow> ('az, raw_message list) prog"
  az_complete :: "nat \<Rightarrow> raw_message \<Rightarrow> ('az, unit) prog"
  az_abandon :: "nat \<Rightarrow> raw_message \<Rightarrow> ('az, unit) prog"
  az_dead_letter :: "nat \<Rightarrow> raw_message \<Rightarrow> string \<Rightarrow> string \<Rightarrow> ('az, unit) prog"

text \<open>
  Documented behaviour: a message is settled through the receiver that received it, and a
  receiver that has been shut down refuses to; shutting down the client brings none back.
\<close>

definition azure_laws :: "'az azure_sdk \<Rightarrow> ('az \<Rightarrow> nat \<Rightarrow> bool) \<Rightarrow> bool" where
  "azure_laws A live \<longleftrightarrow>
     (\<forall>r q x q'. az_close A r q = (Inr x, q') \<longrightarrow> \<not> live q' r) \<and>
     (\<forall>c r q x q'. az_close_client A c q = (Inr x, q') \<longrightarrow> \<not> live q r \<longrightarrow> \<not> live q' r) \<and>
     (\<forall>r m q. \<not> live q r \<longrightarrow> (\<exists>e. az_complete A r m q = (Inl e, q)) \<and>
        (\<exists>e. az_abandon A r m q = (Inl e, q)) \<and> (\<forall>s t. \<exists>e. az_dead_letter A r m s t q = (Inl e, q)))"

section \<open>The adapter\<close>

text \<open>\<^verbatim>\<open>with r: body\<close>: close whatever the body does; an exception of the body goes on.\<close>

definition with_closed :: "('s, unit) prog \<Rightarrow> ('s, 'a) prog \<Rightarrow> ('s, 'a) prog" where
  "with_closed close body s =
     (let (r, s') = body s in
      case close s' of (Inl e, s'') \<Rightarrow> (Inl e, s'') | (Inr _, s'') \<Rightarrow> (r, s''))"

record azure_queue =
  aq_conn :: string
  aq_queue :: string

record azure_message =
  am_body :: pydict
  am_delivery_count :: nat
  am_handle :: raw_message
  am_receiver :: nat

definition new_azure_queue :: "string \<Rightarrow> string \<Rightarrow> azure_queue res" where
  "new_azure_queue connection_string queue_name =
     (if connection_string = []
      then Inl (PyExn ''ValueError'' ''AzureServiceBusQueue requires SERVICEBUS_CONNECTION_STRING'')
      else Inr \<lparr>aq_conn = connection_string, aq_queue = queue_name\<rparr>)"

definition azure_publish :: "'az azure_sdk \<Rightarrow> azure_queue \<Rightarrow> pydict \<Rightarrow> ('az, unit) prog" where
  "azure_publish A aq body =
     bind_prog (az_client A (aq_conn aq)) (\<lambda>client.
       with_closed (az_close_client A client)
         (bind_prog (az_sender A client (aq_queue aq)) (\<lambda>sender.
            with_closed (az_close_sender A sender) (az_send A sender body))))"

definition azure_message_of :: "nat \<Rightarrow> raw_message \<Rightarrow> azure_message" where
  "azure_message_of receiver raw =
     \<lparr>am_body = rm_body raw,
      am_delivery_count = (case rm_delivery_count raw of None \<Rightarrow> 1 | Some n \<Rightarrow> if n = 0 then 1 else n),
      am_handle = raw, am_receiver = receiver\<rparr>"

definition azure_receive :: "'az azure_sdk \<Rightarrow> azure_queue \<Rightarrow> nat \<Rightarrow> ('az, azure_message list) prog" where
  "azure_receive A aq max_messages =
     bind_prog (az_client A (aq_conn aq)) (\<lambda>client.
       with_closed (az_close_client A client)
         (bind_prog (az_receiver A client (aq_queue aq) 5) (\<lambda>receiver.
            with_closed (az_close A receiver)
              (bind_prog (az_fetch A receiver max_messages 5)
                (\<lambda>received q. (Inr (map (azure_message_of receiver) received), q))))))"

definition azure_complete :: "'az azure_sdk \<Rightarrow> azure_message \<Rightarrow> ('az, unit) prog" where
  "azure_complete A m = az_complete A (am_receiver m) (am_handle m)"

definition azure_abandon :: "'az azure_sdk \<Rightarrow> azure_message \<Rightarrow> ('az, unit) prog" where
  "azure_abandon A m = az_abandon A (am_receiver m) (am_handle m)"

definition azure_dead_letter :: "'az azure_sdk \<Rightarrow> azure_message \<Rightarrow> string \<Rightarrow> ('az, unit) prog" where
  "azure_dead_letter A m reason =
     az_dead_letter A (am_receiver m) (am_handle m) (if reason = [] then ''explicit'' else reason) reason"

section \<open>Settling\<close>

lemma with_closed_Inr [prog_Inr]:
  "with_closed close body s = (Inr x, s'') \<longleftrightarrow>
     (\<exists>s' u. body s = (Inr x, s') \<and> close s' = (Inr u, s''))"
  by (auto simp: with_closed_def split: prod.splits sum.splits)


text \<open>An SDK with one message that counts its live receivers, for the witness.\<close>

definition raw_one :: raw_message where
  "raw_one = \<lparr>rm_body = [], rm_delivery_count = Some 1, rm_lock = 1\<rparr>"

definition settle_live :: "nat \<Rightarrow> (nat set, unit) prog" where
  "settle_live r q = (if r \<in> q then (Inr (), q) else (Inl (PyExn ''ValueError'' ''shutdown''), q))"

definition plain_sdk :: "nat set azure_sdk" where
  "plain_sdk = \<lparr>az_client = (\<lambda>c q. (Inr 0, q)), az_close_client = (\<lambda>c q. (Inr (), q)),
     az_sender = (\<lambda>c n q. (Inr 3, q)), az_close_sender = (\<lambda>r q. (Inr (), q)), az_send = (\<lambda>r b q. (Inr (), q)),
     az_receiver = (\<lambda>c n t q. (Inr 7, insert 7 q)), az_close = (\<lambda>r q. (Inr (), q - {r})),
     az_fetch = (\<lambda>r n t q. (Inr [raw_one], q)),
     az_complete = (\<lambda>r m. settle_live r), az_abandon = (\<lambda>r m. settle_live r),
     az_dead_letter = (\<lambda>r m s t. settle_live r)\<rparr>"


end
