(* ===== verification/Http.thy ===== *)
theory Http
  imports Telemetry
begin

text \<open>
  The gateway at the level of HTTP requests: the routes that \<^verbatim>\<open>app/main.py\<close> declares, the
  authentication dependency in front of the endpoints, and the access-log middleware around all
  of it. FastAPI is third-party code; its documented part is modelled (declared routes are tried
  in order, a dependency runs before the endpoint and before the body is validated, an
  \<^verbatim>\<open>HTTPException\<close> becomes a JSON reply, any other exception a server error), and what it
  answers on its own account is a parameter of the server. The CORS middleware of demo mode,
  which adds headers and answers preflight requests, is left out.
\<close>

section \<open>Requests and replies\<close>

text \<open>The body of a request: none, text that is no JSON, or a JSON value.\<close>

datatype body = NoBody | BadBody | JsonBody pyval

record http_request =
  hq_method :: string
  hq_path :: string
  hq_query :: "(string \<times> string) list"
  hq_headers :: "(string \<times> string) list"
  hq_body :: body

datatype wire_reply = JsonReply http_reply | ServerError

text \<open>Header names compare without case; the first of several counts.\<close>

definition header :: "http_request \<Rightarrow> string \<Rightarrow> string option" where
  "header rq name =
     map_of (map (\<lambda>(k, v). (map lower_char k, v)) (hq_headers rq)) (map lower_char name)"

text \<open>Of several values of a query parameter the last counts.\<close>

definition query_param :: "http_request \<Rightarrow> string \<Rightarrow> string option" where
  "query_param rq name = map_of (rev (hq_query rq)) name"

definition json_reply :: "nat \<Rightarrow> pyval \<Rightarrow> http_reply" where
  "json_reply status v = \<lparr>hr_status = status, hr_headers = [], hr_body = v\<rparr>"

definition detail_reply :: "nat \<Rightarrow> string \<Rightarrow> http_reply" where
  "detail_reply status d = json_reply status (PDict [(''detail'', PStr d)])"

section \<open>Routes\<close>

datatype segment = Lit string | Param

datatype endpoint =
    Healthz | Health | HealthAi | ListTools | InvokeTool | GetJob | Approve
  | AuditToolCalls | AuditEvents | QueueStats

type_synonym http_route = "string \<times> segment list"

definition healthz_route :: http_route where "healthz_route = (''GET'', [Lit ''healthz''])"
definition health_route :: http_route where "health_route = (''GET'', [Lit ''health''])"
definition health_ai_route :: http_route where "health_ai_route = (''GET'', [Lit ''health'', Lit ''ai''])"
definition tools_route :: http_route where "tools_route = (''GET'', [Lit ''tools''])"
definition invoke_route :: http_route where "invoke_route = (''POST'', [Lit ''tools'', Param, Lit ''invoke''])"
definition job_route :: http_route where "job_route = (''GET'', [Lit ''jobs'', Param])"
definition approve_route :: http_route where
  "approve_route = (''POST'', [Lit ''approvals'', Param, Lit ''approve''])"
definition calls_route :: http_route where "calls_route = (''GET'', [Lit ''audit'', Lit ''tool-calls''])"
definition events_route :: http_route where "events_route = (''GET'', [Lit ''audit'', Lit ''events''])"
definition stats_route :: http_route where "stats_route = (''GET'', [Lit ''queue'', Lit ''stats''])"

definition ROUTES :: "(endpoint \<times> http_route) list" where
  "ROUTES =
     [(Healthz, healthz_route), (Health, health_route), (HealthAi, health_ai_route),
      (ListTools, tools_route), (InvokeTool, invoke_route), (GetJob, job_route),
      (Approve, approve_route), (AuditToolCalls, calls_route), (AuditEvents, events_route),
      (QueueStats, stats_route)]"

lemmas route_defs = healthz_route_def health_route_def health_ai_route_def tools_route_def
  invoke_route_def job_route_def approve_route_def calls_route_def events_route_def stats_route_def

text \<open>A path parameter takes one non-empty segment.\<close>

fun match_segments :: "segment list \<Rightarrow> string list \<Rightarrow> string list option" where
  "match_segments [] [] = Some []"
| "match_segments (Lit t # ps) (w # ws) = (if w = t then match_segments ps ws else None)"
| "match_segments (Param # ps) (w # ws) =
     (if w = [] then None else map_option ((#) w) (match_segments ps ws))"
| "match_segments _ _ = None"

fun split_on :: "char \<Rightarrow> string \<Rightarrow> string list" where
  "split_on c [] = [[]]"
| "split_on c (x # xs) =
     (if x = c then [] # split_on c xs
      else (case split_on c xs of [] \<Rightarrow> [[x]] | w # ws \<Rightarrow> (x # w) # ws))"

definition match_route :: "http_route \<Rightarrow> string \<Rightarrow> string \<Rightarrow> string list option" where
  "match_route r meth path =
     (if meth = fst r
      then (case split_on (CHR ''/'') path of
              [] \<Rightarrow> None
            | w # ws \<Rightarrow> if w = [] then match_segments (snd r) ws else None)
      else None)"

fun first_match :: "(endpoint \<times> http_route) list \<Rightarrow> string \<Rightarrow> string \<Rightarrow> (endpoint \<times> string list) option" where
  "first_match [] meth path = None"
| "first_match ((ep, r) # rs) meth path =
     (case match_route r meth path of
        Some params \<Rightarrow> Some (ep, params)
      | None \<Rightarrow> first_match rs meth path)"

definition route_request :: "http_request \<Rightarrow> (endpoint \<times> string list) option" where
  "route_request rq = first_match ROUTES (hq_method rq) (hq_path rq)"

section \<open>The server\<close>

text \<open>
  A running gateway. \<open>sv_stats\<close> is the queue's \<^verbatim>\<open>stats\<close>, if it has one; \<open>sv_int\<close> reads an
  integer query parameter; \<open>sv_invalid\<close> is the body of a 422 reply and \<open>sv_unmatched\<close> the
  reply to a request no declared route takes. A principal whose identity claims are not text is
  outside the model of the endpoints that record it: \<open>sv_untyped\<close>.
\<close>

record 'q server =
  sv_app :: "'q app_state"
  sv_jwt :: "string jwt"
  sv_validator :: validator
  sv_stats :: "'q \<Rightarrow> (string \<times> nat) list option"
  sv_int :: "string \<Rightarrow> int option"
  sv_invalid :: "http_request \<Rightarrow> pyval"
  sv_unmatched :: "http_request \<Rightarrow> http_reply"
  sv_untyped :: "principal \<Rightarrow> http_request \<Rightarrow> (db \<times> 'q, http_reply) prog"

text \<open>What a request draws from its surroundings; \<open>re_time\<close> is the time in seconds.\<close>

record request_env =
  re_call :: call_env
  re_time :: int
  re_started :: pyfloat
  re_finished :: pyfloat
  re_trace :: "string option"

definition healthz :: "settings \<Rightarrow> pydict" where
  "healthz s = liveness s"

definition health :: "settings \<Rightarrow> pydict" where
  "health s = liveness s"

text \<open>The model \<^verbatim>\<open>InvokeRequest\<close>: both fields have defaults, other keys are ignored.\<close>

definition InvokeRequest :: "pyval \<Rightarrow> invoke_request option" where
  "InvokeRequest v =
     (case v of
        PDict d \<Rightarrow>
          (case (dict_get_or d ''arguments'' (PDict []), dict_get d ''idempotency_key'') of
             (PDict args, PNone) \<Rightarrow> Some \<lparr>rq_arguments = args, rq_idempotency_key = None\<rparr>
           | (PDict args, PStr k) \<Rightarrow> Some \<lparr>rq_arguments = args, rq_idempotency_key = Some k\<rparr>
           | _ \<Rightarrow> None)
      | _ \<Rightarrow> None)"

definition limit_param :: "'q server \<Rightarrow> http_request \<Rightarrow> int option" where
  "limit_param sv rq = (case query_param rq ''limit'' of None \<Rightarrow> Some 50 | Some t \<Rightarrow> sv_int sv t)"

definition map_prog :: "('a \<Rightarrow> 'b) \<Rightarrow> ('s, 'a) prog \<Rightarrow> ('s, 'b) prog" where
  "map_prog f p = bind_prog p (\<lambda>x s. (Inr (f x), s))"

definition invalid_reply :: "'q server \<Rightarrow> http_request \<Rightarrow> http_reply" where
  "invalid_reply sv rq = json_reply 422 (sv_invalid sv rq)"

text \<open>The endpoints that take a principal, for the one that \<^verbatim>\<open>get_principal\<close> returned.\<close>

definition run_protected ::
  "'q server \<Rightarrow> request_env \<Rightarrow> endpoint \<Rightarrow> string \<Rightarrow> http_request \<Rightarrow> principal \<Rightarrow>
   (db \<times> 'q, http_reply) prog" where
  "run_protected sv re ep param rq p =
     (let app = sv_app sv; s = app_settings app; env = re_call re; now = ce_now env;
          ok = (\<lambda>v. json_reply 200 v) in
      case ep of
        InvokeTool \<Rightarrow>
          (case hq_body rq of
             JsonBody v \<Rightarrow>
               (case InvokeRequest v of
                  None \<Rightarrow> (\<lambda>dq. (Inr (invalid_reply sv rq), dq))
                | Some body \<Rightarrow>
                    (case caller_of p of
                       None \<Rightarrow> sv_untyped sv p rq
                     | Some cl \<Rightarrow>
                         invoke_tool (sv_validator sv) app env cl param body
                           (header rq ''Idempotency-Key'') (header rq ''X-Approval-Token'')))
           | _ \<Rightarrow> (\<lambda>dq. (Inr (invalid_reply sv rq), dq)))
      | GetJob \<Rightarrow> map_prog (ok \<circ> PDict) (get_job_endpoint s now param p)
      | Approve \<Rightarrow>
          (case caller_of p of
             Some cl \<Rightarrow> map_prog (ok \<circ> PDict) (approve s now param cl)
           | None \<Rightarrow>
               if pr_role p \<noteq> PStr (role_value ADMIN_AGENT)
               then (\<lambda>dq. (Inl (HTTPException 403 ''only the admin_agent role may approve''), dq))
               else sv_untyped sv p rq)
      | AuditToolCalls \<Rightarrow>
          (case limit_param sv rq of
             None \<Rightarrow> (\<lambda>dq. (Inr (invalid_reply sv rq), dq))
           | Some lim \<Rightarrow> map_prog (ok \<circ> PList) (audit_tool_calls s now lim p))
      | AuditEvents \<Rightarrow>
          (case limit_param sv rq of
             None \<Rightarrow> (\<lambda>dq. (Inr (invalid_reply sv rq), dq))
           | Some lim \<Rightarrow> map_prog (ok \<circ> PList) (audit_events s now lim p))
      | _ \<Rightarrow> (\<lambda>dq. (Inr (ok (PDict (queue_stats s (sv_stats sv (snd dq)) p))), dq)))"

text \<open>The endpoints without a principal.\<close>

definition public_reply :: "'q server \<Rightarrow> endpoint \<Rightarrow> pyval option" where
  "public_reply sv ep =
     (let s = app_settings (sv_app sv); reg = app_registry (sv_app sv) in
      case ep of
        Healthz \<Rightarrow> Some (PDict (healthz s))
      | Health \<Rightarrow> Some (PDict (health s))
      | HealthAi \<Rightarrow> Some (PDict (health_ai s reg))
      | ListTools \<Rightarrow> Some (list_tools reg)
      | _ \<Rightarrow> None)"

text \<open>
  The dependency \<^verbatim>\<open>get_principal\<close> on the request: its header, and the \<^verbatim>\<open>WWW-Authenticate\<close>
  header of its 401 replies when there was a token.
\<close>

definition authorization :: "http_request \<Rightarrow> string" where
  "authorization rq = (case header rq ''Authorization'' of None \<Rightarrow> [] | Some h \<Rightarrow> h)"

definition authenticate :: "'q server \<Rightarrow> request_env \<Rightarrow> http_request \<Rightarrow> principal res" where
  "authenticate sv re rq =
     get_principal (sv_jwt sv) (re_time re) (app_verifier (sv_app sv)) (authorization rq)"

definition auth_refusal :: "http_request \<Rightarrow> nat \<Rightarrow> string \<Rightarrow> http_reply" where
  "auth_refusal rq status d =
     (detail_reply status d)\<lparr>hr_headers :=
       (if bearer_token (authorization rq) = None then [] else [(''WWW-Authenticate'', ''Bearer'')])\<rparr>"

text \<open>The path parameter of an endpoint that has one.\<close>

definition first_param :: "string list \<Rightarrow> string" where
  "first_param params = (case params of [] \<Rightarrow> [] | w # _ \<Rightarrow> w)"

definition handled :: "('s, http_reply) prog \<Rightarrow> ('s, http_reply) prog" where
  "handled p s =
     (case p s of
        (Inl (HTTPException n d), s') \<Rightarrow> (Inr (detail_reply n d), s')
      | r \<Rightarrow> r)"

definition respond :: "'q server \<Rightarrow> request_env \<Rightarrow> http_request \<Rightarrow> (db \<times> 'q, http_reply) prog" where
  "respond sv re rq dq =
     (case route_request rq of
        None \<Rightarrow> (Inr (sv_unmatched sv rq), dq)
      | Some (ep, params) \<Rightarrow>
          (case public_reply sv ep of
             Some v \<Rightarrow> (Inr (json_reply 200 v), dq)
           | None \<Rightarrow>
               if ep = InvokeTool \<and> hq_body rq = BadBody then (Inr (invalid_reply sv rq), dq)
               else
                 (case authenticate sv re rq of
                    Inl (HTTPException n d) \<Rightarrow> (Inr (auth_refusal rq n d), dq)
                  | Inl e \<Rightarrow> (Inl e, dq)
                  | Inr p \<Rightarrow> handled (run_protected sv re ep (first_param params) rq p) dq)))"

text \<open>
  The middleware's \<^verbatim>\<open>dispatch\<close> around it: the reply passes unchanged, with one line logged; an
  exception passes too, and becomes a server error with no line.
\<close>

definition serve ::
  "'q server \<Rightarrow> request_env \<Rightarrow> http_request \<Rightarrow> db \<times> 'q \<Rightarrow> wire_reply \<times> string option \<times> (db \<times> 'q)" where
  "serve sv re rq dq =
     (case respond sv re rq dq of
        (Inl e, dq') \<Rightarrow> (ServerError, None, dq')
      | (Inr r, dq') \<Rightarrow>
          (JsonReply r,
           Some (access_line (access_record (hq_method rq) (hq_path rq) (re_started re) (re_finished re)
             (re_trace re) r)), dq'))"

end
