(* ===== verification/HttpProps.thy ===== *)
theory HttpProps
  imports Http Schemas GatewayProps
begin

text \<open>
  What holds of every HTTP request: which of them can change anything, and what is answered.
\<close>

section \<open>Requests without effect\<close>

lemma read_only_scope:
  assumes "\<And>st. snd (body st) = st"
  shows "snd (session_scope eng now body dq) = dq"
proof -
  obtain d q where dq: "dq = (d, q)" by (cases dq)
  obtain r where "body (open_session now d, q) = (r, (open_session now d, q))"
    using assms [of "(open_session now d, q)"] by (metis prod.collapse)
  then show ?thesis by (cases r) (simp_all add: session_scope_def dq)
qed

lemma reads_only:
  "snd (get_job_endpoint s now k p dq) = dq"
  "snd (audit_tool_calls s now lim p dq) = dq"
  "snd (audit_events s now lim p dq) = dq"
  unfolding get_job_endpoint_def audit_tool_calls_def audit_events_def app_scope_def Let_def
  by (rule read_only_scope, simp split: prod.splits option.splits)+

lemma map_prog_state [simp]: "snd (map_prog f p s) = snd (p s)"
  by (simp add: map_prog_def bind_prog_def split: prod.splits sum.splits)

lemma handled_state [simp]: "snd (handled p s) = snd (p s)"
  by (simp add: handled_def split: prod.splits sum.splits py_exn.splits)

lemma approve_needs_admin:
  "cl_role cl \<noteq> ''admin_agent'' \<Longrightarrow> snd (approve s now k cl dq) = dq"
  by (simp add: approve_def)

lemma run_protected_effect:
  assumes "snd (run_protected sv re ep param rq p dq) \<noteq> dq"
  shows "ep = InvokeTool \<or> ep = Approve \<and> pr_role p = PStr ''admin_agent''"
proof (cases ep)
  case Approve
  have "pr_role p = PStr ''admin_agent''"
  proof (cases "caller_of p")
    case None
    with Approve assms show ?thesis by (auto simp: run_protected_def Let_def split: if_splits)
  next
    case (Some cl)
    then have "pr_role p = PStr (cl_role cl)"
      by (auto simp: caller_of_def split: pyval.splits)
    moreover have "snd (approve (app_settings (sv_app sv)) (ce_now (re_call re)) param cl dq) \<noteq> dq"
      using Approve assms Some by (simp add: run_protected_def Let_def)
    then have "cl_role cl = ''admin_agent''" using approve_needs_admin by blast
    ultimately show ?thesis by simp
  qed
  with Approve show ?thesis by simp
qed (use assms in \<open>auto simp: run_protected_def Let_def reads_only split: option.splits\<close>)

section \<open>Authentication comes first\<close>

lemma principal_error:
  "principal_from_claims c = Inl e \<Longrightarrow> (\<exists>m k. e = AuthError m k) \<or> (\<exists>k m. e = PyExn k m)"
  by (auto simp: principal_from_claims_def Let_def bind_res_def split: if_splits pyval.splits sum.splits
      elim!: py_tuple.elims)

lemma verify_error: "verify J now vf tok = Inl e \<Longrightarrow> (\<exists>m k. e = AuthError m k) \<or> (\<exists>k m. e = PyExn k m)"
proof (cases vf)
  case (DevTokenVerifier secret aud)
  assume "verify J now vf tok = Inl e"
  with DevTokenVerifier show ?thesis
    by (cases "jwt_decode J now tok secret (dev_options aud)"; cases "projl (jwt_decode J now tok secret (dev_options aud))")
      (auto dest: principal_error)
next
  case (EntraOIDCVerifier url iss aud)
  assume v: "verify J now vf tok = Inl e"
  have f: "\<exists>m k. entra_failure x = AuthError m k" for x by (cases x) auto
  show ?thesis
    using v f EntraOIDCVerifier by (auto split: sum.splits dest!: principal_error)
qed

lemma authenticate_401: "authenticate sv re rq = Inl (HTTPException n d) \<Longrightarrow> n = 401"
  using verify_error
  by (fastforce simp: authenticate_def get_principal_def split: option.splits sum.splits py_exn.splits)

fun status_of :: "wire_reply \<Rightarrow> nat" where
  "status_of (JsonReply r) = hr_status r"
| "status_of ServerError = 500"

text \<open>A request that needs no principal: no declared route takes it, or a public endpoint does.\<close>

definition open_request :: "'q server \<Rightarrow> http_request \<Rightarrow> bool" where
  "open_request sv rq =
     (case route_request rq of None \<Rightarrow> True | Some (ep, params) \<Rightarrow> public_reply sv ep \<noteq> None)"

lemma first_match_route:
  "first_match rs m path = Some (ep, params) \<Longrightarrow> \<exists>r. (ep, r) \<in> set rs \<and> match_route r m path = Some params"
proof (induction rs)
  case (Cons x rs)
  obtain ep' r where x: "x = (ep', r)" by (cases x)
  show ?case
  proof (cases "match_route r m path")
    case None
    with Cons x have "\<exists>r. (ep, r) \<in> set rs \<and> match_route r m path = Some params" by simp
    then show ?thesis using x by auto
  next
    case (Some ps)
    with Cons.prems x have "ep' = ep" "ps = params" by simp_all
    with Some x show ?thesis by (intro exI [of _ r]) simp
  qed
qed simp

lemma routed_method:
  assumes "route_request rq = Some (ep, params)"
  shows "hq_method rq = (if ep = InvokeTool \<or> ep = Approve then ''POST'' else ''GET'')"
proof -
  from first_match_route [OF assms [unfolded route_request_def]] obtain r where
    "(ep, r) \<in> set ROUTES" "match_route r (hq_method rq) (hq_path rq) = Some params" by blast
  then have "(ep, r) \<in> set ROUTES" "hq_method rq = fst r"
    by (simp_all add: match_route_def split: if_splits)
  then show ?thesis by (auto simp: ROUTES_def route_defs)
qed

lemma respond_effect:
  assumes "snd (respond sv re rq dq) \<noteq> dq"
  obtains p ep params where "authenticate sv re rq = Inr p" "route_request rq = Some (ep, params)"
    "ep = InvokeTool \<or> ep = Approve \<and> pr_role p = PStr ''admin_agent''"
proof -
  from assms obtain ep params where r: "route_request rq = Some (ep, params)" "public_reply sv ep = None"
    by (auto simp: respond_def split: option.splits)
  with assms obtain p where p: "authenticate sv re rq = Inr p"
    by (auto simp: respond_def split: if_splits sum.splits py_exn.splits)
  with r assms have "snd (run_protected sv re ep (first_param params) rq p dq) \<noteq> dq"
    by (auto simp: respond_def split: if_splits)
  with run_protected_effect that p r(1) show ?thesis by blast
qed

lemma serve_respond:
  "serve sv re rq dq = (r, line, dq') \<Longrightarrow> dq' = snd (respond sv re rq dq) \<and>
    (case fst (respond sv re rq dq) of Inl e \<Rightarrow> r = ServerError | Inr h \<Rightarrow> r = JsonReply h)"
  by (auto simp: serve_def split: prod.splits sum.splits)

text \<open>A request that ends in a server error is not in the access log.\<close>

lemma server_error_not_logged: "serve sv re rq dq = (ServerError, line, dq') \<Longrightarrow> line = None"
  by (simp add: serve_def split: prod.splits sum.splits)

lemma unauthenticated_refused:
  assumes "\<not> open_request sv rq" "authenticate sv re rq = Inl e" "serve sv re rq dq = (r, line, dq')"
  shows "dq' = dq \<and> status_of r \<in> set [401, 422, 500]"
proof -
  have "snd (respond sv re rq dq) = dq"
  proof (rule ccontr)
    assume "snd (respond sv re rq dq) \<noteq> dq"
    then obtain p where "authenticate sv re rq = Inr p" by (rule respond_effect)
    with assms(2) show False by simp
  qed
  moreover from assms(1) obtain ep params where "route_request rq = Some (ep, params)" "public_reply sv ep = None"
    by (auto simp: open_request_def split: option.splits)
  with assms(2) authenticate_401 [of sv re rq] have "case fst (respond sv re rq dq) of
      Inl e \<Rightarrow> True | Inr h \<Rightarrow> hr_status h \<in> set [401, 422]"
    by (auto simp: respond_def invalid_reply_def auth_refusal_def detail_reply_def json_reply_def split: py_exn.splits)
  ultimately show ?thesis using serve_respond [OF assms(3)] by (auto split: sum.splits)
qed


section \<open>Every declared request is answered\<close>

text \<open>The statuses the gateway gives on its own account.\<close>

definition http_statuses :: "nat set" where
  "http_statuses = set [200, 202, 400, 401, 403, 404, 422]"

text \<open>A program that returns, or raises an \<^verbatim>\<open>HTTPException\<close> of the gateway.\<close>

definition answered :: "'a res \<Rightarrow> bool" where
  "answered r \<longleftrightarrow> (case r of Inr x \<Rightarrow> True | Inl e \<Rightarrow> \<exists>n d. e = HTTPException n d \<and> n \<in> http_statuses)"

lemma answered_map [simp]: "answered (fst (map_prog f p s)) = answered (fst (p s))"
  by (simp add: map_prog_def bind_prog_def answered_def split: prod.splits sum.splits)

lemma sqlite_endpoints_answer:
  assumes "engine_of_url (st_database_url s) = SQLite"
  shows "answered (fst (get_job_endpoint s now k p dq))" "answered (fst (audit_tool_calls s now lim p dq))"
    "answered (fst (audit_events s now lim p dq))" "answered (fst (approve s now k cl dq))"
  using assms
  by (auto simp: answered_def get_job_endpoint_def audit_tool_calls_def audit_events_def approve_def app_scope_def
      session_scope_def recent_tool_calls_def recent_events_def limit_rows_def approve_body_cases http_statuses_def
      record_event_def set_approval_def Let_def split: option.splits prod.splits sum.splits)

lemma handled_answers:
  assumes "answered (fst (p s))" "\<And>h. fst (p s) = Inr h \<Longrightarrow> hr_status h \<in> http_statuses"
  shows "\<exists>h. fst (handled p s) = Inr h \<and> hr_status h \<in> http_statuses"
  using assms
  by (auto simp: handled_def answered_def detail_reply_def json_reply_def split: prod.splits sum.splits py_exn.splits)

lemma map_prog_status: "fst (map_prog f p s) = Inr h \<Longrightarrow> \<exists>x. h = f x"
  by (auto simp: map_prog_def bind_prog_def split: prod.splits sum.splits)

lemma ok_status: "hr_status (json_reply 200 v) \<in> http_statuses"
  by (simp add: json_reply_def http_statuses_def)

lemma invalid_status: "hr_status (invalid_reply sv rq) \<in> http_statuses"
  by (simp add: invalid_reply_def json_reply_def http_statuses_def)

lemma call_statuses: "hr_status h \<in> set [200, 202, 400, 403] \<Longrightarrow> hr_status h \<in> http_statuses"
  by (auto simp: http_statuses_def)

lemma invoke_tool_answers:
  assumes "engine_of_url (st_database_url (ex_settings (app_executor (sv_app sv)))) = SQLite"
    and "gen_request_id (ce_request_uuid env) \<notin> tc_request_id ` set (db_calls d)"
    and "db_approvals d (approval_id_of env) = None" "db_jobs d (job_id_of env) = None"
  shows "\<exists>h. fst (invoke_tool (sv_validator sv) (sv_app sv) env cl tool b k t (d, q)) = Inr h \<and> hr_status h \<in> http_statuses"
proof -
  let ?iv = "\<lparr>iv_caller = cl, iv_tool = tool, iv_arguments = rq_arguments b,
    iv_idempotency_key = (case k of None \<Rightarrow> rq_idempotency_key b
      | Some k \<Rightarrow> if k = [] then rq_idempotency_key b else Some k),
    iv_approval_token = t, iv_request_id = None\<rparr>"
  have "iv_request env ?iv \<notin> tc_request_id ` set (db_calls d)"
    using assms(2) by (simp add: iv_request_def text_or_def)
  from call_returns [OF assms(1) this assms(3,4)] obtain oc d' q' where
    "invoke (sv_validator sv) (app_executor (sv_app sv)) env ?iv (d, q) = (Inr oc, (d', q'))" by blast
  then obtain h where "invoke_tool (sv_validator sv) (sv_app sv) env cl tool b k t (d, q) = (Inr h, (d', q'))"
    by (simp add: invoke_tool_def bind_prog_def)
  with reply_fits [OF this] call_statuses show ?thesis by auto
qed

lemma run_protected_answers:
  assumes "public_reply sv ep = None" "caller_of p \<noteq> None"
    and "engine_of_url (st_database_url (app_settings (sv_app sv))) = SQLite"
    and "engine_of_url (st_database_url (ex_settings (app_executor (sv_app sv)))) = SQLite"
    and "gen_request_id (ce_request_uuid (re_call re)) \<notin> tc_request_id ` set (db_calls d)"
    and "db_approvals d (approval_id_of (re_call re)) = None" "db_jobs d (job_id_of (re_call re)) = None"
  shows "\<exists>h. fst (handled (run_protected sv re ep param rq p) (d, q)) = Inr h \<and> hr_status h \<in> http_statuses"
proof (rule handled_answers)
  let ?r = "fst (run_protected sv re ep param rq p (d, q))"
  from assms(2) obtain cl where cl: "caller_of p = Some cl" by blast
  note call = invoke_tool_answers [OF assms(4-7), where cl = cl and tool = param and q = q]
  note defs = run_protected_def Let_def cl
  show "answered ?r"
  proof (cases ep)
    case InvokeTool
    show ?thesis
    proof (cases "\<exists>v b. hq_body rq = JsonBody v \<and> InvokeRequest v = Some b")
      case True
      then obtain v b where b: "hq_body rq = JsonBody v" "InvokeRequest v = Some b" by blast
      from call [of b "header rq ''Idempotency-Key''" "header rq ''X-Approval-Token''"] obtain h where
        "fst (invoke_tool (sv_validator sv) (sv_app sv) (re_call re) cl param b (header rq ''Idempotency-Key'')
          (header rq ''X-Approval-Token'') (d, q)) = Inr h" by blast
      with InvokeTool b show ?thesis by (simp add: defs answered_def)
    next
      case False
      with InvokeTool show ?thesis by (auto simp: defs answered_def split: body.splits option.splits)
    qed
  qed (use sqlite_endpoints_answer [OF assms(3)] in \<open>auto simp: defs answered_def [of "Inr _"] split: option.splits\<close>)
  fix h assume h: "?r = Inr h"
  show "hr_status h \<in> http_statuses"
  proof (cases ep)
    case InvokeTool
    show ?thesis
    proof (cases "\<exists>v b. hq_body rq = JsonBody v \<and> InvokeRequest v = Some b")
      case True
      then obtain v b where b: "hq_body rq = JsonBody v" "InvokeRequest v = Some b" by blast
      from call [of b "header rq ''Idempotency-Key''" "header rq ''X-Approval-Token''"] InvokeTool b h
      show ?thesis by (simp add: defs)
    next
      case False
      with InvokeTool h show ?thesis by (auto simp: defs invalid_status split: body.splits option.splits)
    qed
  qed (use h ok_status invalid_status in \<open>auto simp: defs split: option.splits dest!: map_prog_status\<close>)
qed

lemma startup_app:
  assumes "startup s now mq dq = (Inr app, dq')"
  shows "app_settings app = s" "ex_settings (app_executor app) = s"
  using assms
  by (auto simp: startup_def bind_prog_def new_executor_def split: sum.splits prod.splits)


text \<open>
  A server on any token library. Its integer parameters are decimal digits, and it answers 404
  to other requests.
\<close>

definition decimal :: "string \<Rightarrow> int option" where
  "decimal t =
     (if t \<noteq> [] \<and> list_all (\<lambda>c. of_char c \<in> {48..57 :: int}) t
      then Some (foldl (\<lambda>n c. 10 * n + (of_char c - 48)) 0 t)
      else None)"

definition ref_server :: "string jwt \<Rightarrow> settings \<Rightarrow> queue_table server" where
  "ref_server J s =
     \<lparr>sv_app = local_app s, sv_jwt = J, sv_validator = strict_validate,
      sv_stats = (\<lambda>rows. Some (lq_stats \<lparr>lq_queue = st_servicebus_queue_name s,
        lq_max_delivery = st_queue_max_delivery_count s\<rparr> rows)),
      sv_int = decimal, sv_invalid = (\<lambda>rq. PNone), sv_unmatched = (\<lambda>rq. detail_reply 404 ''Not Found''),
      sv_untyped = (\<lambda>p rq dq. (Inl (PyExn ''TypeError'' ''unhashable type''), dq))\<rparr>"

lemma ref_server_simps [simp]:
  "sv_app (ref_server J s) = local_app s" "sv_jwt (ref_server J s) = J"
  "sv_validator (ref_server J s) = strict_validate"
  by (simp_all add: ref_server_def)

definition ref_request_env :: request_env where
  "ref_request_env = \<lparr>re_call = ref_env, re_time = 0, re_started = FlFin 0 0, re_finished = FlFin 0 0,
     re_trace = None\<rparr>"


end
