(* ===== verification/DemoAgent.thy ===== *)
theory DemoAgent
  imports Http GatewayProps
begin

text \<open>
  \<^verbatim>\<open>apps/demo-agent/agent.py\<close>: the personas and their tokens, the requests the client makes,
  the scripted flow and what it prints. The HTTP client library is a parameter: it takes a
  request to a reply, or raises. The state of the program is the world outside together with the
  texts printed so far. The em dash of the messages is written as two hyphens.
\<close>

section \<open>Personas and requests\<close>

definition PERSONAS :: "(string \<times> string \<times> string) list" where
  "PERSONAS =
     [(''hr_agent'', ''user-hr@inovativi.example'', ''agent-hr-001''),
      (''finance_agent'', ''user-fin@inovativi.example'', ''agent-fin-001''),
      (''sales_agent'', ''user-sales@inovativi.example'', ''agent-sales-001''),
      (''admin_agent'', ''user-admin@inovativi.example'', ''agent-admin-001'')]"

definition persona :: "string \<Rightarrow> string \<times> string" where
  "persona role =
     (case map_of PERSONAS role of None \<Rightarrow> (''user-'' @ role, ''agent-'' @ role) | Some p \<Rightarrow> p)"

definition agent_mint :: "'tok jwt \<Rightarrow> settings \<Rightarrow> int \<Rightarrow> string \<Rightarrow> 'tok" where
  "agent_mint J s now role =
     (let (subject, agent_id) = persona role in
      mint J \<lparr>ds_secret = st_dev_token_signing_secret s, ds_audience = st_entra_audience s\<rparr>
        now subject agent_id role [''tools.invoke''] 3600)"

definition agent_headers ::
  "string jwt \<Rightarrow> settings \<Rightarrow> int \<Rightarrow> string \<Rightarrow> string option \<Rightarrow> string option \<Rightarrow> (string \<times> string) list" where
  "agent_headers J s now role approval_token idempotency_key =
     (''Authorization'', ''Bearer '' @ agent_mint J s now role)
     # (case approval_token of None \<Rightarrow> [] | Some t \<Rightarrow> if t = [] then [] else [(''X-Approval-Token'', t)])
     @ (case idempotency_key of None \<Rightarrow> [] | Some k \<Rightarrow> if k = [] then [] else [(''Idempotency-Key'', k)])"

record client_request =
  cq_method :: string
  cq_url :: string
  cq_headers :: "(string \<times> string) list"
  cq_json :: "pydict option"

definition agent_call ::
  "string jwt \<Rightarrow> settings \<Rightarrow> int \<Rightarrow> string \<Rightarrow> string \<Rightarrow> string \<Rightarrow> pydict \<Rightarrow> string option \<Rightarrow> string option \<Rightarrow>
   client_request" where
  "agent_call J s now gateway_url role tool arguments approval_token idempotency_key =
     \<lparr>cq_method = ''POST'', cq_url = gateway_url @ ''/tools/'' @ tool @ ''/invoke'',
      cq_headers = agent_headers J s now role approval_token idempotency_key,
      cq_json = Some [(''arguments'', PDict arguments)]\<rparr>"

definition plain_get :: "string \<Rightarrow> (string \<times> string) list \<Rightarrow> client_request" where
  "plain_get url headers = \<lparr>cq_method = ''GET'', cq_url = url, cq_headers = headers, cq_json = None\<rparr>"

section \<open>The script (\<^verbatim>\<open>run_demo\<close>)\<close>

record demo_call =
  dm_label :: string
  dm_role :: string
  dm_tool :: string
  dm_arguments :: pydict
  dm_key :: "string option"

definition workflow_arguments :: pydict where
  "workflow_arguments = [(''workflow_name'', PStr ''nightly_budget_rollup''),
     (''parameters'', PDict [(''period'', PStr ''2024-Q2'')])]"

definition budget_call :: demo_call where
  "budget_call =
     \<lparr>dm_label = ''1. Finance Agent -> run_budget_variance_report (allowed)'',
       dm_role = ''finance_agent'', dm_tool = ''run_budget_variance_report'',
       dm_arguments = [(''department_id'', PStr ''FIN-100''), (''period'', PStr ''2024-Q2'')], dm_key = None\<rparr>"

definition workflow_call :: demo_call where
  "workflow_call =
     \<lparr>dm_label = ''3. Finance Agent -> trigger_databricks_workflow (queued async)'',
       dm_role = ''finance_agent'', dm_tool = ''trigger_databricks_workflow'',
       dm_arguments = workflow_arguments, dm_key = Some ''demo-key-001''\<rparr>"

text \<open>The calls after the job has been polled.\<close>

definition later_calls :: "demo_call list" where
  "later_calls =
     [\<lparr>dm_label = ''3b. Duplicate submit (same Idempotency-Key) -> returns existing job'',
       dm_role = ''finance_agent'', dm_tool = ''trigger_databricks_workflow'',
       dm_arguments = workflow_arguments, dm_key = Some ''demo-key-001''\<rparr>,
      \<lparr>dm_label = ''7. Sales Agent -> get_employee_profile (DENIED by RBAC)'',
       dm_role = ''sales_agent'', dm_tool = ''get_employee_profile'',
       dm_arguments = [(''employee_id'', PStr ''E-1001'')], dm_key = None\<rparr>,
      \<lparr>dm_label = ''7b. HR Agent -> get_employee_profile (allowed, PII redacted)'',
       dm_role = ''hr_agent'', dm_tool = ''get_employee_profile'',
       dm_arguments = [(''employee_id'', PStr ''E-1001'')], dm_key = None\<rparr>,
      \<lparr>dm_label = ''8. Sales Agent -> create_crm_update_dry_run (dry-run, no writes)'',
       dm_role = ''sales_agent'', dm_tool = ''create_crm_update_dry_run'',
       dm_arguments = [(''account_id'', PStr ''ACC-300''),
         (''proposed_changes'', PDict [(''tier'', PStr ''gold'')])], dm_key = None\<rparr>,
      \<lparr>dm_label = ''9. Admin Agent -> execute_crm_update (BLOCKED, destructive/disabled)'',
       dm_role = ''admin_agent'', dm_tool = ''execute_crm_update'',
       dm_arguments = [(''account_id'', PStr ''ACC-300''), (''approved_change_id'', PStr ''apr_does_not_exist'')],
       dm_key = None\<rparr>]"

definition demo_script :: "demo_call list" where
  "demo_script = budget_call # workflow_call # later_calls"

lemmas demo_calls = demo_script_def budget_call_def workflow_call_def later_calls_def

section \<open>Reading a reply\<close>

text \<open>\<^verbatim>\<open>resp.json()\<close>: a server error has no JSON in its body.\<close>

fun reply_status :: "wire_reply \<Rightarrow> nat" where
  "reply_status (JsonReply r) = hr_status r"
| "reply_status ServerError = 500"

fun reply_json :: "wire_reply \<Rightarrow> pyval res" where
  "reply_json (JsonReply r) = Inr (hr_body r)"
| "reply_json ServerError = Inl (PyExn ''JSONDecodeError'' ''Expecting value: line 1 column 1 (char 0)'')"

text \<open>\<^verbatim>\<open>x[k]\<close> and \<^verbatim>\<open>x.get(k)\<close> with a text \<^verbatim>\<open>k\<close>, on any JSON value.\<close>

fun item :: "pyval \<Rightarrow> string \<Rightarrow> pyval res" where
  "item (PDict d) k = dict_index d k"
| "item (PStr s) k = Inl (PyExn ''TypeError'' ''string indices must be integers'')"
| "item (PList xs) k = Inl (PyExn ''TypeError'' ''list indices must be integers or slices, not str'')"
| "item v k = Inl (PyExn ''TypeError'' ''object is not subscriptable'')"

fun get_item :: "pyval \<Rightarrow> string \<Rightarrow> pyval \<Rightarrow> pyval res" where
  "get_item (PDict d) k dflt = Inr (dict_get_or d k dflt)"
| "get_item v k dflt = Inl (PyExn ''AttributeError'' ''object has no attribute get'')"

text \<open>\<^verbatim>\<open>json.dumps(v, indent=2)\<close>, at the given depth.\<close>

definition newline :: "nat \<Rightarrow> string" where
  "newline depth = CHR 0x0A # replicate (2 * depth) (CHR '' '')"

fun json_indent :: "nat \<Rightarrow> pyval \<Rightarrow> string" where
  "json_indent n (PList xs) =
     (if xs = [] then ''[]''
      else ''['' @ newline (Suc n) @ join ('','' @ newline (Suc n)) (map (json_indent (Suc n)) xs) @ newline n @ '']'')"
| "json_indent n (PDict kvs) =
     (if kvs = [] then ''{}''
      else ''{'' @ newline (Suc n) @
        join ('','' @ newline (Suc n)) (map (\<lambda>(k, v). json_str k @ '': '' @ json_indent (Suc n) v) kvs) @
        newline n @ ''}'')"
| "json_indent n v = json_dumps v"

text \<open>The format \<^verbatim>\<open>:<w\<close>, which a list, a dictionary and \<^verbatim>\<open>None\<close> do not have, and the slice \<^verbatim>\<open>[:n]\<close>.\<close>

definition pad_right :: "nat \<Rightarrow> string \<Rightarrow> string" where
  "pad_right w s = s @ replicate (w - length s) (CHR '' '')"

fun format_left :: "nat \<Rightarrow> pyval \<Rightarrow> string res" where
  "format_left w (PStr s) = Inr (pad_right w s)"
| "format_left w (PInt n) = Inr (pad_right w (int_str n))"
| "format_left w (PBool b) = Inr (pad_right w (if b then ''1'' else ''0''))"
| "format_left w (PFloat f) = Inr (pad_right w (float_repr f))"
| "format_left w v = Inl (PyExn ''TypeError'' ''unsupported format string'')"

fun slice_to :: "nat \<Rightarrow> pyval \<Rightarrow> pyval res" where
  "slice_to n (PStr s) = Inr (PStr (take n s))"
| "slice_to n (PList xs) = Inr (PList (take n xs))"
| "slice_to n v = Inl (PyExn ''TypeError'' ''object is not subscriptable'')"

section \<open>The program\<close>

type_synonym 'w http_client = "client_request \<Rightarrow> ('w, wire_reply) prog"
type_synonym ('w, 'a) script = "('w \<times> string list, 'a) prog"

definition pure :: "'a res \<Rightarrow> ('w, 'a) script" where
  "pure r st = (r, st)"

definition say :: "string \<Rightarrow> ('w, unit) script" where
  "say text st = (Inr (), (fst st, snd st @ [text]))"

definition send :: "'w http_client \<Rightarrow> client_request \<Rightarrow> ('w, wire_reply) script" where
  "send client rq st = (case client rq (fst st) of (r, w) \<Rightarrow> (r, (w, snd st)))"

text \<open>A request whose token is minted at the time the world shows.\<close>

definition send_at :: "'w http_client \<Rightarrow> ('w \<Rightarrow> int) \<Rightarrow> (int \<Rightarrow> client_request) \<Rightarrow> ('w, wire_reply) script" where
  "send_at client clock rq st = send client (rq (clock (fst st))) st"

definition skip :: "('w, unit) script" where
  "skip = pure (Inr ())"

text \<open>\<^verbatim>\<open>if data.get(k): print(...)\<close>.\<close>

definition say_if :: "pyval \<Rightarrow> string \<Rightarrow> (pyval \<Rightarrow> string) \<Rightarrow> ('w, unit) script" where
  "say_if data k line =
     bind_prog (pure (get_item data k PNone)) (\<lambda>v. if truthy v then say (line v) else skip)"

definition show_reply :: "string \<Rightarrow> wire_reply \<Rightarrow> ('w, pyval) script" where
  "show_reply lbl resp =
     bind_prog (pure (reply_json resp)) (\<lambda>data.
     bind_prog (say (CHR 0x0A # ''=== '' @ lbl @ '' ==='')) (\<lambda>_.
     bind_prog (pure (get_item data ''decision'' PNone)) (\<lambda>decision.
     bind_prog (pure (get_item data ''trace_id'' PNone)) (\<lambda>trace.
     bind_prog (say (''HTTP '' @ int_str (int (reply_status resp)) @ '' | decision='' @ py_str decision
       @ '' | trace_id='' @ py_str trace)) (\<lambda>_.
     bind_prog (pure (get_item data ''message'' PNone)) (\<lambda>message.
     bind_prog (say_if data ''error_code'' (\<lambda>c. ''  error_code: '' @ py_str c @ '' -- '' @ py_str message)) (\<lambda>_.
     bind_prog (pure (get_item data ''redaction'' (PDict []))) (\<lambda>redaction.
     bind_prog (pure (get_item redaction ''status'' PNone)) (\<lambda>status.
     bind_prog
       (if py_eq status (PStr ''redacted'')
        then bind_prog (pure (get_item redaction ''redacted_fields'' PNone))
               (\<lambda>fs. say (''  redacted_fields: '' @ py_str fs))
        else skip) (\<lambda>_.
     bind_prog (say_if data ''job_id'' (\<lambda>j. ''  job_id: '' @ py_str j)) (\<lambda>_.
     bind_prog (say_if data ''approval_id'' (\<lambda>a. ''  approval_id: '' @ py_str a)) (\<lambda>_.
     bind_prog (say_if data ''result'' (\<lambda>r. ''  result: '' @ take 800 (json_indent 0 r))) (\<lambda>_.
     pure (Inr data))))))))))))))"

definition run_call ::
  "string jwt \<Rightarrow> settings \<Rightarrow> string \<Rightarrow> 'w http_client \<Rightarrow> ('w \<Rightarrow> int) \<Rightarrow> demo_call \<Rightarrow> ('w, pyval) script" where
  "run_call J s url client clock c =
     bind_prog
       (send_at client clock (\<lambda>now. agent_call J s now url (dm_role c) (dm_tool c) (dm_arguments c) None (dm_key c)))
       (show_reply (dm_label c))"

fun run_calls ::
  "string jwt \<Rightarrow> settings \<Rightarrow> string \<Rightarrow> 'w http_client \<Rightarrow> ('w \<Rightarrow> int) \<Rightarrow> demo_call list \<Rightarrow> ('w, unit) script" where
  "run_calls J s url client clock [] = skip"
| "run_calls J s url client clock (c # cs) =
     bind_prog (run_call J s url client clock c) (\<lambda>_. run_calls J s url client clock cs)"

text \<open>
  The loop of steps 5 and 6: at most \<open>n\<close> looks at the job, until its status is terminal. The
  seconds slept in between are time passing in the world.
\<close>

definition terminal_status :: "pyval \<Rightarrow> bool" where
  "terminal_status st \<longleftrightarrow> list_ex (\<lambda>t. py_eq st (PStr t)) [''succeeded'', ''failed'', ''dead_letter'']"

fun poll_job ::
  "nat \<Rightarrow> string jwt \<Rightarrow> settings \<Rightarrow> string \<Rightarrow> 'w http_client \<Rightarrow> ('w \<Rightarrow> int) \<Rightarrow> string \<Rightarrow> ('w, unit) script" where
  "poll_job 0 J s url client clock job_id = skip"
| "poll_job (Suc n) J s url client clock job_id =
     bind_prog
       (send_at client clock (\<lambda>now. plain_get (url @ ''/jobs/'' @ job_id) (agent_headers J s now ''finance_agent'' None None)))
       (\<lambda>resp.
     bind_prog (pure (reply_json resp)) (\<lambda>job.
     bind_prog (pure (item job ''status'')) (\<lambda>status.
     bind_prog (pure (item job ''attempts'')) (\<lambda>attempts.
     bind_prog (say (''  job '' @ job_id @ '': status='' @ py_str status @ '' attempts='' @ py_str attempts)) (\<lambda>_.
     if terminal_status status then skip
     else poll_job n J s url client clock job_id)))))"

fun tool_names :: "pyval list \<Rightarrow> pyval list res" where
  "tool_names [] = Inr []"
| "tool_names (t # ts) =
     bind_res (item t ''name'') (\<lambda>n. bind_res (tool_names ts) (\<lambda>ns. Inr (n # ns)))"

definition audit_line :: "pyval \<Rightarrow> string res" where
  "audit_line c =
     bind_res (item c ''created_at'') (\<lambda>created.
     bind_res (bind_res (item c ''tool_name'') (format_left 28)) (\<lambda>tool.
     bind_res (bind_res (item c ''role'') (format_left 14)) (\<lambda>role.
     bind_res (bind_res (item c ''decision'') (format_left 9)) (\<lambda>decision.
     bind_res (item c ''redaction_status'') (\<lambda>redaction.
     bind_res (bind_res (item c ''trace_id'') (slice_to 12)) (\<lambda>trace.
     Inr (''  '' @ py_str created @ '' | '' @ tool @ '' | role='' @ role @ '' | decision='' @ decision
       @ '' | redaction='' @ py_str redaction @ '' | trace='' @ py_str trace)))))))"

fun say_audit :: "pyval list \<Rightarrow> ('w, unit) script" where
  "say_audit [] = skip"
| "say_audit (c # cs) = bind_prog (pure (audit_line c)) (\<lambda>l. bind_prog (say l) (\<lambda>_. say_audit cs))"

definition run_demo ::
  "string jwt \<Rightarrow> settings \<Rightarrow> string \<Rightarrow> 'w http_client \<Rightarrow> ('w \<Rightarrow> int) \<Rightarrow> ('w, unit) script" where
  "run_demo J s url client clock =
     bind_prog (say (''Gateway: '' @ url)) (\<lambda>_.
     bind_prog (send client (plain_get (url @ ''/tools'') [])) (\<lambda>resp.
     bind_prog (pure (bind_res (reply_json resp) (\<lambda>v. bind_res (py_tuple v) tool_names))) (\<lambda>names.
     bind_prog (say (''Tools: '' @ py_str (PList names))) (\<lambda>_.
     bind_prog (run_call J s url client clock budget_call) (\<lambda>_.
     bind_prog (run_call J s url client clock workflow_call) (\<lambda>queued.
     bind_prog (pure (get_item queued ''job_id'' PNone)) (\<lambda>job_id.
     bind_prog
       (if truthy job_id
        then bind_prog (say (CHR 0x0A # ''=== 5. Worker processes job (polling status) ===''))
               (\<lambda>_. poll_job 20 J s url client clock (py_str job_id))
        else skip) (\<lambda>_.
     bind_prog (run_calls J s url client clock later_calls) (\<lambda>_.
     bind_prog (say (CHR 0x0A # ''=== Audit trail (most recent) ==='')) (\<lambda>_.
     bind_prog (send_at client clock (\<lambda>now. plain_get (url @ ''/audit/tool-calls?limit=12'')
       (agent_headers J s now ''admin_agent'' None None))) (\<lambda>resp.
     bind_prog (pure (bind_res (reply_json resp) py_tuple)) (\<lambda>calls. say_audit calls))))))))))))"

text \<open>\<^verbatim>\<open>main\<close> on the parsed arguments; a role outside \<^verbatim>\<open>choices\<close> ends the program in the parser.\<close>

datatype agent_command = TokenCommand string | DemoCommand

definition agent_main ::
  "string jwt \<Rightarrow> settings \<Rightarrow> string \<Rightarrow> 'w http_client \<Rightarrow> ('w \<Rightarrow> int) \<Rightarrow> agent_command \<Rightarrow> ('w, unit) script" where
  "agent_main J s url client clock cmd =
     (case cmd of
        TokenCommand role \<Rightarrow>
          if role \<in> fst ` set PERSONAS
          then (\<lambda>st. say (agent_mint J s (clock (fst st)) role) st)
          else pure (Inl (PyExn ''SystemExit'' ''2''))
      | DemoCommand \<Rightarrow> run_demo J s url client clock)"

section \<open>Properties\<close>

lemma lower_bearer: "take 7 (map lower_char (''Bearer '' @ tok)) = ''bearer ''"
proof -
  have "map lower_char ''Bearer '' = ''bearer ''" by code_simp
  then show ?thesis by (simp only: map_append) simp
qed

lemma dropWhile_word: "\<forall>c \<in> set xs. \<not> is_space c \<Longrightarrow> dropWhile is_space xs = xs"
  by (cases xs) auto

lemma strip_word: "\<forall>c \<in> set tok. \<not> is_space c \<Longrightarrow> strip tok = tok"
  using dropWhile_word [of tok] dropWhile_word [of "rev tok"] by (simp add: strip_def)

lemma bearer_token_of_header: "\<forall>c \<in> set tok. \<not> is_space c \<Longrightarrow> bearer_token (''Bearer '' @ tok) = Some tok"
  using lower_bearer [of tok] by (simp add: bearer_token_def strip_word)

lemma persona_agent: "snd (persona role) \<noteq> []"
  by (auto simp: persona_def PERSONAS_def split: option.split if_splits)

text \<open>
  The client's \<^verbatim>\<open>Authorization\<close> header gets it past the gateway of the same settings in dev mode:
  the request has the persona's subject, agent and role, as long as the library decodes the token
  it signed and the token is a single word.\<close>

lemma agent_header_authenticates:
  assumes "st_auth_mode s = Dev" "build_verifier s = Inr vf" "role \<noteq> []"
    and "map_of (agent_headers J s t0 role at key) ''Authorization'' = Some h"
    and "jwt_decode J now (agent_mint J s t0 role) (st_dev_token_signing_secret s)
       (dev_options (st_entra_audience s)) =
       Inr (dev_claims (settings_signer s) t0 (fst (persona role)) (snd (persona role)) role [''tools.invoke''] 3600)"
    and "\<forall>c \<in> set (agent_mint J s t0 role). \<not> is_space c"
  shows "\<exists>p. get_principal J now vf h = Inr p \<and> has_scope p ''tools.invoke'' \<and>
    caller_of p = Some \<lparr>cl_subject = fst (persona role), cl_agent_id = snd (persona role), cl_role = role\<rparr>"
proof -
  have h: "h = ''Bearer '' @ agent_mint J s t0 role"
    using assms(4) by (simp add: agent_headers_def)
  have vf: "vf = DevTokenVerifier (st_dev_token_signing_secret s) (st_entra_audience s)"
    using assms(1,2) by (simp add: dev_verifier)
  have scope: "\<forall>w \<in> set [''tools.invoke'']. w \<noteq> [] \<and> (\<forall>c \<in> set w. \<not> is_space c)" by code_simp
  have tok: "bearer_token h = Some (agent_mint J s t0 role)"
    unfolding h by (rule bearer_token_of_header [OF assms(6)])
  show ?thesis
    using principal_of_dev_claims [OF assms(3) persona_agent [of role] scope, of "settings_signer s" t0
        "fst (persona role)" 3600]
    by (simp add: get_principal_def tok vf assms(5) caller_of_def has_scope_def)
qed

text \<open>A library whose only token stands for the claims of the HR persona.\<close>

definition one_token_jwt :: "string jwt" where
  "one_token_jwt = \<lparr>jwt_encode = (\<lambda>c k a. ''aaa.bbb.ccc''),
     jwt_decode = (\<lambda>now tok k opts. Inr (dev_claims (settings_signer default_settings) 0
        ''user-hr@inovativi.example'' ''agent-hr-001'' ''hr_agent'' [''tools.invoke''] 3600)),
     jwks_key = (\<lambda>u t. Inl (OtherFailure u))\<rparr>"

lemma agent_header_authenticates_witness:
  "\<exists>p. get_principal one_token_jwt 5
       (DevTokenVerifier ''dev-only-not-for-production-change-me'' ''api://secure-mcp-gateway'')
       ''Bearer aaa.bbb.ccc'' = Inr p \<and>
     caller_of p = Some \<lparr>cl_subject = ''user-hr@inovativi.example'', cl_agent_id = ''agent-hr-001'', cl_role = ''hr_agent''\<rparr>"
proof -
  have dev: "st_auth_mode default_settings = Dev" by (simp add: default_settings_def)
  have vf: "build_verifier default_settings =
      Inr (DevTokenVerifier ''dev-only-not-for-production-change-me'' ''api://secure-mcp-gateway'')"
    by (simp add: build_verifier_def default_settings_def)
  have p: "persona ''hr_agent'' = (''user-hr@inovativi.example'', ''agent-hr-001'')"
    by (simp add: persona_def PERSONAS_def)
  have tok: "agent_mint one_token_jwt default_settings 0 ''hr_agent'' = ''aaa.bbb.ccc''"
    by (simp add: agent_mint_def p mint_def one_token_jwt_def)
  have h: "map_of (agent_headers one_token_jwt default_settings 0 ''hr_agent'' None None) ''Authorization'' =
      Some ''Bearer aaa.bbb.ccc''"
    by (simp add: agent_headers_def tok)
  have w: "\<forall>c \<in> set (agent_mint one_token_jwt default_settings 0 ''hr_agent''). \<not> is_space c"
    unfolding tok by code_simp
  have dec: "jwt_decode one_token_jwt 5 (agent_mint one_token_jwt default_settings 0 ''hr_agent'')
      (st_dev_token_signing_secret default_settings) (dev_options (st_entra_audience default_settings)) =
      Inr (dev_claims (settings_signer default_settings) 0 (fst (persona ''hr_agent''))
        (snd (persona ''hr_agent'')) ''hr_agent'' [''tools.invoke''] 3600)"
    by (simp add: one_token_jwt_def p)
  from agent_header_authenticates [OF dev vf _ h dec w] show ?thesis by (auto simp: p)
qed

text \<open>
  The scripted flow matches the demo registry: the calls labelled as denied and blocked are
  exactly those the access decision refuses, with the reasons the labels give, and the arguments
  of every call pass their model.\<close>

lemma demo_script_matches_registry:
  "map (\<lambda>c. map_option (\<lambda>spec.
        (decision_code (evaluate (dm_role c) (ts_required_roles spec) all_roles (ts_enabled spec)),
         case validate_args strict_validate spec (dm_arguments c) of Inl e \<Rightarrow> False | Inr a \<Rightarrow> True))
      (registry_get (default_registry True) (dm_tool c))) demo_script =
   [Some (''allowed'', True), Some (''allowed'', True), Some (''allowed'', True),
    Some (''role_not_permitted'', True), Some (''allowed'', True), Some (''allowed'', True),
    Some (''tool_disabled'', True)]"
proof -
  have "registry_get (default_registry True) ''run_budget_variance_report'' = Some spec_budget_report"
    by (simp add: registry_get_def default_registry_def reference_tools_def spec_defs)
  then show ?thesis
    by (simp add: demo_calls workflow_arguments_def spec_defs role_group_defs all_roles_def evaluate_def
        decision_code_def validate_args_def strict_validate_def model_defs field_value_def)
qed

section \<open>How many requests the script sends\<close>

text \<open>A program that raises \<open>cnt\<close> by at most \<open>n\<close>, in whatever way it ends.\<close>

definition at_most :: "('w \<Rightarrow> nat) \<Rightarrow> nat \<Rightarrow> ('w, 'a) script \<Rightarrow> bool" where
  "at_most cnt n p \<longleftrightarrow> (\<forall>st. cnt (fst (snd (p st))) \<le> cnt (fst st) + n)"

lemma at_most_mono: "at_most cnt m p \<Longrightarrow> m \<le> n \<Longrightarrow> at_most cnt n p"
  unfolding at_most_def by (meson add_left_mono order_trans)

lemma at_most_bind:
  assumes "at_most cnt m p" "\<And>x. at_most cnt n (f x)"
  shows "at_most cnt (m + n) (bind_prog p f)"
  unfolding at_most_def
proof
  fix st
  obtain r st' where p: "p st = (r, st')" by (cases "p st")
  with assms(1) have 1: "cnt (fst st') \<le> cnt (fst st) + m" unfolding at_most_def by (metis snd_conv)
  show "cnt (fst (snd (bind_prog p f st))) \<le> cnt (fst st) + (m + n)"
  proof (cases r)
    case (Inl e)
    with p 1 show ?thesis by (simp add: bind_prog_def)
  next
    case (Inr x)
    from assms(2) [of x] have "cnt (fst (snd (f x st'))) \<le> cnt (fst st') + n" unfolding at_most_def by blast
    with p 1 Inr show ?thesis by (simp add: bind_prog_def)
  qed
qed

lemma at_most_0:
  "at_most cnt 0 (pure r)" "at_most cnt 0 (say l)" "at_most cnt 0 skip"
  by (simp_all add: at_most_def pure_def say_def skip_def)

lemma at_most_quiet:
  assumes "at_most cnt 0 p" "\<And>x. at_most cnt n (f x)"
  shows "at_most cnt n (bind_prog p f)"
  using at_most_bind [OF assms] by simp

lemma at_most_if: "at_most cnt n p \<Longrightarrow> at_most cnt n q \<Longrightarrow> at_most cnt n (if b then p else q)"
  by simp

lemma at_most_show: "at_most cnt 0 (show_reply l r)"
  unfolding show_reply_def say_if_def by (intro at_most_quiet at_most_if at_most_0)

lemma at_most_audit: "at_most cnt 0 (say_audit cs)"
  by (induction cs) (auto intro!: at_most_quiet at_most_0)

text \<open>A client that counts: each request is one.\<close>

definition counts :: "('w \<Rightarrow> nat) \<Rightarrow> 'w http_client \<Rightarrow> bool" where
  "counts cnt client \<longleftrightarrow> (\<forall>rq w. cnt (snd (client rq w)) = Suc (cnt w))"

lemma at_most_send: "counts cnt client \<Longrightarrow> at_most cnt 1 (send client rq)"
  by (simp add: counts_def at_most_def send_def split: prod.splits) (metis le_refl snd_conv)

lemma at_most_send_at: "counts cnt client \<Longrightarrow> at_most cnt 1 (send_at client clock rq)"
  using at_most_send [of cnt client] by (simp add: at_most_def send_at_def)

lemma at_most_call: "counts cnt client \<Longrightarrow> at_most cnt 1 (run_call J s url client clock c)"
  using at_most_bind [OF at_most_send_at at_most_show] by (simp add: run_call_def)

lemma at_most_calls: "counts cnt client \<Longrightarrow> at_most cnt (length cs) (run_calls J s url client clock cs)"
proof (induction cs)
  case (Cons c cs)
  have "at_most cnt (1 + length cs) (run_calls J s url client clock (c # cs))"
    unfolding run_calls.simps by (intro at_most_bind at_most_call Cons)
  then show ?case by simp
qed (simp add: at_most_0)

lemma at_most_poll: "counts cnt client \<Longrightarrow> at_most cnt n (poll_job n J s url client clock j)"
proof (induction n)
  case (Suc n)
  have "at_most cnt (1 + n) (poll_job (Suc n) J s url client clock j)"
    unfolding poll_job.simps
    by (intro at_most_bind at_most_send_at Suc.prems at_most_quiet at_most_0 at_most_if Suc.IH
        at_most_mono [OF at_most_0(3)]) simp
  then show ?case by simp
qed (simp add: at_most_0)

text \<open>C32 (bounds).
  Whatever the gateway answers, and also when the run ends with an exception, the demo client sends
  at most 29 requests: the tool list, seven calls, at most 20 looks at the job, and the audit trail.\<close>

theorem demo_sends_at_most_29:
  assumes "counts cnt client"
  shows "cnt (fst (snd (run_demo J s url client clock st))) \<le> cnt (fst st) + 29"
proof -
  have five: "length later_calls = 5" by (simp add: later_calls_def)
  have "at_most cnt (1 + (1 + (1 + (20 + (5 + (1 + 0)))))) (run_demo J s url client clock)"
    unfolding run_demo_def five [symmetric]
    by (intro at_most_quiet [OF at_most_0(1)] at_most_quiet [OF at_most_0(2)] at_most_bind at_most_send
        at_most_send_at at_most_call at_most_calls at_most_if at_most_poll at_most_audit assms
        at_most_mono [OF at_most_0(3)]) simp_all
  from this [unfolded at_most_def, rule_format, of st] show ?thesis by simp
qed

theorem demo_sends_at_most_29_witness:
  "fst (snd (run_demo one_token_jwt default_settings ''http://localhost:8080''
     (\<lambda>rq n. (Inr ServerError, Suc n)) (\<lambda>n. 0) (0, []))) \<le> (29 :: nat)"
proof -
  have "counts id (\<lambda>rq n. (Inr ServerError, Suc n))" by (simp add: counts_def)
  from demo_sends_at_most_29 [OF this, of one_token_jwt default_settings "''http://localhost:8080''" "\<lambda>n. 0" "(0, [])"]
  show ?thesis by simp
qed

end
