(* ===== verification/DemoRun.thy ===== *)
theory DemoRun
  imports DemoAgent HttpProps EndToEnd
begin

text \<open>
  The demo client, the gateway and the worker together: the client's requests on the wire, and
  what a run of the scripted flow leaves behind.
\<close>

section \<open>Client and gateway connected\<close>

text \<open>
  What the HTTP client library sends for a request to the gateway at \<open>base\<close>. No text of the
  script needs quoting in a URL.
\<close>

definition query_pair :: "string \<Rightarrow> string \<times> string" where
  "query_pair t = (takeWhile (\<lambda>c. c \<noteq> CHR ''='') t, drop 1 (dropWhile (\<lambda>c. c \<noteq> CHR ''='') t))"

definition to_http :: "string \<Rightarrow> client_request \<Rightarrow> http_request" where
  "to_http base cq =
     (let target = drop (length base) (cq_url cq);
          query = drop 1 (dropWhile (\<lambda>c. c \<noteq> CHR ''?'') target)
      in \<lparr>hq_method = cq_method cq, hq_path = takeWhile (\<lambda>c. c \<noteq> CHR ''?'') target,
          hq_query = (if query = [] then [] else map query_pair (split_on (CHR ''&'') query)),
          hq_headers = cq_headers cq,
          hq_body = (case cq_json cq of None \<Rightarrow> NoBody | Some d \<Rightarrow> JsonBody (PDict d))\<rparr>)"

text \<open>
  The world is the state of the server with the number of requests so far; before request \<open>n\<close>
  others can act on the state (\<open>between\<close>).
\<close>

definition network ::
  "string \<Rightarrow> 'q server \<Rightarrow> (nat \<Rightarrow> request_env) \<Rightarrow> (nat \<Rightarrow> db \<times> 'q \<Rightarrow> db \<times> 'q) \<Rightarrow>
   ((db \<times> 'q) \<times> nat) http_client" where
  "network base sv re between rq w =
     (case serve sv (re (snd w)) (to_http base rq) (between (snd w) (fst w)) of
        (r, line, dq) \<Rightarrow> (Inr r, (dq, Suc (snd w))))"

text \<open>
  The token library reads back what it has signed, at the time of signing, and its tokens are
  single words.
\<close>

definition signs_and_reads :: "string jwt \<Rightarrow> settings \<Rightarrow> bool" where
  "signs_and_reads J s \<longleftrightarrow> (\<forall>now. \<forall>role \<in> fst ` set PERSONAS.
     (\<forall>c \<in> set (agent_mint J s now role). \<not> is_space c) \<and>
     jwt_decode J now (agent_mint J s now role) (st_dev_token_signing_secret s) (dev_options (st_entra_audience s)) =
       Inr (dev_claims (settings_signer s) now (fst (persona role)) (snd (persona role)) role [''tools.invoke''] 3600))"

definition persona_caller :: "string \<Rightarrow> caller" where
  "persona_caller role = \<lparr>cl_subject = fst (persona role), cl_agent_id = snd (persona role), cl_role = role\<rparr>"

lemma persona_caller_simps [simp]:
  "cl_role (persona_caller role) = role" "cl_agent_id (persona_caller role) = snd (persona role)"
  by (simp_all add: persona_caller_def)

lemma persona_roles: "fst ` set PERSONAS = set all_roles"
  by (auto simp: PERSONAS_def all_roles_def)

lemma authorization_of_agent: "hq_headers rq = agent_headers J s t role at key \<Longrightarrow>
    authorization rq = ''Bearer '' @ agent_mint J s t role"
proof -
  have "map lower_char ''Authorization'' = ''authorization''" by code_simp
  then show "hq_headers rq = agent_headers J s t role at key \<Longrightarrow> ?thesis"
    by (simp add: authorization_def header_def agent_headers_def)
qed

lemma client_authenticated:
  assumes "signs_and_reads J s" "local_settings s" "role \<in> set all_roles"
    and "hq_headers rq = agent_headers J s (re_time re) role at key"
  shows "\<exists>p. authenticate (ref_server J s) re rq = Inr p \<and> caller_of p = Some (persona_caller role)"
proof -
  have dev: "st_auth_mode s = Dev" using assms(2) by (simp add: local_settings_def)
  let ?h = "''Bearer '' @ agent_mint J s (re_time re) role"
  have vf: "build_verifier s = Inr (app_verifier (local_app s))"
    by (simp add: dev_verifier dev local_app_def Let_def)
  have role: "role \<noteq> []" using assms(3) by (auto simp: all_roles_def)
  have h: "map_of (agent_headers J s (re_time re) role at key) ''Authorization'' = Some ?h"
    by (simp add: agent_headers_def)
  have reads: "\<forall>c \<in> set (agent_mint J s (re_time re) role). \<not> is_space c"
    "jwt_decode J (re_time re) (agent_mint J s (re_time re) role) (st_dev_token_signing_secret s) (dev_options (st_entra_audience s)) =
       Inr (dev_claims (settings_signer s) (re_time re) (fst (persona role)) (snd (persona role)) role [''tools.invoke''] 3600)"
    using assms(1,3) unfolding signs_and_reads_def persona_roles by blast+
  from agent_header_authenticates [OF dev vf role h reads(2,1)] show ?thesis
    by (auto simp: authenticate_def authorization_of_agent [OF assms(4)] persona_caller_def)
qed

section \<open>Routes of the client's requests\<close>

lemma split_on_none: "c \<notin> set xs \<Longrightarrow> split_on c xs = [xs]"
  by (induction xs) auto

lemma split_on_first: "c \<notin> set xs \<Longrightarrow> split_on c (xs @ c # ys) = xs # split_on c ys"
  by (induction xs) auto

definition plain_segment :: "string \<Rightarrow> bool" where
  "plain_segment t \<longleftrightarrow> t \<noteq> [] \<and> CHR ''/'' \<notin> set t \<and> CHR ''?'' \<notin> set t"

lemma invoke_path:
  assumes "plain_segment t"
  shows "split_on (CHR ''/'') (''/tools/'' @ t @ ''/invoke'') = [[], ''tools'', t, ''invoke'']"
proof -
  have "split_on (CHR ''/'') (t @ CHR ''/'' # ''invoke'') = t # split_on (CHR ''/'') ''invoke''"
    using assms by (intro split_on_first) (simp add: plain_segment_def)
  then show ?thesis by simp
qed

lemma job_path:
  assumes "plain_segment j"
  shows "split_on (CHR ''/'') (''/jobs/'' @ j) = [[], ''jobs'', j]"
  using assms split_on_none [of "CHR ''/''" j] by (simp add: plain_segment_def)

lemma route_invoke:
  assumes "plain_segment t" "hq_method rq = ''POST''" "hq_path rq = ''/tools/'' @ t @ ''/invoke''"
  shows "route_request rq = Some (InvokeTool, [t])"
  using assms(1)
  by (simp add: route_request_def assms(2,3) ROUTES_def route_defs match_route_def plain_segment_def
      invoke_path [OF assms(1)] del: append.simps)

lemma route_job:
  assumes "plain_segment j" "hq_method rq = ''GET''" "hq_path rq = ''/jobs/'' @ j"
  shows "route_request rq = Some (GetJob, [j])"
  using assms(1)
  by (simp add: route_request_def assms(2,3) ROUTES_def route_defs match_route_def plain_segment_def
      job_path [OF assms(1)] del: append.simps)

section \<open>One call over the network\<close>

definition demo_invocation :: "demo_call \<Rightarrow> invocation" where
  "demo_invocation c =
     \<lparr>iv_caller = persona_caller (dm_role c), iv_tool = dm_tool c, iv_arguments = dm_arguments c,
      iv_idempotency_key = dm_key c, iv_approval_token = None, iv_request_id = None\<rparr>"

lemma demo_invocation_simps [simp]:
  "iv_caller (demo_invocation c) = persona_caller (dm_role c)" "iv_tool (demo_invocation c) = dm_tool c"
  "iv_arguments (demo_invocation c) = dm_arguments c" "iv_approval_token (demo_invocation c) = None"
  "iv_request env (demo_invocation c) = gen_request_id (ce_request_uuid env)"
  "dm_key c = Some k \<Longrightarrow> k \<noteq> [] \<Longrightarrow> call_key env (demo_invocation c) = k"
  by (simp_all add: demo_invocation_def iv_request_def call_key_def text_or_def)

definition well_formed_call :: "demo_call \<Rightarrow> bool" where
  "well_formed_call c \<longleftrightarrow> dm_role c \<in> set all_roles \<and> plain_segment (dm_tool c) \<and> dm_key c \<noteq> Some []"

lemma agent_headers_read:
  assumes "hq_headers rq = agent_headers J s t role None key" "key \<noteq> Some []"
  shows "header rq ''Idempotency-Key'' = key" "header rq ''X-Approval-Token'' = None"
proof -
  have "map lower_char ''Authorization'' = ''authorization''"
    "map lower_char ''Idempotency-Key'' = ''idempotency-key''"
    "map lower_char ''X-Approval-Token'' = ''x-approval-token''" by code_simp+
  then show "header rq ''Idempotency-Key'' = key" "header rq ''X-Approval-Token'' = None"
    using assms by (simp_all add: header_def agent_headers_def split: option.split)
qed

definition call_reply :: "outcome \<Rightarrow> http_reply" where
  "call_reply oc =
     \<lparr>hr_status = http_status oc, hr_headers = [(''X-Trace-Id'', oc_trace_id oc), (''X-Request-Id'', oc_request_id oc)],
      hr_body = PDict (invoke_response oc)\<rparr>"

lemma takeWhile_no: "c \<notin> set xs \<Longrightarrow> takeWhile (\<lambda>x. x \<noteq> c) xs = xs" "c \<notin> set xs \<Longrightarrow> dropWhile (\<lambda>x. x \<noteq> c) xs = []"
  by (auto simp: takeWhile_eq_all_conv dropWhile_eq_Nil_conv)

lemma call_served:
  assumes "signs_and_reads J s" "local_settings s" "well_formed_call c"
    and "invoke strict_validate (app_executor (local_app s)) (re_call re) (demo_invocation c) dq = (Inr oc, dq')"
  shows "\<exists>line. serve (ref_server J s) re
    (to_http base (agent_call J s (re_time re) base (dm_role c) (dm_tool c) (dm_arguments c) None (dm_key c))) dq =
      (JsonReply (call_reply oc), line, dq')"
proof -
  let ?rq = "to_http base (agent_call J s (re_time re) base (dm_role c) (dm_tool c) (dm_arguments c) None (dm_key c))"
  have seg: "plain_segment (dm_tool c)" using assms(3) by (simp add: well_formed_call_def)
  then have target: "CHR ''?'' \<notin> set (''/tools/'' @ dm_tool c @ ''/invoke'')" by (simp add: plain_segment_def)
  have rq: "hq_method ?rq = ''POST''" "hq_path ?rq = ''/tools/'' @ dm_tool c @ ''/invoke''"
    "hq_headers ?rq = agent_headers J s (re_time re) (dm_role c) None (dm_key c)"
    "hq_body ?rq = JsonBody (PDict [(''arguments'', PDict (dm_arguments c))])"
    using takeWhile_no [OF target] by (simp_all add: to_http_def agent_call_def)
  have role: "dm_role c \<in> set all_roles" and key: "dm_key c \<noteq> Some []"
    using assms(3) by (simp_all add: well_formed_call_def)
  from client_authenticated [OF assms(1,2) role rq(3)] obtain p where
    p: "authenticate (ref_server J s) re ?rq = Inr p" "caller_of p = Some (persona_caller (dm_role c))" by blast
  let ?b = "\<lparr>rq_arguments = dm_arguments c, rq_idempotency_key = None\<rparr>"
  have body: "InvokeRequest (PDict [(''arguments'', PDict (dm_arguments c))]) = Some ?b"
    by (simp add: InvokeRequest_def dict_get_or_def dict_get_def)
  have iv: "\<lparr>iv_caller = persona_caller (dm_role c), iv_tool = dm_tool c, iv_arguments = dm_arguments c,
      iv_idempotency_key = (case dm_key c of None \<Rightarrow> rq_idempotency_key ?b
        | Some k \<Rightarrow> if k = [] then rq_idempotency_key ?b else Some k),
      iv_approval_token = None, iv_request_id = None\<rparr> = demo_invocation c"
    using key by (auto simp: demo_invocation_def split: option.split)
  have "run_protected (ref_server J s) re InvokeTool (dm_tool c) ?rq p dq = (Inr (call_reply oc), dq')"
    using assms(4) agent_headers_read [OF rq(3) key]
    by (simp add: run_protected_def rq(4) body p(2) invoke_tool_def iv bind_prog_def call_reply_def)
  moreover have "public_reply (ref_server J s) InvokeTool = None" by (simp add: public_reply_def)
  ultimately have "respond (ref_server J s) re ?rq dq = (Inr (call_reply oc), dq')"
    by (simp add: respond_def route_invoke [OF seg rq(1,2)] rq(4) p(1) first_param_def handled_def)
  then show ?thesis by (simp add: serve_def)
qed

text \<open>The client shows every such reply.\<close>

lemma bind_returned: "p st = (Inr x, st') \<Longrightarrow> bind_prog p f st = f x st'"
  by (simp add: bind_prog_def)

lemma say_run: "say t (w, out) = (Inr (), (w, out @ [t]))"
  by (simp add: say_def)

lemma show_call_reply:
  "\<exists>out'. show_reply l (JsonReply (call_reply oc)) (w, out) = (Inr (PDict (invoke_response oc)), (w, out'))"
  by (auto simp: show_reply_def bind_prog_def pure_def say_def say_if_def skip_def call_reply_def
      invoke_response_def dict_get_or_def py_eq.simps)

lemma send_at_network:
  "serve sv (re n) (to_http url (rq (re_time (re n)))) (between n dq) = (r, line, dq') \<Longrightarrow>
    send_at (network url sv re between) (\<lambda>w. re_time (re (snd w))) rq ((dq, n), out) = (Inr r, ((dq', Suc n), out))"
  by (simp add: send_at_def send_def network_def)

lemma run_call_returns:
  assumes "signs_and_reads J s" "local_settings s" "well_formed_call c" "between n dq = dq1"
    and "invoke strict_validate (app_executor (local_app s)) (re_call (re n)) (demo_invocation c) dq1 = (Inr oc, dq')"
  shows "\<exists>out'. run_call J s url (network url (ref_server J s) re between) (\<lambda>w. re_time (re (snd w))) c
    ((dq, n), out) = (Inr (PDict (invoke_response oc)), ((dq', Suc n), out'))"
proof -
  from call_served [OF assms(1-3,5), of url] obtain line where
    served: "serve (ref_server J s) (re n) (to_http url
      (agent_call J s (re_time (re n)) url (dm_role c) (dm_tool c) (dm_arguments c) None (dm_key c))) dq1 =
        (JsonReply (call_reply oc), line, dq')" by blast
  note sent = send_at_network [of "ref_server J s" re n url "\<lambda>now.
    agent_call J s now url (dm_role c) (dm_tool c) (dm_arguments c) None (dm_key c)" between dq, where out = out, unfolded assms(4), OF served]
  from show_call_reply [of "dm_label c" oc "(dq', Suc n)" out] obtain out' where
    "show_reply (dm_label c) (JsonReply (call_reply oc)) ((dq', Suc n), out) =
      (Inr (PDict (invoke_response oc)), ((dq', Suc n), out'))" by blast
  then show ?thesis by (simp add: run_call_def bind_prog_def sent)
qed

section \<open>What the calls of the script do\<close>

definition trail_entry :: "tool_call \<Rightarrow> string \<times> string \<times> string \<times> string option" where
  "trail_entry row = (tc_role row, tc_tool_name row, tc_decision row, tc_error_code row)"

text \<open>The call has added its row to the trail.\<close>

definition logged :: "call_env \<Rightarrow> demo_call \<Rightarrow> string \<Rightarrow> string option \<Rightarrow> db \<Rightarrow> db \<Rightarrow> bool" where
  "logged env c dec err d d' \<longleftrightarrow> (\<exists>row. db_calls d' = db_calls d @ [row] \<and>
     trail_entry row = (dm_role c, dm_tool c, dec, err) \<and> tc_request_id row = gen_request_id (ce_request_uuid env))"

lemma local_executor_simps [simp]:
  "ex_settings (app_executor (local_app s)) = s"
  "ex_registry (app_executor (local_app s)) = default_registry (is_demo s)"
  "ex_known_roles (app_executor (local_app s)) = all_roles"
  "ex_queue (app_executor (local_app s)) = LocalQueue (queue_of s)"
  "ex_tool_ctx (app_executor (local_app s)) = \<lparr>cx_settings = s, cx_databricks = MockDatabricksConnector\<rparr>"
  "app_settings (local_app s) = s"
  by (simp_all add: local_app_def new_executor_def Let_def)

definition unused_request :: "call_env \<Rightarrow> db \<Rightarrow> bool" where
  "unused_request env d \<longleftrightarrow> gen_request_id (ce_request_uuid env) \<notin> tc_request_id ` set (db_calls d)"

lemma recorded_call:
  assumes "local_settings s" "unused_request env d"
    and "decide V (app_executor (local_app s)) env (demo_invocation c) (open_session (ce_now env) d, q) = (oc0, (se, q'))"
    and "log_by (open_session (ce_now env) d) ws se" "commit SQLite ws d = Inr (fold apply_write ws d)"
    and "\<forall>w \<in> set ws. \<not> audit_write w"
  shows "\<exists>oc d'. invoke V (app_executor (local_app s)) env (demo_invocation c) (d, q) = (Inr oc, (d', q')) \<and>
    oc_job_id oc = oc_job_id oc0 \<and> same_tables (fold apply_write ws d) d' \<and>
    logged env c (oc_decision oc0) (oc_error_code oc0) d d'"
proof -
  let ?oc = "oc0\<lparr>oc_latency_ms := latency_ms env\<rparr>" and ?iv = "demo_invocation c"
  let ?d = "fold apply_write (call_log env ?iv ?oc) (fold apply_write ws d)"
  have eng: "engine_of_url (st_database_url s) = SQLite" using assms(1) by (simp add: local_settings_def)
  note frame = no_audit_frame [OF assms(6)]
  have "commit SQLite (call_log env ?iv ?oc) (fold apply_write ws d) = Inr ?d"
    using frame assms(2) by (simp add: call_log_def call_row_def unused_request_def)
  then have "invoke V (app_executor (local_app s)) env ?iv (d, q) = (Inr ?oc, (?d, q'))"
    by (simp add: invoke_unfold [OF assms(3,4)] eng commit_append assms(5) Let_def)
  moreover have "logged env c (oc_decision oc0) (oc_error_code oc0) d ?d"
    using frame by (simp add: logged_def trail_entry_def call_row_def)
  ultimately show ?thesis by (intro exI [of _ ?oc] exI [of _ ?d]) simp
qed

lemma quiet_call:
  assumes "local_settings s" "unused_request env d"
    and "decide V (app_executor (local_app s)) env (demo_invocation c) (open_session (ce_now env) d, q) =
      (oc0, (open_session (ce_now env) d, q))"
  shows "\<exists>oc d'. invoke V (app_executor (local_app s)) env (demo_invocation c) (d, q) = (Inr oc, (d', q)) \<and>
    oc_job_id oc = oc_job_id oc0 \<and> same_tables d d' \<and> logged env c (oc_decision oc0) (oc_error_code oc0) d d'"
  using recorded_call [OF assms log_by_simps(1)] by simp

lemma demo_authorised:
  "registry_get (default_registry (is_demo s)) (dm_tool c) = Some spec \<Longrightarrow> ts_enabled spec \<Longrightarrow>
    dm_role c \<in> set all_roles \<Longrightarrow> dm_role c \<in> set (ts_required_roles spec) \<Longrightarrow>
    authorised (app_executor (local_app s)) (demo_invocation c)"
  by (simp add: authorised_def)

lemma executed_call:
  assumes "local_settings s" "unused_request env d"
    and reg: "registry_get (default_registry (is_demo s)) (dm_tool c) = Some spec" and "ts_enabled spec"
    and "dm_role c \<in> set all_roles" "dm_role c \<in> set (ts_required_roles spec)"
    and valid: "validate_args strict_validate spec (dm_arguments c) = Inr args"
    and "ts_classification spec = READ" "\<not> ts_dry_run_required spec" "ts_execution_mode spec = SYNC"
    and run: "ts_run spec \<lparr>cx_settings = s, cx_databricks = MockDatabricksConnector\<rparr> args = Inr result"
  shows "\<exists>oc d'. invoke strict_validate (app_executor (local_app s)) env (demo_invocation c) (d, q) = (Inr oc, (d', q)) \<and>
    same_tables d d' \<and> logged env c ''executed'' None d d'"
proof -
  let ?ex = "app_executor (local_app s)" and ?iv = "demo_invocation c" and ?st = "(open_session (ce_now env) d, q)"
  obtain oc where "route ?ex env ?iv spec args ?st = (Inr oc, ?st)" "oc_decision oc = ''executed''"
    "oc_error_code oc = None"
    using assms(8-10) run
    by (cases "redact_output spec (iv_caller ?iv) (tr_output result)")
      (auto simp: route_def handle_sync_def outcome_for_def InvocationOutcome_def)
  moreover from this(1) have "decide strict_validate ?ex env ?iv ?st = (oc, ?st)"
    using reg valid
    by (intro decide_answered [of _ _ spec _ args] demo_authorised [OF reg assms(4-6)]) simp_all
  ultimately show ?thesis using quiet_call [OF assms(1,2), of strict_validate c q oc] by auto
qed

lemma denied_call:
  assumes "local_settings s" "unused_request env d"
    and "registry_get (default_registry (is_demo s)) (dm_tool c) = Some spec"
    and "\<not> dc_allowed (evaluate (dm_role c) (ts_required_roles spec) all_roles (ts_enabled spec))"
    and "decision_code (evaluate (dm_role c) (ts_required_roles spec) all_roles (ts_enabled spec)) = code"
  shows "\<exists>oc d'. invoke strict_validate (app_executor (local_app s)) env (demo_invocation c) (d, q) = (Inr oc, (d', q)) \<and>
    same_tables d d' \<and> logged env c ''denied'' (Some code) d d'"
proof -
  let ?st = "(open_session (ce_now env) d, q)"
  obtain oc where "decide strict_validate (app_executor (local_app s)) env (demo_invocation c) ?st = (oc, ?st)"
    "oc_decision oc = ''denied''" "oc_error_code oc = Some code"
    using assms(3-5)
    by (auto simp: decide_def refused_def outcome_for_def InvocationOutcome_def Let_def simp del: evaluate_allowed_iff)
  then show ?thesis using quiet_call [OF assms(1,2), of strict_validate c q oc] by auto
qed

lemma workflow_valid:
  "validate_args strict_validate spec_trigger_workflow workflow_arguments = Inr workflow_arguments"
  by (simp add: validate_args_def strict_validate_def spec_trigger_workflow_def model_defs field_value_def
      workflow_arguments_def)

definition workflow_request :: "demo_call \<Rightarrow> string \<Rightarrow> bool" where
  "workflow_request c k \<longleftrightarrow> dm_role c = ''finance_agent'' \<and> dm_tool c = ''trigger_databricks_workflow'' \<and>
     dm_arguments c = workflow_arguments \<and> dm_key c = Some k \<and> k \<noteq> []"

lemma workflow_decides:
  assumes "workflow_request c k"
    and "handle_async (app_executor (local_app s)) env (demo_invocation c) spec_trigger_workflow workflow_arguments st =
      (Inr oc, st')"
  shows "decide strict_validate (app_executor (local_app s)) env (demo_invocation c) st = (oc, st')"
proof -
  from assms(1) have c: "dm_role c = ''finance_agent''" "dm_tool c = ''trigger_databricks_workflow''"
    "dm_arguments c = workflow_arguments" by (simp_all add: workflow_request_def)
  have "authorised (app_executor (local_app s)) (demo_invocation c)"
    by (rule demo_authorised [of _ _ spec_trigger_workflow])
      (simp_all add: c all_roles_def spec_trigger_workflow_def FINANCE_ROLES_def)
  then show ?thesis
    using assms(2)
    by (intro decide_answered [of _ _ spec_trigger_workflow _ workflow_arguments])
      (simp_all add: c workflow_valid route_async [OF async_spec(1-3)])
qed

lemma queued_call:
  assumes "local_settings s" "unused_request env d" "workflow_request c k"
    and "db_keys d k = None" "db_jobs d (job_id_of env) = None"
  shows "\<exists>oc d'. invoke strict_validate (app_executor (local_app s)) env (demo_invocation c) (d, rows) =
      (Inr oc, (d', snd (lq_publish (queue_of s) (ce_now env)
        (job_message env (demo_invocation c) spec_trigger_workflow workflow_arguments) rows))) \<and>
    (oc_job_id oc = Some (job_id_of env) \<and> db_approvals d' = db_approvals d \<and>
     (\<exists>j r. db_jobs d' = (db_jobs d)(job_id_of env \<mapsto> j) \<and> db_keys d' = (db_keys d)(k \<mapsto> r) \<and>
        ik_status r = ''reserved'' \<and> ik_job_id r = Some (job_id_of env))) \<and>
    logged env c ''queued'' None d d'"
proof -
  let ?iv = "demo_invocation c" and ?se = "open_session (ce_now env) d"
  let ?m = "job_message env ?iv spec_trigger_workflow workflow_arguments"
  let ?r = "\<lparr>ik_key = k, ik_tool_name = ts_name spec_trigger_workflow, ik_job_id = Some (job_id_of env),
    ik_input_hash = iv_input_hash ?iv, ik_status = ''reserved'', ik_result = None, ik_created_at = ce_now env\<rparr>"
  let ?j = "(queued_job env ?iv spec_trigger_workflow workflow_arguments)
    \<lparr>aj_created_at := ce_now env, aj_updated_at := ce_now env\<rparr>"
  let ?se' = "se_add (AddJob ?j) (se_add (AddKey ?r) ?se)"
  have key: "call_key env ?iv = k" using assms(3) by (auto simp: workflow_request_def)
  have free: "get_idempotency k ?se = None" using assms(4) by (simp add: get_idempotency_def)
  have id: "aj_job_id ?j = job_id_of env" by (simp add: queued_job_def)
  obtain oc where "handle_async (app_executor (local_app s)) env ?iv spec_trigger_workflow workflow_arguments (?se, rows) =
      (Inr oc, (?se', snd (lq_publish (queue_of s) (ce_now env) ?m rows)))"
    "oc_job_id oc = Some (job_id_of env)" "oc_decision oc = ''queued''" "oc_error_code oc = None"
    using free
    by (simp add: handle_async_def key reserve_idempotency_def LocalQueue_def lq_publish_def create_job_def
        outcome_for_def InvocationOutcome_def)
  note oc = this
  note dec = workflow_decides [OF assms(3) oc(1)]
  have com: "commit SQLite [AddKey ?r, AddJob ?j] d = Inr (fold apply_write [AddKey ?r, AddJob ?j] d)"
    using assms(4,5) id by simp
  from recorded_call [OF assms(1,2) dec _ com] oc(2-4) show ?thesis
    by (auto simp: same_tables_def id intro!: exI [of _ ?j] exI [of _ ?r])
qed

lemma repeated_call:
  assumes "local_settings s" "unused_request env d" "workflow_request c k" "db_keys d k = Some r"
  shows "\<exists>oc d'. invoke strict_validate (app_executor (local_app s)) env (demo_invocation c) (d, q) = (Inr oc, (d', q)) \<and>
    same_tables d d' \<and> logged env c ''queued'' None d d'"
proof -
  have "call_key env (demo_invocation c) = k" using assms(3) by (auto simp: workflow_request_def)
  then have "handle_async (app_executor (local_app s)) env (demo_invocation c) spec_trigger_workflow workflow_arguments
      (open_session (ce_now env) d, q) =
      (Inr (duplicate_outcome env (demo_invocation c) spec_trigger_workflow (ik_job_id r)), (open_session (ce_now env) d, q))"
    using assms(4) by (simp add: handle_async_def get_idempotency_def)
  from quiet_call [OF assms(1,2) workflow_decides [OF assms(3) this]] show ?thesis
    by (auto simp: duplicate_outcome_def outcome_for_def InvocationOutcome_def)
qed

lemma spec_crm_dry_run_dry: "ts_classification spec_crm_dry_run \<noteq> DESTRUCTIVE" "ts_dry_run_required spec_crm_dry_run"
  by (simp_all add: spec_crm_dry_run_def)

lemma proposal_call:
  assumes "local_settings s" "unused_request env d" "dm_role c = ''sales_agent''"
    and "dm_tool c = ''create_crm_update_dry_run''"
    and "dm_arguments c = [(''account_id'', PStr ''ACC-300''), (''proposed_changes'', PDict [(''tier'', PStr ''gold'')])]"
    and "db_approvals d (approval_id_of env) = None"
  shows "\<exists>oc d'. invoke strict_validate (app_executor (local_app s)) env (demo_invocation c) (d, q) = (Inr oc, (d', q)) \<and>
    (db_jobs d' = db_jobs d \<and> db_keys d' = db_keys d \<and>
     (\<exists>a. db_approvals d' = (db_approvals d)(approval_id_of env \<mapsto> a) \<and> ap_status a = ''pending'')) \<and>
    logged env c ''dry_run'' None d d'"
proof -
  let ?ex = "app_executor (local_app s)" and ?iv = "demo_invocation c"
  let ?args = "[(''account_id'', PStr ''ACC-300''), (''proposed_changes'', PDict [(''tier'', PStr ''gold'')])]"
  let ?st = "(open_session (ce_now env) d, q)"
  obtain result where run: "ts_run spec_crm_dry_run \<lparr>cx_settings = s, cx_databricks = MockDatabricksConnector\<rparr> ?args = Inr result"
    by (simp add: spec_crm_dry_run_def tool_defs CRM_ACCOUNTS_def)
  let ?a = "(pending_approval env ?iv spec_crm_dry_run result)\<lparr>ap_created_at := ce_now env, ap_updated_at := ce_now env\<rparr>"
  obtain oc where "route ?ex env ?iv spec_crm_dry_run ?args ?st =
      (Inr oc, (se_add (AddApproval ?a) (open_session (ce_now env) d), q))"
    "oc_decision oc = ''dry_run''" "oc_error_code oc = None"
    by (cases "redact_output spec_crm_dry_run (iv_caller ?iv) (tr_output result)")
      (simp add: route_dry spec_crm_dry_run_dry handle_dry_run_def run create_approval_def Let_def
        outcome_for_def InvocationOutcome_def)
  note oc = this
  have "authorised ?ex ?iv"
    by (rule demo_authorised [of _ _ spec_crm_dry_run])
      (simp_all add: assms(3,4) all_roles_def spec_crm_dry_run_def SALES_ROLES_def)
  moreover have "validate_args strict_validate spec_crm_dry_run ?args = Inr ?args"
    by (simp add: validate_args_def strict_validate_def spec_crm_dry_run_def model_defs field_value_def)
  ultimately have dec: "decide strict_validate ?ex env ?iv ?st =
      (oc, (se_add (AddApproval ?a) (open_session (ce_now env) d), q))"
    using oc(1) by (intro decide_answered [of _ _ spec_crm_dry_run _ ?args]) (simp_all add: assms(4,5))
  have com: "commit SQLite [AddApproval ?a] d = Inr (fold apply_write [AddApproval ?a] d)"
    using assms(6) by (simp add: pending_approval_def)
  from recorded_call [OF assms(1,2) dec _ com] oc(2,3) show ?thesis
    by (auto simp: same_tables_def pending_approval_def intro!: exI [of _ ?a])
qed

section \<open>The worker's round between two requests\<close>

lemma plain_tables:
  "list_all plain_write ws \<Longrightarrow> db_calls (fold apply_write ws d) = db_calls d \<and>
    db_approvals (fold apply_write ws d) = db_approvals d"
proof (induction ws arbitrary: d)
  case (Cons w ws)
  then show ?case by (cases w) auto
qed simp

lemma scope_tables:
  assumes "wk_scope w now (repo f) (d, q) = (Inr x, (d', q'))" "worker_update w f"
  shows "q' = q \<and> db_calls d' = db_calls d \<and> db_approvals d' = db_approvals d"
proof -
  have "plain_log (f (open_session now d))" using assms(2) by (rule worker_update_plain) simp
  with assms(1) show ?thesis
    by (auto simp: wk_scope_def session_scope_def repo_def plain_log_def plain_tables dest!: commit_InrD split: sum.splits)
qed

text \<open>A queued workflow job, delivered for the first time.\<close>

lemma workflow_processed:
  assumes "engine_of_url (st_database_url s) = SQLite"
    and m: "ms_body m = job_message env iv spec_trigger_workflow workflow_arguments" "call_key env iv = k" "k \<noteq> []"
    and "db_keys d k = Some r" "ik_status r \<noteq> ''completed''" "db_jobs d (job_id_of env) = Some j"
  shows "\<exists>d' rows' j' r'. process (local_worker s (default_registry b) MockDatabricksConnector) clk m (d, rows) =
      (Inr (), (d', rows')) \<and>
    db_jobs d' (job_id_of env) = Some j' \<and> aj_status j' = ''succeeded'' \<and>
    (\<forall>i. i \<noteq> job_id_of env \<longrightarrow> db_jobs d' i = db_jobs d i) \<and>
    db_keys d' k = Some r' \<and> ik_job_id r' = ik_job_id r \<and>
    db_calls d' = db_calls d \<and> db_approvals d' = db_approvals d"
proof -
  let ?w = "local_worker s (default_registry b) MockDatabricksConnector"
  obtain d' rows' where p: "process ?w clk m (d, rows) = (Inr (), (d', rows'))"
    using process_returns [of ?w clk m d rows] assms(1) LocalQueue_settles by (metis local_worker_simps(1,2))
  have body: "body_key m = Some k" "message_job_id m = Some (job_id_of env)"
    "body_text (ms_body m) ''tool_name'' = ''trigger_databricks_workflow''"
    "dict_get_or (ms_body m) ''arguments'' (PDict []) = PDict workflow_arguments"
    using m by (simp_all add: body_key_def message_idempotency_key_def message_job_id_def body_text_def job_message_def
        dict_get_def dict_get_or_def spec_trigger_workflow_def)
  obtain result where run: "run_tool \<lparr>cx_settings = s, cx_databricks = MockDatabricksConnector\<rparr> spec_trigger_workflow
      (PDict workflow_arguments) = Inr result"
    by (simp add: run_tool_def spec_trigger_workflow_def trigger_databricks_workflow_def workflow_arguments_def
        dict_index_def dict_get_def dict_or_empty_def MockDatabricksConnector_def mock_run_job_def)
  have fate: "completed_result d m = None" "fate_of ?w d m = Succeeded (tr_output result)"
    using assms(5,6) by (simp_all add: fate_of_def completed_result_def exec_fate_def body run)
  note effect = process_effect [OF p, unfolded fate(2)]
  have guard: "duplicate_guard ?w clk m (open_session now d, rows) = (Inr False, (open_session now d, rows))" for now
    using assms(5,6) by (simp add: duplicate_guard_def body get_idempotency_def)
  have "db_calls d' = db_calls d \<and> db_approvals d' = db_approvals d"
    using p
    by (auto simp: process_def prog_Inr wk_scope_def [of _ "clk 0"] session_scope_def guard body run settle_success_def
        dest!: scope_tables intro: worker_update.intros)
  moreover from effect assms(7) body obtain j' where "db_jobs d' (job_id_of env) = Some j'"
    unfolding job_updated_def by blast
  ultimately show ?thesis
    using p effect body assms(5,7) by (auto simp: job_updated_def fate_keys_def)
qed

lemma workflow_polled:
  assumes "engine_of_url (st_database_url s) = SQLite"
    and m: "msg = job_message env iv spec_trigger_workflow workflow_arguments" "call_key env iv = k" "k \<noteq> []"
    and "db_keys d k = Some r" "ik_status r \<noteq> ''completed''" "db_jobs d (job_id_of env) = Some j"
    and "now \<le> pc_receive clk"
  shows "\<exists>d' rows' j' r'. poll_once (local_worker s (default_registry b) MockDatabricksConnector) clk 10 30
      (d, snd (lq_publish (queue_of s) now msg [])) = (Inr 1, (d', rows')) \<and>
    db_jobs d' (job_id_of env) = Some j' \<and> aj_status j' = ''succeeded'' \<and>
    (\<forall>i. i \<noteq> job_id_of env \<longrightarrow> db_jobs d' i = db_jobs d i) \<and>
    db_keys d' k = Some r' \<and> ik_job_id r' = ik_job_id r \<and>
    db_calls d' = db_calls d \<and> db_approvals d' = db_approvals d"
proof -
  obtain row rows1 where "mq_receive (LocalQueue (queue_of s)) (pc_receive clk) 10 30
      (snd (lq_publish (queue_of s) now msg [])) = (Inr [row_message row], rows1)" "qr_body row = msg"
    using assms(8)
    by (simp add: LocalQueue_def lq_receive_def lq_publish_def eligible_def claim_row_def Let_def)
  moreover from this(2) have "ms_body (row_message row) = job_message env iv spec_trigger_workflow workflow_arguments"
    by (simp add: row_message_def m)
  from workflow_processed [OF assms(1) this m(2,3) assms(5-7), of b "pc_message clk 0" rows1]
  obtain d' rows' j' r' where "process (local_worker s (default_registry b) MockDatabricksConnector) (pc_message clk 0)
      (row_message row) (d, rows1) = (Inr (), (d', rows'))"
    "db_jobs d' (job_id_of env) = Some j'" "aj_status j' = ''succeeded''"
    "\<forall>i. i \<noteq> job_id_of env \<longrightarrow> db_jobs d' i = db_jobs d i"
    "db_keys d' k = Some r'" "ik_job_id r' = ik_job_id r" "db_calls d' = db_calls d" "db_approvals d' = db_approvals d"
    by blast
  ultimately show ?thesis
    by (simp add: poll_once_def bind_prog_def on_queue_def)
qed

section \<open>The other requests\<close>

lemma unchanged_scope:
  "body (open_session now d, q) = (Inr x, (open_session now d, q)) \<Longrightarrow>
    session_scope eng now body (d, q) = (Inr x, (d, q))"
  by (simp add: session_scope_def)

lemma served_protected:
  assumes "signs_and_reads J s" "local_settings s" "role \<in> set all_roles"
    and "hq_headers rq = agent_headers J s (re_time re) role at key"
    and "route_request rq = Some (ep, params)" "public_reply (ref_server J s) ep = None" "ep \<noteq> InvokeTool"
    and "\<And>p. run_protected (ref_server J s) re ep (first_param params) rq p dq = (Inr h, dq')"
  shows "\<exists>line. serve (ref_server J s) re rq dq = (JsonReply h, line, dq')"
proof -
  from client_authenticated [OF assms(1-4)] obtain p where p: "authenticate (ref_server J s) re rq = Inr p" by blast
  have "respond (ref_server J s) re rq dq = (Inr h, dq')"
    by (simp add: respond_def assms(5-8) p handled_def)
  then show ?thesis by (simp add: serve_def)
qed

lemma job_served:
  assumes "signs_and_reads J s" "local_settings s" "plain_segment k" "db_jobs d k = Some j"
  shows "\<exists>line. serve (ref_server J s) re
    (to_http url (plain_get (url @ ''/jobs/'' @ k) (agent_headers J s (re_time re) ''finance_agent'' None None))) (d, q) =
      (JsonReply (json_reply 200 (PDict (job_view j))), line, (d, q))"
proof -
  let ?rq = "to_http url (plain_get (url @ ''/jobs/'' @ k) (agent_headers J s (re_time re) ''finance_agent'' None None))"
  have target: "CHR ''?'' \<notin> set (''/jobs/'' @ k)" using assms(3) by (simp add: plain_segment_def)
  have rq: "hq_method ?rq = ''GET''" "hq_path ?rq = ''/jobs/'' @ k"
    "hq_headers ?rq = agent_headers J s (re_time re) ''finance_agent'' None None"
    using takeWhile_no [OF target] by (simp_all add: to_http_def plain_get_def)
  have role: "''finance_agent'' \<in> set all_roles" by (simp add: all_roles_def)
  have run: "run_protected (ref_server J s) re GetJob (first_param [k]) ?rq p (d, q) =
      (Inr (json_reply 200 (PDict (job_view j))), (d, q))" for p
  proof -
    have "get_job_endpoint s (ce_now (re_call re)) k p (d, q) = (Inr (job_view j), (d, q))"
      unfolding get_job_endpoint_def app_scope_def by (rule unchanged_scope) (simp add: get_job_def assms(4))
    then show ?thesis by (simp add: run_protected_def map_prog_def bind_prog_def first_param_def Let_def)
  qed
  show ?thesis
    by (rule served_protected [OF assms(1,2) role rq(3) route_job [OF assms(3) rq(1,2)] _ _ run])
      (simp_all add: public_reply_def)
qed

lemma tools_served:
  "\<exists>line. serve (ref_server J s) re (to_http url (plain_get (url @ ''/tools'') [])) dq =
    (JsonReply (json_reply 200 (list_tools (default_registry (is_demo s)))), line, dq)"
proof -
  let ?rq = "to_http url (plain_get (url @ ''/tools'') [])"
  have rq: "hq_method ?rq = ''GET''" "hq_path ?rq = ''/tools''"
    by (simp_all add: to_http_def plain_get_def)
  have "first_match ROUTES ''GET'' ''/tools'' = Some (ListTools, [])" by code_simp
  then show ?thesis
    by (simp add: serve_def respond_def route_request_def rq public_reply_def local_app_def Let_def)
qed

lemma trail_served:
  assumes "signs_and_reads J s" "local_settings s"
  shows "\<exists>line. serve (ref_server J s) re
    (to_http url (plain_get (url @ ''/audit/tool-calls?limit=12'') (agent_headers J s (re_time re) ''admin_agent'' None None)))
      (d, q) = (JsonReply (json_reply 200 (PList (map (call_view SQLite) (take 12 (rev (db_calls d)))))), line, (d, q))"
proof -
  let ?rq = "to_http url (plain_get (url @ ''/audit/tool-calls?limit=12'')
    (agent_headers J s (re_time re) ''admin_agent'' None None))"
  have rq: "hq_method ?rq = ''GET''" "hq_path ?rq = ''/audit/tool-calls''" "hq_query ?rq = [(''limit'', ''12'')]"
    "hq_headers ?rq = agent_headers J s (re_time re) ''admin_agent'' None None"
    by (simp_all add: to_http_def plain_get_def query_pair_def)
  have role: "''admin_agent'' \<in> set all_roles" by (simp add: all_roles_def)
  have eng: "engine_of_url (st_database_url s) = SQLite" using assms(2) by (simp add: local_settings_def)
  have "first_match ROUTES ''GET'' ''/audit/tool-calls'' = Some (AuditToolCalls, [])" by code_simp
  then have route: "route_request ?rq = Some (AuditToolCalls, [])" by (simp add: route_request_def rq)
  have "decimal ''12'' = Some 12" by code_simp
  then have lim: "limit_param (ref_server J s) ?rq = Some 12"
    by (simp add: limit_param_def query_param_def rq ref_server_def)
  have "audit_tool_calls s now 12 p (d, q) =
      (Inr (map (call_view SQLite) (take 12 (rev (db_calls d)))), (d, q))" for now and p :: principal
    by (simp add: audit_tool_calls_def app_scope_def eng session_scope_def recent_tool_calls_def limit_rows_def)
  then have run: "run_protected (ref_server J s) re AuditToolCalls (first_param []) ?rq p (d, q) =
      (Inr (json_reply 200 (PList (map (call_view SQLite) (take 12 (rev (db_calls d)))))), (d, q))" for p
    by (simp add: run_protected_def lim map_prog_def bind_prog_def Let_def)
  show ?thesis
    by (rule served_protected [OF assms role rq(4) route _ _ run]) (simp_all add: public_reply_def)
qed

section \<open>The client's part of the run\<close>

lemma bind_run: "p st = (Inr x, st') \<Longrightarrow> f x st' = res \<Longrightarrow> bind_prog p f st = res"
  by (simp add: bind_prog_def)

lemma tool_names_listed: "tool_names (map (PDict \<circ> policy_dict) specs) = Inr (map (PStr \<circ> ts_name) specs)"
  by (induction specs) (simp_all add: policy_dict_def dict_index_def)

lemma audit_line_of_view: "\<exists>l. audit_line (call_view eng c) = Inr l"
  by (simp add: audit_line_def call_view_def dict_index_def)

lemma say_audit_runs: "\<exists>out'. say_audit (map (call_view eng) cs) (w, out) = (Inr (), (w, out'))"
proof (induction cs arbitrary: out)
  case (Cons c cs)
  from audit_line_of_view [of eng c] obtain l where "audit_line (call_view eng c) = Inr l" by blast
  with Cons.IH [of "out @ [l]"] show ?case by (simp add: bind_prog_def pure_def say_def)
qed (simp add: skip_def pure_def)

lemma poll_job_finished:
  assumes "signs_and_reads J s" "local_settings s" "plain_segment k" "between n dq = (d, q)"
    and "db_jobs d k = Some j" "aj_status j = ''succeeded''"
  shows "\<exists>out'. poll_job (Suc m) J s url (network url (ref_server J s) re between) (\<lambda>w. re_time (re (snd w))) k ((dq, n), out) =
    (Inr (), (((d, q), Suc n), out'))"
proof -
  from job_served [OF assms(1-3,5), of "re n" url q] obtain line where served: "serve (ref_server J s) (re n)
      (to_http url (plain_get (url @ ''/jobs/'' @ k) (agent_headers J s (re_time (re n)) ''finance_agent'' None None))) (d, q) =
        (JsonReply (json_reply 200 (PDict (job_view j))), line, (d, q))" by blast
  have sent: "send_at (network url (ref_server J s) re between) (\<lambda>w. re_time (re (snd w)))
      (\<lambda>now. plain_get (url @ ''/jobs/'' @ k) (agent_headers J s now ''finance_agent'' None None)) ((dq, n), out) =
      (Inr (JsonReply (json_reply 200 (PDict (job_view j)))), (((d, q), Suc n), out))"
    by (rule send_at_network [where line = line]) (simp only: assms(4) served)
  have "terminal_status (PStr ''succeeded'')" by (simp add: terminal_status_def)
  then show ?thesis
    unfolding poll_job.simps bind_prog_def sent
    by (simp add: pure_def json_reply_def job_view_def dict_index_def say_def skip_def assms(6))
qed

section \<open>The trail of a run\<close>

text \<open>The trail consists of the entries given, each with the number of its request.\<close>

definition trail :: "(nat \<Rightarrow> request_env) \<Rightarrow> db \<Rightarrow> (nat \<times> string \<times> string \<times> string \<times> string option) list \<Rightarrow> bool" where
  "trail re d es \<longleftrightarrow> map trail_entry (db_calls d) = map snd es \<and>
     map tc_request_id (db_calls d) = map (\<lambda>e. gen_request_id (ce_request_uuid (re_call (re (fst e))))) es"

lemma trail_logged:
  "trail re d es \<Longrightarrow> logged (re_call (re n)) c dec err d d' \<Longrightarrow>
    trail re d' (es @ [(n, dm_role c, dm_tool c, dec, err)])"
  by (auto simp: trail_def logged_def)

lemma trail_unused:
  assumes "trail re d es" "inj_on (\<lambda>n. ce_request_uuid (re_call (re n))) {..9}" "\<forall>i \<in> fst ` set es. i < n" "n \<le> 9"
  shows "unused_request (re_call (re n)) d"
proof -
  have "tc_request_id ` set (db_calls d) = (\<lambda>e. ce_request_uuid (re_call (re (fst e)))) ` set es"
    using assms(1) by (metis (mono_tags, lifting) gen_request_id_def image_cong list.set_map trail_def)
  with assms(2-4) show ?thesis
    by (fastforce simp: unused_request_def gen_request_id_def dest: inj_onD)
qed

lemma trail_cong: "db_calls d' = db_calls d \<Longrightarrow> trail re d es \<Longrightarrow> trail re d' es"
  by (simp add: trail_def)

text \<open>The calls of the script that leave the other tables alone.\<close>

lemma budget_reported:
  obtains result where "run_budget_variance_report \<lparr>cx_settings = s, cx_databricks = MockDatabricksConnector\<rparr>
    [(''department_id'', PStr ''FIN-100''), (''period'', PStr ''2024-Q2'')] = Inr result"
  by (simp add: run_budget_variance_report_def dict_index_def MockDatabricksConnector_def mock_execute_sql_def
      BUDGET_FACTS_def str_param_def fact_row_def as_records_def Let_def)

lemma budget_executed:
  assumes "local_settings s" "unused_request env d"
  defines "c \<equiv> budget_call"
  shows "\<exists>oc d'. invoke strict_validate (app_executor (local_app s)) env (demo_invocation c) (d, q) = (Inr oc, (d', q)) \<and>
    same_tables d d' \<and> logged env c ''executed'' None d d'"
proof -
  let ?args = "[(''department_id'', PStr ''FIN-100''), (''period'', PStr ''2024-Q2'')]"
  obtain result where "run_budget_variance_report \<lparr>cx_settings = s, cx_databricks = MockDatabricksConnector\<rparr> ?args = Inr result"
    by (rule budget_reported)
  moreover have "registry_get (default_registry (is_demo s)) ''run_budget_variance_report'' = Some spec_budget_report"
    by (simp add: registry_get_def default_registry_def reference_tools_def spec_defs)
  ultimately show ?thesis
    by (intro executed_call [OF assms(1,2), where spec = spec_budget_report and args = ?args and result = result])
      (simp_all add: c_def budget_call_def spec_budget_report_def FINANCE_ROLES_def all_roles_def validate_args_def
        strict_validate_def model_defs field_value_def)
qed

lemma profile_executed:
  assumes "local_settings s" "unused_request env d" "dm_role c = ''hr_agent''" "dm_tool c = ''get_employee_profile''"
    and "dm_arguments c = [(''employee_id'', PStr ''E-1001'')]"
  shows "\<exists>oc d'. invoke strict_validate (app_executor (local_app s)) env (demo_invocation c) (d, q) = (Inr oc, (d', q)) \<and>
    same_tables d d' \<and> logged env c ''executed'' None d d'"
proof -
  obtain result where "get_employee_profile \<lparr>cx_settings = s, cx_databricks = MockDatabricksConnector\<rparr>
      [(''employee_id'', PStr ''E-1001'')] = Inr result"
    by (simp add: tool_defs EMPLOYEES_def)
  then show ?thesis
    by (intro executed_call [OF assms(1,2), where spec = spec_employee_profile and
          args = "[(''employee_id'', PStr ''E-1001'')]" and result = result])
      (simp_all add: assms spec_employee_profile_def HR_ROLES_def all_roles_def validate_args_def
        strict_validate_def model_defs field_value_def)
qed

lemma profile_denied:
  assumes "local_settings s" "unused_request env d" "dm_role c = ''sales_agent''" "dm_tool c = ''get_employee_profile''"
  shows "\<exists>oc d'. invoke strict_validate (app_executor (local_app s)) env (demo_invocation c) (d, q) = (Inr oc, (d', q)) \<and>
    same_tables d d' \<and> logged env c ''denied'' (Some ''role_not_permitted'') d d'"
  by (rule denied_call [OF assms(1,2), where spec = spec_employee_profile])
    (simp_all add: assms spec_employee_profile_def HR_ROLES_def all_roles_def evaluate_def decision_code_def)

lemma destructive_denied:
  assumes "local_settings s" "unused_request env d" "dm_role c = ''admin_agent''" "dm_tool c = ''execute_crm_update''" "is_demo s"
  shows "\<exists>oc d'. invoke strict_validate (app_executor (local_app s)) env (demo_invocation c) (d, q) = (Inr oc, (d', q)) \<and>
    same_tables d d' \<and> logged env c ''denied'' (Some ''tool_disabled'') d d'"
  by (rule denied_call [OF assms(1,2), where spec = "spec_crm_execute True"])
    (simp_all add: assms spec_crm_execute_def ADMIN_ONLY_def all_roles_def evaluate_def decision_code_def)

section \<open>The scripted run\<close>

lemma run_step:
  assumes "signs_and_reads J s" "local_settings s" "inj_on (\<lambda>n. ce_request_uuid (re_call (re n))) {..9}"
    and "well_formed_call c" "between n dq = (d, q)" "trail re d es" "\<forall>i \<in> fst ` set es. i < n" "n \<le> 9"
    and "unused_request (re_call (re n)) d \<Longrightarrow>
      \<exists>oc d'. invoke strict_validate (app_executor (local_app s)) (re_call (re n)) (demo_invocation c) (d, q) =
        (Inr oc, (d', q')) \<and> P oc d' \<and> logged (re_call (re n)) c dec err d d'"
  obtains oc d' out' where
    "run_call J s url (network url (ref_server J s) re between) (\<lambda>w. re_time (re (snd w))) c ((dq, n), out) =
      (Inr (PDict (invoke_response oc)), (((d', q'), Suc n), out'))"
    "P oc d'" "trail re d' (es @ [(n, dm_role c, dm_tool c, dec, err)])"
proof -
  from assms(9) [OF trail_unused [OF assms(6,3,7,8)]] obtain oc d' where
    inv: "invoke strict_validate (app_executor (local_app s)) (re_call (re n)) (demo_invocation c) (d, q) = (Inr oc, (d', q'))"
    and "P oc d'" and "logged (re_call (re n)) c dec err d d'" by blast
  from run_call_returns [where url = url and out = out and between = between and re = re, OF assms(1,2,4,5) inv] that [OF _ this(2) trail_logged [OF assms(6) this(3)]]
  show ?thesis by blast
qed

lemma well_formed_script: "list_all well_formed_call demo_script"
  unfolding demo_calls by code_simp

lemma lookups_run:
  fixes url :: string
  assumes "signs_and_reads J s" "local_settings s" "inj_on (\<lambda>n. ce_request_uuid (re_call (re n))) {..9}"
    and "list_all well_formed_call [c1, c2, c3]" "trail re d es" "\<forall>i \<in> fst ` set es. i < n" "\<And>m dq. n \<le> m \<Longrightarrow> between m dq = dq"
    and "db_keys d ''demo-key-001'' = Some r" "n \<le> 5" and c1: "workflow_request c1 ''demo-key-001''"
    and c2: "dm_role c2 = ''sales_agent''" "dm_tool c2 = ''get_employee_profile''"
    and c3: "dm_role c3 = ''hr_agent''" "dm_tool c3 = ''get_employee_profile''" "dm_arguments c3 = [(''employee_id'', PStr ''E-1001'')]"
  defines "run \<equiv> run_call J s url (network url (ref_server J s) re between) (\<lambda>w. re_time (re (snd w)))"
  obtains oc1 d1 out1 oc2 d2 out2 oc3 d3 out3 where
    "run c1 (((d, q), n), out) = (Inr (PDict (invoke_response oc1)), (((d1, q), Suc n), out1))"
    "run c2 (((d1, q), Suc n), out1) = (Inr (PDict (invoke_response oc2)), (((d2, q), Suc (Suc n)), out2))"
    "run c3 (((d2, q), Suc (Suc n)), out2) = (Inr (PDict (invoke_response oc3)), (((d3, q), Suc (Suc (Suc n))), out3))"
    "same_tables d d3"
    "trail re d3 (es @ [(n, dm_role c1, dm_tool c1, ''queued'', None),
      (Suc n, dm_role c2, dm_tool c2, ''denied'', Some ''role_not_permitted''),
      (Suc (Suc n), dm_role c3, dm_tool c3, ''executed'', None)])"
proof -
  have wf: "well_formed_call c1" "well_formed_call c2" "well_formed_call c3" using assms(4) by simp_all
  let ?t1 = "es @ [(n, dm_role c1, dm_tool c1, ''queued'', None)]"
  let ?t2 = "?t1 @ [(Suc n, dm_role c2, dm_tool c2, ''denied'', Some ''role_not_permitted'')]"
  let ?t3 = "?t2 @ [(Suc (Suc n), dm_role c3, dm_tool c3, ''executed'', None)]"
  note step = run_step [OF assms(1-3), where between = between and url = url, folded run_def]
  have new: "\<forall>e \<in> set es. fst e < m" if "n \<le> m" for m using assms(6) that by auto
  obtain oc1 d1 out1 where s1: "run c1 (((d, q), n), out) = (Inr (PDict (invoke_response oc1)), (((d1, q), Suc n), out1))"
    "same_tables d d1" "trail re d1 ?t1"
    by (rule step [where n = n and out = out, OF wf(1) _ assms(5) _ _ repeated_call [OF assms(2) _ c1 assms(8)]])
      (use assms(9) in \<open>simp_all add: assms(7) new\<close>)
  obtain oc2 d2 out2 where s2: "run c2 (((d1, q), Suc n), out1) = (Inr (PDict (invoke_response oc2)), (((d2, q), Suc (Suc n)), out2))"
    "same_tables d1 d2" "trail re d2 ?t2"
    by (rule step [where n = "Suc n" and out = out1, OF wf(2) _ s1(3) _ _ profile_denied [OF assms(2) _ c2]])
      (use assms(9) in \<open>simp_all add: assms(7) new\<close>)
  obtain oc3 d3 out3 where s3: "run c3 (((d2, q), Suc (Suc n)), out2) =
      (Inr (PDict (invoke_response oc3)), (((d3, q), Suc (Suc (Suc n))), out3))"
    "same_tables d2 d3" "trail re d3 ?t3"
    by (rule step [where n = "Suc (Suc n)" and out = out2, OF wf(3) _ s2(3) _ _ profile_executed [OF assms(2) _ c3]])
      (use assms(9) in \<open>simp_all add: assms(7) new\<close>)
  from s1(2) s2(2) s3(2) have t3: "same_tables d d3" by (simp add: same_tables_def)
  with s1(1) s2(1) s3(1,3) that show thesis by simp
qed

lemma later_calls_run:
  assumes "signs_and_reads J s" "local_settings s" "inj_on (\<lambda>n. ce_request_uuid (re_call (re n))) {..9}" "is_demo s"
    and "trail re d es" "\<forall>i \<in> fst ` set es. i < n" "\<And>m dq. n \<le> m \<Longrightarrow> between m dq = dq"
    and "db_keys d ''demo-key-001'' = Some r" "db_approvals d = Map.empty" "n \<le> 5"
  shows "\<exists>d' out' a. run_calls J s url (network url (ref_server J s) re between) (\<lambda>w. re_time (re (snd w))) later_calls
      (((d, q), n), out) = (Inr (), (((d', q), Suc (Suc (Suc (Suc (Suc n))))), out')) \<and>
    trail re d' (es @ [(n, ''finance_agent'', ''trigger_databricks_workflow'', ''queued'', None),
      (Suc n, ''sales_agent'', ''get_employee_profile'', ''denied'', Some ''role_not_permitted''),
      (Suc (Suc n), ''hr_agent'', ''get_employee_profile'', ''executed'', None),
      (Suc (Suc (Suc n)), ''sales_agent'', ''create_crm_update_dry_run'', ''dry_run'', None),
      (Suc (Suc (Suc (Suc n))), ''admin_agent'', ''execute_crm_update'', ''denied'', Some ''tool_disabled'')]) \<and>
    db_jobs d' = db_jobs d \<and> db_approvals d' = [approval_id_of (re_call (re (Suc (Suc (Suc n))))) \<mapsto> a] \<and> ap_status a = ''pending''"
proof -
  let ?run = "run_call J s url (network url (ref_server J s) re between) (\<lambda>w. re_time (re (snd w)))"
  obtain c1 c2 c3 c4 c5 where cs: "later_calls = [c1, c2, c3, c4, c5]" by (simp add: later_calls_def)
  have wf: "well_formed_call c1" "well_formed_call c2" "well_formed_call c3" "well_formed_call c4" "well_formed_call c5"
    using well_formed_script by (simp_all add: demo_script_def cs)
  have c1: "workflow_request c1 ''demo-key-001''" and
    c2: "dm_role c2 = ''sales_agent''" "dm_tool c2 = ''get_employee_profile''" and
    c3: "dm_role c3 = ''hr_agent''" "dm_tool c3 = ''get_employee_profile''" "dm_arguments c3 = [(''employee_id'', PStr ''E-1001'')]" and
    c4: "dm_role c4 = ''sales_agent''" "dm_tool c4 = ''create_crm_update_dry_run''" "dm_arguments c4 =
      [(''account_id'', PStr ''ACC-300''), (''proposed_changes'', PDict [(''tier'', PStr ''gold'')])]" and
    c5: "dm_role c5 = ''admin_agent''" "dm_tool c5 = ''execute_crm_update''"
    using cs by (auto simp: later_calls_def workflow_request_def)
  have c1': "dm_role c1 = ''finance_agent''" "dm_tool c1 = ''trigger_databricks_workflow''"
    using c1 by (simp_all add: workflow_request_def)
  let ?t3 = "es @ [(n, dm_role c1, dm_tool c1, ''queued'', None), (Suc n, dm_role c2, dm_tool c2, ''denied'', Some ''role_not_permitted''),
    (Suc (Suc n), dm_role c3, dm_tool c3, ''executed'', None)]"
  let ?t4 = "?t3 @ [(Suc (Suc (Suc n)), dm_role c4, dm_tool c4, ''dry_run'', None)]"
  let ?t5 = "?t4 @ [(Suc (Suc (Suc (Suc n))), dm_role c5, dm_tool c5, ''denied'', Some ''tool_disabled'')]"
  note step = run_step [OF assms(1-3), where between = between and url = url]
  have new: "\<forall>e \<in> set es. fst e < m" if "n \<le> m" for m using assms(6) that by auto
  have "list_all well_formed_call [c1, c2, c3]" using wf by simp
  from lookups_run [where url = url and between = between and q = q and out = out, OF assms(1-3) this assms(5-8,10) c1 c2 c3] obtain oc1 d1 out1 oc2 d2 out2 oc3 d3 out3 where
    s1: "?run c1 (((d, q), n), out) = (Inr (PDict (invoke_response oc1)), (((d1, q), Suc n), out1))" and
    s2: "?run c2 (((d1, q), Suc n), out1) = (Inr (PDict (invoke_response oc2)), (((d2, q), Suc (Suc n)), out2))" and
    s3: "?run c3 (((d2, q), Suc (Suc n)), out2) = (Inr (PDict (invoke_response oc3)), (((d3, q), Suc (Suc (Suc n))), out3))" and
    t3: "same_tables d d3" "trail re d3 ?t3" by blast
  obtain oc4 d4 out4 where s4: "?run c4 (((d3, q), Suc (Suc (Suc n))), out3) =
      (Inr (PDict (invoke_response oc4)), (((d4, q), Suc (Suc (Suc (Suc n)))), out4))"
    "db_jobs d4 = db_jobs d3 \<and> db_keys d4 = db_keys d3 \<and> (\<exists>a. db_approvals d4 =
      (db_approvals d3)(approval_id_of (re_call (re (Suc (Suc (Suc n))))) \<mapsto> a) \<and> ap_status a = ''pending'')"
    "trail re d4 ?t4"
    by (rule step [where n = "Suc (Suc (Suc n))" and out = out3, OF wf(4) _ t3(2) _ _ proposal_call [OF assms(2) _ c4]])
      (use t3(1) assms(9,10) in \<open>simp_all add: assms(7) new same_tables_def\<close>)
  obtain oc5 d5 out5 where s5: "?run c5 (((d4, q), Suc (Suc (Suc (Suc n)))), out4) =
      (Inr (PDict (invoke_response oc5)), (((d5, q), Suc (Suc (Suc (Suc (Suc n))))), out5))"
    "same_tables d4 d5" "trail re d5 ?t5"
    by (rule step [where n = "Suc (Suc (Suc (Suc n)))" and out = out4, OF wf(5) _ s4(3) _ _ destructive_denied [OF assms(2) _ c5 assms(4)]])
      (use assms(10) in \<open>simp_all add: assms(7) new\<close>)
  from s4(2) obtain a where a: "db_approvals d4 = (db_approvals d3)(approval_id_of (re_call (re (Suc (Suc (Suc n))))) \<mapsto> a)"
    "ap_status a = ''pending''" by blast
  have "run_calls J s url (network url (ref_server J s) re between) (\<lambda>w. re_time (re (snd w))) later_calls (((d, q), n), out) =
      (Inr (), (((d5, q), Suc (Suc (Suc (Suc (Suc n))))), out5))"
    by (simp add: cs bind_prog_def s1 s2 s3 s4(1) s5(1) skip_def pure_def)
  moreover have "db_jobs d5 = db_jobs d" "db_approvals d5 = [approval_id_of (re_call (re (Suc (Suc (Suc n))))) \<mapsto> a]"
    using t3(1) s4(2) s5(2) a(1) assms(9) by (simp_all add: same_tables_def)
  ultimately show ?thesis
    using s5(3) a(2) by (intro exI [of _ d5] exI [of _ out5] exI [of _ a]) (simp add: c1' c2 c3 c4 c5)
qed

text \<open>The parts of \<open>run_demo\<close>, each with what follows it.\<close>

abbreviation list_part :: "string \<Rightarrow> 'w http_client \<Rightarrow> ('w, unit) script \<Rightarrow> ('w, unit) script" where
  "list_part url client rest \<equiv>
     bind_prog (say (''Gateway: '' @ url)) (\<lambda>_.
     bind_prog (send client (plain_get (url @ ''/tools'') [])) (\<lambda>resp.
     bind_prog (pure (bind_res (reply_json resp) (\<lambda>v. bind_res (py_tuple v) tool_names))) (\<lambda>names.
     bind_prog (say (''Tools: '' @ py_str (PList names))) (\<lambda>_. rest))))"

abbreviation first_part :: "string jwt \<Rightarrow> settings \<Rightarrow> string \<Rightarrow> 'w http_client \<Rightarrow> ('w \<Rightarrow> int) \<Rightarrow> ('w, unit) script \<Rightarrow>
    ('w, unit) script" where
  "first_part J s url client clock rest \<equiv>
     bind_prog (run_call J s url client clock budget_call) (\<lambda>_.
     bind_prog (run_call J s url client clock workflow_call) (\<lambda>queued.
     bind_prog (pure (get_item queued ''job_id'' PNone)) (\<lambda>job_id.
     bind_prog
       (if truthy job_id
        then bind_prog (say (CHR 0x0A # ''=== 5. Worker processes job (polling status) ===''))
               (\<lambda>_. poll_job 20 J s url client clock (py_str job_id))
        else skip) (\<lambda>_. rest))))"

abbreviation audit_part :: "string jwt \<Rightarrow> settings \<Rightarrow> string \<Rightarrow> 'w http_client \<Rightarrow> ('w \<Rightarrow> int) \<Rightarrow> ('w, unit) script" where
  "audit_part J s url client clock \<equiv>
     bind_prog (say (CHR 0x0A # ''=== Audit trail (most recent) ==='')) (\<lambda>_.
     bind_prog (send_at client clock (\<lambda>now. plain_get (url @ ''/audit/tool-calls?limit=12'')
       (agent_headers J s now ''admin_agent'' None None))) (\<lambda>resp.
     bind_prog (pure (bind_res (reply_json resp) py_tuple)) (\<lambda>calls. say_audit calls)))"

text \<open>The first calls, up to the end of the polling: the worker has its round before the first look.\<close>

definition worker_before :: "nat \<Rightarrow> queue_table worker \<Rightarrow> poll_clock \<Rightarrow> nat \<Rightarrow> db \<times> queue_table \<Rightarrow> db \<times> queue_table" where
  "worker_before i w clk n dq = (if n = i then snd (poll_once w clk 10 30 dq) else dq)"

lemma plain_job_id:
  assumes "uuid_hex_ok (ce_job_uuid env)"
  shows "plain_segment (job_id_of env)"
proof -
  have "CHR ''/'' \<notin> set hex_chars" "CHR ''?'' \<notin> set hex_chars" by code_simp+
  moreover have "set (take 16 (ce_job_uuid env)) \<subseteq> set hex_chars"
    using assms set_take_subset [of 16 "ce_job_uuid env"] by (auto simp: uuid_hex_ok_def)
  ultimately have "CHR ''/'' \<notin> set (take 16 (ce_job_uuid env))" "CHR ''?'' \<notin> set (take 16 (ce_job_uuid env))" by blast+
  then show ?thesis by (simp add: plain_segment_def job_id_of_def)
qed

text \<open>The worker has its round before the first look at the job, which then finds it done.\<close>

lemma worked_run:
  fixes url :: string
  assumes "signs_and_reads J s" "local_settings s" "uuid_hex_ok (ce_job_uuid env)" "ce_now env \<le> pc_receive clk"
    and "db_keys d ''demo-key-001'' = Some r" "ik_status r \<noteq> ''completed''" "db_jobs d (job_id_of env) = Some j"
  defines "between \<equiv> worker_before 3 (local_worker s (default_registry (is_demo s)) MockDatabricksConnector) clk"
    and "rows \<equiv> snd (lq_publish (queue_of s) (ce_now env)
      (job_message env (demo_invocation workflow_call) spec_trigger_workflow workflow_arguments) [])"
  obtains d' q' j' r' out' where
    "poll_job 20 J s url (network url (ref_server J s) re between) (\<lambda>w. re_time (re (snd w))) (job_id_of env) (((d, rows), 3), out) =
      (Inr (), (((d', q'), 4), out'))"
    "db_jobs d' (job_id_of env) = Some j'" "aj_status j' = ''succeeded''" "\<forall>i. i \<noteq> job_id_of env \<longrightarrow> db_jobs d' i = db_jobs d i"
    "db_keys d' ''demo-key-001'' = Some r'" "db_calls d' = db_calls d" "db_approvals d' = db_approvals d"
proof -
  have eng: "engine_of_url (st_database_url s) = SQLite" using assms(2) by (simp add: local_settings_def)
  have key: "call_key env (demo_invocation workflow_call) = ''demo-key-001''" by (simp add: workflow_call_def)
  obtain d' q' j' r' where p: "between 3 (d, rows) = (d', q')" "db_jobs d' (job_id_of env) = Some j'" "aj_status j' = ''succeeded''"
    "\<forall>i. i \<noteq> job_id_of env \<longrightarrow> db_jobs d' i = db_jobs d i" "db_keys d' ''demo-key-001'' = Some r'"
    "db_calls d' = db_calls d" "db_approvals d' = db_approvals d"
    using workflow_polled [OF eng refl key _ assms(5-7,4), of "is_demo s"]
    by (auto simp: between_def worker_before_def rows_def)
  from poll_job_finished [where url = url and re = re and between = between and n = 3 and out = out and m = 19,
      OF assms(1,2) plain_job_id [OF assms(3)] p(1-3)] p(2-7) that
  show thesis by auto
qed

lemma opening_run:
  fixes url :: string
  assumes "signs_and_reads J s" "local_settings s" "inj_on (\<lambda>n. ce_request_uuid (re_call (re n))) {..9}"
    and "trail re d []" "db_jobs d = Map.empty" "db_keys d = Map.empty" "db_approvals d = Map.empty"
    and "uuid_hex_ok (ce_job_uuid (re_call (re 2)))" "ce_now (re_call (re 2)) \<le> pc_receive clk"
  defines "between \<equiv> worker_before 3 (local_worker s (default_registry (is_demo s)) MockDatabricksConnector) clk"
  defines "net \<equiv> network url (ref_server J s) re between" and "clock \<equiv> \<lambda>w. re_time (re (snd w))"
  shows "\<exists>d' q' out' j r.
    (\<forall>rest. first_part J s url net clock rest (((d, []), 1), out) = rest (((d', q'), 4), out')) \<and>
    trail re d' [(1, ''finance_agent'', ''run_budget_variance_report'', ''executed'', None),
      (2, ''finance_agent'', ''trigger_databricks_workflow'', ''queued'', None)] \<and>
    db_jobs d' = [job_id_of (re_call (re 2)) \<mapsto> j] \<and> aj_status j = ''succeeded'' \<and>
    db_keys d' ''demo-key-001'' = Some r \<and> db_approvals d' = Map.empty"
proof -
  have idle: "between n dq = dq" if "n \<noteq> 3" for n dq using that by (simp add: between_def worker_before_def)
  note step = run_step [OF assms(1-3), where between = between and url = url, folded net_def clock_def]
  have wf: "well_formed_call budget_call" "well_formed_call workflow_call"
    using well_formed_script by (simp_all add: demo_script_def)
  obtain oc1 d1 out1 where s1: "run_call J s url net clock budget_call (((d, []), 1), out) =
      (Inr (PDict (invoke_response oc1)), (((d1, []), Suc 1), out1))" "same_tables d d1"
    "trail re d1 ([] @ [(1, dm_role budget_call, dm_tool budget_call, ''executed'', None)])"
    by (rule step [where n = 1 and out = out, OF wf(1) idle assms(4) _ _ budget_executed [OF assms(2)]]) simp_all
  let ?env = "re_call (re 2)" and ?jid = "job_id_of (re_call (re 2))"
  let ?msg = "job_message ?env (demo_invocation workflow_call) spec_trigger_workflow workflow_arguments"
  let ?rows = "snd (lq_publish (queue_of s) (ce_now ?env) ?msg [])"
  have req: "workflow_request workflow_call ''demo-key-001''" by (simp add: workflow_request_def workflow_call_def)
  have free: "db_keys d1 ''demo-key-001'' = None" "db_jobs d1 ?jid = None"
    using s1(2) assms(5,6) by (simp_all add: same_tables_def)
  obtain oc2 d2 out2 where s2: "run_call J s url net clock workflow_call (((d1, []), 2), out1) =
      (Inr (PDict (invoke_response oc2)), (((d2, ?rows), Suc 2), out2))"
    "oc_job_id oc2 = Some ?jid \<and> db_approvals d2 = db_approvals d1 \<and>
     (\<exists>j r. db_jobs d2 = (db_jobs d1)(?jid \<mapsto> j) \<and> db_keys d2 = (db_keys d1)(''demo-key-001'' \<mapsto> r) \<and>
        ik_status r = ''reserved'' \<and> ik_job_id r = Some ?jid)"
    "trail re d2 (([] @ [(1, dm_role budget_call, dm_tool budget_call, ''executed'', None)]) @
      [(2, dm_role workflow_call, dm_tool workflow_call, ''queued'', None)])"
    by (rule step [where n = 2 and out = out1, OF wf(2) idle s1(3) _ _ queued_call [OF assms(2) _ req free]]) simp_all
  then obtain j r where jr: "db_jobs d2 = (db_jobs d1)(?jid \<mapsto> j)" "db_keys d2 = (db_keys d1)(''demo-key-001'' \<mapsto> r)"
    "ik_status r = ''reserved''" by blast
  let ?say = "CHR 0x0A # ''=== 5. Worker processes job (polling status) ===''"
  have filed: "db_keys d2 ''demo-key-001'' = Some r" "ik_status r \<noteq> ''completed''" "db_jobs d2 ?jid = Some j"
    using jr by simp_all
  obtain d3 q3 j' r' out3 where s3: "poll_job 20 J s url net clock ?jid (((d2, ?rows), 3), out2 @ [?say]) = (Inr (), (((d3, q3), 4), out3))"
    and p: "db_jobs d3 ?jid = Some j'" "aj_status j' = ''succeeded''" "\<forall>i. i \<noteq> ?jid \<longrightarrow> db_jobs d3 i = db_jobs d2 i"
      "db_keys d3 ''demo-key-001'' = Some r'" "db_calls d3 = db_calls d2" "db_approvals d3 = db_approvals d2"
    by (rule worked_run [where url = url and re = re and out = "out2 @ [?say]", OF assms(1,2,8,9) filed, folded between_def net_def clock_def])
  note seg = plain_job_id [OF assms(8)]
  have "first_part J s url net clock rest (((d, []), 1), out) = rest (((d3, q3), 4), out3)" for rest
  proof (rule bind_run, rule s1(1) [unfolded Suc_1], rule bind_run, rule s2(1), rule bind_run)
    show "pure (get_item (PDict (invoke_response oc2)) ''job_id'' PNone) (((d2, ?rows), Suc 2), out2) =
        (Inr (PStr ?jid), (((d2, ?rows), Suc 2), out2))"
      using s2(2) by (simp add: pure_def invoke_response_def dict_get_or_def opt_text_def)
    show "bind_prog
         (if truthy (PStr ?jid)
          then bind_prog (say ?say) (\<lambda>_. poll_job 20 J s url net clock (py_str (PStr ?jid)))
          else skip) (\<lambda>_. rest) (((d2, ?rows), Suc 2), out2) = rest (((d3, q3), 4), out3)"
      using s3 seg by (simp add: bind_prog_def say_def plain_segment_def)
  qed
  moreover have "db_jobs d3 = [?jid \<mapsto> j']"
    using p(1,3) jr(1) s1(2) assms(5) by (auto simp: same_tables_def)
  moreover have "trail re d3 [(1, ''finance_agent'', ''run_budget_variance_report'', ''executed'', None),
      (2, ''finance_agent'', ''trigger_databricks_workflow'', ''queued'', None)]"
    using trail_cong [OF p(5) s2(3)] by (simp add: budget_call_def workflow_call_def)
  moreover have "db_approvals d3 = Map.empty"
    using p(6) s2(2) s1(2) assms(7) by (simp add: same_tables_def)
  ultimately show ?thesis using p(2,4) by (intro exI conjI allI) assumption+
qed

lemma audited_run:
  assumes "signs_and_reads J s" "local_settings s" "between n (d, q) = (d, q)"
  shows "\<exists>out'. audit_part J s url (network url (ref_server J s) re between) (\<lambda>w. re_time (re (snd w))) (((d, q), n), out) =
    (Inr (), (((d, q), Suc n), out'))"
proof -
  let ?h = "CHR 0x0A # ''=== Audit trail (most recent) ===''" and ?views = "map (call_view SQLite) (take 12 (rev (db_calls d)))"
  from trail_served [OF assms(1,2), of "re n" url d q] obtain line where
    served: "serve (ref_server J s) (re n) (to_http url (plain_get (url @ ''/audit/tool-calls?limit=12'')
      (agent_headers J s (re_time (re n)) ''admin_agent'' None None))) (d, q) =
      (JsonReply (json_reply 200 (PList ?views)), line, (d, q))" by blast
  have sent: "send_at (network url (ref_server J s) re between) (\<lambda>w. re_time (re (snd w)))
      (\<lambda>now. plain_get (url @ ''/audit/tool-calls?limit=12'') (agent_headers J s now ''admin_agent'' None None)) (((d, q), n), out) =
      (Inr (JsonReply (json_reply 200 (PList ?views))), (((d, q), Suc n), out))" for out
    by (rule send_at_network [where line = line]) (simp only: assms(3) served)
  have read: "pure (bind_res (reply_json (JsonReply (json_reply 200 (PList vs)))) py_tuple) st = (Inr vs, st)" for vs st
    by (simp add: pure_def json_reply_def)
  from say_audit_runs [of SQLite "take 12 (rev (db_calls d))" "((d, q), Suc n)" "out @ [?h]"] obtain out' where
    printed: "say_audit ?views (((d, q), Suc n), out @ [?h]) = (Inr (), (((d, q), Suc n), out'))" by blast
  have "audit_part J s url (network url (ref_server J s) re between) (\<lambda>w. re_time (re (snd w))) (((d, q), n), out) =
    (Inr (), (((d, q), Suc n), out'))"
    by (rule bind_run, rule say_run, rule bind_run, rule sent, rule bind_run, rule read,
      rule printed)
  then show ?thesis by blast
qed

lemma listed_run:
  assumes "between 0 dq = dq"
  shows "\<exists>out'. \<forall>rest. list_part url (network url (ref_server J s) re between) rest ((dq, 0), out) = rest ((dq, 1), out')"
proof -
  let ?tools = "json_reply 200 (list_tools (default_registry (is_demo s)))"
  let ?names = "map (PStr \<circ> ts_name) (registry_list (default_registry (is_demo s)))"
  from tools_served [of J s "re 0" url dq] obtain line where
    served: "serve (ref_server J s) (re 0) (to_http url (plain_get (url @ ''/tools'') [])) dq =
      (JsonReply ?tools, line, dq)" by blast
  have sent: "send (network url (ref_server J s) re between) (plain_get (url @ ''/tools'') []) ((dq, 0), out) =
      (Inr (JsonReply ?tools), ((dq, 1), out))" for out
    unfolding send_def network_def fst_conv snd_conv assms served by simp
  have names: "pure (bind_res (reply_json (JsonReply ?tools)) (\<lambda>v. bind_res (py_tuple v) tool_names)) st = (Inr ?names, st)" for st
    by (simp add: pure_def json_reply_def list_tools_def tool_names_listed)
  show ?thesis
    by (intro exI allI) (rule bind_run, rule say_run, rule bind_run, rule sent, rule bind_run, rule names, rule bind_run,
      rule say_run, rule refl)
qed

text \<open>C30 (functional).
  The scripted demo end to end, as its labels say. A gateway that starts in demo mode with the
  local queue on an empty database, a worker that has one round before the first look at the job,
  and a token library that reads what it signs: the script ends without an exception after ten
  requests. The trail shows an executed report, a queued job and its duplicate, the refusal of
  the sales agent, an executed profile query, a proposal, and the blocked destructive call; the
  one job is \<^verbatim>\<open>succeeded\<close> and the proposal is pending.\<close>

theorem demo_runs_as_labelled:
  assumes "local_settings s" "is_demo s" "signs_and_reads J s"
    and "startup s t (Inr (LocalQueue (queue_of s))) (empty_db, []) = (Inr app, dq)"
    and "new_worker s (LocalQueue (queue_of s)) = Inr w"
    and "inj_on (\<lambda>n. ce_request_uuid (re_call (re n))) {..9}" "uuid_hex_ok (ce_job_uuid (re_call (re 2)))"
    and "ce_now (re_call (re 2)) \<le> pc_receive clk"
  shows "sv_app (ref_server J s) = app \<and> (\<exists>d q out j a.
    run_demo J s url (network url (ref_server J s) re (worker_before 3 w clk)) (\<lambda>w. re_time (re (snd w))) ((dq, 0), []) =
      (Inr (), (((d, q), 10), out)) \<and>
    map trail_entry (db_calls d) =
      [(''finance_agent'', ''run_budget_variance_report'', ''executed'', None),
       (''finance_agent'', ''trigger_databricks_workflow'', ''queued'', None),
       (''finance_agent'', ''trigger_databricks_workflow'', ''queued'', None),
       (''sales_agent'', ''get_employee_profile'', ''denied'', Some ''role_not_permitted''),
       (''hr_agent'', ''get_employee_profile'', ''executed'', None),
       (''sales_agent'', ''create_crm_update_dry_run'', ''dry_run'', None),
       (''admin_agent'', ''execute_crm_update'', ''denied'', Some ''tool_disabled'')] \<and>
    db_jobs d = [job_id_of (re_call (re 2)) \<mapsto> j] \<and> aj_status j = ''succeeded'' \<and>
    db_approvals d = [approval_id_of (re_call (re 7)) \<mapsto> a] \<and> ap_status a = ''pending'')"
proof -
  have "build_queue (\<lambda>c n. undefined) s = Inr (UseLocal (LocalQueue (queue_of s)))"
    using assms(1) by (simp add: build_queue_def local_settings_def)
  from startup_local [OF assms(1) this, of t empty_db "[]"] assms(4) obtain d0 where
    app: "app = local_app s" and dq: "dq = (d0, [])" and d0: "db_calls d0 = []" "db_jobs d0 = Map.empty"
      "db_keys d0 = Map.empty" "db_approvals d0 = Map.empty" by (auto simp: empty_db_def)
  have w: "w = local_worker s (default_registry (is_demo s)) MockDatabricksConnector"
    using assms(1,5) by (simp add: new_worker_def build_default_registry_def build_registry_eq build_connector_def
        local_settings_def local_worker_def)
  let ?bt = "worker_before 3 w clk" and ?clock = "\<lambda>w. re_time (re (snd w))"
  let ?net = "network url (ref_server J s) re ?bt"
  have idle: "?bt n x = x" if "n \<noteq> 3" for n x using that by (simp add: worker_before_def)
  from listed_run [of ?bt dq url J s re "[]"] idle obtain out0 where
    listing: "\<forall>rest. list_part url ?net rest ((dq, 0), []) = rest ((dq, 1), out0)" by auto
  have t0: "trail re d0 []" by (simp add: trail_def d0)
  from opening_run [OF assms(3,1,6) t0 d0(2-4) assms(7,8), of url out0, folded w dq]
  obtain d1 q1 out1 j r where first_calls: "\<forall>rest. first_part J s url ?net ?clock rest ((dq, 1), out0) = rest (((d1, q1), 4), out1)"
    and t1: "trail re d1 [(1, ''finance_agent'', ''run_budget_variance_report'', ''executed'', None),
      (2, ''finance_agent'', ''trigger_databricks_workflow'', ''queued'', None)]"
    and d1: "db_jobs d1 = [job_id_of (re_call (re 2)) \<mapsto> j]" "aj_status j = ''succeeded''"
      "db_keys d1 ''demo-key-001'' = Some r" "db_approvals d1 = Map.empty" by blast
  have later_idle: "?bt n x = x" if "4 \<le> n" for n x using that by (simp add: idle)
  obtain d2 out2 a where later: "run_calls J s url ?net ?clock later_calls (((d1, q1), 4), out1) = (Inr (), (((d2, q1), 9), out2))"
    and t2: "trail re d2 [(1, ''finance_agent'', ''run_budget_variance_report'', ''executed'', None),
      (2, ''finance_agent'', ''trigger_databricks_workflow'', ''queued'', None),
      (4, ''finance_agent'', ''trigger_databricks_workflow'', ''queued'', None),
      (5, ''sales_agent'', ''get_employee_profile'', ''denied'', Some ''role_not_permitted''),
      (6, ''hr_agent'', ''get_employee_profile'', ''executed'', None),
      (7, ''sales_agent'', ''create_crm_update_dry_run'', ''dry_run'', None),
      (8, ''admin_agent'', ''execute_crm_update'', ''denied'', Some ''tool_disabled'')]"
    and d2: "db_jobs d2 = db_jobs d1" "db_approvals d2 = [approval_id_of (re_call (re 7)) \<mapsto> a]" "ap_status a = ''pending''"
    using later_calls_run [where between = ?bt and n = 4 and out = out1 and url = url and q = q1,
        OF assms(3,1,6,2) t1 _ later_idle d1(3,4)] by auto
  obtain out3 where audit: "audit_part J s url ?net ?clock (((d2, q1), 9), out2) =
    (Inr (), (((d2, q1), 10), out3))"
    using audited_run [where between = ?bt and n = 9 and d = d2 and q = q1 and url = url and re = re and out = out2,
        OF assms(3,1) later_idle] by auto
  have "run_demo J s url ?net ?clock ((dq, 0), []) = (Inr (), (((d2, q1), 10), out3))"
    unfolding run_demo_def listing [rule_format] first_calls [rule_format]
    by (rule bind_run, rule later, rule audit)
  then show ?thesis
    using t2 d1 d2 by (auto simp: ref_server_def app trail_def)
qed

text \<open>A token library whose tokens are the role they are for.\<close>

definition role_jwt :: "settings \<Rightarrow> string jwt" where
  "role_jwt s =
     \<lparr>jwt_encode = (\<lambda>claims k alg. py_str (dict_get claims ''agent_role'')),
      jwt_decode = (\<lambda>now tok k opts. Inr (dev_claims (settings_signer s) now (fst (persona tok)) (snd (persona tok)) tok
        [''tools.invoke''] 3600)),
      jwks_key = (\<lambda>u t. Inl (OtherFailure u))\<rparr>"

lemma role_jwt_signs: "signs_and_reads (role_jwt s) s"
proof -
  have "agent_mint (role_jwt s) s now role = role" for now role
    by (simp add: agent_mint_def role_jwt_def mint_def dev_claims_def dict_get_def split: prod.split)
  moreover have "\<forall>role \<in> fst ` set PERSONAS. \<forall>c \<in> set role. \<not> is_space c" by code_simp
  ultimately show ?thesis by (simp add: signs_and_reads_def role_jwt_def)
qed

definition numbered_env :: "nat \<Rightarrow> request_env" where
  "numbered_env n = ref_request_env\<lparr>re_call := ref_env\<lparr>ce_request_uuid := replicate n (CHR ''a'')\<rparr>\<rparr>"

theorem demo_runs_as_labelled_witness:
  "\<exists>w dq d q out j. new_worker default_settings (LocalQueue (queue_of default_settings)) = Inr w \<and>
     run_demo (role_jwt default_settings) default_settings ''http://localhost:8000''
       (network ''http://localhost:8000'' (ref_server (role_jwt default_settings) default_settings) numbered_env
         (worker_before 3 w (far_clock 1000))) (\<lambda>w. re_time (numbered_env (snd w))) ((dq, 0), []) =
       (Inr (), (((d, q), 10), out)) \<and>
     length (db_calls d) = 7 \<and> db_jobs d = [''job_fedcba9876543210'' \<mapsto> j] \<and> aj_status j = ''succeeded''"
proof -
  let ?s = default_settings and ?mq = "LocalQueue (queue_of default_settings)"
  have "build_queue (\<lambda>c n. undefined) ?s = Inr (UseLocal ?mq)" by (simp add: build_queue_def default_settings_def)
  from startup_local [OF local_default this, of 0 empty_db "[]"] obtain app dq where
    start: "startup ?s 0 (Inr ?mq) (empty_db, []) = (Inr app, dq)" by blast
  obtain w where w: "new_worker ?s ?mq = Inr w"
    by (simp add: new_worker_def build_default_registry_def build_registry_eq build_connector_def default_settings_def)
  have demo: "is_demo ?s" by (simp add: is_demo_def default_settings_def)
  have ids: "inj_on (\<lambda>n. ce_request_uuid (re_call (numbered_env n))) {..9}"
    "uuid_hex_ok (ce_job_uuid (re_call (numbered_env 2)))"
    "ce_now (re_call (numbered_env 2)) \<le> pc_receive (far_clock 1000)"
    by (simp_all add: numbered_env_def inj_on_def far_clock_def)
      (simp add: uuid_hex_ok_def ref_env_def hex_chars_def)
  have job: "job_id_of (re_call (numbered_env 2)) = ''job_fedcba9876543210''"
    by (simp add: numbered_env_def job_id_of_def ref_env_def)
  from demo_runs_as_labelled [OF local_default demo role_jwt_signs start w ids, of "''http://localhost:8000''"]
  obtain d q out j where run: "run_demo (role_jwt ?s) ?s ''http://localhost:8000''
       (network ''http://localhost:8000'' (ref_server (role_jwt ?s) ?s) numbered_env
         (worker_before 3 w (far_clock 1000))) (\<lambda>w. re_time (numbered_env (snd w))) ((dq, 0), []) =
       (Inr (), (((d, q), 10), out))"
    and seven: "length (map trail_entry (db_calls d)) = 7"
    and jobs: "db_jobs d = [job_id_of (re_call (numbered_env 2)) \<mapsto> j]" "aj_status j = ''succeeded''" by auto
  from w run seven jobs show ?thesis
    unfolding job by (intro exI [of _ w] exI [of _ dq] exI [of _ d] exI [of _ q] exI [of _ out] exI [of _ j]) simp
qed

end
