(* ===== verification/Diagram.thy ===== *)
theory Diagram
  imports PyValues
begin

text \<open>
  \<^verbatim>\<open>docs/diagrams/generate_diagram.py\<close>: the drawing of the architecture, from the layout to the
  text of the SVG file. The characters of the script beyond Latin-1 (em dash, arrows) are written
  as one C1 control character each, so that texts have the length they have in Python.
\<close>

section \<open>Numbers\<close>

text \<open>Coordinates are integers or floats, and print as such.\<close>

datatype num_val = Whole int | Frac pyfloat

fun num_float :: "num_val \<Rightarrow> pyfloat" where
  "num_float (Whole n) = fl_of_int n"
| "num_float (Frac f) = f"

fun num_str :: "num_val \<Rightarrow> string" where
  "num_str (Whole n) = int_str n"
| "num_str (Frac f) = float_repr f"

fun num_add :: "num_val \<Rightarrow> num_val \<Rightarrow> num_val" where
  "num_add (Whole m) (Whole n) = Whole (m + n)"
| "num_add x y = Frac (fl_plus (num_float x) (num_float y))"

fun num_sub :: "num_val \<Rightarrow> num_val \<Rightarrow> num_val" where
  "num_sub (Whole m) (Whole n) = Whole (m - n)"
| "num_sub x y = Frac (fl_minus (num_float x) (num_float y))"

text \<open>\<^verbatim>\<open>x / 2\<close>, and \<^verbatim>\<open>x * y\<close> on finite floats.\<close>

definition num_half :: "num_val \<Rightarrow> num_val" where
  "num_half x = (case fl_ratio (num_float x) of Some (p, q) \<Rightarrow> Frac (fl_of_ratio p (2 * q)) | None \<Rightarrow> x)"

definition fl_times :: "pyfloat \<Rightarrow> pyfloat \<Rightarrow> pyfloat" where
  "fl_times x y =
     (case (fl_ratio x, fl_ratio y) of
        (Some (p, q), Some (p', q')) \<Rightarrow> fl_of_ratio (p * p') (q * q')
      | _ \<Rightarrow> FlNaN)"

text \<open>A decimal literal with one digit after the point, and the format \<^verbatim>\<open>:.0f\<close>.\<close>

definition tenths :: "int \<Rightarrow> num_val" where
  "tenths n = Frac (fl_of_ratio n 10)"

definition fixed0 :: "num_val \<Rightarrow> string" where
  "fixed0 x =
     (case x of
        Whole n \<Rightarrow> int_str n
      | Frac f \<Rightarrow>
          (case fl_ratio f of
             Some (p, q) \<Rightarrow> (if p < 0 then ''-'' else '''') @ int_str (round_half_even \<bar>p\<bar> q)
           | None \<Rightarrow> float_repr f))"

section \<open>Markup\<close>

text \<open>\<^verbatim>\<open>html.escape(s, quote=True)\<close>.\<close>

definition esc_char :: "char \<Rightarrow> string" where
  "esc_char c =
     (if c = CHR ''&'' then ''&amp;''
      else if c = CHR ''<'' then ''&lt;''
      else if c = CHR ''>'' then ''&gt;''
      else if c = CHR 0x22 then ''&quot;''
      else if c = CHR 0x27 then ''&#x27;''
      else [c])"

definition esc :: "string \<Rightarrow> string" where
  "esc s = concat (map esc_char s)"

text \<open>The f-strings of the script: attributes in double quotes, elements with and without content.\<close>

type_synonym attributes = "(string \<times> string) list"

definition attr_text :: "attributes \<Rightarrow> string" where
  "attr_text as = concat (map (\<lambda>(k, v). '' '' @ k @ ''='' @ dquote @ v @ dquote) as)"

definition empty_element :: "string \<Rightarrow> attributes \<Rightarrow> string" where
  "empty_element name as = ''<'' @ name @ attr_text as @ ''/>''"

definition open_element :: "string \<Rightarrow> attributes \<Rightarrow> string" where
  "open_element name as = ''<'' @ name @ attr_text as @ ''>''"

definition element :: "string \<Rightarrow> attributes \<Rightarrow> string \<Rightarrow> string" where
  "element name as content = open_element name as @ content @ ''</'' @ name @ ''>''"

section \<open>Palette\<close>

definition INK :: string where "INK = ''#16202b''"
definition MUTED :: string where "MUTED = ''#5b6b7b''"
definition BG :: string where "BG = ''#f7f9fc''"
definition GRID :: string where "GRID = ''#e7edf4''"
definition ARROW :: string where "ARROW = ''#5b6b7b''"
definition ARROW_DASH :: string where "ARROW_DASH = ''#9aa8b6''"

definition PALETTE :: "(string \<times> string) list" where
  "PALETTE =
     [(''agent'', ''#334155''), (''gateway'', ''#1f5f9e''), (''auth'', ''#2563eb''), (''rbac'', ''#d97706''),
      (''registry'', ''#475569''), (''route'', ''#0e7490''), (''exec'', ''#0f766e''), (''pii'', ''#9333ea''),
      (''bus'', ''#0891b2''), (''worker'', ''#7c3aed''), (''databricks'', ''#c2410c''), (''dlq'', ''#dc2626''),
      (''audit'', ''#2d6a8e''), (''otel'', ''#64748b'')]"

definition colour :: "string \<Rightarrow> string" where
  "colour k = (case map_of PALETTE k of None \<Rightarrow> [] | Some c \<Rightarrow> c)"

definition quoted :: "string \<Rightarrow> string" where
  "quoted s = sq @ s @ sq"

definition FONT :: string where
  "FONT = quoted ''Segoe UI'' @ '', '' @ quoted ''Helvetica Neue'' @ '', Arial, sans-serif''"

definition MONO :: string where
  "MONO = quoted ''SFMono-Regular'' @ '', '' @ quoted ''JetBrains Mono'' @ '', Consolas, monospace''"

text \<open>The stand-ins, and the middle dot, which is Latin-1.\<close>

definition em_dash :: string where "em_dash = [CHR 0x97]"
definition arrow_right :: string where "arrow_right = [CHR 0x92]"
definition arrow_both :: string where "arrow_both = [CHR 0x94]"
definition dot :: string where "dot = '' '' @ [CHR 0xB7] @ '' ''"

section \<open>Shapes\<close>

record box_call =
  bx_x :: int
  bx_y :: int
  bx_w :: int
  bx_h :: int
  bx_color :: string
  bx_title :: string
  bx_subs :: "string list"
  bx_mono_title :: bool
  bx_title_size :: num_val

text \<open>The positional arguments of \<^verbatim>\<open>box\<close>, the others at their defaults.\<close>

definition Box :: "int \<Rightarrow> int \<Rightarrow> int \<Rightarrow> int \<Rightarrow> string \<Rightarrow> string \<Rightarrow> string list \<Rightarrow> box_call" where
  "Box x y w h color title subs =
     \<lparr>bx_x = x, bx_y = y, bx_w = w, bx_h = h, bx_color = color, bx_title = title, bx_subs = subs,
      bx_mono_title = False, bx_title_size = Whole 16\<rparr>"

text \<open>A node: the frame, its accent tab, the title and the lines below it.\<close>

fun sub_lines :: "int \<Rightarrow> int \<Rightarrow> string list \<Rightarrow> string" where
  "sub_lines tx sy [] = []"
| "sub_lines tx sy (s # ss) =
     element ''text'' [(''x'', int_str tx), (''y'', int_str sy), (''font-family'', FONT), (''font-size'', ''12.5''),
       (''fill'', MUTED)] (esc s) @ sub_lines tx (sy + 18) ss"

definition box :: "box_call \<Rightarrow> string" where
  "box b =
     (let x = bx_x b; y = bx_y b; h = int_str (bx_h b); color = bx_color b; tx = x + 20; ty = y + 26 in
      element ''g'' []
        (empty_element ''rect'' [(''x'', int_str x), (''y'', int_str y), (''width'', int_str (bx_w b)), (''height'', h),
           (''rx'', ''11''), (''ry'', ''11''), (''fill'', ''#ffffff''), (''stroke'', color), (''stroke-width'', ''2'')] @
         empty_element ''rect'' [(''x'', int_str x), (''y'', int_str y), (''width'', ''7''), (''height'', h),
           (''rx'', ''3.5''), (''ry'', ''3.5''), (''fill'', color)] @
         element ''text'' [(''x'', int_str tx), (''y'', int_str ty),
           (''font-family'', if bx_mono_title b then MONO else FONT), (''font-size'', num_str (bx_title_size b)),
           (''font-weight'', ''700''), (''fill'', color)] (esc (bx_title b)) @
         sub_lines tx (ty + 21) (bx_subs b)))"

text \<open>A text, on a background wide enough for it; the shapes are lists of parts of the file.\<close>

record label_call =
  lb_x :: num_val
  lb_y :: num_val
  lb_text :: string
  lb_mono :: bool
  lb_anchor :: string
  lb_fill :: string
  lb_size :: num_val
  lb_bg :: bool

definition Label :: "num_val \<Rightarrow> num_val \<Rightarrow> string \<Rightarrow> label_call" where
  "Label x y text =
     \<lparr>lb_x = x, lb_y = y, lb_text = text, lb_mono = False, lb_anchor = ''middle'', lb_fill = MUTED,
      lb_size = Whole 12, lb_bg = True\<rparr>"

text \<open>\<^verbatim>\<open>int(len(text) * (size * 0.56)) + 12\<close>.\<close>

definition label_width :: "string \<Rightarrow> num_val \<Rightarrow> int" where
  "label_width text sz =
     (case int_of_float (fl_times (fl_of_int (int (length text))) (fl_times (num_float sz) (fl_of_ratio 56 100))) of
        Inr n \<Rightarrow> n + 12
      | Inl e \<Rightarrow> 12)"

definition label :: "label_call \<Rightarrow> string list" where
  "label l =
     (let f = (if lb_mono l then MONO else FONT);
          w = label_width (lb_text l) (lb_size l);
          rx = (if lb_anchor l = ''middle'' then num_sub (lb_x l) (num_half (Whole w))
                else if lb_anchor l = ''start'' then num_sub (lb_x l) (Whole 6)
                else num_add (num_sub (lb_x l) (Whole w)) (Whole 6))
      in (if lb_bg l
          then [empty_element ''rect'' [(''x'', fixed0 rx),
                  (''y'', num_str (num_add (num_sub (lb_y l) (lb_size l)) (Whole 1))), (''width'', int_str w),
                  (''height'', num_str (num_add (lb_size l) (Whole 7))), (''rx'', ''4''), (''fill'', BG), (''opacity'', ''0.92'')]]
          else [])
         @ [element ''text'' [(''x'', num_str (lb_x l)), (''y'', num_str (lb_y l)), (''font-family'', f),
              (''font-size'', num_str (lb_size l)), (''fill'', lb_fill l), (''text-anchor'', lb_anchor l)] (esc (lb_text l))])"

record arrow_call =
  ar_from :: "num_val \<times> num_val"
  ar_to :: "num_val \<times> num_val"
  ar_dashed :: bool
  ar_marker :: string
  ar_curve :: "(num_val \<times> num_val) option"

definition Arrow :: "num_val \<Rightarrow> num_val \<Rightarrow> num_val \<Rightarrow> num_val \<Rightarrow> arrow_call" where
  "Arrow x1 y1 x2 y2 =
     \<lparr>ar_from = (x1, y1), ar_to = (x2, y2), ar_dashed = False, ar_marker = ''end'', ar_curve = None\<rparr>"

definition words :: "string list \<Rightarrow> string" where
  "words = join '' ''"

definition arrow :: "arrow_call \<Rightarrow> string list" where
  "arrow a =
     (let (x1, y1) = ar_from a; (x2, y2) = ar_to a;
          dash = (if ar_dashed a then [(''stroke-dasharray'', ''6 5'')] else []);
          color = (if ar_dashed a then ARROW_DASH else ARROW);
          me = (if ar_marker a \<in> {''end'', ''both''} then [(''marker-end'', ''url(#arrow)'')] else []);
          ms = (if ar_marker a = ''both'' then [(''marker-start'', ''url(#arrowback)'')] else [])
      in case ar_curve a of
           Some (cx, cy) \<Rightarrow>
             [empty_element ''path''
                ([(''d'', words [''M'', num_str x1, num_str y1, ''Q'', num_str cx, num_str cy, num_str x2, num_str y2]),
                  (''fill'', ''none''), (''stroke'', color), (''stroke-width'', ''2'')] @ dash @ me @ ms)]
         | None \<Rightarrow>
             [empty_element ''line''
                ([(''x1'', num_str x1), (''y1'', num_str y1), (''x2'', num_str x2), (''y2'', num_str y2),
                  (''stroke'', color), (''stroke-width'', ''2'')] @ dash @ me @ ms)])"

definition chevron :: "num_val \<Rightarrow> num_val \<Rightarrow> string \<Rightarrow> string list" where
  "chevron cx y color =
     [empty_element ''path''
        [(''d'', words [''M'', num_str (num_sub cx (Whole 7)), num_str y, ''L'', num_str (num_add cx (Whole 7)), num_str y,
           ''L'', num_str cx, num_str (num_add y (Whole 8)), ''Z'']), (''fill'', color)]]"

section \<open>The drawing\<close>

definition canvas_w :: int where "canvas_w = 1640"
definition canvas_h :: int where "canvas_h = 980"

definition svg_open :: string where
  "svg_open = open_element ''svg''
     [(''xmlns'', ''http://www.w3.org/2000/svg''), (''width'', int_str canvas_w), (''height'', int_str canvas_h),
      (''viewBox'', words [''0'', ''0'', int_str canvas_w, int_str canvas_h]), (''font-family'', FONT)]"

text \<open>Arrowheads and the dot grid.\<close>

definition arrow_marker :: "string \<Rightarrow> string \<Rightarrow> string \<Rightarrow> string" where
  "arrow_marker i refx d =
     element ''marker''
       [(''id'', i), (''viewBox'', ''0 0 10 10''), (''refX'', refx), (''refY'', ''5''), (''markerWidth'', ''7''),
        (''markerHeight'', ''7''), (''orient'', ''auto-start-reverse'')]
       (empty_element ''path'' [(''d'', d), (''fill'', ARROW)])"

definition svg_defs :: string where
  "svg_defs = element ''defs'' []
     (arrow_marker ''arrow'' ''9'' ''M0,0 L10,5 L0,10 z'' @ arrow_marker ''arrowback'' ''1'' ''M10,0 L0,5 L10,10 z'' @
      element ''pattern'' [(''id'', ''dots''), (''width'', ''26''), (''height'', ''26''), (''patternUnits'', ''userSpaceOnUse'')]
        (empty_element ''circle'' [(''cx'', ''1.2''), (''cy'', ''1.2''), (''r'', ''1.2''), (''fill'', GRID)]))"

definition canvas_rect :: "string \<Rightarrow> string" where
  "canvas_rect fill = empty_element ''rect'' [(''width'', int_str canvas_w), (''height'', int_str canvas_h), (''fill'', fill)]"

definition header_parts :: "string list" where
  "header_parts =
     [element ''text'' [(''x'', ''40''), (''y'', ''56''), (''font-family'', FONT), (''font-size'', ''40''),
        (''font-weight'', ''800''), (''fill'', INK)] ''Nervora'',
      element ''text'' [(''x'', ''44''), (''y'', ''84''), (''font-family'', FONT), (''font-size'', ''16.5''), (''fill'', MUTED)]
        ''Secure MCP Gateway for Enterprise AI Tool Execution'']"

definition badge_texts :: "string list" where
  "badge_texts = [''Internal R&D Reference Architecture'', ''mock-first'' @ dot @ ''synthetic data'']"

fun enumerate_int :: "int \<Rightarrow> 'a list \<Rightarrow> (int \<times> 'a) list" where
  "enumerate_int i [] = []"
| "enumerate_int i (x # xs) = (i, x) # enumerate_int (i + 1) xs"

definition badge :: "int \<times> string \<Rightarrow> string list" where
  "badge = (\<lambda>(i, txt).
     let bx = canvas_w - 360; by = 26 + i * 40 in
     [empty_element ''rect'' [(''x'', int_str bx), (''y'', int_str by), (''width'', ''320''), (''height'', ''32''),
        (''rx'', ''16''), (''fill'', ''#eef2f7''), (''stroke'', ''#cfd9e4'')],
      element ''text'' [(''x'', int_str (bx + 160)), (''y'', int_str (by + 21)), (''font-family'', FONT),
        (''font-size'', ''13''), (''fill'', MUTED), (''text-anchor'', ''middle'')] (esc txt)])"

definition agent_box :: box_call where
  "agent_box = Box 40 392 196 122 (colour ''agent'') ''AI Client / Agent''
     [''Autonomous agent or app.'', ''Holds a bearer token '' @ em_dash, ''capabilities, not credentials.'']"

definition gx :: int where "gx = 300"
definition gy :: int where "gy = 124"
definition gw :: int where "gw = 548"
definition gh :: int where "gh = 612"

definition panel_parts :: "string list" where
  "panel_parts =
     (let c = colour ''gateway'' in
      [empty_element ''rect'' [(''x'', int_str gx), (''y'', int_str gy), (''width'', int_str gw), (''height'', int_str gh),
         (''rx'', ''16''), (''fill'', ''#eef5fb''), (''stroke'', c), (''stroke-width'', ''2.5'')],
       empty_element ''rect'' [(''x'', int_str gx), (''y'', int_str gy), (''width'', int_str gw), (''height'', ''48''),
         (''rx'', ''16''), (''fill'', c)],
       empty_element ''rect'' [(''x'', int_str gx), (''y'', int_str (gy + 24)), (''width'', int_str gw), (''height'', ''24''),
         (''fill'', c)],
       element ''text'' [(''x'', int_str (gx + 22)), (''y'', int_str (gy + 31)), (''font-family'', FONT), (''font-size'', ''18''),
         (''font-weight'', ''700''), (''fill'', ''#ffffff'')] (''Nervora MCP Gateway'' @ dot @ ''FastAPI''),
       element ''text'' [(''x'', int_str (gx + gw - 18)), (''y'', int_str (gy + 31)), (''font-family'', MONO),
         (''font-size'', ''12.5''), (''fill'', ''#cfe4f6''), (''text-anchor'', ''end'')] ''POST /tools/{tool}/invoke''])"

definition ix :: int where "ix = gx + 22"
definition iw :: int where "iw = gw - 44"
definition sh :: int where "sh = 56"

text \<open>Colour, title and line of each stage.\<close>

definition stages :: "(string \<times> string \<times> string) list" where
  "stages =
     [(colour ''auth'', ''1'' @ dot @ ''OIDC / Entra ID validation'',
         ''span: auth.validate'' @ dot @ ''RS256/JWKS (prod)'' @ dot @ ''HS256 (dev)''),
      (colour ''rbac'', ''2'' @ dot @ ''Tool-Level RBAC'',
         ''deny-by-default'' @ dot @ ''admin is not a wildcard'' @ dot @ ''denials logged''),
      (colour ''registry'', ''3'' @ dot @ ''Tool Registry'',
         ''published tools only '' @ em_dash @ '' no hidden tools'' @ dot @ ''arg validation''),
      (colour ''route'', ''4'' @ dot @ ''Route by classification'',
         ''sync'' @ dot @ ''async'' @ dot @ ''dry-run'' @ dot @ ''destructive (approval-gated)''),
      (colour ''exec'', ''5'' @ dot @ ''Tool execution (sync)'',
         ''read tools run in-process'' @ dot @ ''ToolError '' @ arrow_right @ '' audit'')]"

text \<open>The loop over them, from \<^verbatim>\<open>sy\<close>: the boxes and the final \<^verbatim>\<open>sy\<close>.\<close>

fun stage_loop :: "int \<Rightarrow> (string \<times> string \<times> string) list \<Rightarrow> box_call list \<times> int" where
  "stage_loop sy [] = ([], sy)"
| "stage_loop sy ((color, title, sub) # ss) =
     (let (bs, end_y) = stage_loop (sy + (sh + 14)) ss in
      ((Box ix sy iw sh color title [sub])\<lparr>bx_title_size := tenths 145\<rparr> # bs, end_y))"

definition stage_boxes :: "box_call list" where
  "stage_boxes = fst (stage_loop (gy + 64) stages)"

definition by_line :: int where
  "by_line = snd (stage_loop (gy + 64) stages) + 2"

definition pii_parts :: "string list" where
  "pii_parts =
     empty_element ''line'' [(''x1'', int_str (gx + 14)), (''y1'', int_str by_line), (''x2'', int_str (gx + gw - 14)),
       (''y2'', int_str by_line), (''stroke'', colour ''pii''), (''stroke-width'', ''2.5''), (''stroke-dasharray'', ''9 6'')]
     # label ((Label (num_add (Whole gx) (num_half (Whole gw))) (Whole (by_line - 7))
         (''PII REDACTION BOUNDARY '' @ em_dash @ '' nothing crosses un-redacted''))
         \<lparr>lb_fill := colour ''pii'', lb_size := tenths 125\<rparr>)"

definition pii_box :: box_call where
  "pii_box = (Box ix (by_line + 12) iw sh (colour ''pii'') (''6'' @ dot @ ''PII Redaction'')
     [''field masking + regex sweep'' @ dot @ ''span: pii.redaction''])\<lparr>bx_title_size := tenths 145\<rparr>"

definition chevron_parts :: "string list" where
  "chevron_parts = concat (map (\<lambda>k. chevron (num_add (Whole ix) (num_half (Whole iw)))
     (Whole (gy + 64 + sh + 1 + k * (sh + 14))) ARROW) [0, 1, 2, 3])"

definition request_parts :: "string list" where
  "request_parts =
     arrow ((Arrow (Whole 236) (Whole 430) (Whole gx) (Whole 200))\<lparr>ar_curve := Some (Whole 280, Whole 300)\<rparr>) @
     label ((Label (Whole 268) (Whole 250) ''request'')\<lparr>lb_anchor := ''start''\<rparr>) @
     arrow ((Arrow (Whole gx) (Whole (by_line + 38)) (Whole 236) (Whole 478))
       \<lparr>ar_dashed := True, ar_curve := Some (Whole 280, Whole 540)\<rparr>) @
     label ((Label (Whole 250) (Whole 600) (''200'' @ dot @ ''result (redacted) + X-Trace-Id''))
       \<lparr>lb_anchor := ''start'', lb_size := tenths 115\<rparr>)"

definition ax :: int where "ax = 920"

definition bus_box :: box_call where
  "bus_box = Box ax 300 340 92 (colour ''bus'') ''Azure Service Bus (abstraction)''
     [''local Postgres queue '' @ arrow_both @ '' Azure Service Bus'', ''message: job_id + idempotency_key'']"

definition worker_box :: box_call where
  "worker_box = Box ax 452 340 92 (colour ''worker'') ''Worker Service''
     [''idempotency guard'' @ dot @ ''peek-lock'', ''span: worker.execute'']"

definition databricks_box :: box_call where
  "databricks_box = Box ax 604 340 92 (colour ''databricks'') ''Databricks Connector''
     [''SQL Warehouse'' @ dot @ ''Jobs / Workflows API'', ''mock-first'' @ dot @ ''real interface prepared'']"

definition dlq_box :: box_call where
  "dlq_box = Box 1320 452 260 92 (colour ''dlq'') ''DLQ / Retry / Idempotency''
     [''retry = abandon '' @ arrow_right @ '' redeliver'', ''dead-letter @ max delivery count'']"

definition async_parts :: "string list" where
  "async_parts =
     arrow (Arrow (Whole (gx + gw)) (num_add (Whole (124 + 64 + 3 * (sh + 14))) (num_half (Whole sh))) (Whole ax) (Whole 346)) @
     label (Label (num_half (Whole (gx + gw + ax))) (Whole 320) (''async'' @ dot @ ''202 queued'')) @
     arrow (Arrow (Whole (ax + 250)) (Whole 392) (Whole (ax + 250)) (Whole 452)) @
     label ((Label (Whole (ax + 250)) (Whole 432) ''receive'')\<lparr>lb_size := tenths 115\<rparr>) @
     arrow ((Arrow (Whole (ax + 90)) (Whole 452) (Whole (ax + 90)) (Whole 392))\<lparr>ar_dashed := True\<rparr>) @
     label ((Label (Whole (ax + 92)) (Whole 432) ''retry'')\<lparr>lb_size := Whole 11, lb_anchor := ''end''\<rparr>) @
     arrow (Arrow (Whole (ax + 170)) (Whole 544) (Whole (ax + 170)) (Whole 604)) @
     label ((Label (Whole (ax + 170)) (Whole 580) ''span: databricks.call'')\<lparr>lb_size := tenths 115\<rparr>) @
     arrow (Arrow (Whole (ax + 340)) (Whole 498) (Whole 1320) (Whole 498)) @
     label ((Label (num_half (Whole (ax + 340 + 1320))) (Whole 489) ''max delivery'')\<lparr>lb_size := tenths 115\<rparr>)"

definition audit_box :: box_call where
  "audit_box = Box 40 772 840 168 (colour ''audit'') (''PostgreSQL '' @ em_dash @ '' Audit Log (append-only)'')
     [''audit_events'' @ dot @ ''tool_calls'' @ dot @ ''tool_policies'' @ dot @ ''async_jobs'' @ dot @ ''approvals'' @ dot
        @ ''idempotency_keys'',
      ''one tool_calls + one audit_events row per outcome:'',
      ''allowed'' @ dot @ ''denied'' @ dot @ ''dry_run'' @ dot @ ''queued'' @ dot @ ''executed'' @ dot @ ''failed'',
      ''fields: trace_id'' @ dot @ ''request_id'' @ dot @ ''user/agent/role'' @ dot @ ''input_hash'' @ dot
        @ ''redaction_status'' @ dot @ ''latency_ms'']"

definition otel_box :: box_call where
  "otel_box = Box 920 772 660 168 (colour ''otel'') ''OpenTelemetry Tracing''
     [''spans: auth'' @ dot @ ''rbac'' @ dot @ ''pii'' @ dot @ ''tool.execute'' @ dot @ ''queue.publish'' @ dot @ ''worker''
        @ dot @ ''databricks'' @ dot @ ''audit'',
      ''trace_id echoed in X-Trace-Id response header + stored on every audit row'',
      ''exporter '' @ arrow_right @ '' OTel Collector '' @ arrow_right @ '' Grafana (console fallback for local runs)'',
      ''one id ties an API response '' @ arrow_right @ '' its spans '' @ arrow_right @ '' its audit / job records'']"

definition lane_parts :: "string list" where
  "lane_parts =
     arrow (Arrow (Whole (gx + 120)) (Whole (gy + gh)) (Whole 360) (Whole 772)) @
     label ((Label (Whole 300) (Whole 758) ''audit write (every decision)'')\<lparr>lb_anchor := ''start'', lb_size := tenths 115\<rparr>) @
     arrow ((Arrow (Whole ax) (Whole 520) (Whole 880) (Whole 812))\<lparr>ar_dashed := True, ar_curve := Some (Whole 820, Whole 640)\<rparr>) @
     label ((Label (Whole 792) (Whole 690) ''audit'')\<lparr>lb_anchor := ''end'', lb_size := tenths 115\<rparr>) @
     arrow ((Arrow (Whole 848) (Whole 700) (Whole 1100) (Whole 772))\<lparr>ar_dashed := True\<rparr>) @
     label ((Label (Whole 980) (Whole 742) ''instrumented'')\<lparr>lb_size := Whole 11\<rparr>)"

definition svg_parts :: "string list" where
  "svg_parts =
     [svg_open, svg_defs, canvas_rect BG, canvas_rect ''url(#dots)''] @ header_parts @
     concat (map badge (enumerate_int 0 badge_texts)) @
     [box agent_box] @ panel_parts @ map box stage_boxes @ pii_parts @ [box pii_box] @ chevron_parts @ request_parts @
     map box [bus_box, worker_box, databricks_box, dlq_box] @ async_parts @
     map box [audit_box, otel_box] @ lane_parts @ [''</svg>'']"

definition svg :: string where
  "svg = join [CHR 0x0A] svg_parts"

text \<open>
  The end of the script: the SVG file, and the PNG file when the third-party renderer succeeds,
  with the lines printed. \<open>files\<close> is the file system; the renderer takes the text, the size
  and the background.
\<close>

definition write_files ::
  "string \<Rightarrow> (string \<Rightarrow> int \<Rightarrow> int \<Rightarrow> string \<Rightarrow> string res) \<Rightarrow> (string \<rightharpoonup> string) \<Rightarrow> (string \<rightharpoonup> string) \<times> string list" where
  "write_files here svg2png files =
     (let svg_path = here @ ''/nervora-architecture.svg'';
          png_path = here @ ''/nervora-architecture.png'';
          files' = files(svg_path \<mapsto> svg)
      in case svg2png svg (canvas_w * 2) (canvas_h * 2) ''#ffffff'' of
           Inr png \<Rightarrow> (files'(png_path \<mapsto> png), [''wrote '' @ svg_path, ''wrote '' @ png_path])
         | Inl e \<Rightarrow> (files', [''wrote '' @ svg_path,
             ''PNG not generated ('' @ exn_message e @ ''); install cairosvg to render PNG.'']))"

section \<open>Facts\<close>

text \<open>Escaped text has no markup of its own, and escaping loses nothing.\<close>

lemma esc_plain: "set (esc s) \<inter> {CHR ''<'', CHR ''>'', CHR 0x22, CHR 0x27} = {}"
proof (induction s)
  case (Cons c s)
  have "set (esc_char c) \<inter> {CHR ''<'', CHR ''>'', CHR 0x22, CHR 0x27} = {}" by (simp add: esc_char_def)
  with Cons show ?case by (auto simp: esc_def)
qed (simp add: esc_def)

lemma esc_char_prefix: "esc_char c @ s = esc_char d @ t \<Longrightarrow> c = d \<and> s = t"
  by (auto simp: esc_char_def split: if_splits)

lemma esc_injective: "esc s = esc t \<Longrightarrow> s = t"
proof (induction s arbitrary: t)
  case Nil
  have "esc_char c \<noteq> []" for c by (simp add: esc_char_def)
  with Nil show ?case by (cases t) (auto simp: esc_def)
next
  case (Cons c s)
  have "esc_char d \<noteq> []" for d by (simp add: esc_char_def)
  with Cons.prems obtain d t' where t: "t = d # t'" by (cases t) (auto simp: esc_def)
  with Cons.prems have "esc_char c @ esc s = esc_char d @ esc t'" by (simp add: esc_def)
  then show ?case using Cons.IH [of t'] esc_char_prefix [of c "esc s" d "esc t'"] t by simp
qed

text \<open>The boxes lie inside the canvas, and no two of them overlap.\<close>

definition all_boxes :: "box_call list" where
  "all_boxes = agent_box # stage_boxes @ [pii_box, bus_box, worker_box, databricks_box, dlq_box, audit_box, otel_box]"

definition in_canvas :: "box_call \<Rightarrow> bool" where
  "in_canvas b \<longleftrightarrow> 0 \<le> bx_x b \<and> bx_x b + bx_w b \<le> canvas_w \<and> 0 \<le> bx_y b \<and> bx_y b + bx_h b \<le> canvas_h"

definition apart :: "box_call \<Rightarrow> box_call \<Rightarrow> bool" where
  "apart a b \<longleftrightarrow> bx_x a + bx_w a \<le> bx_x b \<or> bx_x b + bx_w b \<le> bx_x a \<or>
     bx_y a + bx_h a \<le> bx_y b \<or> bx_y b + bx_h b \<le> bx_y a"

fun all_apart :: "box_call list \<Rightarrow> bool" where
  "all_apart [] = True"
| "all_apart (b # bs) = (list_all (apart b) bs \<and> all_apart bs)"

lemma boxes_laid_out: "list_all in_canvas all_boxes \<and> all_apart all_boxes"
  by (simp add: all_boxes_def stage_boxes_def stages_def pii_box_def by_line_def agent_box_def bus_box_def worker_box_def
      databricks_box_def dlq_box_def audit_box_def otel_box_def Box_def in_canvas_def apart_def canvas_w_def canvas_h_def ax_def
      ix_def iw_def sh_def gx_def gy_def gw_def Let_def)

lemma svg_written: "fst (write_files here svg2png files) (here @ ''/nervora-architecture.svg'') = Some svg"
  by (simp add: write_files_def Let_def split: sum.split)

end
