(* ===== verification/Sha256Vector.thy ===== *)
theory Sha256Vector
  imports Sha256
begin

text \<open>
  The published test vector of FIPS 180-4 for the text \<^verbatim>\<open>abc\<close>: the model of
  \<^verbatim>\<open>hashlib.sha256\<close> computes the standard's hash.
\<close>

lemma extend_numeral:
  "Sha256.extend (numeral k) ws =
     Sha256.extend (pred_numeral k) ((sig1 (ws ! 1) + ws ! 6 + sig0 (ws ! 14) + ws ! 15) # ws)"
  by (simp add: numeral_eq_Suc)

text \<open>A rotation that keeps numerals below \<open>2 ^ 32\<close>, and a round without local names, for the simplifier.\<close>

lemma rot_right_bounded:
  "n \<le> 32 \<Longrightarrow> rot_right n x = drop_bit n x OR push_bit (32 - n) (take_bit n x)"
  unfolding rot_right_def
  by (rule arg_cong2 [where f = "(OR)"], simp, rule bit_eqI) (auto simp: bit_simps)

lemma rounds_step:
  "rounds ((k, w) # kws) [a, b, c, d, e, f, g, h] =
     rounds kws [h + sum1 e + ch e f g + k + w + (sum0 a + maj a b c), a, b, c,
       d + (h + sum1 e + ch e f g + k + w), e, f, g]"
  by (simp add: Let_def)

lemma abc_words:
  "words_of_bytes (pad_message (map of_char ''abc'')) = [1633837952, 0, 0, 0, 0, 0, 0, 0, 0, 0, 0, 0, 0, 0, 0, 24]"
  by code_simp

lemma abc_compressed:
  "map uint (compress initial_hash [1633837952, 0, 0, 0, 0, 0, 0, 0, 0, 0, 0, 0, 0, 0, 0, 24]) =
    [0xba7816bf, 0x8f01cfea, 0x414140de, 0x5dae2223, 0xb00361a3, 0x96177a9c, 0xb410ff61, 0xf20015ad]"
  by (simp del: rounds.simps(1) add: rounds_step compress_def initial_hash_def round_constants_def extend_numeral
      sig0_def sig1_def sum0_def sum1_def ch_def maj_def rot_right_bounded)

lemma hex_words: "map uint ws = map uint vs \<Longrightarrow> (ws :: u32 list) = vs"
  by (rule map_injective [of uint]) (simp_all add: inj_def word_uint_eq_iff)

lemma sha256_abc:
  "sha256 ''abc'' = ''ba7816bf8f01cfea414140de5dae2223b00361a396177a9cb410ff61f20015ad''"
proof -
  let ?hs = "[0xba7816bf, 0x8f01cfea, 0x414140de, 0x5dae2223, 0xb00361a3, 0x96177a9c, 0xb410ff61, 0xf20015ad] :: u32 list"
  have "length (pad_message (map of_char ''abc'')) div 64 = 1" by code_simp
  moreover have "compress initial_hash [1633837952, 0, 0, 0, 0, 0, 0, 0, 0, 0, 0, 0, 0, 0, 0, 24] = ?hs"
    by (rule hex_words) (simp add: abc_compressed)
  ultimately have "sha256 ''abc'' = concat (map word_hex ?hs)"
    unfolding sha256_def Let_def abc_words by simp
  also have "\<dots> = ''ba7816bf8f01cfea414140de5dae2223b00361a396177a9cb410ff61f20015ad''" by code_simp
  finally show ?thesis .
qed

end
