(* ===== verification/TestSuite.thy ===== *)
theory TestSuite
  imports HttpProps EndToEnd Secrecy
begin

text \<open>
  The repository's own tests (\<^verbatim>\<open>tests/\<close>), run on the model: each lemma has the name of a test
  function, its input and its assertions. They check the definitions, not the program: where a
  test passes on the code, the model must agree. The tests that need a second step (the worker's
  run of a queued job, a repeated key, an approval granted) are instances of the properties of
  \<open>EndToEnd\<close>, \<open>Routes\<close>, \<open>WorkerProps\<close> and \<open>GatewayProps\<close> and are not repeated here.
\<close>

section \<open>Fixtures\<close>

text \<open>\<^verbatim>\<open>conftest.py\<close>: the settings, the executor on them, and callers.\<close>

definition test_settings :: settings where
  "test_settings = default_settings
     \<lparr>st_app_env := Demo, st_database_url := ''sqlite+pysqlite:////tmp/test.sqlite3'', st_auth_mode := Dev,
      st_dev_token_signing_secret := ''test-secret'', st_queue_backend := Local, st_databricks_mode := Mock,
      st_otel_enabled := False, st_admin_approval_token := ''''\<rparr>"

definition test_executor :: "queue_table executor" where
  "test_executor = new_executor (default_registry (is_demo test_settings)) test_settings
     (LocalQueue (queue_of test_settings)) MockDatabricksConnector"

definition make_principal :: "string \<Rightarrow> string \<Rightarrow> string \<Rightarrow> principal" where
  "make_principal role subject agent_id =
     \<lparr>pr_subject = PStr subject, pr_agent_id = PStr agent_id, pr_role = PStr role, pr_scopes = [PStr ''tools.invoke''],
      pr_tenant_id = PStr '''', pr_raw_claims = []\<rparr>"

definition test_caller :: "string \<Rightarrow> caller" where
  "test_caller role = the (caller_of (make_principal role ''u@test'' ''agent-test''))"

lemma test_caller_fields: "test_caller role = \<lparr>cl_subject = ''u@test'', cl_agent_id = ''agent-test'', cl_role = role\<rparr>"
  by (simp add: test_caller_def make_principal_def caller_of_def)

definition test_call :: "string \<Rightarrow> string \<Rightarrow> pydict \<Rightarrow> string option \<Rightarrow> string option \<Rightarrow> invocation" where
  "test_call role tool args key token =
     \<lparr>iv_caller = test_caller role, iv_tool = tool, iv_arguments = args, iv_idempotency_key = key,
      iv_approval_token = token, iv_request_id = None\<rparr>"

text \<open>The answer to the first call on an executor, apart from its latency.\<close>

definition answer :: "queue_table executor \<Rightarrow> invocation \<Rightarrow> outcome" where
  "answer ex iv = fst (decide strict_validate ex ref_env iv (open_session (ce_now ref_env) empty_db, []))"

lemma first_call_answered:
  assumes "engine_of_url (st_database_url (ex_settings ex)) = SQLite"
  shows "\<exists>d q. invoke strict_validate ex ref_env iv (empty_db, []) =
      (Inr ((answer ex iv)\<lparr>oc_latency_ms := latency_ms ref_env\<rparr>), (d, q)) \<and>
    map (\<lambda>c. (tc_tool_name c, tc_decision c)) (db_calls d) = [(iv_tool iv, oc_decision (answer ex iv))]"
proof (cases rule: invoke_cases [of strict_validate ex ref_env iv empty_db "[]"])
  case (aborted e q')
  with call_returns [OF assms, of ref_env iv empty_db strict_validate "[]"] show ?thesis by (auto simp: empty_db_def)
next
  case (recorded oc0 oc s q' ws)
  then show ?thesis
    using no_audit_frame [OF recorded(5), of empty_db] by (auto simp: answer_def call_row_def empty_db_def)
qed

section \<open>RBAC (\<^verbatim>\<open>test_rbac.py\<close>)\<close>

lemma test_allowed_when_role_matches:
  "let d = evaluate ''finance_agent'' [''finance_agent'', ''admin_agent''] all_roles True in
   dc_allowed d \<and> decision_code d = ''allowed''"
  by code_simp

lemma test_denied_when_role_not_permitted:
  "let d = evaluate ''sales_agent'' [''hr_agent'', ''admin_agent''] all_roles True in
   \<not> dc_allowed d \<and> decision_code d = ''role_not_permitted''"
  by code_simp

lemma test_unknown_role_denied:
  "let d = evaluate ''ghost_agent'' [''admin_agent''] all_roles True in
   \<not> dc_allowed d \<and> decision_code d = ''unknown_role''"
  by code_simp

lemma test_disabled_tool_denied_even_for_required_role:
  "let d = evaluate ''admin_agent'' [''admin_agent''] all_roles False in
   \<not> dc_allowed d \<and> decision_code d = ''tool_disabled''"
  by code_simp

lemma test_admin_not_implicitly_granted_everything:
  "\<not> dc_allowed (evaluate ''admin_agent'' [''finance_agent''] all_roles True)"
  by code_simp

section \<open>Redaction (\<^verbatim>\<open>test_pii.py\<close>)\<close>

lemma test_declared_sensitive_fields_masked:
  "let res = redact (PDict [(''name'', PStr ''Anika''), (''salary'', PInt 118000), (''email'', PStr ''a@example.com'')])
       [''salary'', ''email''] False; data = dict_of (rr_data res) in
   dict_get data ''salary'' = PStr MASK \<and> dict_get data ''email'' = PStr MASK \<and> dict_get data ''name'' = PStr ''Anika'' \<and>
   rr_redacted_fields res = [''salary'', ''email''] \<and> redaction_status res = ''redacted''"
  by code_simp

lemma test_pattern_sweep_catches_free_text_pii:
  "let res = redact (PDict [(''note'', PStr ''contact me at john.doe@corp.com or +49 151 23456789'')]) [] False in
   rr_data res = PDict [(''note'', PStr ''contact me at ***REDACTED*** or ***REDACTED***'')] \<and>
   ''email'' \<in> set (rr_matched_patterns res)"
  by code_simp

lemma test_allow_raw_skips_field_masking_but_keeps_sweep:
  "rr_data (redact (PDict [(''salary'', PInt 118000), (''note'', PStr ''iban DE89370400440532013000'')]) [''salary''] True) =
   PDict [(''salary'', PInt 118000), (''note'', PStr ''iban ***REDACTED***'')]"
  by code_simp

lemma test_nested_structures:
  "rr_data (redact (PDict [(''employee'', PDict [(''profile'', PDict [(''national_id'', PStr ''123-45-6789'')])])])
     [''national_id''] False) =
   PDict [(''employee'', PDict [(''profile'', PDict [(''national_id'', PStr MASK)])])]"
  by code_simp

lemma test_redact_text_clean_string_unchanged:
  "redact_text ''nothing sensitive here'' = (''nothing sensitive here'', [])"
  by code_simp

section \<open>Tools and executor (\<^verbatim>\<open>test_tools.py\<close>, \<^verbatim>\<open>test_rbac.py\<close>)\<close>

lemma test_registry_has_at_least_seven_tools:
  "7 \<le> length (default_registry True) \<and>
   {''get_employee_profile'', ''check_leave_balance'', ''get_invoice_status'', ''run_budget_variance_report'',
    ''trigger_databricks_workflow'', ''create_crm_update_dry_run'', ''execute_crm_update''} \<subseteq>
   set (map ts_name (registry_list (default_registry True)))"
  by (simp add: default_registry_def reference_tools_def registry_list_def spec_defs)

lemma test_destructive_tool_disabled_in_demo:
  "map_option ts_enabled (registry_get (default_registry True) ''execute_crm_update'') = Some False \<and>
   map_option ts_enabled (registry_get (default_registry False) ''execute_crm_update'') = Some True"
  by (simp add: spec_crm_execute_def)

lemma test_gateway_denies_cross_domain_and_logs:
  "let oc = answer test_executor (test_call ''sales_agent'' ''get_employee_profile'' [(''employee_id'', PStr ''E-1001'')] None None) in
   oc_decision oc = ''denied'' \<and> oc_error_code oc = Some ''role_not_permitted''"
  by code_simp

lemma test_denial_is_logged:
  "\<exists>oc d q. invoke strict_validate test_executor ref_env
       (test_call ''sales_agent'' ''get_employee_profile'' [(''employee_id'', PStr ''E-1001'')] None None) (empty_db, []) =
     (Inr oc, (d, q)) \<and>
   map (\<lambda>c. (tc_tool_name c, tc_decision c)) (db_calls d) = [(''get_employee_profile'', ''denied'')]"
proof -
  have "engine_of_url (st_database_url (ex_settings test_executor)) = SQLite" by code_simp
  from first_call_answered [OF this] show ?thesis
    using test_gateway_denies_cross_domain_and_logs by (fastforce simp: Let_def test_call_def)
qed

lemma test_employee_profile_redacted_by_default:
  "let oc = answer test_executor (test_call ''hr_agent'' ''get_employee_profile'' [(''employee_id'', PStr ''E-1001'')] None None);
     out = the (oc_result oc) in
   oc_decision oc = ''executed'' \<and> dict_get out ''salary'' = PStr MASK \<and> dict_get out ''national_id'' = PStr MASK \<and>
   dict_get out ''name'' = PStr ''Anika Brandt'' \<and> oc_redaction_status oc = ''redacted''"
  by code_simp

lemma test_dry_run_never_writes_and_requires_approval:
  "let oc = answer test_executor (test_call ''sales_agent'' ''create_crm_update_dry_run''
       [(''account_id'', PStr ''ACC-300''), (''proposed_changes'', PDict [(''tier'', PStr ''gold'')])] None None);
     out = the (oc_result oc) in
   oc_decision oc = ''dry_run'' \<and> dict_get out ''writes_applied'' = PBool False \<and>
   dict_get out ''human_approval_required'' = PBool True \<and>
   map_option (take 4) (oc_approval_id oc) = Some ''apr_'' \<and>
   dict_get out ''diff'' = PList [PDict [(''field'', PStr ''tier''), (''from'', PStr ''silver''), (''to'', PStr ''gold'')]]"
  by code_simp

lemma test_execute_crm_update_blocked_in_demo:
  "let oc = answer test_executor (test_call ''admin_agent'' ''execute_crm_update''
       [(''account_id'', PStr ''ACC-300''), (''approved_change_id'', PStr ''apr_x'')] None (Some ''anything'')) in
   oc_decision oc = ''denied'' \<and> oc_error_code oc = Some ''tool_disabled''"
  by code_simp

lemma test_unknown_tool_denied_not_silent:
  "let oc = answer test_executor (test_call ''admin_agent'' ''secret_backdoor'' [] None None) in
   oc_decision oc = ''denied'' \<and> oc_error_code oc = Some ''UNKNOWN_TOOL''"
  by code_simp

lemma test_invalid_arguments_rejected:
  "let oc = answer test_executor (test_call ''finance_agent'' ''get_invoice_status'' [] None None) in
   oc_decision oc = ''failed'' \<and> oc_error_code oc = Some ''INVALID_ARGUMENTS''"
  by code_simp

lemma test_destructive_execution_when_enabled_requires_approved_record:
  "let ex = new_executor (default_registry False) (test_settings\<lparr>st_admin_approval_token := ''tok-123''\<rparr>)
       (LocalQueue (queue_of test_settings)) MockDatabricksConnector;
     oc = answer ex (test_call ''admin_agent'' ''execute_crm_update''
       [(''account_id'', PStr ''ACC-300''), (''approved_change_id'', PStr ''apr_missing'')] None (Some ''tok-123'')) in
   oc_decision oc = ''denied'' \<and> oc_error_code oc = Some ''APPROVAL_NOT_APPROVED''"
  by code_simp

lemma test_budget_variance_reads_mock_databricks:
  "\<exists>r n. run_budget_variance_report \<lparr>cx_settings = test_settings, cx_databricks = MockDatabricksConnector\<rparr>
      [(''department_id'', PStr ''FIN-100''), (''period'', PStr ''2024-Q2'')] = Inr r \<and>
    dict_get (tr_output r) ''total_budget'' = PInt n \<and> 0 < n \<and> truthy (dict_get (tr_output r) ''line_items'') \<and>
    take 5 (py_str (dict_get (tr_output r) ''statement_id'')) = ''stmt_''"
  by (simp add: run_budget_variance_report_def dict_index_def MockDatabricksConnector_def mock_execute_sql_def
      BUDGET_FACTS_def str_param_def fact_row_def as_records_def dict_get_def plain_result_def stmt_id_def Let_def)

section \<open>Asynchronous calls (\<^verbatim>\<open>test_async_idempotency.py\<close>)\<close>

lemma test_async_tool_is_queued_not_run_sync:
  "let oc = answer test_executor (test_call ''finance_agent'' ''trigger_databricks_workflow''
       [(''workflow_name'', PStr ''wf1''), (''parameters'', PDict [])] (Some ''k1'') None) in
   oc_decision oc = ''queued'' \<and> oc_job_id oc = Some ''job_fedcba9876543210'' \<and> oc_result oc = None"
  by (simp add: answer_def decide_def test_executor_def new_executor_def test_call_def test_caller_fields
      spec_trigger_workflow_def FINANCE_ROLES_def all_roles_def validate_args_def strict_validate_def model_defs field_value_def
      route_def handle_async_def get_idempotency_def reserve_idempotency_def create_job_def LocalQueue_def lq_publish_def
      outcome_for_def InvocationOutcome_def empty_db_def)

section \<open>HTTP (\<^verbatim>\<open>test_gateway_api.py\<close>, \<^verbatim>\<open>test_demo_flow.py\<close>)\<close>

definition get_request :: "string \<Rightarrow> http_request" where
  "get_request p = \<lparr>hq_method = ''GET'', hq_path = p, hq_query = [], hq_headers = [], hq_body = NoBody\<rparr>"

definition post_request :: "string \<Rightarrow> (string \<times> string) list \<Rightarrow> pyval \<Rightarrow> http_request" where
  "post_request p headers v = \<lparr>hq_method = ''POST'', hq_path = p, hq_query = [], hq_headers = headers, hq_body = JsonBody v\<rparr>"

definition test_reply :: "string jwt \<Rightarrow> http_request \<Rightarrow> wire_reply" where
  "test_reply J rq = fst (serve (ref_server J test_settings) ref_request_env rq (empty_db, []))"

lemma public_get:
  assumes "route_request (get_request p) = Some (ep, ps)" "public_reply (ref_server J test_settings) ep \<noteq> None"
  shows "test_reply J (get_request p) = JsonReply (json_reply 200 (the (public_reply (ref_server J test_settings) ep)))"
  using assms by (auto simp: test_reply_def serve_def respond_def)

lemma test_healthz:
  "\<exists>d. test_reply J (get_request ''/healthz'') = JsonReply (json_reply 200 (PDict d)) \<and> dict_get d ''status'' = PStr ''ok''"
proof -
  have "route_request (get_request ''/healthz'') = Some (Healthz, [])" by code_simp
  from public_get [OF this, of J] show ?thesis by (simp add: public_reply_def healthz_def liveness_def dict_get_def json_reply_def Let_def)
qed

lemma test_health_liveness:
  "\<exists>d. test_reply J (get_request ''/health'') = JsonReply (json_reply 200 (PDict d)) \<and> dict_get d ''status'' = PStr ''ok''"
proof -
  have "route_request (get_request ''/health'') = Some (Health, [])" by code_simp
  from public_get [OF this, of J] show ?thesis by (simp add: public_reply_def health_def liveness_def dict_get_def json_reply_def Let_def)
qed

lemma test_tools_listed:
  "test_reply J (get_request ''/tools'') = JsonReply (json_reply 200 (list_tools (default_registry True))) \<and>
   map ts_name (registry_list (default_registry True)) = [''get_employee_profile'', ''check_leave_balance'',
     ''get_invoice_status'', ''run_budget_variance_report'', ''trigger_databricks_workflow'',
     ''create_crm_update_dry_run'', ''execute_crm_update'', ''crm.lookup_customer'', ''billing.create_invoice_draft'']"
proof -
  have "route_request (get_request ''/tools'') = Some (ListTools, [])" by code_simp
  from public_get [OF this, of J] have "test_reply J (get_request ''/tools'') =
      JsonReply (json_reply 200 (list_tools (default_registry True)))"
    by (simp add: public_reply_def local_app_def test_settings_def is_demo_def Let_def)
  then show ?thesis by (simp add: default_registry_def reference_tools_def registry_list_def spec_defs)
qed

lemma test_health_ai_reports_services_and_tool_surface:
  "let d = health_ai test_settings (default_registry True); tools = dict_of (dict_get d ''tools'');
     view = (\<lambda>n. the (find (\<lambda>t. dict_get t ''name'' = PStr n) (map health_tool (registry_list (default_registry True))))) in
   dict_get d ''status'' = PStr ''ok'' \<and>
   dict_get tools ''registry'' = PList (map (PDict \<circ> health_tool) (registry_list (default_registry True))) \<and>
   dict_get (view ''execute_crm_update'') ''enabled'' = PBool False \<and>
   dict_get (view ''billing.create_invoice_draft'') ''requires_approval'' = PBool True \<and>
   dict_get tools ''total'' = PInt 9 \<and> dict_get tools ''disabled'' = PInt 1"
  by (simp add: health_ai_def dict_get_def default_registry_def reference_tools_def registry_list_def spec_defs health_tool_def Let_def)

lemma test_missing_token_is_401:
  "test_reply J (post_request ''/tools/get_invoice_status/invoke'' []
      (PDict [(''arguments'', PDict [(''invoice_id'', PStr ''INV-5001'')])])) =
   JsonReply (detail_reply 401 ''missing bearer token'')"
proof -
  have "route_request (post_request ''/tools/get_invoice_status/invoke'' [] v) = Some (InvokeTool, [''get_invoice_status''])" for v
    unfolding post_request_def by code_simp
  moreover have "bearer_token [] = None" by code_simp
  ultimately show ?thesis
    by (simp add: test_reply_def serve_def respond_def public_reply_def authenticate_def get_principal_def
        authorization_def header_def auth_refusal_def post_request_def detail_reply_def json_reply_def)
qed

text \<open>The other tests carry a token; they are run behind the authentication.\<close>

definition test_invoke :: "string \<Rightarrow> string \<Rightarrow> pydict \<Rightarrow> string option \<Rightarrow> http_reply res \<times> (db \<times> queue_table)" where
  "test_invoke role tool args token = invoke_tool strict_validate (local_app test_settings) ref_env (test_caller role) tool
     \<lparr>rq_arguments = args, rq_idempotency_key = None\<rparr> None token (empty_db, [])"

lemma test_invoke_replies:
  "\<exists>h. fst (test_invoke role tool args token) = Inr h \<and>
     hr_status h = http_status (answer test_executor (test_call role tool args None token)) \<and>
     hr_body h = PDict (invoke_response ((answer test_executor (test_call role tool args None token))\<lparr>oc_latency_ms := latency_ms ref_env\<rparr>)) \<and>
     map fst (hr_headers h) = [''X-Trace-Id'', ''X-Request-Id'']"
proof -
  have ex: "app_executor (local_app test_settings) = test_executor" by (simp add: local_app_def test_executor_def Let_def)
  have "engine_of_url (st_database_url (ex_settings test_executor)) = SQLite" by code_simp
  from first_call_answered [OF this, of "test_call role tool args None token"] show ?thesis
    by (auto simp: test_invoke_def invoke_tool_def bind_prog_def ex test_call_def http_status_def)
qed

lemma test_crm_lookup_allowed_for_sales_and_redacts_pii:
  "let oc = answer test_executor (test_call ''sales_agent'' ''crm.lookup_customer'' [(''customer_id'', PStr ''CUST-700'')] None None);
     out = the (oc_result oc) in
   http_status oc = 200 \<and> oc_decision oc = ''executed'' \<and> dict_get out ''name'' = PStr ''Helvetia Logistics AG'' \<and>
   dict_get out ''email'' = PStr MASK \<and> oc_redaction_status oc = ''redacted''"
  by code_simp

lemma test_crm_lookup_denied_for_finance:
  "let oc = answer test_executor (test_call ''finance_agent'' ''crm.lookup_customer'' [(''customer_id'', PStr ''CUST-700'')] None None) in
   http_status oc = 403 \<and> oc_decision oc = ''denied'' \<and> oc_error_code oc = Some ''role_not_permitted''"
  by code_simp

text \<open>The validator of the model converts nothing, so the amounts are floats here.\<close>

lemma test_invoice_draft_requires_approval_and_writes_nothing:
  "let oc = answer test_executor (test_call ''finance_agent'' ''billing.create_invoice_draft''
       [(''customer_id'', PStr ''CUST-700''), (''amount'', PFloat (fl_of_int 2500)), (''currency'', PStr ''EUR''),
        (''description'', PStr ''Q2 services'')] None None);
     out = the (oc_result oc) in
   http_status oc = 200 \<and> oc_decision oc = ''dry_run'' \<and> dict_get out ''writes_applied'' = PBool False \<and>
   dict_get out ''human_approval_required'' = PBool True \<and> map_option (take 4) (oc_approval_id oc) = Some ''apr_'' \<and>
   dict_get out ''draft_id'' = PStr ''DRAFT-CUST-700-2500-EUR''"
  by code_simp

lemma test_invoice_draft_denied_for_sales:
  "let oc = answer test_executor (test_call ''sales_agent'' ''billing.create_invoice_draft''
       [(''customer_id'', PStr ''CUST-700''), (''amount'', PFloat (fl_of_int 100))] None None) in
   http_status oc = 403 \<and> oc_error_code oc = Some ''role_not_permitted''"
  by code_simp

lemma test_finance_allowed_invoice:
  "let oc = answer test_executor (test_call ''finance_agent'' ''get_invoice_status'' [(''invoice_id'', PStr ''INV-5001'')] None None) in
   http_status oc = 200 \<and> oc_decision oc = ''executed'' \<and> dict_get (the (oc_result oc)) ''status'' = PStr ''paid'' \<and>
   oc_trace_id oc \<noteq> []"
  by code_simp

lemma test_destructive_blocked_403:
  "let oc = answer test_executor (test_call ''admin_agent'' ''execute_crm_update''
       [(''account_id'', PStr ''ACC-300''), (''approved_change_id'', PStr ''x'')] None (Some ''x'')) in
   http_status oc = 403 \<and> oc_error_code oc = Some ''tool_disabled''"
  by code_simp

end
