(* ===== verification/Spec2Isabelle.thy ===== *)
theory Spec2Isabelle
  imports JsonText ToolTypes QueueLife EndToEnd Schemas Secrecy SystemProps GatewayProps QueueProps Races Telemetry AzureBus HttpProps DemoRun Diagram Sha256Vector TestSuite
begin

text \<open>
  Nervora, the Secure MCP Gateway: a FastAPI service that lets AI agents call enterprise tools
  under authentication, role-based access control, PII redaction, approval gates and a durable
  audit trail; a message queue and a worker that execute asynchronous calls; and the tools.

  \<^bold>\<open>Values and language.\<close> \<open>Prelude\<close> has Python exceptions as values (\<open>py_exn\<close>), fallible
  results (\<open>res\<close>), stateful fallible programs (\<open>prog\<close>) and ordered dictionaries.
  \<open>PyFloat\<close> and \<open>PyValues\<close> have Python's floats (exact binary fractions with rounding to
  double precision, \<^verbatim>\<open>repr\<close> by shortest digits), the JSON-like values \<open>pyval\<close>, truth,
  \<^verbatim>\<open>str\<close>, \<^verbatim>\<open>repr\<close>, equality and arithmetic. Text is Latin-1; the em dash of a few messages is
  written as two hyphens (in \<open>Diagram\<close>, the characters beyond Latin-1 as one control
  character each). \<open>Sha256\<close> computes the hash on 32-bit words; \<open>Sha256Vector\<close> evaluates it on the
  test vector of the standard. Instants are microseconds.

  \<^bold>\<open>Components.\<close>
  \<^item> \<open>Ids\<close>: \<^verbatim>\<open>packages/common/ids.py\<close>; \<open>Settings\<close>: \<^verbatim>\<open>packages/common/settings.py\<close>.
  \<^item> \<open>Rbac\<close>: \<^verbatim>\<open>packages/rbac\<close>, roles and the decision function.
  \<^item> \<open>Regex\<close>: the fragment of Python's \<^verbatim>\<open>re\<close> the patterns use, as a backtracking matcher
    (\<open>ends\<close> lists the ends of matches in the order in which they are tried); \<open>RegexLang\<close>
    relates it to languages. \<open>Pii\<close>: \<^verbatim>\<open>packages/pii/redactor.py\<close>; \<open>PiiFacts\<close> has the
    properties of the masking, \<open>PiiSweep\<close> what the pattern sweep leaves in a text.
  \<^item> \<open>AuditDb\<close>: \<^verbatim>\<open>packages/audit\<close>. The database is a record of six tables; a session is a
    snapshot with a list of pending writes, which \<open>commit\<close> checks against the database as it
    is at that time and applies as a whole or not at all.
  \<^item> \<open>ServiceBus\<close>: \<^verbatim>\<open>packages/servicebus\<close>. A queue is a record of operations; the locale
    \<open>queue_contract\<close> states what a client may rely on, and the local queue interprets it.
  \<^item> \<open>Databricks\<close>: \<^verbatim>\<open>packages/databricks_connector\<close>. \<open>ToolSpec\<close> and \<open>Tools\<close>:
    \<^verbatim>\<open>packages/tool_registry\<close>, with the nine reference tools, their data and handlers.
  \<^item> \<open>Auth\<close>: \<^verbatim>\<open>packages/auth\<close> and \<^verbatim>\<open>app/deps.py\<close>.
  \<^item> \<open>Executor\<close>: \<^verbatim>\<open>app/executor.py\<close>, the pipeline. \<open>decide\<close> is everything before
    \<^verbatim>\<open>finish\<close>, \<open>route\<close> the dispatch to the four handlers, \<open>invoke\<close> the whole call in its
    transaction.
  \<^item> \<open>Gateway\<close>: \<^verbatim>\<open>app/main.py\<close>, \<^verbatim>\<open>app/schemas.py\<close> and \<^verbatim>\<open>servicebus/factory.py\<close>: start-up and
    the endpoints; \<open>Schemas\<close> has the declared response models and that the replies fit them.
    \<open>Http\<close>: the same file at the level of HTTP requests: its routes, the authentication
    dependency and the middleware around them (\<open>respond\<close>, \<open>serve\<close>).
  \<^item> \<open>Worker\<close>: \<^verbatim>\<open>apps/worker/worker.py\<close>.
  \<^item> \<open>Telemetry\<close>: \<^verbatim>\<open>packages/telemetry/otel.py\<close> and \<^verbatim>\<open>app/logging_mw.py\<close>, and the
    worker's \<^verbatim>\<open>main\<close>, which sets telemetry up; \<open>AzureBus\<close>:
    \<^verbatim>\<open>packages/servicebus/azure_bus.py\<close> on the SDK as a parameter; \<open>DemoAgent\<close>:
    \<^verbatim>\<open>apps/demo-agent/agent.py\<close>, as a program over an HTTP client and the texts it prints.
  \<^item> \<open>Diagram\<close>: \<^verbatim>\<open>docs/diagrams/generate_diagram.py\<close>: the drawing of the architecture, from
    its layout to the text of the SVG file (\<open>svg\<close>). Its lemmas: the escaping of texts loses
    nothing and leaves no markup, and the boxes lie inside the canvas without overlap.
  \<^item> \<open>System\<close>: the running system as a step relation over the database, the queue and the
    transactions that are open at the same time: those of requests, of any number of workers and
    of start-up. A transaction reads at its beginning and is applied at its commit, or lost; what
    it does to the queue takes effect at once, because the queue has transactions of its own. The
    program's operations (a call, an approval, a poll, the policy sync) are runs of the relation.

  \<^bold>\<open>Lemmas.\<close> \<open>Pipeline\<close> has the case rules of the handlers and of \<open>decide\<close>, the writes each
  route can make (\<open>side_log\<close>) and the two outcomes of a call (\<open>invoke_cases\<close>). \<open>Guarantees\<close>,
  \<open>Routes\<close>, \<open>Gates\<close> and \<open>Disclosure\<close> hold the properties of calls: authorisation, the
  record of every call, dry runs, asynchronous submissions, idempotency keys, the approval gate
  and redacted results, with a concrete gateway for the witnesses; \<open>Secrecy\<close> compares two runs of
  a call and shows that the values of sensitive fields do not influence its answer. \<open>JsonText\<close>
  shows that the canonical text a fingerprint hashes determines the arguments. \<open>ToolTypes\<close> shows that the
  reference tools keep their output types, on any connector that keeps
  \<open>connector_contract\<close>, which the mock does. \<open>QueueLife\<close> has the abstract life cycle of a
  message, which every queue that keeps the contract refines. \<open>WorkerFacts\<close> reads off what the
  worker does with a message (\<open>fate\<close>) and extends the queue contract to a worker on a queue
  (locale \<open>worker_on\<close>); \<open>WorkerProps\<close> and \<open>QueueProps\<close> have its properties on the local queue,
  and \<open>EndToEnd\<close> composes a call with the worker that finishes its job. \<open>GatewayProps\<close> has
  the properties of the endpoints, \<open>HttpProps\<close> those of every HTTP request, and \<open>DemoRun\<close>
  connects the demo client, the gateway and the worker and follows the scripted run to its end.
  \<open>SystemProps\<close> has the invariants of all reachable states
  under overlapping requests, and \<open>Races\<close> what is not one: behaviour that overlapping or
  failing transactions allow.

  \<^bold>\<open>Bounds.\<close> Nothing runs on fuel. The matcher and the search are total by measures on the
  remaining text; \<open>run_forever\<close> takes the list of the rounds that start before a stop signal.

  \<^bold>\<open>Parameters.\<close> Third-party code is a parameter: the pydantic validator (\<open>pydantic_laws\<close>),
  PyJWT and the JWKS client (\<open>jwt_laws\<close>), the Azure queue, the PNG renderer, random identifiers and clocks.
  Identity claims of a caller are text. An \<^verbatim>\<open>UPDATE\<close> that changes no column still refreshes
  \<^verbatim>\<open>updated_at\<close> in the model.

  \<^bold>\<open>Not modelled.\<close> The spans around the steps of a call (\<open>span_transparent\<close>: a span does
  not change what its body does); what FastAPI and its CORS middleware answer on their own
  account, and the JSON coding on the wire; installing signal handlers (the end of the list of
  rounds stands for the signal); the HTTP client's transport; the rendering of the drawing as
  PNG; the infrastructure files. Of the tests, \<open>TestSuite\<close> has the fixtures of
  \<^verbatim>\<open>tests/conftest.py\<close> and states what the test functions assert, as lemmas on the model; the
  queue and worker tests are covered by \<open>EndToEnd\<close> and \<open>DemoRun\<close>. The validator there makes no
  conversions.
\<close>

end
